(* ===== verification/Prelude.thy ===== *)
theory Prelude
  imports Main
begin

text \<open>
  Shared foundations of the development: the theorem collections its proofs draw on, generic
  lemmas on options and lists, and the interface of a key/value store
  (locale \<open>kv_store\<close>) on which every configuration builder and label builder of the
  operator rests. The interface is interpreted by the YAML mapping (theory \<open>Yaml\<close>)
  and by the sorted string map (theory \<open>Rust_Std\<close>).
\<close>

section \<open>Collections\<close>

text \<open>
  \<open>kv_simps\<close>: lookup after insertion; \<open>prog_simps\<close>: running effectful programs;
  \<open>wp_intro\<close>: introduction rules for the program logic of theory \<open>Effects\<close>;
  \<open>only_intro\<close>: the requests an operation may issue.
\<close>

named_theorems kv_simps
named_theorems prog_simps
named_theorems wp_intro
named_theorems only_intro

section \<open>Options\<close>

text \<open>Rust's \<open>unwrap_or\<close>, \<open>is_some_and\<close>, \<open>or\<close> and \<open>ok_or\<close>.\<close>

fun unwrap_or :: "'a option \<Rightarrow> 'a \<Rightarrow> 'a" where
  "unwrap_or None d = d"
| "unwrap_or (Some x) d = x"

fun is_some_and :: "'a option \<Rightarrow> ('a \<Rightarrow> bool) \<Rightarrow> bool" where
  "is_some_and None p = False"
| "is_some_and (Some x) p = p x"

fun opt_or :: "'a option \<Rightarrow> 'a option \<Rightarrow> 'a option" where
  "opt_or None b = b"
| "opt_or (Some x) b = Some x"

fun ok_or :: "'a option \<Rightarrow> 'e \<Rightarrow> 'e + 'a" where
  "ok_or None e = Inl e"
| "ok_or (Some x) e = Inr x"

definition is_some :: "'a option \<Rightarrow> bool" where
  "is_some x \<longleftrightarrow> (case x of None \<Rightarrow> False | Some _ \<Rightarrow> True)"

fun and_then :: "'a option \<Rightarrow> ('a \<Rightarrow> 'b option) \<Rightarrow> 'b option" where
  "and_then None f = None"
| "and_then (Some x) f = f x"

lemma is_some_simps [simp]: "\<not> is_some None" "is_some (Some x)"
  by (simp_all add: is_some_def)

lemma is_some_iff: "is_some x \<longleftrightarrow> x \<noteq> None"
  by (cases x) simp_all

lemma is_some_and_iff: "is_some_and x p \<longleftrightarrow> (\<exists>y. x = Some y \<and> p y)"
  by (cases x) simp_all

lemma ok_or_Inr [simp]: "ok_or x e = Inr y \<longleftrightarrow> x = Some y"
  by (cases x) simp_all

lemma ok_or_Inl [simp]: "ok_or x e = Inl e' \<longleftrightarrow> x = None \<and> e' = e"
  by (cases x) auto

lemma and_then_Some [simp]: "and_then x f = Some z \<longleftrightarrow> (\<exists>y. x = Some y \<and> f y = Some z)"
  by (cases x) simp_all

section \<open>Results\<close>

text \<open>Sequencing of fallible pure code: Rust's \<open>?\<close> operator on a \<open>Result\<close>.\<close>

fun try_bind :: "'e + 'a \<Rightarrow> ('a \<Rightarrow> 'e + 'b) \<Rightarrow> 'e + 'b" where
  "try_bind (Inl e) f = Inl e"
| "try_bind (Inr x) f = f x"

fun result_ok :: "'e + 'a \<Rightarrow> 'a option" where
  "result_ok (Inl e) = None"
| "result_ok (Inr x) = Some x"

fun is_ok :: "'e + 'a \<Rightarrow> bool" where
  "is_ok (Inl e) = False"
| "is_ok (Inr x) = True"

lemma try_bind_Inr [simp]:
  "try_bind m f = Inr z \<longleftrightarrow> (\<exists>x. m = Inr x \<and> f x = Inr z)"
  by (cases m) simp_all

lemma try_bind_Inl [simp]:
  "try_bind m f = Inl e \<longleftrightarrow> m = Inl e \<or> (\<exists>x. m = Inr x \<and> f x = Inl e)"
  by (cases m) auto

lemma is_ok_iff: "is_ok r \<longleftrightarrow> (\<exists>x. r = Inr x)"
  by (cases r) simp_all

text \<open>A computation that may panic.\<close>

datatype 'a checked = Panics string | Value 'a

fun expect :: "string \<Rightarrow> 'a option \<Rightarrow> 'a checked" where
  "expect msg None = Panics msg"
| "expect msg (Some x) = Value x"

fun checked_bind :: "'a checked \<Rightarrow> ('a \<Rightarrow> 'b checked) \<Rightarrow> 'b checked" where
  "checked_bind (Panics m) f = Panics m"
| "checked_bind (Value x) f = f x"

lemma expect_Value [simp]: "expect msg x = Value y \<longleftrightarrow> x = Some y"
  by (cases x) auto

lemma expect_Panics [simp]: "expect msg x = Panics e \<longleftrightarrow> x = None \<and> e = msg"
  by (cases x) auto

lemma checked_bind_Value [simp]:
  "checked_bind m f = Value z \<longleftrightarrow> (\<exists>x. m = Value x \<and> f x = Value z)"
  by (cases m) auto

lemma checked_bind_Panics [simp]:
  "checked_bind m f = Panics e \<longleftrightarrow> m = Panics e \<or> (\<exists>x. m = Value x \<and> f x = Panics e)"
  by (cases m) auto

section \<open>Lists\<close>

lemma find_Some_split:
  assumes "List.find P xs = Some x"
  shows "\<exists>us vs. xs = us @ x # vs \<and> P x \<and> (\<forall>u \<in> set us. \<not> P u)"
  using assms
proof (induction xs)
  case Nil
  then show ?case by simp
next
  case (Cons y ys)
  show ?case
  proof (cases "P y")
    case True
    with Cons.prems show ?thesis by (intro exI [where x = "[]"] exI [where x = ys]) simp
  next
    case False
    with Cons obtain us vs where "ys = us @ x # vs" "P x" "\<forall>u \<in> set us. \<not> P u"
      by auto
    with False show ?thesis
      by (intro exI [where x = "y # us"] exI [where x = vs]) auto
  qed
qed

lemma find_SomeD: "List.find P xs = Some x \<Longrightarrow> x \<in> set xs \<and> P x"
  by (auto dest: find_Some_split)

lemma find_append_or: "List.find P (xs @ ys) = opt_or (List.find P xs) (List.find P ys)"
  by (induction xs) simp_all

lemma find_None_iff': "List.find P xs = None \<longleftrightarrow> (\<forall>x \<in> set xs. \<not> P x)"
  by (auto simp: find_None_iff)

text \<open>The fold of a conditional push: the loop that collects each new item once.\<close>

fun push_new :: "'a list \<Rightarrow> 'a list \<Rightarrow> 'a list" where
  "push_new acc [] = acc"
| "push_new acc (x # xs) = push_new (if x \<in> set acc then acc else acc @ [x]) xs"

lemma set_push_new [simp]: "set (push_new acc xs) = set acc \<union> set xs"
  by (induction acc xs rule: push_new.induct) auto

lemma distinct_push_new: "distinct acc \<Longrightarrow> distinct (push_new acc xs)"
  by (induction acc xs rule: push_new.induct) auto

lemma push_new_append: "\<exists>ys. push_new acc xs = acc @ ys"
proof (induction acc xs rule: push_new.induct)
  case (1 acc)
  then show ?case by simp
next
  case (2 acc x xs)
  then show ?case by (cases "x \<in> set acc") auto
qed

section \<open>The key/value interface\<close>

text \<open>
  What the builders rely on: a lookup after an insertion sees the inserted value at its key and
  the old value elsewhere, and the empty store has no keys.
\<close>

locale kv_store =
  fixes emp :: "'m"
    and ins :: "'k \<Rightarrow> 'v \<Rightarrow> 'm \<Rightarrow> 'm"
    and get :: "'m \<Rightarrow> 'k \<Rightarrow> 'v option"
  assumes get_emp: "get emp k = None"
    and get_ins: "get (ins k v m) k' = (if k' = k then Some v else get m k')"
begin

definition ins_all :: "('k \<times> 'v) list \<Rightarrow> 'm \<Rightarrow> 'm" where
  "ins_all kvs m = fold (\<lambda>(k, v). ins k v) kvs m"

definition ins_opt :: "'k \<Rightarrow> 'v option \<Rightarrow> 'm \<Rightarrow> 'm" where
  "ins_opt k ov m = (case ov of None \<Rightarrow> m | Some v \<Rightarrow> ins k v m)"

lemma get_ins_same: "get (ins k v m) k = Some v"
  by (simp add: get_ins)

lemma get_ins_other: "k' \<noteq> k \<Longrightarrow> get (ins k v m) k' = get m k'"
  by (simp add: get_ins)

lemma get_ins_opt: "get (ins_opt k ov m) k' = (if k' = k then opt_or ov (get m k) else get m k')"
  by (cases ov) (simp_all add: ins_opt_def get_ins)

lemma get_ins_all_notin: "k \<notin> fst ` set kvs \<Longrightarrow> get (ins_all kvs m) k = get m k"
proof (induction kvs arbitrary: m)
  case Nil
  then show ?case by (simp add: ins_all_def)
next
  case (Cons p kvs)
  then show ?case by (cases p) (simp add: ins_all_def get_ins)
qed

text \<open>A batch of insertions acts on each key as its last entry: later entries win.\<close>

lemma get_ins_all: "get (ins_all kvs m) k = opt_or (map_of (rev kvs) k) (get m k)"
proof (induction kvs arbitrary: m)
  case Nil
  then show ?case by (simp add: ins_all_def)
next
  case (Cons p kvs)
  obtain k' v' where p: "p = (k', v')" by (cases p)
  have "get (ins_all (p # kvs) m) k = get (ins_all kvs (ins k' v' m)) k"
    by (simp add: ins_all_def p)
  also have "\<dots> = opt_or (map_of (rev kvs) k) (get (ins k' v' m) k)"
    by (rule Cons.IH)
  finally show ?case
    by (cases "map_of (rev kvs) k") (auto simp: p get_ins map_add_def)
qed

end

end
