(* ===== verification/Rust_Std.thy ===== *)
theory Rust_Std
  imports Prelude "HOL-Library.Word" "HOL-Library.Char_ord" "HOL-Library.List_Lexorder"
    "HOL-Library.Multiset"
begin

text \<open>
  The part of Rust's standard library the operator calls. A \<open>String\<close> is the list of its UTF-8
  bytes (a \<open>char\<close> of HOL is one byte), so \<open>len\<close>, \<open>split_at\<close> and ordering count bytes
  as Rust does. Machine integers are words where the code converts between widths and
  \<open>int\<close> where it only stores them. \<open>BTreeMap<String, _>\<close> is the list of its
  entries in key order.
\<close>

section \<open>Strings\<close>

definition starts_with :: "string \<Rightarrow> string \<Rightarrow> bool" where
  "starts_with s p \<longleftrightarrow> take (length p) s = p"

definition ends_with :: "string \<Rightarrow> string \<Rightarrow> bool" where
  "ends_with s p \<longleftrightarrow> length p \<le> length s \<and> drop (length s - length p) s = p"

definition strip_prefix :: "string \<Rightarrow> string \<Rightarrow> string option" where
  "strip_prefix s p = (if starts_with s p then Some (drop (length p) s) else None)"

lemma starts_with_iff: "starts_with s p \<longleftrightarrow> (\<exists>t. s = p @ t)"
proof
  assume "starts_with s p"
  then have "s = p @ drop (length p) s"
    by (metis append_take_drop_id starts_with_def)
  then show "\<exists>t. s = p @ t" ..
qed (auto simp: starts_with_def)

lemma starts_with_append [simp]: "starts_with (p @ t) p"
  by (simp add: starts_with_iff)

lemma ends_with_iff: "ends_with s p \<longleftrightarrow> (\<exists>t. s = t @ p)"
proof
  assume "ends_with s p"
  then have "s = take (length s - length p) s @ p"
    by (metis append_take_drop_id ends_with_def)
  then show "\<exists>t. s = t @ p" ..
qed (auto simp: ends_with_def)

lemma strip_prefix_Some [simp]: "strip_prefix s p = Some t \<longleftrightarrow> s = p @ t"
  by (auto simp: strip_prefix_def starts_with_iff)

lemma strip_prefix_append [simp]: "strip_prefix (p @ t) p = Some t"
  by simp

lemma strip_prefix_None: "strip_prefix s p = None \<longleftrightarrow> \<not> starts_with s p"
  by (simp add: strip_prefix_def)

text \<open>A text between single quotes, as the error messages write names.\<close>

definition squote :: "string \<Rightarrow> string" where
  "squote s = [CHR 0x27] @ s @ [CHR 0x27]"

subsection \<open>Trimming by one character\<close>

definition trim_start_matches :: "char \<Rightarrow> string \<Rightarrow> string" where
  "trim_start_matches c s = dropWhile (\<lambda>x. x = c) s"

definition trim_end_matches :: "char \<Rightarrow> string \<Rightarrow> string" where
  "trim_end_matches c s = rev (dropWhile (\<lambda>x. x = c) (rev s))"

definition trim_matches :: "char \<Rightarrow> string \<Rightarrow> string" where
  "trim_matches c s = trim_end_matches c (trim_start_matches c s)"

lemma trim_end_matches_decomp: "\<exists>n. s = trim_end_matches c s @ replicate n c"
proof -
  have "takeWhile (\<lambda>x. x = c) (rev s) = replicate (length (takeWhile (\<lambda>x. x = c) (rev s))) c"
    by (rule replicate_eqI) (auto dest: set_takeWhileD)
  then obtain n where n: "takeWhile (\<lambda>x. x = c) (rev s) = replicate n c" ..
  have "rev s = replicate n c @ dropWhile (\<lambda>x. x = c) (rev s)"
    by (metis n takeWhile_dropWhile_id)
  then have "s = trim_end_matches c s @ replicate n c"
    by (metis rev_append rev_replicate rev_rev_ident trim_end_matches_def)
  then show ?thesis ..
qed

lemma trim_end_matches_last: "trim_end_matches c s = [] \<or> last (trim_end_matches c s) \<noteq> c"
proof (cases "dropWhile (\<lambda>x. x = c) (rev s)")
  case Nil
  then show ?thesis by (simp add: trim_end_matches_def)
next
  case (Cons y ys)
  then have "y \<noteq> c"
    using hd_dropWhile [of "\<lambda>x. x = c" "rev s"] by simp
  with Cons show ?thesis by (simp add: trim_end_matches_def)
qed

lemma trim_start_matches_hd: "trim_start_matches c s = [] \<or> hd (trim_start_matches c s) \<noteq> c"
  by (metis (full_types) hd_dropWhile trim_start_matches_def)

lemma trim_end_matches_id: "s = [] \<or> last s \<noteq> c \<Longrightarrow> trim_end_matches c s = s"
  by (cases s rule: rev_cases) (auto simp: trim_end_matches_def)

lemma trim_start_matches_id: "s = [] \<or> hd s \<noteq> c \<Longrightarrow> trim_start_matches c s = s"
  by (cases s) (auto simp: trim_start_matches_def)

lemma trim_end_matches_hd: "trim_end_matches c s \<noteq> [] \<Longrightarrow> hd (trim_end_matches c s) = hd s"
  by (metis hd_append trim_end_matches_decomp)

text \<open>A trimmed string has the trimmed character at neither end.\<close>

lemma trim_matches_ends:
  "trim_matches c s = [] \<or> hd (trim_matches c s) \<noteq> c \<and> last (trim_matches c s) \<noteq> c"
proof (cases "trim_matches c s = []")
  case False
  then have ne: "trim_end_matches c (trim_start_matches c s) \<noteq> []"
    by (simp add: trim_matches_def)
  then have "trim_start_matches c s \<noteq> []"
    by (auto simp: trim_end_matches_def)
  then have "hd (trim_start_matches c s) \<noteq> c"
    using trim_start_matches_hd [of c s] by blast
  with ne show ?thesis
    using trim_end_matches_last [of c "trim_start_matches c s"]
    by (simp add: trim_matches_def trim_end_matches_hd)
qed simp

lemma trim_matches_id: "s = [] \<or> hd s \<noteq> c \<and> last s \<noteq> c \<Longrightarrow> trim_matches c s = s"
  by (auto simp: trim_matches_def trim_start_matches_id trim_end_matches_id)

lemma trim_matches_idem: "trim_matches c (trim_matches c s) = trim_matches c s"
  by (rule trim_matches_id) (rule trim_matches_ends)

text \<open>\<open>trim_end_matches\<close> with a string pattern removes the suffix as often as it occurs.\<close>

function trim_end_str :: "string \<Rightarrow> string \<Rightarrow> string" where
  "trim_end_str p s =
     (if p \<noteq> [] \<and> ends_with s p then trim_end_str p (take (length s - length p) s) else s)"
  by pat_completeness auto
termination
  by (relation "measure (\<lambda>(p, s). length s)") (auto simp: ends_with_iff)

declare trim_end_str.simps [simp del]

lemma trim_end_str_step: "p \<noteq> [] \<Longrightarrow> trim_end_str p (s @ p) = trim_end_str p s"
  by (subst trim_end_str.simps) (simp add: ends_with_iff)

lemma trim_end_str_stop: "\<not> ends_with s p \<Longrightarrow> trim_end_str p s = s"
  by (subst trim_end_str.simps) simp

subsection \<open>Whitespace\<close>

text \<open>
  The UTF-8 encodings of the characters with the Unicode property White\_Space, which is what
  \<open>str::trim\<close> removes: U+0009 to U+000D, U+0020, U+0085, U+00A0, U+1680, U+2000 to
  U+200A, U+2028, U+2029, U+202F, U+205F and U+3000.
\<close>

definition ws_chars :: "string list" where
  "ws_chars =
     [[CHR 0x09], [CHR 0x0A], [CHR 0x0B], [CHR 0x0C], [CHR 0x0D], [CHR 0x20],
      [CHR 0xC2, CHR 0x85], [CHR 0xC2, CHR 0xA0], [CHR 0xE1, CHR 0x9A, CHR 0x80],
      [CHR 0xE2, CHR 0x80, CHR 0x80], [CHR 0xE2, CHR 0x80, CHR 0x81],
      [CHR 0xE2, CHR 0x80, CHR 0x82], [CHR 0xE2, CHR 0x80, CHR 0x83],
      [CHR 0xE2, CHR 0x80, CHR 0x84], [CHR 0xE2, CHR 0x80, CHR 0x85],
      [CHR 0xE2, CHR 0x80, CHR 0x86], [CHR 0xE2, CHR 0x80, CHR 0x87],
      [CHR 0xE2, CHR 0x80, CHR 0x88], [CHR 0xE2, CHR 0x80, CHR 0x89],
      [CHR 0xE2, CHR 0x80, CHR 0x8A], [CHR 0xE2, CHR 0x80, CHR 0xA8],
      [CHR 0xE2, CHR 0x80, CHR 0xA9], [CHR 0xE2, CHR 0x80, CHR 0xAF],
      [CHR 0xE2, CHR 0x81, CHR 0x9F], [CHR 0xE3, CHR 0x80, CHR 0x80]]"

lemma ws_chars_nonempty: "w \<in> set ws_chars \<Longrightarrow> w \<noteq> []"
  by (auto simp: ws_chars_def)

function trim_start :: "string \<Rightarrow> string" where
  "trim_start s =
     (case List.find (starts_with s) ws_chars of
        None \<Rightarrow> s
      | Some w \<Rightarrow> trim_start (drop (length w) s))"
  by pat_completeness auto
termination
proof (relation "measure length")
  fix s w
  assume "List.find (starts_with s) ws_chars = Some w"
  then have "w \<in> set ws_chars" "starts_with s w" by (auto dest: find_SomeD)
  then show "(drop (length w) s, s) \<in> measure length"
    by (auto simp: starts_with_iff dest: ws_chars_nonempty)
qed simp

function trim_end :: "string \<Rightarrow> string" where
  "trim_end s =
     (case List.find (ends_with s) ws_chars of
        None \<Rightarrow> s
      | Some w \<Rightarrow> trim_end (take (length s - length w) s))"
  by pat_completeness auto
termination
proof (relation "measure length")
  fix s w
  assume "List.find (ends_with s) ws_chars = Some w"
  then have "w \<in> set ws_chars" "ends_with s w" by (auto dest: find_SomeD)
  then show "(take (length s - length w) s, s) \<in> measure length"
    by (auto simp: ends_with_iff dest: ws_chars_nonempty)
qed simp

declare trim_start.simps [simp del] trim_end.simps [simp del]

definition trim :: "string \<Rightarrow> string" where
  "trim s = trim_end (trim_start s)"

text \<open>
  The bytes at which a white-space character can begin or end. A string that begins and ends
  with other bytes is left alone.
\<close>

definition ws_first_bytes :: "char list" where
  "ws_first_bytes =
     [CHR 0x09, CHR 0x0A, CHR 0x0B, CHR 0x0C, CHR 0x0D, CHR 0x20,
      CHR 0xC2, CHR 0xE1, CHR 0xE2, CHR 0xE3]"

definition ws_last_byte :: "char \<Rightarrow> bool" where
  "ws_last_byte c \<longleftrightarrow> (of_char c :: nat) \<in> {9, 10, 11, 12, 13, 32} \<or> 128 \<le> (of_char c :: nat)"

lemma ws_chars_hd: "w \<in> set ws_chars \<Longrightarrow> hd w \<in> set ws_first_bytes"
  by (auto simp: ws_chars_def ws_first_bytes_def)

lemma ws_chars_last: "w \<in> set ws_chars \<Longrightarrow> ws_last_byte (last w)"
  by (auto simp: ws_chars_def ws_last_byte_def)

lemma trim_start_id:
  assumes "s = [] \<or> hd s \<notin> set ws_first_bytes"
  shows "trim_start s = s"
proof -
  have "\<not> starts_with s w" if w: "w \<in> set ws_chars" for w
    using assms ws_chars_hd [OF w] ws_chars_nonempty [OF w]
    by (auto simp: starts_with_iff)
  then have "List.find (starts_with s) ws_chars = None"
    by (simp add: find_None_iff')
  then show ?thesis by (subst trim_start.simps) simp
qed

lemma trim_end_id:
  assumes "s = [] \<or> \<not> ws_last_byte (last s)"
  shows "trim_end s = s"
proof -
  have "\<not> ends_with s w" if w: "w \<in> set ws_chars" for w
    using assms ws_chars_last [OF w] ws_chars_nonempty [OF w]
    by (auto simp: ends_with_iff)
  then have "List.find (ends_with s) ws_chars = None"
    by (simp add: find_None_iff')
  then show ?thesis by (subst trim_end.simps) simp
qed

lemma trim_id:
  "hd s \<notin> set ws_first_bytes \<Longrightarrow> \<not> ws_last_byte (last s) \<Longrightarrow> trim s = s"
  by (simp add: trim_def trim_start_id trim_end_id)

lemma trim_Nil [simp]: "trim [] = []"
  by (simp add: trim_def trim_start_id trim_end_id)

subsection \<open>Splitting\<close>

definition split_once :: "char \<Rightarrow> string \<Rightarrow> (string \<times> string) option" where
  "split_once c s =
     (if c \<in> set s
      then Some (takeWhile (\<lambda>x. x \<noteq> c) s, tl (dropWhile (\<lambda>x. x \<noteq> c) s))
      else None)"

lemma split_once_append: "c \<notin> set a \<Longrightarrow> split_once c (a @ c # b) = Some (a, b)"
  by (induction a) (auto simp: split_once_def)

lemma split_once_Some:
  "split_once c s = Some (a, b) \<longleftrightarrow> s = a @ c # b \<and> c \<notin> set a"
proof
  assume "split_once c s = Some (a, b)"
  then have c: "c \<in> set s" and a: "a = takeWhile (\<lambda>x. x \<noteq> c) s"
    and b: "b = tl (dropWhile (\<lambda>x. x \<noteq> c) s)"
    by (auto simp: split_once_def split: if_splits)
  from c obtain us vs where "s = us @ c # vs" "c \<notin> set us"
    by (meson split_list_first)
  with a b show "s = a @ c # b \<and> c \<notin> set a" by (auto simp: takeWhile_append)
qed (auto simp: split_once_append)

fun split_on :: "char \<Rightarrow> string \<Rightarrow> string list" where
  "split_on c [] = [[]]"
| "split_on c (x # xs) =
     (if x = c then [] # split_on c xs
      else (case split_on c xs of [] \<Rightarrow> [[x]] | w # ws \<Rightarrow> (x # w) # ws))"

lemma split_on_nonempty: "split_on c s \<noteq> []"
  by (induction c s rule: split_on.induct) (auto split: list.splits)

fun join_with :: "string \<Rightarrow> string list \<Rightarrow> string" where
  "join_with sep [] = []"
| "join_with sep [x] = x"
| "join_with sep (x # y # ys) = x @ sep @ join_with sep (y # ys)"

lemma split_on_notin: "c \<notin> set s \<Longrightarrow> split_on c s = [s]"
  by (induction s) auto

lemma split_on_append:
  "c \<notin> set a \<Longrightarrow> split_on c (a @ c # b) = a # split_on c b"
  by (induction a) auto

lemma split_on_join:
  "ws \<noteq> [] \<Longrightarrow> (\<forall>w \<in> set ws. c \<notin> set w) \<Longrightarrow> split_on c (join_with [c] ws) = ws"
proof (induction ws rule: induct_list012)
  case (3 x y ys)
  then show ?case by (simp add: split_on_append)
qed (auto simp: split_on_notin)

text \<open>
  \<open>str::lines\<close>: the pieces between line feeds, without a final empty piece, each without
  the carriage return of a CR LF ending.
\<close>

definition strip_cr :: "string \<Rightarrow> string" where
  "strip_cr l = (if l \<noteq> [] \<and> last l = CHR 0x0D then butlast l else l)"

definition str_lines :: "string \<Rightarrow> string list" where
  "str_lines s =
     (let ps = split_on (CHR 0x0A) s;
          ts = butlast ps
      in map strip_cr ts @ (if last ps = [] then [] else [last ps]))"

subsection \<open>ASCII case, UTF-8\<close>

definition ascii_lower :: "char \<Rightarrow> char" where
  "ascii_lower c =
     (let n = (of_char c :: nat) in if 65 \<le> n \<and> n \<le> 90 then char_of (n + 32) else c)"

definition eq_ignore_ascii_case :: "string \<Rightarrow> string \<Rightarrow> bool" where
  "eq_ignore_ascii_case a b \<longleftrightarrow> map ascii_lower a = map ascii_lower b"

definition is_cont :: "char \<Rightarrow> bool" where
  "is_cont c \<longleftrightarrow> (let n = (of_char c :: nat) in 128 \<le> n \<and> n < 192)"

text \<open>
  \<open>String::from_utf8\<close> accepts exactly the well-formed UTF-8 byte sequences: no overlong
  forms, no surrogates, nothing above U+10FFFF.
\<close>

fun utf8_valid :: "string \<Rightarrow> bool" where
  "utf8_valid [] = True"
| "utf8_valid (a # s) =
     (let n = (of_char a :: nat) in
      if n < 128 then utf8_valid s
      else if n < 194 then False
      else if n < 224 then
        (case s of b # t \<Rightarrow> is_cont b \<and> utf8_valid t | _ \<Rightarrow> False)
      else if n < 240 then
        (case s of b # c # t \<Rightarrow>
           is_cont b \<and> is_cont c \<and> (n = 224 \<longrightarrow> 160 \<le> (of_char b :: nat))
             \<and> (n = 237 \<longrightarrow> (of_char b :: nat) < 160) \<and> utf8_valid t
         | _ \<Rightarrow> False)
      else if n < 245 then
        (case s of b # c # d # t \<Rightarrow>
           is_cont b \<and> is_cont c \<and> is_cont d \<and> (n = 240 \<longrightarrow> 144 \<le> (of_char b :: nat))
             \<and> (n = 244 \<longrightarrow> (of_char b :: nat) < 144) \<and> utf8_valid t
         | _ \<Rightarrow> False)
      else False)"

declare utf8_valid.simps(2) [simp del]

definition from_utf8 :: "string \<Rightarrow> string option" where
  "from_utf8 bs = (if utf8_valid bs then Some bs else None)"

lemma from_utf8_Some [simp]: "from_utf8 bs = Some s \<longleftrightarrow> utf8_valid bs \<and> s = bs"
  by (auto simp: from_utf8_def)

lemma utf8_valid_ascii: "\<forall>c \<in> set s. (of_char c :: nat) < 128 \<Longrightarrow> utf8_valid s"
  by (induction s) (auto simp: utf8_valid.simps(2))

text \<open>\<open>split_at\<close> panics (here: \<open>None\<close>) when the index is not on a character boundary.\<close>

definition is_char_boundary :: "string \<Rightarrow> nat \<Rightarrow> bool" where
  "is_char_boundary s i \<longleftrightarrow> i = 0 \<or> i = length s \<or> i < length s \<and> \<not> is_cont (s ! i)"

definition split_at :: "string \<Rightarrow> nat \<Rightarrow> (string \<times> string) option" where
  "split_at s i = (if is_char_boundary s i then Some (take i s, drop i s) else None)"

section \<open>Numbers and their decimal form\<close>

definition digit_char :: "nat \<Rightarrow> char" where
  "digit_char d = char_of (48 + d)"

fun string_of_nat :: "nat \<Rightarrow> string" where
  "string_of_nat n =
     (if n < 10 then [digit_char n] else string_of_nat (n div 10) @ [digit_char (n mod 10)])"

declare string_of_nat.simps [simp del]

definition string_of_int :: "int \<Rightarrow> string" where
  "string_of_int i = (if i < 0 then ''-'' @ string_of_nat (nat (- i)) else string_of_nat (nat i))"

definition string_of_bool :: "bool \<Rightarrow> string" where
  "string_of_bool b = (if b then ''true'' else ''false'')"

definition digit_val :: "char \<Rightarrow> nat option" where
  "digit_val c =
     (let n = (of_char c :: nat) in if 48 \<le> n \<and> n \<le> 57 then Some (n - 48) else None)"

fun digits_val :: "nat \<Rightarrow> string \<Rightarrow> nat option" where
  "digits_val acc [] = Some acc"
| "digits_val acc (c # cs) =
     (case digit_val c of None \<Rightarrow> None | Some d \<Rightarrow> digits_val (10 * acc + d) cs)"

definition i64_min :: int where "i64_min = - (2 ^ 63)"
definition i64_max :: int where "i64_max = 2 ^ 63 - 1"

definition in_i64 :: "int \<Rightarrow> bool" where
  "in_i64 i \<longleftrightarrow> i64_min \<le> i \<and> i \<le> i64_max"

text \<open>
  \<open>str::parse::<i64>\<close>: an optional sign, at least one digit, and a value that fits.
\<close>

definition parse_i64 :: "string \<Rightarrow> int option" where
  "parse_i64 s =
     (let neg = (s \<noteq> [] \<and> hd s = CHR ''-'');
          body = (if s \<noteq> [] \<and> (hd s = CHR ''-'' \<or> hd s = CHR ''+'') then tl s else s)
      in if body = [] then None
         else case digits_val 0 body of
             None \<Rightarrow> None
           | Some n \<Rightarrow> (let v = (if neg then - int n else int n)
                        in if in_i64 v then Some v else None))"

lemma digit_val_digit_char: "d < 10 \<Longrightarrow> digit_val (digit_char d) = Some d"
  by (simp add: digit_val_def digit_char_def Let_def)

lemma digits_val_append:
  "digits_val acc (xs @ ys) =
     (case digits_val acc xs of None \<Rightarrow> None | Some n \<Rightarrow> digits_val n ys)"
  by (induction acc xs rule: digits_val.induct) (auto split: option.splits)

lemma digits_val_string_of_nat: "digits_val 0 (string_of_nat n) = Some n"
proof (induction n rule: string_of_nat.induct)
  case (1 n)
  show ?case
  proof (cases "n < 10")
    case True
    then show ?thesis
      by (simp add: string_of_nat.simps [of n] digit_val_digit_char)
  next
    case False
    with "1.IH" show ?thesis
      by (simp add: string_of_nat.simps [of n] digits_val_append digit_val_digit_char)
  qed
qed

lemma string_of_nat_nonempty [simp]: "string_of_nat n \<noteq> []"
  by (subst string_of_nat.simps) simp

lemma string_of_nat_digits:
  "c \<in> set (string_of_nat n) \<Longrightarrow> 48 \<le> (of_char c :: nat) \<and> (of_char c :: nat) \<le> 57"
proof (induction n rule: string_of_nat.induct)
  case (1 n)
  show ?case
  proof (cases "n < 10")
    case True
    with "1.prems" show ?thesis
      by (simp add: string_of_nat.simps [of n] digit_char_def)
  next
    case False
    with "1" show ?thesis
      by (auto simp: string_of_nat.simps [of n] digit_char_def)
  qed
qed

lemma string_of_nat_hd:
  "48 \<le> (of_char (hd (string_of_nat n)) :: nat) \<and> (of_char (hd (string_of_nat n)) :: nat) \<le> 57"
  by (rule string_of_nat_digits [where n = n]) simp

lemma string_of_nat_hd_not_sign:
  "hd (string_of_nat n) \<noteq> CHR ''-''" "hd (string_of_nat n) \<noteq> CHR ''+''"
  using string_of_nat_hd [of n] by auto

text \<open>Printing and parsing a 64-bit integer gives it back.\<close>

lemma parse_i64_string_of_int:
  assumes "in_i64 i"
  shows "parse_i64 (string_of_int i) = Some i"
  using assms string_of_nat_hd_not_sign
  by (auto simp: parse_i64_def string_of_int_def Let_def digits_val_string_of_nat)

text \<open>
  Conversions. \<open>as\<close> between integer types sign-extends or truncates; \<open>try_from\<close>
  fails out of range.
\<close>

type_synonym i32 = "32 word"
type_synonym i64 = "64 word"
type_synonym u64 = "64 word"

definition i32_as_usize :: "i32 \<Rightarrow> nat" where
  "i32_as_usize x = unat (signed x :: u64)"

definition i64_as_i32 :: "int \<Rightarrow> i32" where
  "i64_as_i32 x = word_of_int x"

definition i64_try_from_u64 :: "u64 \<Rightarrow> int option" where
  "i64_try_from_u64 x = (if uint x \<le> i64_max then Some (uint x) else None)"

definition i32_try_from_usize :: "nat \<Rightarrow> int option" where
  "i32_try_from_usize n = (if int n < 2 ^ 31 then Some (int n) else None)"

lemma uint_i32_sign_extended: "uint (signed (x :: i32) :: u64) = sint x mod 2 ^ 64"
  unfolding scast_eq uint_word_of_int by simp

lemma i32_as_usize_nonneg: "0 \<le> sint (x :: i32) \<Longrightarrow> i32_as_usize x = nat (sint x)"
proof -
  assume nn: "0 \<le> sint x"
  have "sint x < 2 ^ 31" using sint_lt [of x] by simp
  with nn show ?thesis
    by (simp add: i32_as_usize_def unat_eq_nat_uint uint_i32_sign_extended)
qed

lemma i32_as_usize_neg: "sint (x :: i32) < 0 \<Longrightarrow> 2 ^ 63 \<le> i32_as_usize x"
proof -
  assume neg: "sint x < 0"
  have lo: "- (2 ^ 31) \<le> sint x" using sint_ge [of x] by simp
  have "sint x mod 2 ^ 64 = (sint x + 2 ^ 64) mod 2 ^ 64" by simp
  also have "\<dots> = sint x + 2 ^ 64"
    using neg lo by (intro mod_pos_pos_trivial) simp_all
  finally show ?thesis
    using lo by (simp add: i32_as_usize_def unat_eq_nat_uint uint_i32_sign_extended)
qed

section \<open>Ordered string maps\<close>

text \<open>
  \<open>BTreeMap<String, V>\<close>: the entries in strictly increasing key order. \<open>bt_insert\<close>
  replaces the value of a present key.
\<close>

type_synonym 'v btree = "(string \<times> 'v) list"

fun bt_insert :: "string \<Rightarrow> 'v \<Rightarrow> 'v btree \<Rightarrow> 'v btree" where
  "bt_insert k v [] = [(k, v)]"
| "bt_insert k v ((k', v') # m) =
     (if k < k' then (k, v) # (k', v') # m
      else if k = k' then (k, v) # m
      else (k', v') # bt_insert k v m)"

definition bt_get :: "'v btree \<Rightarrow> string \<Rightarrow> 'v option" where
  "bt_get m k = map_of m k"

text \<open>\<open>extend\<close> inserts the entries one after the other.\<close>

definition bt_extend :: "'v btree \<Rightarrow> 'v btree \<Rightarrow> 'v btree" where
  "bt_extend m kvs = fold (\<lambda>(k, v). bt_insert k v) kvs m"

definition bt_sorted :: "'v btree \<Rightarrow> bool" where
  "bt_sorted m \<longleftrightarrow> sorted (map fst m) \<and> distinct (map fst m)"

lemma bt_get_Nil [kv_simps]: "bt_get [] k = None"
  by (simp add: bt_get_def)

lemma bt_get_insert [kv_simps]:
  "bt_get (bt_insert k v m) k' = (if k' = k then Some v else bt_get m k')"
  by (induction k v m rule: bt_insert.induct) (auto simp: bt_get_def)

interpretation btree: kv_store "[]" bt_insert bt_get
  by unfold_locales (simp_all add: kv_simps)

lemma bt_extend_ins_all: "bt_extend m kvs = btree.ins_all kvs m"
  by (simp add: bt_extend_def btree.ins_all_def)

lemma bt_get_extend: "bt_get (bt_extend m kvs) k = opt_or (map_of (rev kvs) k) (bt_get m k)"
  by (simp add: bt_extend_ins_all btree.get_ins_all)

lemma bt_insert_keys: "fst ` set (bt_insert k v m) = insert k (fst ` set m)"
  by (induction k v m rule: bt_insert.induct) auto

lemma bt_insert_sorted: "bt_sorted m \<Longrightarrow> bt_sorted (bt_insert k v m)"
proof (induction k v m rule: bt_insert.induct)
  case (1 k v)
  then show ?case by (simp add: bt_sorted_def)
next
  case (2 k v k' v' m)
  consider "k < k'" | "k = k'" | "k' < k" by (rule linorder_cases)
  then show ?case
  proof cases
    case 3
    with 2 have "bt_sorted (bt_insert k v m)" by (simp add: bt_sorted_def)
    moreover have "\<forall>x \<in> insert k (fst ` set m). k' < x"
      using 2(2) 3 by (force simp: bt_sorted_def order.strict_iff_order)
    ultimately show ?thesis
      using 3 bt_insert_keys [of k v m]
      by (auto simp: bt_sorted_def simp flip: set_map intro: less_imp_le)
  qed (use 2 in \<open>auto simp: bt_sorted_def\<close>)
qed

lemma bt_extend_sorted: "bt_sorted m \<Longrightarrow> bt_sorted (bt_extend m kvs)"
proof (induction kvs arbitrary: m)
  case (Cons p kvs)
  then show ?case by (cases p) (simp add: bt_extend_def bt_insert_sorted)
qed (simp add: bt_extend_def)

section \<open>Sorting in decreasing order\<close>

text \<open>
  \<open>sort_by_key\<close> with \<open>std::cmp::Reverse\<close> is stable and orders by decreasing key.
\<close>

definition sort_desc :: "('a \<Rightarrow> int) \<Rightarrow> 'a list \<Rightarrow> 'a list" where
  "sort_desc f xs = sort_key (\<lambda>x. - f x) xs"

lemma set_sort_desc [simp]: "set (sort_desc f xs) = set xs"
  by (simp add: sort_desc_def)

lemma length_sort_desc [simp]: "length (sort_desc f xs) = length xs"
  by (simp add: sort_desc_def)

lemma distinct_map_sort_desc [simp]: "distinct (map g (sort_desc f xs)) = distinct (map g xs)"
proof -
  have "mset (sort_desc f xs) = mset xs"
    by (simp add: sort_desc_def)
  then have "mset (map g (sort_desc f xs)) = mset (map g xs)"
    by (simp only: mset_map)
  then show ?thesis by (rule mset_eq_imp_distinct_iff)
qed

lemma sort_desc_sorted: "sorted_wrt (\<lambda>x y. f y \<le> f x) (sort_desc f xs)"
proof -
  have "sorted (map (\<lambda>x. - f x) (sort_desc f xs))"
    by (simp add: sort_desc_def)
  then show ?thesis by (simp add: sorted_map)
qed

lemma sort_desc_id: "sorted_wrt (\<lambda>x y. f y \<le> f x) xs \<Longrightarrow> sort_desc f xs = xs"
  by (simp add: sort_desc_def sorted_sort_id sort_key_id_if_sorted sorted_map)

lemma sort_desc_idem: "sort_desc f (sort_desc f xs) = sort_desc f xs"
  by (rule sort_desc_id) (rule sort_desc_sorted)

end
