(* ===== verification/Crd.thy ===== *)
theory Crd
  imports Rust_Std
begin

text \<open>
  The custom resources of the operator: the structs and enums of \<open>src/src/crd\<close>, one record
  or datatype each, fields in the source's order. Isabelle keeps the fields of all records in
  one name space, so every field carries a short prefix of its struct. Integers the operator
  only copies are \<open>int\<close>; \<open>maxBackups\<close> is a 32-bit word because the code casts it.
  A \<open>DateTime<Utc>\<close> is its distance from the epoch in nanoseconds. The two schema
  helpers written out in the source are here; the derived JSON schema is not modelled. The readers
  and writers the \<open>serde\<close> attributes describe are in theory \<open>Crd_Codec\<close>, and the rule
  that leaves empty fields out of a status patch is in theory \<open>K8s\<close>.
\<close>

section \<open>JSON values and metadata\<close>

text \<open>
  \<open>serde\_json::Value\<close>. A number is an integer or, for the others, its text, which the
  operator never reads.
\<close>

datatype json =
    JNull
  | JBool bool
  | JInt int
  | JFloat string
  | JStr string
  | JArr "json list"
  | JObj "(string \<times> json) list"

type_synonym timestamp = int

record OwnerReference =
  ow_api_version :: string
  ow_kind :: string
  ow_name :: string
  ow_uid :: string
  ow_controller :: "bool option"
  ow_block_owner_deletion :: "bool option"

text \<open>The part of the Kubernetes object metadata the operator reads and writes.\<close>

record ObjectMeta =
  om_name :: "string option"
  om_generate_name :: "string option"
  om_namespace :: "string option"
  om_uid :: "string option"
  om_labels :: "string btree option"
  om_annotations :: "string btree option"
  om_finalizers :: "string list option"
  om_deletion_timestamp :: "timestamp option"
  om_generation :: "int option"
  om_owner_references :: "OwnerReference list option"

definition empty_meta :: ObjectMeta where
  "empty_meta = \<lparr>om_name = None, om_generate_name = None, om_namespace = None, om_uid = None,
     om_labels = None, om_annotations = None, om_finalizers = None,
     om_deletion_timestamp = None, om_generation = None, om_owner_references = None\<rparr>"

text \<open>\<open>ResourceExt::name\_any\<close>: the name, else the generate-name, else empty.\<close>

definition name_any :: "ObjectMeta \<Rightarrow> string" where
  "name_any m = unwrap_or (opt_or (om_name m) (om_generate_name m)) []"

section \<open>Schemas of pass-through fields\<close>

text \<open>
  What the two schema helpers set of a schema object: its type, its extensions, and the schema of
  the items of an array. Free-form objects keep the fields the schema does not know.
\<close>

datatype InstanceType = ITObject | ITArray

datatype Schema = Schema (sch_type: InstanceType) (sch_extensions: "(string \<times> json) list")
  (sch_items: "Schema option")

definition free_form_object :: Schema where
  "free_form_object =
     Schema ITObject [(''x-kubernetes-preserve-unknown-fields'', JBool True)] None"

definition free_form_object_array :: Schema where
  "free_form_object_array =
     Schema ITArray []
       (Some (Schema ITObject [(''x-kubernetes-preserve-unknown-fields'', JBool True)] None))"

lemma free_form_items: "sch_items free_form_object_array = Some free_form_object"
  by (simp add: free_form_object_array_def free_form_object_def)

section \<open>Shared specification types (crd/common.rs)\<close>

record ResourceRequirementsSpec =
  rr_requests :: "string btree"
  rr_limits :: "string btree"

record SecretKeyRef =
  sk_name :: string
  sk_key :: string

record StrimziClusterRef =
  sc_name :: string
  sc_namespace :: "string option"
  sc_ca_secret :: "SecretKeyRef option"
  sc_listener :: "string option"

datatype AuthenticationType = AuthTls | AuthScramSha512

record KafkaUserRef =
  ku_name :: string

record CertificateAndKeySecretRef =
  ck_secret_name :: string
  ck_certificate :: string
  ck_key :: string

record AuthenticationSpec =
  au_type :: AuthenticationType
  au_kafka_user_ref :: "KafkaUserRef option"
  au_certificate_and_key :: "CertificateAndKeySecretRef option"
  au_password_secret :: "SecretKeyRef option"
  au_username :: "string option"

record TopicSelection =
  ts_include :: "string list"
  ts_exclude :: "string list"

record ConsumerGroupSelection =
  cgs_include :: "string list"
  cgs_exclude :: "string list"

record KafkaConnectionSpec =
  kc_tcp_keepalive :: "bool option"
  kc_keepalive_time_secs :: "int option"
  kc_keepalive_interval_secs :: "int option"
  kc_tcp_nodelay :: "bool option"
  kc_connections_per_broker :: "int option"

record LoggingRotationSpec =
  lr_max_size_mb :: "int option"
  lr_max_files :: "int option"

record LoggingSpec =
  lg_level :: "string option"
  lg_format :: "string option"
  lg_output :: "string option"
  lg_modules :: "string btree"
  lg_rotation :: "LoggingRotationSpec option"

record MetricsSpec =
  ms_enabled :: "bool option"
  ms_port :: "int option"
  ms_bind_address :: "string option"
  ms_path :: "string option"
  ms_keep_alive_seconds :: "int option"
  ms_update_interval_ms :: "int option"
  ms_max_partition_labels :: "int option"

record OffsetStorageSpec =
  os_backend :: "string option"
  os_db_path :: "string option"
  os_s3_key :: "string option"
  os_sync_interval_secs :: "int option"

datatype StorageType = S3 | Azure | Gcs | Filesystem

record S3StorageSpec =
  s3_bucket :: string
  s3_region :: "string option"
  s3_prefix :: "string option"
  s3_endpoint :: "string option"
  s3_force_path_style :: "bool option"
  s3_allow_http :: "bool option"
  s3_credentials_secret :: "SecretKeyRef option"
  s3_access_key_secret :: "SecretKeyRef option"
  s3_secret_key_secret :: "SecretKeyRef option"

record AzureStorageSpec =
  az_container :: string
  az_storage_account :: string
  az_prefix :: "string option"
  az_credentials_secret :: "SecretKeyRef option"
  az_account_key_secret :: "SecretKeyRef option"
  az_sas_token_secret :: "SecretKeyRef option"
  az_client_secret_secret :: "SecretKeyRef option"
  az_endpoint :: "string option"
  az_use_workload_identity :: "bool option"
  az_client_id :: "string option"
  az_tenant_id :: "string option"

record GcsStorageSpec =
  gc_bucket :: string
  gc_prefix :: "string option"
  gc_credentials_secret :: "SecretKeyRef option"
  gc_service_account_path :: "string option"

record FilesystemStorageSpec =
  fs_path :: string

record StorageSpec =
  st_type :: StorageType
  st_s3 :: "S3StorageSpec option"
  st_azure :: "AzureStorageSpec option"
  st_gcs :: "GcsStorageSpec option"
  st_filesystem :: "FilesystemStorageSpec option"

record PodMetadata =
  pm_labels :: "string btree"
  pm_annotations :: "string btree"

text \<open>\<open>host\_aliases\<close> are k8s objects handed through; they are kept as JSON.\<close>

record PodOverrides =
  po_metadata :: "PodMetadata option"
  po_affinity :: "json option"
  po_tolerations :: "json list"
  po_security_context :: "json option"
  po_image_pull_secrets :: "json list"
  po_host_aliases :: "json list"
  po_service_account_name :: "string option"

record ContainerOverrides =
  co_env :: "json list"
  co_security_context :: "json option"

record CrdPodTemplate =
  pt_pod :: "PodOverrides option"
  pt_container :: "ContainerOverrides option"

section \<open>Shared status types (crd/common.rs)\<close>

record Condition =
  cd_type :: string
  cd_status :: string
  cd_reason :: "string option"
  cd_message :: "string option"
  cd_last_transition_time :: "timestamp option"

datatype BackupStatus = BkRunning | BkCompleted | BkFailed

record BackupHistoryEntry =
  he_id :: string
  he_status :: BackupStatus
  he_start_time :: timestamp
  he_completion_time :: "timestamp option"
  he_size_bytes :: "int option"
  he_topics_backed_up :: "int option"
  he_partitions_backed_up :: "int option"

record LastBackupInfo =
  lb_id :: string
  lb_start_time :: timestamp
  lb_completion_time :: "timestamp option"
  lb_status :: BackupStatus
  lb_size_bytes :: "int option"
  lb_topics_backed_up :: "int option"
  lb_partitions_backed_up :: "int option"
  lb_oldest_timestamp :: "timestamp option"
  lb_newest_timestamp :: "timestamp option"

datatype RestoreStatus = RsRunning | RsCompleted | RsFailed

record RestoreInfo =
  ri_start_time :: timestamp
  ri_completion_time :: "timestamp option"
  ri_status :: RestoreStatus
  ri_restored_topics :: "int option"
  ri_restored_partitions :: "int option"
  ri_restored_bytes :: "int option"
  ri_point_in_time_target :: "timestamp option"
  ri_actual_point_in_time :: "timestamp option"

section \<open>KafkaBackup (crd/kafka\_backup.rs)\<close>

record UnsupportedEncryptionSpec =
  ue_enabled :: bool

record BackupOptionsSpec =
  bo_compression :: "string option"
  bo_compression_level :: "int option"
  bo_encryption :: "UnsupportedEncryptionSpec option"
  bo_segment_size :: "int option"
  bo_segment_max_interval_ms :: "int option"
  bo_parallelism :: "int option"
  bo_start_offset :: "string option"
  bo_continuous :: "bool option"
  bo_include_internal_topics :: "bool option"
  bo_internal_topics :: "string list"
  bo_checkpoint_interval_secs :: "int option"
  bo_sync_interval_secs :: "int option"
  bo_include_offset_headers :: "bool option"
  bo_source_cluster_id :: "string option"
  bo_stop_at_current_offsets :: "bool option"
  bo_poll_interval_ms :: "int option"
  bo_consumer_group_snapshot :: "bool option"

record ScheduleSpec =
  sd_cron :: string
  sd_timezone :: "string option"
  sd_suspend :: bool

record RetentionSpec =
  rt_max_backups :: "i32 option"
  rt_max_age :: "string option"
  rt_prune_on_schedule :: bool

record KafkaBackupSpec =
  kb_strimzi_cluster_ref :: StrimziClusterRef
  kb_authentication :: "AuthenticationSpec option"
  kb_topics :: "TopicSelection option"
  kb_connection :: "KafkaConnectionSpec option"
  kb_consumer_groups :: "ConsumerGroupSelection option"
  kb_logging :: "LoggingSpec option"
  kb_env :: "json list"
  kb_storage :: StorageSpec
  kb_backup :: "BackupOptionsSpec option"
  kb_metrics :: "MetricsSpec option"
  kb_offset_storage :: "OffsetStorageSpec option"
  kb_schedule :: "ScheduleSpec option"
  kb_retention :: "RetentionSpec option"
  kb_resources :: "ResourceRequirementsSpec option"
  kb_template :: "CrdPodTemplate option"
  kb_image :: "string option"
  kb_backoff_limit :: "int option"

record KafkaBackupStatus =
  bs_conditions :: "Condition list"
  bs_last_backup :: "LastBackupInfo option"
  bs_backup_history :: "BackupHistoryEntry list"
  bs_observed_generation :: "int option"
  bs_next_scheduled_backup :: "string option"

text \<open>The derived \<open>Default\<close> of the status.\<close>

definition default_backup_status :: KafkaBackupStatus where
  "default_backup_status = \<lparr>bs_conditions = [], bs_last_backup = None, bs_backup_history = [],
     bs_observed_generation = None, bs_next_scheduled_backup = None\<rparr>"

text \<open>The resource the \<open>CustomResource\<close> derivation makes of the specification.\<close>

record KafkaBackup =
  kbr_metadata :: ObjectMeta
  kbr_spec :: KafkaBackupSpec
  kbr_status :: "KafkaBackupStatus option"

section \<open>KafkaRestore (crd/kafka\_restore.rs)\<close>

record BackupRef =
  br_name :: string
  br_backup_id :: "string option"

record PointInTimeSpec =
  pit_start_timestamp :: "string option"
  pit_timestamp :: "string option"
  pit_offset_from_end :: "string option"

record TopicMappingEntry =
  tm_source_topic :: string
  tm_target_topic :: string

record ConsumerGroupMapping =
  cgm_source_group :: string
  cgm_target_group :: string

record ConsumerGroupRestoreSpec =
  cg_restore :: bool
  cg_auto :: "bool option"
  cg_groups :: "string list"
  cg_strategy :: "string option"
  cg_offset_report :: "string option"
  cg_mapping :: "ConsumerGroupMapping list"

record PartitionMappingEntry =
  pme_source_partition :: int
  pme_target_partition :: int

record TopicRepartitioningSpec =
  tr_topic :: string
  tr_strategy :: "string option"
  tr_target_partitions :: int

datatype TopicCreationPolicy = TcAuto | TcManual

datatype ExistingTopicPolicy = EtFail | EtAppend | EtOverwrite

record RestoreOptionsSpec =
  ro_topic_creation :: "TopicCreationPolicy option"
  ro_existing_topic_policy :: "ExistingTopicPolicy option"
  ro_dry_run :: "bool option"
  ro_include_original_offset_header :: "bool option"
  ro_source_partitions :: "int list"
  ro_partition_mapping :: "PartitionMappingEntry list"
  ro_parallelism :: "int option"
  ro_rate_limit_records_per_sec :: "int option"
  ro_rate_limit_bytes_per_sec :: "int option"
  ro_produce_batch_size :: "int option"
  ro_produce_acks :: "int option"
  ro_produce_timeout_ms :: "int option"
  ro_checkpoint_state :: "string option"
  ro_checkpoint_interval_secs :: "int option"
  ro_default_replication_factor :: "int option"
  ro_repartitioning :: "TopicRepartitioningSpec list"
  ro_purge_topics :: "bool option"

record KafkaRestoreSpec =
  kr_strimzi_cluster_ref :: StrimziClusterRef
  kr_authentication :: "AuthenticationSpec option"
  kr_backup_ref :: BackupRef
  kr_topics :: "TopicSelection option"
  kr_point_in_time :: "PointInTimeSpec option"
  kr_connection :: "KafkaConnectionSpec option"
  kr_logging :: "LoggingSpec option"
  kr_env :: "json list"
  kr_topic_mapping :: "TopicMappingEntry list"
  kr_consumer_groups :: "ConsumerGroupRestoreSpec option"
  kr_restore :: "RestoreOptionsSpec option"
  kr_metrics :: "MetricsSpec option"
  kr_resources :: "ResourceRequirementsSpec option"
  kr_template :: "CrdPodTemplate option"
  kr_image :: "string option"
  kr_backoff_limit :: "int option"

record KafkaRestoreStatus =
  rs_conditions :: "Condition list"
  rs_restore :: "RestoreInfo option"
  rs_observed_generation :: "int option"

definition default_restore_status :: KafkaRestoreStatus where
  "default_restore_status =
     \<lparr>rs_conditions = [], rs_restore = None, rs_observed_generation = None\<rparr>"

record KafkaRestore =
  krr_metadata :: ObjectMeta
  krr_spec :: KafkaRestoreSpec
  krr_status :: "KafkaRestoreStatus option"

section \<open>JSON access\<close>

text \<open>\<open>Value::get\<close>, \<open>as\_str\<close>, \<open>as\_bool\<close>, \<open>as\_i64\<close>, \<open>as\_array\<close>.\<close>

fun json_get :: "json \<Rightarrow> string \<Rightarrow> json option" where
  "json_get (JObj kvs) k = map_of kvs k"
| "json_get _ k = None"

fun as_str :: "json \<Rightarrow> string option" where
  "as_str (JStr s) = Some s"
| "as_str _ = None"

fun as_bool :: "json \<Rightarrow> bool option" where
  "as_bool (JBool b) = Some b"
| "as_bool _ = None"

fun as_i64 :: "json \<Rightarrow> int option" where
  "as_i64 (JInt i) = (if in_i64 i then Some i else None)"
| "as_i64 _ = None"

fun as_array :: "json \<Rightarrow> json list option" where
  "as_array (JArr xs) = Some xs"
| "as_array _ = None"

end
