(* ===== verification/Yaml.thy ===== *)
theory Yaml
  imports Rust_Std
begin

text \<open>
  The value type of the configuration files: \<open>serde\_yaml::Value\<close> as a datatype and
  \<open>serde\_yaml::Mapping\<close> as the list of its entries in insertion order. Inserting a present
  key replaces its value in place, a new key is appended, as that type documents. Serialising a
  value to text is the library's work and a parameter of the model (theory \<open>K8s\<close>).
  The mapping is an instance of the key/value interface; the insertion helpers of the adapters
  (\<open>insert\_bool\<close>, \<open>insert\_u64\<close>, \<open>insert\_i32\<close>) are here, with their lookup lemmas.
\<close>

datatype yaml =
    YNull
  | YBool bool
  | YNum int
  | YStr string
  | YSeq "yaml list"
  | YMap "(yaml \<times> yaml) list"

type_synonym ymap = "(yaml \<times> yaml) list"

fun y_insert :: "yaml \<Rightarrow> yaml \<Rightarrow> ymap \<Rightarrow> ymap" where
  "y_insert k v [] = [(k, v)]"
| "y_insert k v ((k', v') # m) =
     (if k' = k then (k', v) # m else (k', v') # y_insert k v m)"

definition y_get :: "ymap \<Rightarrow> yaml \<Rightarrow> yaml option" where
  "y_get m k = map_of m k"

lemma y_get_Nil [kv_simps]: "y_get [] k = None"
  by (simp add: y_get_def)

lemma y_get_insert [kv_simps]:
  "y_get (y_insert k v m) k' = (if k' = k then Some v else y_get m k')"
  by (induction k v m rule: y_insert.induct) (auto simp: y_get_def)

interpretation ymapping: kv_store "[]" y_insert y_get
  by unfold_locales (simp_all add: kv_simps)

text \<open>A mapping never holds a key twice.\<close>

definition y_keys :: "ymap \<Rightarrow> yaml list" where
  "y_keys m = map fst m"

lemma set_y_keys_insert: "set (y_keys (y_insert k v m)) = insert k (set (y_keys m))"
  by (induction k v m rule: y_insert.induct) (auto simp: y_keys_def)

lemma y_insert_distinct: "distinct (y_keys m) \<Longrightarrow> distinct (y_keys (y_insert k v m))"
proof (induction k v m rule: y_insert.induct)
  case (2 k v k' v' m)
  then show ?case
    using set_y_keys_insert [of k v m] by (auto simp: y_keys_def)
qed (simp add: y_keys_def)

lemma y_insert_nonempty [simp]: "y_insert k v m \<noteq> []"
  by (cases m) (auto split: if_splits)

section \<open>Insertion helpers\<close>

text \<open>Every key the operator writes at the top of a section is a string.\<close>

definition put :: "string \<Rightarrow> yaml \<Rightarrow> ymap \<Rightarrow> ymap" where
  "put k v m = y_insert (YStr k) v m"

text \<open>\<open>if let Some(x) = ox { config.insert(k, f(x)); }\<close>\<close>

definition put_opt :: "string \<Rightarrow> ('a \<Rightarrow> yaml) \<Rightarrow> 'a option \<Rightarrow> ymap \<Rightarrow> ymap" where
  "put_opt k f ox m = (case ox of None \<Rightarrow> m | Some x \<Rightarrow> put k (f x) m)"

text \<open>\<open>if b { config.insert(k, v); }\<close>\<close>

definition put_if :: "bool \<Rightarrow> string \<Rightarrow> yaml \<Rightarrow> ymap \<Rightarrow> ymap" where
  "put_if b k v m = (if b then put k v m else m)"

definition insert_bool :: "string \<Rightarrow> bool option \<Rightarrow> ymap \<Rightarrow> ymap" where
  "insert_bool k v m = put_opt k YBool v m"

definition insert_u64 :: "string \<Rightarrow> int option \<Rightarrow> ymap \<Rightarrow> ymap" where
  "insert_u64 k v m = put_opt k YNum v m"

definition insert_i32 :: "string \<Rightarrow> int option \<Rightarrow> ymap \<Rightarrow> ymap" where
  "insert_i32 k v m = put_opt k YNum v m"

definition gets :: "ymap \<Rightarrow> string \<Rightarrow> yaml option" where
  "gets m k = y_get m (YStr k)"

definition strs :: "string list \<Rightarrow> yaml" where
  "strs xs = YSeq (map YStr xs)"

lemma gets_Nil [kv_simps]: "gets [] k = None"
  by (simp add: gets_def kv_simps)

lemma gets_put [kv_simps]: "gets (put k v m) k' = (if k' = k then Some v else gets m k')"
  by (simp add: gets_def put_def ymapping.get_ins)

lemma put_opt_ins_opt: "put_opt k f ox m = ymapping.ins_opt (YStr k) (map_option f ox) m"
  by (cases ox) (simp_all add: put_opt_def put_def ymapping.ins_opt_def)

lemma gets_put_opt [kv_simps]:
  "gets (put_opt k f ox m) k' =
     (if k' = k then opt_or (map_option f ox) (gets m k) else gets m k')"
  by (simp add: gets_def put_opt_ins_opt ymapping.get_ins_opt)

lemma gets_put_if [kv_simps]:
  "gets (put_if b k v m) k' = (if b \<and> k' = k then Some v else gets m k')"
  by (simp add: put_if_def gets_put)

lemma gets_insert_bool [kv_simps]:
  "gets (insert_bool k v m) k' =
     (if k' = k then opt_or (map_option YBool v) (gets m k) else gets m k')"
  by (simp add: insert_bool_def gets_put_opt)

lemma gets_insert_u64 [kv_simps]:
  "gets (insert_u64 k v m) k' =
     (if k' = k then opt_or (map_option YNum v) (gets m k) else gets m k')"
  by (simp add: insert_u64_def gets_put_opt)

lemma gets_insert_i32 [kv_simps]:
  "gets (insert_i32 k v m) k' =
     (if k' = k then opt_or (map_option YNum v) (gets m k) else gets m k')"
  by (simp add: insert_i32_def gets_put_opt)

lemma put_nonempty [simp]: "put k v m \<noteq> []"
  by (simp add: put_def)

section \<open>The strings of a value\<close>

text \<open>
  All the text a value holds at any depth: what the \<open>kafka-backup\<close> binary expands
  \<open>${NAME}\<close> placeholders in. The string keys of mappings are text too.
\<close>

fun yaml_strings :: "yaml \<Rightarrow> string list" where
  "yaml_strings (YStr s) = [s]"
| "yaml_strings (YSeq ys) = concat (map yaml_strings ys)"
| "yaml_strings (YMap m) = concat (map (\<lambda>(k, v). yaml_strings k @ yaml_strings v) m)"
| "yaml_strings _ = []"

end
