(* ===== verification/K8s.thy ===== *)
theory K8s
  imports Crd Yaml
begin

text \<open>
  The data the operator exchanges with the libraries it uses: its own error type
  (\<open>src/src/error.rs\<close>), the fields of the Kubernetes objects it reads and fills
  (crate \<open>k8s\_openapi\<close>), the patches it sends, the object-store builders it configures, and
  the record \<open>Ext\<close> of the library functions the model takes as parameters.
\<close>

section \<open>Errors (error.rs)\<close>

text \<open>
  \<open>kube::Error\<close>: the API server's answer with its code, a body that does not deserialise,
  or anything else (transport). The strings are the library's messages.
\<close>

datatype KubeError = KApi nat string | KSerde string | KOther string

datatype Error =
    EKube KubeError
  | ESerialization string
  | EYaml string
  | EStrimziClusterNotFound string string
  | ESecretNotFound string string
  | ESecretKeyMissing string string
  | EKafkaUserNotFound string string
  | EInvalidConfig string
  | ENoCompatibleListener string string string
  | EStorage string
  | EBackupNotFound string
  | EJobCreationFailed string
  | EFinalizer string
  | EMissingObjectKey string
  | ERegex string

fun error_reason :: "Error \<Rightarrow> string" where
  "error_reason (EKube _) = ''KubernetesError''"
| "error_reason (ESerialization _) = ''SerializationError''"
| "error_reason (EYaml _) = ''SerializationError''"
| "error_reason (EStrimziClusterNotFound _ _) = ''StrimziClusterNotFound''"
| "error_reason (ESecretNotFound _ _) = ''SecretNotFound''"
| "error_reason (ESecretKeyMissing _ _) = ''SecretKeyMissing''"
| "error_reason (EKafkaUserNotFound _ _) = ''KafkaUserNotFound''"
| "error_reason (EInvalidConfig _) = ''InvalidConfiguration''"
| "error_reason (ENoCompatibleListener _ _ _) = ''NoCompatibleListener''"
| "error_reason (EStorage _) = ''StorageError''"
| "error_reason (EBackupNotFound _) = ''BackupNotFound''"
| "error_reason (EJobCreationFailed _) = ''JobCreationFailed''"
| "error_reason (EFinalizer _) = ''FinalizerError''"
| "error_reason (EMissingObjectKey _) = ''MissingObjectKey''"
| "error_reason (ERegex _) = ''RegexError''"

fun kube_error_string :: "KubeError \<Rightarrow> string" where
  "kube_error_string (KApi code m) = m"
| "kube_error_string (KSerde m) = m"
| "kube_error_string (KOther m) = m"

text \<open>The \<open>Display\<close> form, from the \<open>#[error(...)]\<close> attributes.\<close>

fun error_string :: "Error \<Rightarrow> string" where
  "error_string (EKube e) = ''Kubernetes API error: '' @ kube_error_string e"
| "error_string (ESerialization m) = ''Serialization error: '' @ m"
| "error_string (EYaml m) = ''YAML serialization error: '' @ m"
| "error_string (EStrimziClusterNotFound n ns) =
     ''Strimzi cluster '' @ squote n @ '' not found in namespace ''
       @ squote ns"
| "error_string (ESecretNotFound n ns) =
     ''Secret '' @ squote n @ '' not found in namespace ''
       @ squote ns"
| "error_string (ESecretKeyMissing n k) =
     ''Secret '' @ squote n @ '' missing key ''
       @ squote k"
| "error_string (EKafkaUserNotFound n ns) =
     ''KafkaUser '' @ squote n @ '' not found in namespace ''
       @ squote ns"
| "error_string (EInvalidConfig m) = ''Invalid configuration: '' @ m"
| "error_string (ENoCompatibleListener c d a) =
     ''No listener on Kafka cluster '' @ squote c
       @ '' matches authentication type '' @ squote d
       @ ''; available listeners: '' @ a
       @ ''. Set spec.strimziClusterRef.listener to select one explicitly''"
| "error_string (EStorage m) = ''Storage error: '' @ m"
| "error_string (EBackupNotFound n) = ''Backup '' @ squote n @ '' not found''"
| "error_string (EJobCreationFailed m) = ''Job creation failed: '' @ m"
| "error_string (EFinalizer m) = ''Finalizer error: '' @ m"
| "error_string (EMissingObjectKey k) = ''Missing object key: '' @ k"
| "error_string (ERegex m) = ''Regex error: '' @ m"

section \<open>Kubernetes objects\<close>

record DynamicObject =
  dy_metadata :: ObjectMeta
  dy_data :: json

record Secret =
  se_metadata :: ObjectMeta
  se_data :: "string btree option"

text \<open>
  \<open>EnvVarSource\<close>: the two sources the operator writes, and the remaining fields as JSON
  for variables handed through from the resource.
\<close>

record EnvVarSource =
  evs_field_path :: "string option"
  evs_secret_key_ref :: "SecretKeyRef option"
  evs_other :: "json option"

record EnvVar =
  ev_name :: string
  ev_value :: "string option"
  ev_value_from :: "EnvVarSource option"

record KeyToPath =
  kp_key :: string
  kp_path :: string

record SecretVolumeSource =
  sv_secret_name :: "string option"
  sv_items :: "KeyToPath list option"

record Volume =
  vo_name :: string
  vo_config_map :: "string option"
  vo_secret :: "SecretVolumeSource option"

record VolumeMount =
  vm_name :: string
  vm_mount_path :: string
  vm_read_only :: "bool option"

record ContainerPort =
  cp_name :: "string option"
  cp_container_port :: int
  cp_protocol :: "string option"

record ResourceRequirements =
  re_requests :: "string btree option"
  re_limits :: "string btree option"

record Container =
  ct_name :: string
  ct_image :: "string option"
  ct_command :: "string list option"
  ct_args :: "string list option"
  ct_env :: "EnvVar list option"
  ct_ports :: "ContainerPort list option"
  ct_volume_mounts :: "VolumeMount list option"
  ct_resources :: "ResourceRequirements option"
  ct_security_context :: "json option"

record PodSpec =
  ps_containers :: "Container list"
  ps_volumes :: "Volume list option"
  ps_restart_policy :: "string option"
  ps_service_account_name :: "string option"
  ps_affinity :: "json option"
  ps_tolerations :: "json list option"
  ps_security_context :: "json option"
  ps_image_pull_secrets :: "json list option"
  ps_host_aliases :: "json list option"

record PodTemplateSpec =
  pts_metadata :: "ObjectMeta option"
  pts_spec :: "PodSpec option"

record JobSpec =
  js_backoff_limit :: "int option"
  js_template :: PodTemplateSpec

record JobCondition =
  jc_type :: string
  jc_status :: string

record JobStatus =
  jst_active :: "int option"
  jst_succeeded :: "int option"
  jst_failed :: "int option"
  jst_start_time :: "timestamp option"
  jst_completion_time :: "timestamp option"
  jst_conditions :: "JobCondition list option"

record Job =
  jb_metadata :: ObjectMeta
  jb_spec :: "JobSpec option"
  jb_status :: "JobStatus option"

record JobTemplateSpec =
  jt_metadata :: "ObjectMeta option"
  jt_spec :: "JobSpec option"

record CronJobSpec =
  cj_schedule :: string
  cj_time_zone :: "string option"
  cj_suspend :: "bool option"
  cj_concurrency_policy :: "string option"
  cj_successful_jobs_history_limit :: "int option"
  cj_failed_jobs_history_limit :: "int option"
  cj_job_template :: JobTemplateSpec

record CronJob =
  cr_metadata :: ObjectMeta
  cr_spec :: "CronJobSpec option"

record ConfigMap =
  cm_metadata :: ObjectMeta
  cm_data :: "string btree"

section \<open>Patches and call parameters\<close>

datatype Propagation = PropOrphan | PropBackground | PropForeground

record DeleteParams =
  dp_propagation_policy :: "Propagation option"

record PatchParams =
  pp_field_manager :: "string option"
  pp_force :: bool

text \<open>
  The JSON merge patches of the operator, by their fields. In a status patch a field is absent
  (\<open>None\<close>) or set; \<open>nextScheduledBackup\<close> may also be an explicit null
  (\<open>Some None\<close>), which clears it. A metadata patch sets or nulls the whole finalizer
  list, or nulls one annotation.
\<close>

datatype MetaPatch =
    SetFinalizers "string list"
  | NullFinalizers
  | NullAnnotation string

record BackupStatusPatch =
  bsp_conditions :: "Condition list option"
  bsp_last_backup :: "LastBackupInfo option"
  bsp_backup_history :: "BackupHistoryEntry list option"
  bsp_observed_generation :: "int option"
  bsp_next_scheduled_backup :: "string option option"

record RestoreStatusPatch =
  rsp_conditions :: "Condition list option"
  rsp_restore :: "RestoreInfo option"
  rsp_observed_generation :: "int option"

text \<open>
  Serialising a status leaves out \<open>None\<close> fields and empty lists
  (\<open>skip\_serializing\_if\<close>), so a patch made of a whole status never clears a field.
\<close>

definition vec_field :: "'a list \<Rightarrow> 'a list option" where
  "vec_field xs = (if xs = [] then None else Some xs)"

definition backup_status_patch :: "KafkaBackupStatus \<Rightarrow> BackupStatusPatch" where
  "backup_status_patch s =
     \<lparr>bsp_conditions = vec_field (bs_conditions s),
      bsp_last_backup = bs_last_backup s,
      bsp_backup_history = vec_field (bs_backup_history s),
      bsp_observed_generation = bs_observed_generation s,
      bsp_next_scheduled_backup = map_option Some (bs_next_scheduled_backup s)\<rparr>"

definition restore_status_patch :: "KafkaRestoreStatus \<Rightarrow> RestoreStatusPatch" where
  "restore_status_patch s =
     \<lparr>rsp_conditions = vec_field (rs_conditions s),
      rsp_restore = rs_restore s,
      rsp_observed_generation = rs_observed_generation s\<rparr>"

section \<open>Object-store builders\<close>

text \<open>The builder calls of the crate \<open>object\_store\<close>, as the fields they set.\<close>

record S3Builder =
  sb_bucket_name :: string
  sb_region :: "string option"
  sb_endpoint :: "string option"
  sb_virtual_hosted :: "bool option"
  sb_allow_http :: "bool option"
  sb_access_key_id :: "string option"
  sb_secret_access_key :: "string option"
  sb_token :: "string option"

record AzureBuilder =
  ab_account :: string
  ab_container_name :: string
  ab_endpoint :: "string option"
  ab_allow_http :: "bool option"
  ab_access_key :: "string option"
  ab_sas :: "(string \<times> string) list option"
  ab_client_id :: "string option"
  ab_tenant_id :: "string option"
  ab_client_secret :: "string option"
  ab_federated_token_file :: "string option"
  ab_use_azure_cli :: "bool option"

record GcsBuilder =
  gb_bucket_name :: string
  gb_service_account_key :: "string option"
  gb_service_account_path :: "string option"

datatype StoreBuilder =
    BuildS3 S3Builder
  | BuildAzure AzureBuilder
  | BuildGcs GcsBuilder
  | BuildLocal string

datatype StoreError = SNotFound string | SOther string

section \<open>Library functions as parameters\<close>

text \<open>
  The manifest of a stored backup, as the operator's deserialisation target
  (\<open>StoredBackupManifest\<close> in retention/storage.rs).
\<close>

record StoredSegment =
  ss_compressed_size :: u64

record StoredPartition =
  sp_segments :: "StoredSegment list"

record StoredTopic =
  sto_partitions :: "StoredPartition list"

record StoredBackupManifest =
  sm_backup_id :: string
  sm_created_at :: int
  sm_topics :: "StoredTopic list"

datatype DurationUnit = USeconds | UMinutes | UHours | UDays | UWeeks

text \<open>
  \<open>Ext\<close> names the library functions the code calls and the model does not define:
  \<^item> \<open>x_yaml\<close>: \<open>serde\_yaml::to\_string\<close>, with its error message on failure;
  \<^item> \<open>x_rfc3339_millis\<close>: \<open>DateTime::parse\_from\_rfc3339\<close> and \<open>timestamp\_millis\<close>;
  \<^item> \<open>x_duration\<close>: chrono's \<open>Duration::seconds\<close>, \<open>minutes\<close>, \<open>hours\<close>,
    \<open>days\<close>, \<open>weeks\<close> in nanoseconds, \<open>None\<close> where they panic;
  \<^item> \<open>x_time_sub\<close>: subtraction of a duration from an instant, \<open>None\<close> where it panics;
  \<^item> \<open>x_from_millis\<close>: \<open>DateTime::from\_timestamp\_millis\<close>;
  \<^item> \<open>x_job_stamp\<close>: the format \<open>%Y%m%d-%H%M%S\<close>;
  \<^item> \<open>x_manifest\<close>: \<open>serde\_json::from\_slice\<close> into a manifest;
  \<^item> \<open>x_env_var\<close>, \<open>x_affinity\<close>, \<open>x_toleration\<close>, \<open>x_pod_security\<close>,
    \<open>x_pull_secret\<close>, \<open>x_container_security\<close>: \<open>serde\_json::from\_value\<close>
    into the k8s type, whose value is kept as JSON where the operator only passes it on;
  \<^item> \<open>x_path\<close>: the text of \<open>object\_store::path::Path::from\<close>.
\<close>

record Ext =
  x_yaml :: "yaml \<Rightarrow> string + string"
  x_rfc3339_millis :: "string \<Rightarrow> int option"
  x_duration :: "DurationUnit \<Rightarrow> int \<Rightarrow> int option"
  x_time_sub :: "timestamp \<Rightarrow> int \<Rightarrow> timestamp option"
  x_from_millis :: "int \<Rightarrow> timestamp option"
  x_job_stamp :: "timestamp \<Rightarrow> string"
  x_manifest :: "string \<Rightarrow> StoredBackupManifest option"
  x_env_var :: "json \<Rightarrow> EnvVar option"
  x_affinity :: "json \<Rightarrow> json option"
  x_toleration :: "json \<Rightarrow> json option"
  x_pod_security :: "json \<Rightarrow> json option"
  x_pull_secret :: "json \<Rightarrow> json option"
  x_container_security :: "json \<Rightarrow> json option"
  x_path :: "string \<Rightarrow> string"

end
