(* ===== verification/Effects.thy ===== *)
theory Effects
  imports K8s
begin

text \<open>
  Effectful code as data. An \<open>async fn\<close> of the operator is a value of type
  \<open>'a prog\<close>: it returns, panics, or makes one request (the Kubernetes API, the object
  store, the clock, the process environment) and continues with the answer, whatever it is. The
  servers are no part of the model: \<open>run\<close> executes a program against any \<open>World\<close>, and
  the program logic (\<open>wp\<close>, \<open>only\<close>) quantifies over all answers. An answer of a shape
  the request does not have is the client library's deserialisation error.
\<close>

section \<open>Requests\<close>

datatype KubeReq =
    KGetDynamic string string string string string   \<comment> \<open>group, version, kind, namespace, name\<close>
  | KGetSecret string string
  | KGetBackup string string
  | KGetBackupStatus string string
  | KListJobs string string                          \<comment> \<open>namespace, label selector\<close>
  | KCreateJob string Job
  | KDeleteJob string string DeleteParams
  | KDeleteCronJob string string DeleteParams
  | KDeleteConfigMap string string DeleteParams
  | KPatchBackup string string PatchParams MetaPatch
  | KPatchRestore string string PatchParams MetaPatch
  | KPatchBackupStatus string string PatchParams BackupStatusPatch
  | KPatchRestoreStatus string string PatchParams RestoreStatusPatch
  | KApplyConfigMap string string PatchParams ConfigMap
  | KApplyCronJob string string PatchParams CronJob

datatype KubeAnswer =
    AUnit
  | ADynamic DynamicObject
  | ASecret Secret
  | ABackup KafkaBackup
  | AJobs "Job list"

datatype StoreReq =
    SBuild StoreBuilder
  | SList nat string
  | SGet nat string
  | SDelete nat string

text \<open>A listing is a stream of items, each of which may be an error.\<close>

datatype StoreAnswer =
    BUnit
  | BHandle nat
  | BItems "(StoreError + string) list"
  | BBytes string

datatype 'a prog =
    Ret 'a
  | Panic string
  | Clock "timestamp \<Rightarrow> 'a prog"
  | GetEnv string "string option \<Rightarrow> 'a prog"
  | Kube KubeReq "KubeError + KubeAnswer \<Rightarrow> 'a prog"
  | Store StoreReq "StoreError + StoreAnswer \<Rightarrow> 'a prog"

type_synonym 'a io = "(Error + 'a) prog"

datatype event =
    EvClock timestamp
  | EvEnv string "string option"
  | EvKube KubeReq "KubeError + KubeAnswer"
  | EvStore StoreReq "StoreError + StoreAnswer"

datatype 'a outcome = Done 'a | Panicked string

section \<open>Sequencing\<close>

primrec pbind :: "'a prog \<Rightarrow> ('a \<Rightarrow> 'b prog) \<Rightarrow> 'b prog" where
  "pbind (Ret x) f = f x"
| "pbind (Panic m) f = Panic m"
| "pbind (Clock k) f = Clock (\<lambda>t. pbind (k t) f)"
| "pbind (GetEnv n k) f = GetEnv n (\<lambda>v. pbind (k v) f)"
| "pbind (Kube q k) f = Kube q (\<lambda>r. pbind (k r) f)"
| "pbind (Store q k) f = Store q (\<lambda>r. pbind (k r) f)"

text \<open>\<open>x.await?\<close>: stop at an error.\<close>

definition ebind :: "'a io \<Rightarrow> ('a \<Rightarrow> 'b io) \<Rightarrow> 'b io" where
  "ebind m f = pbind m (\<lambda>r. case r of Inl e \<Rightarrow> Ret (Inl e) | Inr x \<Rightarrow> f x)"

abbreviation ok :: "'a \<Rightarrow> 'a io" where
  "ok x \<equiv> Ret (Inr x)"

abbreviation throw :: "Error \<Rightarrow> 'a io" where
  "throw e \<equiv> Ret (Inl e)"

definition pmap :: "('a \<Rightarrow> 'b) \<Rightarrow> 'a prog \<Rightarrow> 'b prog" where
  "pmap f m = pbind m (\<lambda>x. Ret (f x))"

definition map_err :: "('e \<Rightarrow> 'f) \<Rightarrow> ('e + 'a) prog \<Rightarrow> ('f + 'a) prog" where
  "map_err f m = pmap (\<lambda>r. case r of Inl e \<Rightarrow> Inl (f e) | Inr x \<Rightarrow> Inr x) m"

definition now :: "timestamp prog" where
  "now = Clock Ret"

definition env_var :: "string \<Rightarrow> string option prog" where
  "env_var n = GetEnv n Ret"

text \<open>A loop over a list whose body may fail.\<close>

primrec for_each :: "'a list \<Rightarrow> ('a \<Rightarrow> unit io) \<Rightarrow> unit io" where
  "for_each [] f = ok ()"
| "for_each (x # xs) f = ebind (f x) (\<lambda>_. for_each xs f)"

text \<open>A loop over a list that ignores every result (\<open>let _ = ...\<close>).\<close>

primrec for_ignore :: "'a list \<Rightarrow> ('a \<Rightarrow> 'b prog) \<Rightarrow> unit prog" where
  "for_ignore [] f = Ret ()"
| "for_ignore (x # xs) f = pbind (f x) (\<lambda>_. for_ignore xs f)"

text \<open>A loop over a list that threads an accumulator.\<close>

primrec for_fold :: "'a list \<Rightarrow> 's \<Rightarrow> ('a \<Rightarrow> 's \<Rightarrow> 's io) \<Rightarrow> 's io" where
  "for_fold [] s f = ok s"
| "for_fold (x # xs) s f = ebind (f x s) (\<lambda>s'. for_fold xs s' f)"

section \<open>Client calls\<close>

definition serde_error :: KubeError where
  "serde_error = KSerde ''unexpected response body''"

definition kube_call :: "KubeReq \<Rightarrow> (KubeAnswer \<Rightarrow> 'a option) \<Rightarrow> (KubeError + 'a) prog" where
  "kube_call q dec = Kube q (\<lambda>r. Ret (case r of Inl e \<Rightarrow> Inl e
     | Inr a \<Rightarrow> (case dec a of None \<Rightarrow> Inl serde_error | Some x \<Rightarrow> Inr x)))"

fun as_unit :: "KubeAnswer \<Rightarrow> unit option" where
  "as_unit _ = Some ()"

fun as_dynamic :: "KubeAnswer \<Rightarrow> DynamicObject option" where
  "as_dynamic (ADynamic d) = Some d"
| "as_dynamic _ = None"

fun as_secret :: "KubeAnswer \<Rightarrow> Secret option" where
  "as_secret (ASecret s) = Some s"
| "as_secret _ = None"

fun as_backup :: "KubeAnswer \<Rightarrow> KafkaBackup option" where
  "as_backup (ABackup b) = Some b"
| "as_backup _ = None"

fun as_jobs :: "KubeAnswer \<Rightarrow> Job list option" where
  "as_jobs (AJobs js) = Some js"
| "as_jobs _ = None"

definition store_call :: "StoreReq \<Rightarrow> (StoreAnswer \<Rightarrow> 'a option) \<Rightarrow> (StoreError + 'a) prog" where
  "store_call q dec = Store q (\<lambda>r. Ret (case r of Inl e \<Rightarrow> Inl e
     | Inr a \<Rightarrow> (case dec a of None \<Rightarrow> Inl (SOther ''unexpected answer'') | Some x \<Rightarrow> Inr x)))"

fun as_store_unit :: "StoreAnswer \<Rightarrow> unit option" where
  "as_store_unit _ = Some ()"

fun as_handle :: "StoreAnswer \<Rightarrow> nat option" where
  "as_handle (BHandle h) = Some h"
| "as_handle _ = None"

fun as_items :: "StoreAnswer \<Rightarrow> (StoreError + string) list option" where
  "as_items (BItems xs) = Some xs"
| "as_items _ = None"

fun as_bytes :: "StoreAnswer \<Rightarrow> string option" where
  "as_bytes (BBytes b) = Some b"
| "as_bytes _ = None"

text \<open>\<open>?\<close> on a client call converts the library's error (\<open>#[from] kube::Error\<close>).\<close>

definition kube_io :: "KubeReq \<Rightarrow> (KubeAnswer \<Rightarrow> 'a option) \<Rightarrow> 'a io" where
  "kube_io q dec = map_err EKube (kube_call q dec)"

section \<open>Running against a world\<close>

record 'w World =
  w_clock :: "'w \<Rightarrow> timestamp \<times> 'w"
  w_env :: "string \<Rightarrow> 'w \<Rightarrow> string option \<times> 'w"
  w_kube :: "KubeReq \<Rightarrow> 'w \<Rightarrow> (KubeError + KubeAnswer) \<times> 'w"
  w_store :: "StoreReq \<Rightarrow> 'w \<Rightarrow> (StoreError + StoreAnswer) \<times> 'w"

primrec run :: "'w World \<Rightarrow> 'a prog \<Rightarrow> 'w \<Rightarrow> 'a outcome \<times> event list \<times> 'w" where
  "run W (Ret x) = (\<lambda>s. (Done x, [], s))"
| "run W (Panic m) = (\<lambda>s. (Panicked m, [], s))"
| "run W (Clock k) = (\<lambda>s.
     (let (t, s1) = w_clock W s; (out, tr, s2) = run W (k t) s1 in (out, EvClock t # tr, s2)))"
| "run W (GetEnv n k) = (\<lambda>s.
     (let (v, s1) = w_env W n s; (out, tr, s2) = run W (k v) s1 in (out, EvEnv n v # tr, s2)))"
| "run W (Kube q k) = (\<lambda>s.
     (let (r, s1) = w_kube W q s; (out, tr, s2) = run W (k r) s1 in (out, EvKube q r # tr, s2)))"
| "run W (Store q k) = (\<lambda>s.
     (let (r, s1) = w_store W q s; (out, tr, s2) = run W (k r) s1 in (out, EvStore q r # tr, s2)))"

definition outcome_of :: "'w World \<Rightarrow> 'a prog \<Rightarrow> 'w \<Rightarrow> 'a outcome" where
  "outcome_of W p s = fst (run W p s)"

definition trace_of :: "'w World \<Rightarrow> 'a prog \<Rightarrow> 'w \<Rightarrow> event list" where
  "trace_of W p s = fst (snd (run W p s))"

definition state_of :: "'w World \<Rightarrow> 'a prog \<Rightarrow> 'w \<Rightarrow> 'w" where
  "state_of W p s = snd (snd (run W p s))"

lemma run_pbind [prog_simps]:
  "run W (pbind m f) s =
     (case run W m s of
        (Done x, tr, s1) \<Rightarrow> (let (out, tr', s2) = run W (f x) s1 in (out, tr @ tr', s2))
      | (Panicked e, tr, s1) \<Rightarrow> (Panicked e, tr, s1))"
  by (induction m arbitrary: s) (auto simp: Let_def split: prod.splits outcome.splits)

lemma pbind_Ret [prog_simps]: "pbind m Ret = m"
  by (induction m) auto

lemma pbind_assoc [prog_simps]: "pbind (pbind m f) g = pbind m (\<lambda>x. pbind (f x) g)"
  by (induction m) auto

lemma ebind_ok [simp]: "ebind (ok x) f = f x"
  by (simp add: ebind_def)

lemma ebind_throw [simp]: "ebind (throw e) f = throw e"
  by (simp add: ebind_def)

lemma ebind_assoc: "ebind (ebind m f) g = ebind m (\<lambda>x. ebind (f x) g)"
  by (auto simp: ebind_def pbind_assoc intro!: arg_cong2 [where f = pbind] split: sum.splits)

section \<open>The program logic\<close>

text \<open>
  \<open>wp p Q h\<close>: from the history \<open>h\<close>, every execution of \<open>p\<close>, whatever the answers, ends
  with a history and an outcome that satisfy \<open>Q\<close>.
\<close>

primrec wp :: "'a prog \<Rightarrow> (event list \<Rightarrow> 'a outcome \<Rightarrow> bool) \<Rightarrow> event list \<Rightarrow> bool" where
  "wp (Ret x) Q = (\<lambda>h. Q h (Done x))"
| "wp (Panic m) Q = (\<lambda>h. Q h (Panicked m))"
| "wp (Clock k) Q = (\<lambda>h. \<forall>t. wp (k t) Q (h @ [EvClock t]))"
| "wp (GetEnv n k) Q = (\<lambda>h. \<forall>v. wp (k v) Q (h @ [EvEnv n v]))"
| "wp (Kube q k) Q = (\<lambda>h. \<forall>r. wp (k r) Q (h @ [EvKube q r]))"
| "wp (Store q k) Q = (\<lambda>h. \<forall>r. wp (k r) Q (h @ [EvStore q r]))"

lemma wp_mono: "wp p Q h \<Longrightarrow> (\<And>h out. Q h out \<Longrightarrow> R h out) \<Longrightarrow> wp p R h"
  by (induction p arbitrary: h) auto

lemma wp_conj: "wp p (\<lambda>h out. Q h out \<and> R h out) h \<longleftrightarrow> wp p Q h \<and> wp p R h"
  by (induction p arbitrary: h) auto

lemma wp_pbind [prog_simps]:
  "wp (pbind m f) Q h =
     wp m (\<lambda>h' out. case out of Done x \<Rightarrow> wp (f x) Q h' | Panicked e \<Rightarrow> Q h' (Panicked e)) h"
  by (induction m arbitrary: h) simp_all

lemma wp_ebind [prog_simps]:
  "wp (ebind m f) Q h =
     wp m (\<lambda>h' out. case out of
         Done (Inl e) \<Rightarrow> Q h' (Done (Inl e))
       | Done (Inr x) \<Rightarrow> wp (f x) Q h'
       | Panicked e \<Rightarrow> Q h' (Panicked e)) h"
proof -
  have "(\<lambda>h' out. case out of
           Done x \<Rightarrow> wp (case x of Inl e \<Rightarrow> throw e | Inr y \<Rightarrow> f y) Q h'
         | Panicked e \<Rightarrow> Q h' (Panicked e)) =
        (\<lambda>h' out. case out of
           Done (Inl e) \<Rightarrow> Q h' (Done (Inl e))
         | Done (Inr x) \<Rightarrow> wp (f x) Q h'
         | Panicked e \<Rightarrow> Q h' (Panicked e))"
    by (intro ext) (auto split: outcome.splits sum.splits)
  then show ?thesis by (simp add: ebind_def wp_pbind)
qed

text \<open>Every run against a world is one of the executions \<open>wp\<close> speaks of.\<close>

lemma wp_run:
  "wp p Q h \<Longrightarrow> Q (h @ trace_of W p s) (outcome_of W p s)"
proof (induction p arbitrary: h s)
  case (Clock k)
  then show ?case
    by (fastforce simp: trace_of_def outcome_of_def split_beta Let_def)
next
  case (GetEnv n k)
  then show ?case
    by (fastforce simp: trace_of_def outcome_of_def split_beta Let_def)
next
  case (Kube q k)
  then show ?case
    by (fastforce simp: trace_of_def outcome_of_def split_beta Let_def)
next
  case (Store q k)
  then show ?case
    by (fastforce simp: trace_of_def outcome_of_def split_beta Let_def)
qed (simp_all add: trace_of_def outcome_of_def)

text \<open>
  \<open>only P p\<close>: every event of every execution satisfies \<open>P\<close>. It composes along
  sequencing without looking at the answers.
\<close>

primrec only :: "(event \<Rightarrow> bool) \<Rightarrow> 'a prog \<Rightarrow> bool" where
  "only P (Ret x) \<longleftrightarrow> True"
| "only P (Panic m) \<longleftrightarrow> True"
| "only P (Clock k) \<longleftrightarrow> (\<forall>t. P (EvClock t) \<and> only P (k t))"
| "only P (GetEnv n k) \<longleftrightarrow> (\<forall>v. P (EvEnv n v) \<and> only P (k v))"
| "only P (Kube q k) \<longleftrightarrow> (\<forall>r. P (EvKube q r) \<and> only P (k r))"
| "only P (Store q k) \<longleftrightarrow> (\<forall>r. P (EvStore q r) \<and> only P (k r))"

lemma only_mono: "only P p \<Longrightarrow> (\<And>e. P e \<Longrightarrow> Q e) \<Longrightarrow> only Q p"
  by (induction p) auto

lemma only_conj: "only (\<lambda>e. P e \<and> Q e) p \<longleftrightarrow> only P p \<and> only Q p"
  by (induction p) auto

lemma only_pbind [only_intro]:
  "only P m \<Longrightarrow> (\<And>x. only P (f x)) \<Longrightarrow> only P (pbind m f)"
  by (induction m) auto

lemma only_ebind [only_intro]:
  "only P m \<Longrightarrow> (\<And>x. only P (f x)) \<Longrightarrow> only P (ebind m f)"
  by (auto simp: ebind_def intro!: only_pbind split: sum.split)

lemma only_pmap [only_intro]: "only P m \<Longrightarrow> only P (pmap f m)"
  by (simp add: pmap_def only_pbind)

lemma only_map_err [only_intro]: "only P m \<Longrightarrow> only P (map_err f m)"
  by (simp add: map_err_def only_pmap)

lemma only_for_each [only_intro]:
  "(\<And>x. x \<in> set xs \<Longrightarrow> only P (f x)) \<Longrightarrow> only P (for_each xs f)"
  by (induction xs) (auto intro!: only_ebind)

lemma only_for_ignore [only_intro]:
  "(\<And>x. x \<in> set xs \<Longrightarrow> only P (f x)) \<Longrightarrow> only P (for_ignore xs f)"
  by (induction xs) (auto intro!: only_pbind)

lemma only_for_fold [only_intro]:
  "(\<And>x s. x \<in> set xs \<Longrightarrow> only P (f x s)) \<Longrightarrow> only P (for_fold xs s f)"
  by (induction xs arbitrary: s) (auto intro!: only_ebind)

lemma only_kube_call [only_intro]: "(\<And>r. P (EvKube q r)) \<Longrightarrow> only P (kube_call q dec)"
  by (simp add: kube_call_def)

lemma only_kube_io [only_intro]: "(\<And>r. P (EvKube q r)) \<Longrightarrow> only P (kube_io q dec)"
  by (simp add: kube_io_def only_map_err only_kube_call)

lemma only_store_call [only_intro]: "(\<And>r. P (EvStore q r)) \<Longrightarrow> only P (store_call q dec)"
  by (simp add: store_call_def)

lemma only_now [only_intro]: "(\<And>t. P (EvClock t)) \<Longrightarrow> only P now"
  by (simp add: now_def)

lemma only_env_var [only_intro]: "(\<And>v. P (EvEnv n v)) \<Longrightarrow> only P (env_var n)"
  by (simp add: env_var_def)

lemma only_wp: "only P p \<Longrightarrow> (\<forall>e \<in> set h. P e) \<Longrightarrow> wp p (\<lambda>h' out. \<forall>e \<in> set h'. P e) h"
  by (induction p arbitrary: h) auto

lemma only_run: "only P p \<Longrightarrow> e \<in> set (trace_of W p s) \<Longrightarrow> P e"
  using only_wp [of P p "[]"] wp_run [of p _ "[]" W s] by fastforce

text \<open>What a call leaves in the history, for symbolic execution.\<close>

lemma wp_kube_call [prog_simps]:
  "wp (kube_call q dec) Q h =
     (\<forall>r. Q (h @ [EvKube q r]) (Done (case r of Inl e \<Rightarrow> Inl e
        | Inr a \<Rightarrow> (case dec a of None \<Rightarrow> Inl serde_error | Some x \<Rightarrow> Inr x))))"
  by (simp add: kube_call_def)

lemma wp_pmap [prog_simps]:
  "wp (pmap f m) Q h =
     wp m (\<lambda>h' out. Q h' (case out of Done x \<Rightarrow> Done (f x) | Panicked e \<Rightarrow> Panicked e)) h"
proof -
  have "(\<lambda>h' out. case out of Done x \<Rightarrow> wp (Ret (f x)) Q h' | Panicked e \<Rightarrow> Q h' (Panicked e)) =
        (\<lambda>h' out. Q h' (case out of Done x \<Rightarrow> Done (f x) | Panicked e \<Rightarrow> Panicked e))"
    by (intro ext) (simp split: outcome.splits)
  then show ?thesis by (simp add: pmap_def wp_pbind)
qed

text \<open>\<open>ends Q p\<close>: every outcome \<open>p\<close> can have, whatever the answers, satisfies \<open>Q\<close>.\<close>

primrec ends :: "('a outcome \<Rightarrow> bool) \<Rightarrow> 'a prog \<Rightarrow> bool" where
  "ends Q (Ret x) \<longleftrightarrow> Q (Done x)"
| "ends Q (Panic m) \<longleftrightarrow> Q (Panicked m)"
| "ends Q (Clock k) \<longleftrightarrow> (\<forall>t. ends Q (k t))"
| "ends Q (GetEnv n k) \<longleftrightarrow> (\<forall>v. ends Q (k v))"
| "ends Q (Kube q k) \<longleftrightarrow> (\<forall>r. ends Q (k r))"
| "ends Q (Store q k) \<longleftrightarrow> (\<forall>r. ends Q (k r))"

lemma ends_mono: "ends Q p \<Longrightarrow> (\<And>out. Q out \<Longrightarrow> R out) \<Longrightarrow> ends R p"
  by (induction p) auto

lemma ends_True [simp]: "ends (\<lambda>out. True) p"
  by (induction p) auto

lemma ends_run: "ends Q p \<Longrightarrow> Q (outcome_of W p s)"
proof (induction p arbitrary: s)
  case (Clock k)
  then show ?case by (fastforce simp: outcome_of_def split_beta Let_def)
next
  case (GetEnv n k)
  then show ?case by (fastforce simp: outcome_of_def split_beta Let_def)
next
  case (Kube q k)
  then show ?case by (fastforce simp: outcome_of_def split_beta Let_def)
next
  case (Store q k)
  then show ?case by (fastforce simp: outcome_of_def split_beta Let_def)
qed (simp_all add: outcome_of_def)

lemma ends_pbind [prog_simps]:
  "ends Q (pbind m f) =
     ends (\<lambda>out. case out of Done x \<Rightarrow> ends Q (f x) | Panicked e \<Rightarrow> Q (Panicked e)) m"
  by (induction m) simp_all

lemma ends_ebindI [wp_intro]:
  assumes "ends P m"
    and "\<And>x. P (Done (Inr x)) \<Longrightarrow> ends Q (f x)"
    and "\<And>e. P (Done (Inl e)) \<Longrightarrow> Q (Done (Inl e))"
    and "\<And>e. P (Panicked e) \<Longrightarrow> Q (Panicked e)"
  shows "ends Q (ebind m f)"
proof -
  have "ends (\<lambda>out. case out of Done x \<Rightarrow> ends Q (case x of Inl e \<Rightarrow> throw e | Inr y \<Rightarrow> f y)
      | Panicked e \<Rightarrow> Q (Panicked e)) m"
    using assms by (intro ends_mono [OF assms(1)]) (auto split: outcome.split sum.split)
  then show ?thesis by (simp add: ebind_def ends_pbind)
qed

text \<open>A value the program may return without error.\<close>

definition yields :: "('a \<Rightarrow> bool) \<Rightarrow> 'a io \<Rightarrow> bool" where
  "yields P m \<longleftrightarrow> ends (\<lambda>out. \<forall>x. out = Done (Inr x) \<longrightarrow> P x) m"

lemma yields_ok [simp]: "yields P (ok x) = P x"
  by (simp add: yields_def)

lemma yields_throw [simp]: "yields P (throw e)"
  by (simp add: yields_def)

lemma yields_ebind: "yields P m \<Longrightarrow> (\<And>x. P x \<Longrightarrow> yields Q (f x)) \<Longrightarrow> yields Q (ebind m f)"
  unfolding yields_def by (rule ends_ebindI, assumption) auto

lemma yields_any: "(\<And>x. P x) \<Longrightarrow> yields P m"
  unfolding yields_def by (rule ends_mono [OF ends_True]) simp

lemma yields_for_fold:
  assumes "\<And>x s. x \<in> set xs \<Longrightarrow> P s \<Longrightarrow> yields P (f x s)" "P s"
  shows "yields P (for_fold xs s f)"
  using assms
proof (induction xs arbitrary: s)
  case (Cons x xs)
  show ?case
    unfolding for_fold.simps by (rule yields_ebind [where P = P]) (use Cons in auto)
qed simp

text \<open>A fold whose body appends its element returns the whole list.\<close>

lemma yields_for_fold_append:
  assumes "\<And>x s. yields (\<lambda>s'. s' = s @ [x]) (f x s)"
  shows "yields (\<lambda>s'. s' = s @ xs) (for_fold xs s f)"
proof (induction xs arbitrary: s)
  case (Cons x xs)
  show ?case
    unfolding for_fold.simps
  proof (rule yields_ebind [OF assms])
    fix s' assume "s' = s @ [x]"
    then show "yields (\<lambda>r. r = s @ x # xs) (for_fold xs s' f)" using Cons [of s'] by simp
  qed
qed simp

text \<open>A request bound may use what the first part of a program returns.\<close>

lemma only_ebind_yields:
  assumes "yields R m" "only P m" "\<And>x. R x \<Longrightarrow> only P (f x)"
  shows "only P (ebind m f)"
proof -
  have "ends (\<lambda>out. \<forall>x. out = Done (Inr x) \<longrightarrow> R x) m \<Longrightarrow> only P m \<Longrightarrow>
    only P (pbind m (\<lambda>r. case r of Inl e \<Rightarrow> throw e | Inr x \<Rightarrow> f x))"
    using assms(3) by (induction m) (auto split: sum.split)
  with assms(1,2) show ?thesis by (simp add: yields_def ebind_def)
qed

lemma yields_run: "yields P m \<Longrightarrow> outcome_of W m s = Done (Inr x) \<Longrightarrow> P x"
  unfolding yields_def using ends_run by fastforce

section \<open>Requests that change something\<close>

text \<open>The Kubernetes requests that write, and the object-store requests that write.\<close>

fun kube_write :: "KubeReq \<Rightarrow> bool" where
  "kube_write (KGetDynamic _ _ _ _ _) = False"
| "kube_write (KGetSecret _ _) = False"
| "kube_write (KGetBackup _ _) = False"
| "kube_write (KGetBackupStatus _ _) = False"
| "kube_write (KListJobs _ _) = False"
| "kube_write _ = True"

fun store_write :: "StoreReq \<Rightarrow> bool" where
  "store_write (SDelete _ _) = True"
| "store_write _ = False"

fun is_write :: "event \<Rightarrow> bool" where
  "is_write (EvKube q r) = kube_write q"
| "is_write (EvStore q r) = store_write q"
| "is_write _ = False"

definition writes_of :: "event list \<Rightarrow> event list" where
  "writes_of tr = filter is_write tr"

abbreviation read_only :: "'a prog \<Rightarrow> bool" where
  "read_only p \<equiv> only (\<lambda>e. \<not> is_write e) p"

section \<open>Order and number of events\<close>

text \<open>
  \<open>preceded G T tr\<close>: in the trace, every \<open>T\<close> event comes after a \<open>G\<close> event.
  \<open>guarded\<close> is the same for all executions of a program; on an execution whose \<open>G\<close> event
  has happened, nothing more is asked.
\<close>

fun preceded :: "(event \<Rightarrow> bool) \<Rightarrow> (event \<Rightarrow> bool) \<Rightarrow> event list \<Rightarrow> bool" where
  "preceded G T [] = True"
| "preceded G T (e # tr) = (if G e then True else \<not> T e \<and> preceded G T tr)"

lemma preceded_split:
  "preceded G T (pre @ e # post) \<Longrightarrow> T e \<Longrightarrow> \<not> G e \<Longrightarrow> \<exists>g \<in> set pre. G g"
  by (induction pre) (auto split: if_splits)

primrec guarded :: "(event \<Rightarrow> bool) \<Rightarrow> (event \<Rightarrow> bool) \<Rightarrow> 'a prog \<Rightarrow> bool" where
  "guarded G T (Ret x) \<longleftrightarrow> True"
| "guarded G T (Panic m) \<longleftrightarrow> True"
| "guarded G T (Clock k) \<longleftrightarrow> (\<forall>t. G (EvClock t) \<or> \<not> T (EvClock t) \<and> guarded G T (k t))"
| "guarded G T (GetEnv n k) \<longleftrightarrow> (\<forall>v. G (EvEnv n v) \<or> \<not> T (EvEnv n v) \<and> guarded G T (k v))"
| "guarded G T (Kube q k) \<longleftrightarrow> (\<forall>r. G (EvKube q r) \<or> \<not> T (EvKube q r) \<and> guarded G T (k r))"
| "guarded G T (Store q k) \<longleftrightarrow> (\<forall>r. G (EvStore q r) \<or> \<not> T (EvStore q r) \<and> guarded G T (k r))"

lemma guarded_run: "guarded G T p \<Longrightarrow> preceded G T (trace_of W p s)"
proof (induction p arbitrary: s)
  case (Clock k)
  then show ?case by (auto simp: trace_of_def split_beta Let_def)
next
  case (GetEnv n k)
  then show ?case by (auto simp: trace_of_def split_beta Let_def)
next
  case (Kube q k)
  then show ?case by (auto simp: trace_of_def split_beta Let_def)
next
  case (Store q k)
  then show ?case by (auto simp: trace_of_def split_beta Let_def)
qed (simp_all add: trace_of_def)

lemma only_guarded: "only (\<lambda>e. \<not> T e) p \<Longrightarrow> guarded G T p"
  by (induction p) auto

lemma guarded_pbind: "guarded G T m \<Longrightarrow> (\<And>x. guarded G T (f x)) \<Longrightarrow> guarded G T (pbind m f)"
  by (induction m) auto

lemma guarded_ebind: "guarded G T m \<Longrightarrow> (\<And>x. guarded G T (f x)) \<Longrightarrow> guarded G T (ebind m f)"
  by (auto simp: ebind_def intro!: guarded_pbind split: sum.split)

text \<open>A call followed by a continuation: the guard may be the call with its answer.\<close>

lemma guarded_kube_io_ebind:
  assumes "\<And>r. \<not> T (EvKube q r)"
    and "\<And>a x. dec a = Some x \<Longrightarrow> \<not> G (EvKube q (Inr a)) \<Longrightarrow> guarded G T (f x)"
  shows "guarded G T (ebind (kube_io q dec) f)"
  using assms
  by (auto simp: kube_io_def kube_call_def map_err_def pmap_def ebind_def split: sum.split option.split)

text \<open>\<open>once P p\<close>: no execution has more than one event that satisfies \<open>P\<close>.\<close>

primrec once :: "(event \<Rightarrow> bool) \<Rightarrow> 'a prog \<Rightarrow> bool" where
  "once P (Ret x) \<longleftrightarrow> True"
| "once P (Panic m) \<longleftrightarrow> True"
| "once P (Clock k) \<longleftrightarrow>
     (\<forall>t. if P (EvClock t) then only (\<lambda>e. \<not> P e) (k t) else once P (k t))"
| "once P (GetEnv n k) \<longleftrightarrow>
     (\<forall>v. if P (EvEnv n v) then only (\<lambda>e. \<not> P e) (k v) else once P (k v))"
| "once P (Kube q k) \<longleftrightarrow>
     (\<forall>r. if P (EvKube q r) then only (\<lambda>e. \<not> P e) (k r) else once P (k r))"
| "once P (Store q k) \<longleftrightarrow>
     (\<forall>r. if P (EvStore q r) then only (\<lambda>e. \<not> P e) (k r) else once P (k r))"

lemma only_filter: "only (\<lambda>e. \<not> P e) p \<Longrightarrow> filter P (trace_of W p s) = []"
  by (auto simp: filter_empty_conv dest: only_run [where P = "\<lambda>e. \<not> P e"])

lemma trace_cons:
  "trace_of W (Clock k) s =
     EvClock (fst (w_clock W s)) # trace_of W (k (fst (w_clock W s))) (snd (w_clock W s))"
  "trace_of W (GetEnv n f) s =
     EvEnv n (fst (w_env W n s)) # trace_of W (f (fst (w_env W n s))) (snd (w_env W n s))"
  "trace_of W (Kube q g) s =
     EvKube q (fst (w_kube W q s)) # trace_of W (g (fst (w_kube W q s))) (snd (w_kube W q s))"
  "trace_of W (Store x h) s =
     EvStore x (fst (w_store W x s)) # trace_of W (h (fst (w_store W x s))) (snd (w_store W x s))"
  by (simp_all add: trace_of_def split_beta Let_def)

lemma once_run: "once P p \<Longrightarrow> length (filter P (trace_of W p s)) \<le> 1"
proof (induction p arbitrary: s)
  case (Clock k)
  then show ?case by (simp add: trace_cons only_filter split: if_splits)
next
  case (GetEnv n k)
  then show ?case by (simp add: trace_cons only_filter split: if_splits)
next
  case (Kube q k)
  then show ?case by (simp add: trace_cons only_filter split: if_splits)
next
  case (Store q k)
  then show ?case by (simp add: trace_cons only_filter split: if_splits)
qed (simp_all add: trace_of_def)

lemma only_once: "only (\<lambda>e. \<not> P e) p \<Longrightarrow> once P p"
  by (induction p) auto

text \<open>The part that is counted may be either side of a sequence.\<close>

lemma once_pbind_left:
  assumes "\<And>x. only (\<lambda>e. \<not> P e) (f x)"
  shows "once P m \<Longrightarrow> once P (pbind m f)"
proof (induction m)
  case (Ret x)
  show ?case using assms by (simp add: only_once)
qed (auto intro: only_pbind assms split: if_splits)

lemma once_pbind_right:
  assumes "\<And>x. once P (f x)"
  shows "only (\<lambda>e. \<not> P e) m \<Longrightarrow> once P (pbind m f)"
proof (induction m)
  case (Ret x)
  show ?case using assms by simp
qed auto

lemma once_ebind_left:
  "(\<And>x. only (\<lambda>e. \<not> P e) (f x)) \<Longrightarrow> once P m \<Longrightarrow> once P (ebind m f)"
  unfolding ebind_def by (rule once_pbind_left) (auto split: sum.split)

lemma once_ebind_right:
  "(\<And>x. once P (f x)) \<Longrightarrow> only (\<lambda>e. \<not> P e) m \<Longrightarrow> once P (ebind m f)"
  unfolding ebind_def by (rule once_pbind_right) (auto split: sum.split)

end
