(* ===== verification/Conditions.thy ===== *)
theory Conditions
  imports Effects
begin

text \<open>
  Status conditions (\<open>src/src/status/conditions.rs\<close>). The constructors read the clock, so
  they take the instant as an argument; the \<open>_io\<close> variants read it. \<open>error_conditions\<close>
  reads it twice.
\<close>

definition CONDITION_TYPE_READY :: string where
  "CONDITION_TYPE_READY = ''Ready''"
definition CONDITION_TYPE_RESTORE_COMPLETE :: string where
  "CONDITION_TYPE_RESTORE_COMPLETE = ''RestoreComplete''"
definition CONDITION_TYPE_ERROR :: string where
  "CONDITION_TYPE_ERROR = ''Error''"
definition CONDITION_TYPE_RECONCILIATION_PAUSED :: string where
  "CONDITION_TYPE_RECONCILIATION_PAUSED = ''ReconciliationPaused''"

definition STATUS_TRUE :: string where "STATUS_TRUE = ''True''"
definition STATUS_FALSE :: string where "STATUS_FALSE = ''False''"

definition REASON_BACKUP_RUNNING :: string where
  "REASON_BACKUP_RUNNING = ''BackupRunning''"
definition REASON_BACKUP_COMPLETED :: string where
  "REASON_BACKUP_COMPLETED = ''BackupCompleted''"
definition REASON_BACKUP_FAILED :: string where
  "REASON_BACKUP_FAILED = ''BackupFailed''"
definition REASON_BACKUP_SCHEDULED :: string where
  "REASON_BACKUP_SCHEDULED = ''BackupScheduled''"
definition REASON_BACKUP_SUSPENDED :: string where
  "REASON_BACKUP_SUSPENDED = ''BackupSuspended''"
definition REASON_RESTORE_RUNNING :: string where
  "REASON_RESTORE_RUNNING = ''RestoreRunning''"
definition REASON_RESTORE_COMPLETED :: string where
  "REASON_RESTORE_COMPLETED = ''RestoreCompleted''"
definition REASON_RESTORE_FAILED :: string where
  "REASON_RESTORE_FAILED = ''RestoreFailed''"
definition REASON_RECONCILIATION_PAUSED :: string where
  "REASON_RECONCILIATION_PAUSED = ''ReconciliationPaused''"

lemmas condition_consts =
  CONDITION_TYPE_READY_def CONDITION_TYPE_RESTORE_COMPLETE_def CONDITION_TYPE_ERROR_def
  CONDITION_TYPE_RECONCILIATION_PAUSED_def STATUS_TRUE_def STATUS_FALSE_def
  REASON_BACKUP_RUNNING_def REASON_BACKUP_COMPLETED_def REASON_BACKUP_FAILED_def
  REASON_BACKUP_SCHEDULED_def REASON_BACKUP_SUSPENDED_def REASON_RESTORE_RUNNING_def
  REASON_RESTORE_COMPLETED_def REASON_RESTORE_FAILED_def REASON_RECONCILIATION_PAUSED_def

definition new_condition :: "timestamp \<Rightarrow> string \<Rightarrow> string \<Rightarrow> string \<Rightarrow> string \<Rightarrow> Condition" where
  "new_condition t condition_type status reason message =
     \<lparr>cd_type = condition_type, cd_status = status, cd_reason = Some reason,
      cd_message = Some message, cd_last_transition_time = Some t\<rparr>"

text \<open>Update the first condition of the same type, or append.\<close>

fun set_condition :: "Condition list \<Rightarrow> Condition \<Rightarrow> Condition list" where
  "set_condition [] c = [c]"
| "set_condition (e # cs) c =
     (if cd_type e = cd_type c
      then (if cd_status e \<noteq> cd_status c then c
            else e\<lparr>cd_reason := cd_reason c, cd_message := cd_message c\<rparr>) # cs
      else e # set_condition cs c)"

definition find_condition :: "Condition list \<Rightarrow> string \<Rightarrow> Condition option" where
  "find_condition conditions condition_type =
     List.find (\<lambda>c. cd_type c = condition_type) conditions"

definition is_condition_true :: "Condition list \<Rightarrow> string \<Rightarrow> bool" where
  "is_condition_true conditions condition_type =
     is_some_and (find_condition conditions condition_type) (\<lambda>c. cd_status c = STATUS_TRUE)"

definition ready :: "timestamp \<Rightarrow> string \<Rightarrow> string \<Rightarrow> Condition" where
  "ready t reason message = new_condition t CONDITION_TYPE_READY STATUS_TRUE reason message"

definition not_ready :: "timestamp \<Rightarrow> string \<Rightarrow> string \<Rightarrow> Condition" where
  "not_ready t reason message = new_condition t CONDITION_TYPE_READY STATUS_FALSE reason message"

definition reconciliation_paused :: "timestamp \<Rightarrow> Condition" where
  "reconciliation_paused t =
     new_condition t CONDITION_TYPE_RECONCILIATION_PAUSED STATUS_TRUE
       REASON_RECONCILIATION_PAUSED ''Reconciliation is paused by annotation''"

definition error_conditions :: "timestamp \<Rightarrow> timestamp \<Rightarrow> string \<Rightarrow> string \<Rightarrow> Condition list" where
  "error_conditions t1 t2 reason message =
     [not_ready t1 reason message,
      new_condition t2 CONDITION_TYPE_ERROR STATUS_TRUE reason message]"

section \<open>The clock-reading forms\<close>

definition ready_io :: "string \<Rightarrow> string \<Rightarrow> Condition prog" where
  "ready_io reason message = pmap (\<lambda>t. ready t reason message) now"

definition not_ready_io :: "string \<Rightarrow> string \<Rightarrow> Condition prog" where
  "not_ready_io reason message = pmap (\<lambda>t. not_ready t reason message) now"

definition reconciliation_paused_io :: "Condition prog" where
  "reconciliation_paused_io = pmap reconciliation_paused now"

definition error_conditions_io :: "string \<Rightarrow> string \<Rightarrow> Condition list prog" where
  "error_conditions_io reason message =
     pbind now (\<lambda>t1. pbind now (\<lambda>t2. Ret (error_conditions t1 t2 reason message)))"

lemmas condition_io_defs =
  ready_io_def not_ready_io_def reconciliation_paused_io_def error_conditions_io_def

section \<open>Lemmas\<close>

lemma find_condition_Nil [simp]: "find_condition [] ct = None"
  by (simp add: find_condition_def)

lemma find_condition_Cons [simp]:
  "find_condition (c # cs) ct = (if cd_type c = ct then Some c else find_condition cs ct)"
  by (simp add: find_condition_def)

lemma find_condition_type: "find_condition cs ct = Some c \<Longrightarrow> cd_type c = ct \<and> c \<in> set cs"
  by (auto simp: find_condition_def dest: find_SomeD)

lemma find_set_condition_other:
  "ct \<noteq> cd_type c \<Longrightarrow> find_condition (set_condition cs c) ct = find_condition cs ct"
  by (induction cs c rule: set_condition.induct) auto

lemma find_set_condition_same:
  "find_condition (set_condition cs c) (cd_type c) =
     Some (case find_condition cs (cd_type c) of
         None \<Rightarrow> c
       | Some e \<Rightarrow> if cd_status e \<noteq> cd_status c then c
           else e\<lparr>cd_reason := cd_reason c, cd_message := cd_message c\<rparr>)"
  by (induction cs c rule: set_condition.induct) auto

lemma set_condition_types:
  "map cd_type (set_condition cs c) =
     (if cd_type c \<in> cd_type ` set cs then map cd_type cs else map cd_type cs @ [cd_type c])"
  by (induction cs c rule: set_condition.induct) auto

lemma set_condition_distinct:
  "distinct (map cd_type cs) \<Longrightarrow> distinct (map cd_type (set_condition cs c))"
  by (auto simp: set_condition_types)

lemma new_condition_sel [simp]:
  "cd_type (new_condition t ct st r m) = ct"
  "cd_status (new_condition t ct st r m) = st"
  "cd_reason (new_condition t ct st r m) = Some r"
  "cd_message (new_condition t ct st r m) = Some m"
  "cd_last_transition_time (new_condition t ct st r m) = Some t"
  by (simp_all add: new_condition_def)

text \<open>
  The condition lists the reconcilers write, as the lookups their guards make see them.
\<close>

lemma find_error_conditions:
  "find_condition (error_conditions t1 t2 r m) CONDITION_TYPE_READY = Some (not_ready t1 r m)"
  "find_condition (error_conditions t1 t2 r m) CONDITION_TYPE_ERROR =
     Some (new_condition t2 CONDITION_TYPE_ERROR STATUS_TRUE r m)"
  by (simp_all add: error_conditions_def not_ready_def condition_consts)

lemma only_condition_io [only_intro]:
  assumes "\<And>t. P (EvClock t)"
  shows "only P (ready_io r m)" "only P (not_ready_io r m)" "only P reconciliation_paused_io"
    "only P (error_conditions_io r m)"
  using assms by (auto simp: condition_io_defs intro!: only_intro)

end
