(* ===== verification/Job_State.thy ===== *)
theory Job_State
  imports K8s
begin

text \<open>
  The aggregate state of the Jobs of one resource (\<open>src/src/jobs/job\_state.rs\<close>) and the two
  gates that decide whether another Job may be created.
\<close>

datatype JobsState = NoJobs | InProgress | Succeeded string | JFailed string

definition has_condition :: "Job \<Rightarrow> string \<Rightarrow> bool" where
  "has_condition job condition_type =
     is_some_and (and_then (jb_status job) jst_conditions)
       (\<lambda>conds. list_ex (\<lambda>c. jc_type c = condition_type \<and> jc_status c = ''True'') conds)"

definition job_succeeded :: "Job \<Rightarrow> bool" where
  "job_succeeded job =
     (case jb_status job of
        None \<Rightarrow> False
      | Some status \<Rightarrow> unwrap_or (jst_succeeded status) 0 > 0 \<or> has_condition job ''Complete'')"

definition job_failed :: "Job \<Rightarrow> bool" where
  "job_failed job = has_condition job ''Failed''"

definition job_name :: "Job \<Rightarrow> string" where
  "job_name job = unwrap_or (om_name (jb_metadata job)) []"

definition classify_jobs :: "Job list \<Rightarrow> JobsState" where
  "classify_jobs jobs =
     (case List.find job_succeeded jobs of
        Some job \<Rightarrow> Succeeded (job_name job)
      | None \<Rightarrow>
          if list_ex (\<lambda>j. \<not> job_failed j) jobs then InProgress
          else (case List.find job_failed jobs of
                  Some job \<Rightarrow> JFailed (job_name job)
                | None \<Rightarrow> NoJobs))"

fun should_create_restore_job :: "JobsState \<Rightarrow> bool" where
  "should_create_restore_job NoJobs = True"
| "should_create_restore_job _ = False"

fun should_create_backup_job :: "JobsState \<Rightarrow> bool \<Rightarrow> bool" where
  "should_create_backup_job InProgress triggered = False"
| "should_create_backup_job NoJobs triggered = True"
| "should_create_backup_job (Succeeded _) triggered = triggered"
| "should_create_backup_job (JFailed _) triggered = triggered"

text \<open>A Job that has reached no terminal state: it is running or about to.\<close>

definition job_active :: "Job \<Rightarrow> bool" where
  "job_active j \<longleftrightarrow> \<not> job_succeeded j \<and> \<not> job_failed j"

fun_cases classify_gate_cases: "should_create_backup_job s False"

section \<open>Classification, case by case\<close>

lemma classify_Succeeded:
  "classify_jobs jobs = Succeeded n \<longleftrightarrow>
     (\<exists>j. List.find job_succeeded jobs = Some j \<and> n = job_name j)"
  by (auto simp: classify_jobs_def split: option.splits)

lemma classify_InProgress:
  "classify_jobs jobs = InProgress \<longleftrightarrow>
     (\<forall>j \<in> set jobs. \<not> job_succeeded j) \<and> (\<exists>j \<in> set jobs. \<not> job_failed j)"
  by (auto simp: classify_jobs_def find_None_iff' list_ex_iff split: option.splits
      dest: find_SomeD)

lemma classify_NoJobs: "classify_jobs jobs = NoJobs \<longleftrightarrow> jobs = []"
  by (cases jobs)
    (auto simp: classify_jobs_def find_None_iff' list_ex_iff split: option.splits if_splits)

lemma classify_Failed:
  "(\<exists>n. classify_jobs jobs = JFailed n) \<longleftrightarrow>
     jobs \<noteq> [] \<and> (\<forall>j \<in> set jobs. \<not> job_succeeded j \<and> job_failed j)"
proof
  assume "\<exists>n. classify_jobs jobs = JFailed n"
  then show "jobs \<noteq> [] \<and> (\<forall>j \<in> set jobs. \<not> job_succeeded j \<and> job_failed j)"
    by (auto simp: classify_jobs_def find_None_iff' list_ex_iff split: option.splits if_splits)
next
  assume r: "jobs \<noteq> [] \<and> (\<forall>j \<in> set jobs. \<not> job_succeeded j \<and> job_failed j)"
  then have "List.find job_succeeded jobs = None" by (simp add: find_None_iff')
  moreover from r have "List.find job_failed jobs \<noteq> None" by (cases jobs) auto
  ultimately show "\<exists>n. classify_jobs jobs = JFailed n"
    using r by (auto simp: classify_jobs_def list_ex_iff)
qed

text \<open>The name reported belongs to a listed Job in that state.\<close>

lemma classify_name:
  "classify_jobs jobs = Succeeded n \<Longrightarrow> \<exists>j \<in> set jobs. job_succeeded j \<and> job_name j = n"
  "classify_jobs jobs = JFailed n \<Longrightarrow> \<exists>j \<in> set jobs. job_failed j \<and> job_name j = n"
  by (auto simp: classify_jobs_def split: option.splits if_splits dest!: find_SomeD)

lemma untriggered_gate: "should_create_backup_job s False = should_create_restore_job s"
  by (cases s) simp_all

section \<open>The gate as an interface\<close>

text \<open>
  What the reconcilers rely on when they ask a gate: it opens when there is no Job, and it stays
  shut while every listed Job is active.
\<close>

locale job_gate =
  fixes gate :: "Job list \<Rightarrow> bool"
  assumes gate_empty: "gate []"
    and gate_active: "jobs \<noteq> [] \<Longrightarrow> \<forall>j \<in> set jobs. job_active j \<Longrightarrow> \<not> gate jobs"
begin

lemma gate_fresh: "job_active j \<Longrightarrow> \<not> gate [j]"
  by (rule gate_active) simp_all

text \<open>
  Asked again right after it let a first Job through, with only that Job listed and not yet
  terminal, the gate refuses: two consecutive reconciliations do not create two Jobs.
\<close>

lemma gate_once: "gate [] \<and> (job_active j \<longrightarrow> \<not> gate [j])"
  using gate_empty gate_fresh by blast

end

text \<open>A one-shot gate also stays shut once there is any Job, whatever its state.\<close>

locale one_shot_gate = job_gate +
  assumes gate_any: "jobs \<noteq> [] \<Longrightarrow> \<not> gate jobs"
begin

lemma gate_iff: "gate jobs \<longleftrightarrow> jobs = []"
  using gate_empty gate_any by blast

end

lemma active_InProgress:
  "jobs \<noteq> [] \<Longrightarrow> \<forall>j \<in> set jobs. job_active j \<Longrightarrow> classify_jobs jobs = InProgress"
  by (auto simp: classify_InProgress job_active_def neq_Nil_conv)

interpretation restore_gate: one_shot_gate "\<lambda>jobs. should_create_restore_job (classify_jobs jobs)"
proof
  show "should_create_restore_job (classify_jobs [])"
    by (simp add: classify_NoJobs [THEN iffD2])
next
  fix jobs :: "Job list"
  assume "jobs \<noteq> []"
  then have "classify_jobs jobs \<noteq> NoJobs" by (simp add: classify_NoJobs)
  then show "\<not> should_create_restore_job (classify_jobs jobs)"
    by (cases "classify_jobs jobs") simp_all
  then show "\<not> should_create_restore_job (classify_jobs jobs)" .
qed

interpretation backup_gate: one_shot_gate
  "\<lambda>jobs. should_create_backup_job (classify_jobs jobs) False"
  using restore_gate.one_shot_gate_axioms by (simp add: untriggered_gate)

interpretation triggered_gate: job_gate
  "\<lambda>jobs. should_create_backup_job (classify_jobs jobs) True"
  by unfold_locales (simp_all add: classify_NoJobs [THEN iffD2] active_InProgress)

end
