(* ===== verification/Secrets.thy ===== *)
theory Secrets
  imports Effects
begin

text \<open>
  Reading Kubernetes secrets (\<open>src/src/adapters/secrets.rs\<close>) and the cluster CA
  (\<open>src/src/strimzi/tls.rs\<close>).
\<close>

section \<open>adapters/secrets.rs\<close>

fun secret_not_found :: "string \<Rightarrow> string \<Rightarrow> KubeError \<Rightarrow> Error" where
  "secret_not_found name ns (KApi code m) =
     (if code = 404 then ESecretNotFound name ns else EKube (KApi code m))"
| "secret_not_found name ns e = EKube e"

definition get_secret :: "string \<Rightarrow> string \<Rightarrow> Secret io" where
  "get_secret name ns =
     map_err (secret_not_found name ns) (kube_call (KGetSecret ns name) as_secret)"

definition extract_secret_data :: "Secret \<Rightarrow> string \<Rightarrow> Error + string" where
  "extract_secret_data secret key =
     (let name = unwrap_or (om_name (se_metadata secret)) ''unknown''
      in try_bind (ok_or (se_data secret) (ESecretKeyMissing name key)) (\<lambda>data.
         try_bind (ok_or (bt_get data key) (ESecretKeyMissing name key)) (\<lambda>bytes.
         ok_or (from_utf8 bytes) (ESecretKeyMissing name key))))"

definition extract_secret_bytes :: "Secret \<Rightarrow> string \<Rightarrow> Error + string" where
  "extract_secret_bytes secret key =
     (let name = unwrap_or (om_name (se_metadata secret)) ''unknown''
      in try_bind (ok_or (se_data secret) (ESecretKeyMissing name key)) (\<lambda>data.
         ok_or (bt_get data key) (ESecretKeyMissing name key)))"

section \<open>strimzi/tls.rs\<close>

definition DEFAULT_CA_KEY :: string where "DEFAULT_CA_KEY = ''ca.crt''"

record ResolvedTlsCerts =
  tc_cluster_ca_cert :: string
  tc_has_client_ca :: bool
  tc_client_ca_cert :: "string option"

definition cluster_ca_secret_name :: "string \<Rightarrow> string" where
  "cluster_ca_secret_name cluster_name = cluster_name @ ''-cluster-ca-cert''"

definition clients_ca_secret_name :: "string \<Rightarrow> string" where
  "clients_ca_secret_name cluster_name = cluster_name @ ''-clients-ca-cert''"

definition ca_secret_ref :: "string \<Rightarrow> SecretKeyRef option \<Rightarrow> string \<times> string" where
  "ca_secret_ref cluster_name ca_override =
     (case ca_override of
        Some r \<Rightarrow> (sk_name r, sk_key r)
      | None \<Rightarrow> (cluster_ca_secret_name cluster_name, DEFAULT_CA_KEY))"

definition extract_secret_string :: "Secret \<Rightarrow> string \<Rightarrow> string \<Rightarrow> Error + string" where
  "extract_secret_string secret key secret_name =
     try_bind (ok_or (se_data secret) (ESecretKeyMissing secret_name key)) (\<lambda>data.
     try_bind (ok_or (bt_get data key) (ESecretKeyMissing secret_name key)) (\<lambda>bytes.
     ok_or (from_utf8 bytes) (ESecretKeyMissing secret_name key)))"

definition resolve_cluster_ca ::
  "string \<Rightarrow> SecretKeyRef option \<Rightarrow> string \<Rightarrow> ResolvedTlsCerts io" where
  "resolve_cluster_ca cluster_name ca_override ns =
     (let (secret_name, ca_key) = ca_secret_ref cluster_name ca_override in
      ebind (map_err (secret_not_found secret_name ns)
               (kube_call (KGetSecret ns secret_name) as_secret)) (\<lambda>ca_secret.
      ebind (Ret (extract_secret_string ca_secret ca_key secret_name)) (\<lambda>cluster_ca_cert.
      pbind (if ca_override \<noteq> None then Ret None
             else (let client_ca_name = cluster_name @ ''-clients-ca-cert'' in
                   pmap (\<lambda>r. case r of
                           Inr client_secret \<Rightarrow>
                             result_ok (extract_secret_string client_secret DEFAULT_CA_KEY
                               client_ca_name)
                         | Inl _ \<Rightarrow> None)
                     (kube_call (KGetSecret ns client_ca_name) as_secret)))
        (\<lambda>client_ca_cert.
      ok \<lparr>tc_cluster_ca_cert = cluster_ca_cert,
          tc_has_client_ca = is_some client_ca_cert,
          tc_client_ca_cert = client_ca_cert\<rparr>))))"

section \<open>Lemmas\<close>

lemma extract_secret_data_Inr:
  "extract_secret_data s k = Inr v \<longleftrightarrow>
     (\<exists>d. se_data s = Some d \<and> bt_get d k = Some v \<and> utf8_valid v)"
  by (auto simp: extract_secret_data_def Let_def)

lemma extract_secret_string_Inr:
  "extract_secret_string s k n = Inr v \<longleftrightarrow>
     (\<exists>d. se_data s = Some d \<and> bt_get d k = Some v \<and> utf8_valid v)"
  by (auto simp: extract_secret_string_def)

text \<open>Every failure is the same error, naming the secret and the key.\<close>

lemma extract_secret_data_Inl:
  "extract_secret_data s k = Inl e \<Longrightarrow>
     e = ESecretKeyMissing (unwrap_or (om_name (se_metadata s)) ''unknown'') k"
  by (auto simp: extract_secret_data_def Let_def)

text \<open>The two string extractors accept the same secrets and read the same value.\<close>

lemma extractors_agree:
  "result_ok (extract_secret_data s k) = result_ok (extract_secret_string s k n)"
proof (cases "extract_secret_data s k")
  case (Inr v)
  then have "extract_secret_string s k n = Inr v"
    by (simp add: extract_secret_data_Inr extract_secret_string_Inr)
  with Inr show ?thesis by simp
next
  case (Inl e)
  then have "extract_secret_string s k n \<noteq> Inr v" for v
    by (metis Inr_Inl_False extract_secret_data_Inr extract_secret_string_Inr)
  then show ?thesis using Inl by (cases "extract_secret_string s k n") auto
qed

lemma only_get_secret [only_intro]:
  "(\<And>r. P (EvKube (KGetSecret ns name) r)) \<Longrightarrow> only P (get_secret name ns)"
  by (simp add: get_secret_def only_map_err only_kube_call)

lemma only_resolve_cluster_ca [only_intro]:
  assumes "\<And>n r. P (EvKube (KGetSecret ns n) r)"
  shows "only P (resolve_cluster_ca c ov ns)"
  unfolding resolve_cluster_ca_def Let_def split_beta
  by (auto intro!: only_intro assms)

end
