(* ===== verification/Strimzi.thy ===== *)
theory Strimzi
  imports Effects "HOL-Library.Product_Lexorder"
begin

text \<open>
  Reading Strimzi's resources (\<open>src/src/strimzi\<close>): the version fallback of
  \<open>resource.rs\<close>, the choice of the listener and bootstrap address in \<open>kafka\_cr.rs\<close>, and
  the credentials in \<open>kafka\_user.rs\<close>.
\<close>

section \<open>strimzi/resource.rs\<close>

definition STRIMZI_GROUP :: string where "STRIMZI_GROUP = ''kafka.strimzi.io''"
definition PREFERRED_API_VERSION :: string where "PREFERRED_API_VERSION = ''v1''"
definition LEGACY_API_VERSION :: string where "LEGACY_API_VERSION = ''v1beta2''"

definition get_at_version ::
  "string \<Rightarrow> string \<Rightarrow> string \<Rightarrow> string \<Rightarrow> (KubeError + DynamicObject) prog" where
  "get_at_version ns kind name version =
     kube_call (KGetDynamic STRIMZI_GROUP version kind ns name) as_dynamic"

fun is_not_found :: "KubeError \<Rightarrow> bool" where
  "is_not_found (KApi code m) = (code = 404)"
| "is_not_found _ = False"

definition get_namespaced_resource ::
  "string \<Rightarrow> string \<Rightarrow> string \<Rightarrow> (KubeError + DynamicObject) prog" where
  "get_namespaced_resource ns kind name =
     pbind (get_at_version ns kind name PREFERRED_API_VERSION) (\<lambda>r.
       case r of
         Inr resource \<Rightarrow> Ret (Inr resource)
       | Inl error \<Rightarrow>
           if is_not_found error then get_at_version ns kind name LEGACY_API_VERSION
           else Ret (Inl error))"

section \<open>strimzi/kafka\_cr.rs\<close>

record ResolvedKafkaCluster =
  kcl_name :: string
  kcl_namespace :: string
  kcl_bootstrap_servers :: string
  kcl_replicas :: i32
  kcl_tls_enabled :: bool
  kcl_listener_name :: string

record ResolvedConnection =
  rc_bootstrap_servers :: string
  rc_tls_enabled :: bool
  rc_listener_name :: string

record SelectedListener =
  sl_name :: string
  sl_port :: int
  sl_tls :: bool

definition listener_name :: "json \<Rightarrow> string option" where
  "listener_name l = and_then (json_get l ''name'') as_str"

definition listener_tls :: "json \<Rightarrow> bool" where
  "listener_tls l = unwrap_or (and_then (json_get l ''tls'') as_bool) False"

definition listener_auth :: "json \<Rightarrow> string option" where
  "listener_auth l = and_then (and_then (json_get l ''authentication'')
     (\<lambda>a. json_get a ''type'')) as_str"

definition auth_matches :: "json \<Rightarrow> AuthenticationType option \<Rightarrow> bool" where
  "auth_matches l desired =
     (case desired of
        None \<Rightarrow> listener_auth l = None
      | Some AuthTls \<Rightarrow> listener_auth l = Some ''tls''
      | Some AuthScramSha512 \<Rightarrow> listener_auth l = Some ''scram-sha-512'')"

definition is_in_cluster :: "json \<Rightarrow> bool" where
  "is_in_cluster l =
     (case and_then (json_get l ''type'') as_str of
        None \<Rightarrow> True
      | Some t \<Rightarrow> t = ''internal'' \<or> t = ''cluster-ip'')"

definition to_selected :: "json \<Rightarrow> SelectedListener" where
  "to_selected l =
     \<lparr>sl_name = unwrap_or (listener_name l) ''unnamed'',
      sl_port = unwrap_or (and_then (json_get l ''port'') as_i64) 9092,
      sl_tls = listener_tls l\<rparr>"

definition desired_auth_label :: "AuthenticationType option \<Rightarrow> string" where
  "desired_auth_label desired =
     (case desired of
        None \<Rightarrow> ''none''
      | Some AuthTls \<Rightarrow> ''tls''
      | Some AuthScramSha512 \<Rightarrow> ''scram-sha-512'')"

definition summarize_listener :: "json \<Rightarrow> string" where
  "summarize_listener l =
     unwrap_or (listener_name l) ''unnamed'' @ '' (port ''
       @ string_of_int (unwrap_or (and_then (json_get l ''port'') as_i64) 0)
       @ '', tls: '' @ string_of_bool (listener_tls l)
       @ '', auth: '' @ unwrap_or (listener_auth l) ''none'' @ '')''"

definition summarize_listeners :: "json list \<Rightarrow> string" where
  "summarize_listeners ls = join_with '', '' (map summarize_listener ls)"

text \<open>\<open>min\_by\_key\<close>: the first element with the least key.\<close>

fun min_by_key :: "('a \<Rightarrow> 'k::linorder) \<Rightarrow> 'a list \<Rightarrow> 'a option" where
  "min_by_key f [] = None"
| "min_by_key f (x # xs) =
     (case min_by_key f xs of
        None \<Rightarrow> Some x
      | Some y \<Rightarrow> if f x \<le> f y then Some x else Some y)"

definition listener_rank :: "nat \<times> json \<Rightarrow> bool \<times> bool \<times> nat" where
  "listener_rank il = (\<not> is_in_cluster (snd il), \<not> listener_tls (snd il), fst il)"

definition select_listener ::
  "json list \<Rightarrow> AuthenticationType option \<Rightarrow> string option \<Rightarrow> string \<Rightarrow> Error + SelectedListener"
where
  "select_listener ls desired_auth listener_override cluster_name =
     (case listener_override of
        Some override_name \<Rightarrow>
          (case List.find (\<lambda>l. listener_name l = Some override_name) ls of
             None \<Rightarrow> Inl (EInvalidConfig
               (''listener '' @ squote override_name
                 @ '' from spec.strimziClusterRef.listener not found on Kafka cluster ''
                 @ squote cluster_name @ ''; available listeners: '' @ summarize_listeners ls))
           | Some l \<Rightarrow> Inr (to_selected l))
      | None \<Rightarrow>
          (case min_by_key listener_rank
                  (filter (\<lambda>(_, l). auth_matches l desired_auth) (enumerate 0 ls)) of
             Some (_, l) \<Rightarrow> Inr (to_selected l)
           | None \<Rightarrow> Inl (ENoCompatibleListener cluster_name (desired_auth_label desired_auth)
               (summarize_listeners ls))))"

definition bootstrap_for_listener ::
  "DynamicObject \<Rightarrow> string \<Rightarrow> string \<Rightarrow> SelectedListener \<Rightarrow> string" where
  "bootstrap_for_listener kafka ns cluster_name selected =
     (let from_status =
        and_then (and_then (and_then (json_get (dy_data kafka) ''status'')
          (\<lambda>s. json_get s ''listeners'')) as_array)
          (\<lambda>ls. and_then (and_then
             (List.find (\<lambda>l. listener_name l = Some (sl_name selected)) ls)
             (\<lambda>l. json_get l ''bootstrapServers'')) as_str)
      in unwrap_or from_status
           (cluster_name @ ''-kafka-bootstrap.'' @ ns @ ''.svc:''
             @ string_of_int (sl_port selected)))"

definition spec_kafka :: "DynamicObject \<Rightarrow> json option" where
  "spec_kafka kafka =
     and_then (json_get (dy_data kafka) ''spec'') (\<lambda>s. json_get s ''kafka'')"

definition spec_listeners :: "DynamicObject \<Rightarrow> json list option" where
  "spec_listeners kafka =
     and_then (and_then (and_then (spec_kafka kafka) (\<lambda>k. json_get k ''listeners'')) as_array)
       (\<lambda>ls. if ls = [] then None else Some ls)"

definition resolve_connection ::
  "DynamicObject \<Rightarrow> string \<Rightarrow> AuthenticationType option \<Rightarrow> string option \<Rightarrow>
   Error + ResolvedConnection" where
  "resolve_connection kafka ns desired_auth listener_override =
     (let cluster_name = name_any (dy_metadata kafka) in
      try_bind (ok_or (spec_listeners kafka)
        (EInvalidConfig (''Kafka cluster '' @ squote cluster_name
          @ '' has no spec.kafka.listeners''))) (\<lambda>ls.
      try_bind (select_listener ls desired_auth listener_override cluster_name) (\<lambda>selected.
      Inr \<lparr>rc_bootstrap_servers = bootstrap_for_listener kafka ns cluster_name selected,
           rc_tls_enabled = sl_tls selected,
           rc_listener_name = sl_name selected\<rparr>)))"

definition extract_replicas :: "DynamicObject \<Rightarrow> i32" where
  "extract_replicas kafka =
     i64_as_i32 (unwrap_or
       (and_then (and_then (spec_kafka kafka) (\<lambda>k. json_get k ''replicas'')) as_i64) 3)"

fun cluster_not_found :: "string \<Rightarrow> string \<Rightarrow> KubeError \<Rightarrow> Error" where
  "cluster_not_found name ns (KApi code m) =
     (if code = 404 then EStrimziClusterNotFound name ns else EKube (KApi code m))"
| "cluster_not_found name ns e = EKube e"

definition resolve_kafka_cluster ::
  "StrimziClusterRef \<Rightarrow> string \<Rightarrow> AuthenticationType option \<Rightarrow> ResolvedKafkaCluster io" where
  "resolve_kafka_cluster cluster_ref default_namespace desired_auth =
     (let ns = unwrap_or (sc_namespace cluster_ref) default_namespace;
          name = sc_name cluster_ref
      in ebind (map_err (cluster_not_found name ns) (get_namespaced_resource ns ''Kafka'' name))
           (\<lambda>kafka.
         ebind (Ret (resolve_connection kafka ns desired_auth (sc_listener cluster_ref)))
           (\<lambda>connection.
         ok \<lparr>kcl_name = name, kcl_namespace = ns,
             kcl_bootstrap_servers = rc_bootstrap_servers connection,
             kcl_replicas = extract_replicas kafka,
             kcl_tls_enabled = rc_tls_enabled connection,
             kcl_listener_name = rc_listener_name connection\<rparr>)))"

section \<open>strimzi/kafka\_user.rs\<close>

datatype ResolvedAuth =
    RTls (ra_tls_secret: string)
  | RScramSha512 (ra_username: string) (ra_secret: string) (ra_password_key: string)
  | RNone

fun user_not_found :: "string \<Rightarrow> string \<Rightarrow> KubeError \<Rightarrow> Error" where
  "user_not_found name ns (KApi code m) =
     (if code = 404 then EKafkaUserNotFound name ns else EKube (KApi code m))"
| "user_not_found name ns e = EKube e"

definition kafka_user_secret_name :: "DynamicObject \<Rightarrow> string \<Rightarrow> string" where
  "kafka_user_secret_name user user_name =
     unwrap_or (and_then (and_then (json_get (dy_data user) ''status'')
       (\<lambda>s. json_get s ''secret'')) as_str) user_name"

definition resolve_kafka_user_secret :: "string \<Rightarrow> string \<Rightarrow> string io" where
  "resolve_kafka_user_secret user_name ns =
     ebind (map_err (user_not_found user_name ns)
              (get_namespaced_resource ns ''KafkaUser'' user_name))
       (\<lambda>user. ok (kafka_user_secret_name user user_name))"

definition resolve_tls_auth :: "AuthenticationSpec \<Rightarrow> string \<Rightarrow> ResolvedAuth io" where
  "resolve_tls_auth auth ns =
     (case au_kafka_user_ref auth of
        Some user_ref \<Rightarrow>
          ebind (resolve_kafka_user_secret (ku_name user_ref) ns)
            (\<lambda>secret_name. ok (RTls secret_name))
      | None \<Rightarrow>
          (case au_certificate_and_key auth of
             Some cert_ref \<Rightarrow> ok (RTls (ck_secret_name cert_ref))
           | None \<Rightarrow> throw (EInvalidConfig
               ''TLS authentication requires either kafkaUserRef or certificateAndKey'')))"

definition resolve_scram_auth :: "AuthenticationSpec \<Rightarrow> string \<Rightarrow> ResolvedAuth io" where
  "resolve_scram_auth auth ns =
     (case au_kafka_user_ref auth of
        Some user_ref \<Rightarrow>
          ebind (resolve_kafka_user_secret (ku_name user_ref) ns)
            (\<lambda>secret_name. ok (RScramSha512 (ku_name user_ref) secret_name ''password''))
      | None \<Rightarrow>
          ebind (Ret (ok_or (au_username auth)
            (EInvalidConfig ''SCRAM authentication requires username''))) (\<lambda>username.
          ebind (Ret (ok_or (au_password_secret auth)
            (EInvalidConfig
              ''SCRAM authentication requires either kafkaUserRef or passwordSecret'')))
            (\<lambda>password_secret.
          ok (RScramSha512 username (sk_name password_secret) (sk_key password_secret)))))"

definition resolve_auth :: "AuthenticationSpec option \<Rightarrow> string \<Rightarrow> ResolvedAuth io" where
  "resolve_auth auth_spec ns =
     (case auth_spec of
        None \<Rightarrow> ok RNone
      | Some auth \<Rightarrow>
          (case au_type auth of
             AuthTls \<Rightarrow> resolve_tls_auth auth ns
           | AuthScramSha512 \<Rightarrow> resolve_scram_auth auth ns))"

section \<open>Lemmas: the choice of the listener\<close>

lemma min_by_key_None: "min_by_key f xs = None \<longleftrightarrow> xs = []"
  by (cases xs) (auto split: option.splits)

lemma min_by_key_Some:
  "min_by_key f xs = Some x \<Longrightarrow> x \<in> set xs \<and> (\<forall>y \<in> set xs. f x \<le> f y)"
proof (induction xs arbitrary: x)
  case (Cons a xs)
  then show ?case
    by (auto simp: min_by_key_None split: option.splits if_splits)
qed simp

text \<open>
  The order of preference, written out: an in-cluster listener before an external one, then an
  encrypted one before a plaintext one, then the earlier one.
\<close>

definition preferred :: "nat \<times> json \<Rightarrow> nat \<times> json \<Rightarrow> bool" where
  "preferred a b \<longleftrightarrow>
     (if is_in_cluster (snd a) \<noteq> is_in_cluster (snd b) then is_in_cluster (snd a)
      else if listener_tls (snd a) \<noteq> listener_tls (snd b) then listener_tls (snd a)
      else fst a \<le> fst b)"

lemma rank_preferred: "listener_rank a \<le> listener_rank b \<longleftrightarrow> preferred a b"
  by (auto simp: listener_rank_def preferred_def less_eq_prod_def)

lemma in_enumerate: "(i, l) \<in> set (enumerate 0 ls) \<longleftrightarrow> i < length ls \<and> ls ! i = l"
  by (auto simp: in_set_enumerate_eq)

lemma select_listener_auto:
  "select_listener ls d None c = Inr s \<Longrightarrow>
     \<exists>i < length ls. s = to_selected (ls ! i) \<and> auth_matches (ls ! i) d \<and>
       (\<forall>j < length ls. auth_matches (ls ! j) d \<longrightarrow> preferred (i, ls ! i) (j, ls ! j))"
proof -
  assume sel: "select_listener ls d None c = Inr s"
  then obtain i l where m: "min_by_key listener_rank
      (filter (\<lambda>(_, l). auth_matches l d) (enumerate 0 ls)) = Some (i, l)"
    and s: "s = to_selected l"
    by (auto simp: select_listener_def split: option.splits prod.splits)
  have "i < length ls" "ls ! i = l" "auth_matches l d"
    using min_by_key_Some [OF m] by (auto simp: in_enumerate)
  moreover have "preferred (i, l) (j, ls ! j)" if "j < length ls" "auth_matches (ls ! j) d" for j
    using min_by_key_Some [OF m] that by (auto simp: in_enumerate rank_preferred)
  ultimately show ?thesis using s by blast
qed

lemma select_listener_auto_error:
  "select_listener ls d None c = Inl e \<Longrightarrow>
     (\<forall>l \<in> set ls. \<not> auth_matches l d) \<and>
     e = ENoCompatibleListener c (desired_auth_label d) (summarize_listeners ls)"
proof -
  assume sel: "select_listener ls d None c = Inl e"
  then have "filter (\<lambda>(_, l). auth_matches l d) (enumerate 0 ls) = []"
    by (auto simp: select_listener_def min_by_key_None split: option.splits prod.splits)
  then have "\<not> auth_matches (ls ! i) d" if "i < length ls" for i
    using that by (auto simp: filter_empty_conv in_enumerate)
  with sel show ?thesis
    by (auto simp: select_listener_def in_set_conv_nth split: option.splits prod.splits)
qed

section \<open>Lemmas: what the lookups request\<close>

lemma only_get_namespaced_resource [only_intro]:
  assumes "\<And>v r. v \<in> {PREFERRED_API_VERSION, LEGACY_API_VERSION} \<Longrightarrow>
    P (EvKube (KGetDynamic STRIMZI_GROUP v kind ns name) r)"
  shows "only P (get_namespaced_resource ns kind name)"
  unfolding get_namespaced_resource_def get_at_version_def
  by (auto intro!: only_intro assms split: sum.split)

lemma only_resolve_kafka_cluster [only_intro]:
  assumes "\<And>g v k n ns r. P (EvKube (KGetDynamic g v k ns n) r)"
  shows "only P (resolve_kafka_cluster ref ns d)"
  unfolding resolve_kafka_cluster_def Let_def
  by (auto intro!: only_intro assms)

lemma only_resolve_auth [only_intro]:
  assumes "\<And>g v k n ns r. P (EvKube (KGetDynamic g v k ns n) r)"
  shows "only P (resolve_auth spec ns)"
  unfolding resolve_auth_def resolve_tls_auth_def resolve_scram_auth_def
    resolve_kafka_user_secret_def
  by (auto intro!: only_intro assms split: option.split AuthenticationType.split)

end
