(* ===== verification/Config_Parts.thy ===== *)
theory Config_Parts
  imports Strimzi
begin

text \<open>
  The sections of the \<open>kafka-backup\<close> configuration that backup and restore share:
  \<open>src/src/adapters/storage\_config.rs\<close>, \<open>logging\_config.rs\<close> and the common functions of
  \<open>backup\_config.rs\<close> (\<open>restore\_config.rs\<close> repeats \<open>build\_kafka\_config\<close>,
  \<open>build\_connection\_config\<close>, \<open>build\_metrics\_options\<close>, \<open>insert\_bool\<close> and
  \<open>insert\_u64\<close> word for word). Every builder inserts keys into a mapping in the order of the
  code.
\<close>

text \<open>
  \<open>if let Value::Mapping(ref m) = section { if !m.is\_empty() { config.insert(...) } }\<close>
\<close>

definition put_section :: "string \<Rightarrow> ymap \<Rightarrow> ymap \<Rightarrow> ymap" where
  "put_section k section_map m = put_if (section_map \<noteq> []) k (YMap section_map) m"

definition put_section_opt :: "string \<Rightarrow> ('a \<Rightarrow> ymap) \<Rightarrow> 'a option \<Rightarrow> ymap \<Rightarrow> ymap" where
  "put_section_opt k f ox m = (case ox of None \<Rightarrow> m | Some x \<Rightarrow> put_section k (f x) m)"

section \<open>adapters/storage\_config.rs\<close>

definition build_s3_config :: "StorageSpec \<Rightarrow> Error + ymap" where
  "build_s3_config storage =
     try_bind (ok_or (st_s3 storage)
       (EInvalidConfig ''Storage type is S3 but s3 config is missing'')) (\<lambda>s3.
     let config = [];
         config = put ''backend'' (YStr ''s3'') config;
         config = put ''bucket'' (YStr (s3_bucket s3)) config;
         config = put_opt ''region'' YStr (s3_region s3) config;
         config = put_opt ''prefix'' YStr (s3_prefix s3) config;
         config = put_opt ''endpoint'' YStr (s3_endpoint s3) config;
         config = put_opt ''path_style'' YBool (s3_force_path_style s3) config;
         config = put_opt ''allow_http'' YBool (s3_allow_http s3) config;
         config = put_if (is_some (s3_access_key_secret s3)) ''access_key''
           (YStr ''${AWS_ACCESS_KEY_ID}'') config;
         config = put_if (is_some (s3_secret_key_secret s3)) ''secret_key''
           (YStr ''${AWS_SECRET_ACCESS_KEY}'') config
     in Inr config)"

definition build_azure_config :: "StorageSpec \<Rightarrow> Error + ymap" where
  "build_azure_config storage =
     try_bind (ok_or (st_azure storage)
       (EInvalidConfig ''Storage type is Azure but azure config is missing'')) (\<lambda>azure.
     let config = [];
         config = put ''backend'' (YStr ''azure'') config;
         config = put ''container_name'' (YStr (az_container azure)) config;
         config = put ''account_name'' (YStr (az_storage_account azure)) config;
         config = put_opt ''prefix'' YStr (az_prefix azure) config;
         config = put_if (is_some (az_credentials_secret azure)
             \<or> is_some (az_account_key_secret azure)) ''account_key''
           (YStr ''${AZURE_STORAGE_KEY}'') config;
         config = put_if (is_some (az_sas_token_secret azure)) ''sas_token''
           (YStr ''${AZURE_STORAGE_SAS_TOKEN}'') config;
         config = put_if (is_some (az_client_secret_secret azure)) ''client_secret''
           (YStr ''${AZURE_CLIENT_SECRET}'') config;
         config = put_opt ''endpoint'' YStr (az_endpoint azure) config;
         config = put_opt ''use_workload_identity'' YBool (az_use_workload_identity azure) config;
         config = put_opt ''client_id'' YStr (az_client_id azure) config;
         config = put_opt ''tenant_id'' YStr (az_tenant_id azure) config
     in Inr config)"

definition build_gcs_config :: "StorageSpec \<Rightarrow> Error + ymap" where
  "build_gcs_config storage =
     try_bind (ok_or (st_gcs storage)
       (EInvalidConfig ''Storage type is GCS but gcs config is missing'')) (\<lambda>gcs.
     let config = [];
         config = put ''backend'' (YStr ''gcs'') config;
         config = put ''bucket'' (YStr (gc_bucket gcs)) config;
         config = put_opt ''prefix'' YStr (gc_prefix gcs) config;
         config = (if is_some (gc_credentials_secret gcs)
                   then put ''service_account_path'' (YStr ''/credentials/credentials'') config
                   else put_opt ''service_account_path'' YStr (gc_service_account_path gcs) config)
     in Inr config)"

definition build_filesystem_config :: "StorageSpec \<Rightarrow> Error + ymap" where
  "build_filesystem_config storage =
     try_bind (ok_or (st_filesystem storage)
       (EInvalidConfig ''Storage type is Filesystem but filesystem config is missing''))
       (\<lambda>filesystem.
     let config = [];
         config = put ''backend'' (YStr ''filesystem'') config;
         config = put ''path'' (YStr (fs_path filesystem)) config
     in Inr config)"

definition build_storage_config :: "StorageSpec \<Rightarrow> Error + ymap" where
  "build_storage_config storage =
     (case st_type storage of
        S3 \<Rightarrow> build_s3_config storage
      | Azure \<Rightarrow> build_azure_config storage
      | Gcs \<Rightarrow> build_gcs_config storage
      | Filesystem \<Rightarrow> build_filesystem_config storage)"

definition get_storage_credentials_secret :: "StorageSpec \<Rightarrow> (string \<times> string) option" where
  "get_storage_credentials_secret storage =
     map_option (\<lambda>s. (sk_name s, sk_key s))
       (case st_type storage of
          S3 \<Rightarrow> and_then (st_s3 storage) s3_credentials_secret
        | Azure \<Rightarrow> and_then (st_azure storage) az_credentials_secret
        | Gcs \<Rightarrow> and_then (st_gcs storage) gc_credentials_secret
        | Filesystem \<Rightarrow> None)"

text \<open>Whether the section the storage type names is present.\<close>

definition storage_section_present :: "StorageSpec \<Rightarrow> bool" where
  "storage_section_present storage =
     (case st_type storage of
        S3 \<Rightarrow> is_some (st_s3 storage)
      | Azure \<Rightarrow> is_some (st_azure storage)
      | Gcs \<Rightarrow> is_some (st_gcs storage)
      | Filesystem \<Rightarrow> is_some (st_filesystem storage))"

lemmas storage_config_defs =
  build_storage_config_def build_s3_config_def build_azure_config_def build_gcs_config_def
  build_filesystem_config_def

lemma build_storage_config_ok:
  "is_ok (build_storage_config storage) \<longleftrightarrow> storage_section_present storage"
  by (auto simp: storage_config_defs storage_section_present_def is_ok_iff is_some_iff Let_def
      split: StorageType.split)

section \<open>adapters/logging\_config.rs\<close>

definition build_rotation_config :: "LoggingRotationSpec \<Rightarrow> ymap" where
  "build_rotation_config rotation =
     (let rotation_config = [];
          rotation_config = put_opt ''max_size_mb'' YNum (lr_max_size_mb rotation) rotation_config;
          rotation_config = put_opt ''max_files'' YNum (lr_max_files rotation) rotation_config
      in rotation_config)"

definition build_logging_config :: "LoggingSpec \<Rightarrow> ymap" where
  "build_logging_config logging =
     (let config = [];
          config = put_opt ''level'' YStr (lg_level logging) config;
          config = put_opt ''format'' YStr (lg_format logging) config;
          config = put_opt ''output'' YStr (lg_output logging) config;
          config = put_if (lg_modules logging \<noteq> []) ''modules''
            (YMap (fold (\<lambda>(k, v) m. y_insert (YStr k) (YStr v) m) (lg_modules logging) [])) config;
          config = put_section_opt ''rotation'' build_rotation_config (lg_rotation logging) config
      in config)"

section \<open>Shared functions of backup\_config.rs and restore\_config.rs\<close>

definition SASL_MECHANISM_SCRAM_SHA512 :: string where
  "SASL_MECHANISM_SCRAM_SHA512 = ''SCRAM-SHA512''"

definition security_protocol :: "bool \<Rightarrow> ResolvedAuth \<Rightarrow> string" where
  "security_protocol tls_enabled auth =
     (case auth of
        RTls _ \<Rightarrow> ''SSL''
      | RScramSha512 _ _ _ \<Rightarrow> if tls_enabled then ''SASL_SSL'' else ''SASL_PLAINTEXT''
      | RNone \<Rightarrow> if tls_enabled then ''SSL'' else ''PLAINTEXT'')"

fun is_tls_auth :: "ResolvedAuth \<Rightarrow> bool" where
  "is_tls_auth (RTls _) = True"
| "is_tls_auth _ = False"

definition build_topic_selection :: "TopicSelection \<Rightarrow> ymap" where
  "build_topic_selection topics =
     (let topic_config = [];
          topic_config = put_if (ts_include topics \<noteq> []) ''include'' (strs (ts_include topics))
            topic_config;
          topic_config = put_if (ts_exclude topics \<noteq> []) ''exclude'' (strs (ts_exclude topics))
            topic_config
      in topic_config)"

definition build_connection_config :: "KafkaConnectionSpec \<Rightarrow> ymap" where
  "build_connection_config connection =
     (let config = [];
          config = insert_bool ''tcp_keepalive'' (kc_tcp_keepalive connection) config;
          config = insert_u64 ''keepalive_time_secs'' (kc_keepalive_time_secs connection) config;
          config = insert_u64 ''keepalive_interval_secs'' (kc_keepalive_interval_secs connection)
            config;
          config = insert_bool ''tcp_nodelay'' (kc_tcp_nodelay connection) config;
          config = put_opt ''connections_per_broker'' YNum (kc_connections_per_broker connection)
            config
      in config)"

definition build_metrics_options :: "MetricsSpec \<Rightarrow> ymap" where
  "build_metrics_options metrics =
     (let config = [];
          config = insert_bool ''enabled'' (ms_enabled metrics) config;
          config = put_opt ''port'' YNum (ms_port metrics) config;
          config = put_opt ''bind_address'' YStr (ms_bind_address metrics) config;
          config = put_opt ''path'' YStr (ms_path metrics) config;
          config = insert_u64 ''keep_alive_seconds'' (ms_keep_alive_seconds metrics) config;
          config = insert_u64 ''update_interval_ms'' (ms_update_interval_ms metrics) config;
          config = put_opt ''max_partition_labels'' YNum (ms_max_partition_labels metrics) config
      in config)"

definition build_security_config :: "ResolvedKafkaCluster \<Rightarrow> ResolvedAuth \<Rightarrow> ymap" where
  "build_security_config cluster auth =
     (let security = [];
          security = put ''security_protocol''
            (YStr (security_protocol (kcl_tls_enabled cluster) auth)) security;
          security = put_if (kcl_tls_enabled cluster \<or> is_tls_auth auth) ''ssl_ca_location''
            (YStr ''/certs/cluster-ca/ca.crt'') security
      in case auth of
           RTls _ \<Rightarrow>
             put ''ssl_key_location'' (YStr ''/certs/user/user.key'')
               (put ''ssl_certificate_location'' (YStr ''/certs/user/user.crt'') security)
         | RScramSha512 username _ _ \<Rightarrow>
             put ''sasl_password'' (YStr ''${KAFKA_SASL_PASSWORD}'')
               (put ''sasl_username'' (YStr username)
                 (put ''sasl_mechanism'' (YStr SASL_MECHANISM_SCRAM_SHA512) security))
         | RNone \<Rightarrow> security)"

definition build_kafka_config ::
  "ResolvedKafkaCluster \<Rightarrow> ResolvedAuth \<Rightarrow> TopicSelection option \<Rightarrow>
   KafkaConnectionSpec option \<Rightarrow> ymap" where
  "build_kafka_config cluster auth topics connection =
     (let kafka = [];
          kafka = put ''bootstrap_servers'' (YSeq [YStr (kcl_bootstrap_servers cluster)]) kafka;
          kafka = put ''security'' (YMap (build_security_config cluster auth)) kafka;
          kafka = put_section_opt ''topics'' build_topic_selection topics kafka;
          kafka = put_section_opt ''connection'' build_connection_config connection kafka
      in kafka)"

section \<open>Lookups\<close>

lemma gets_put_section [kv_simps]:
  "gets (put_section k sm m) k' =
     (if sm \<noteq> [] \<and> k' = k then Some (YMap sm) else gets m k')"
  by (simp add: put_section_def gets_put_if)

lemma gets_put_section_opt [kv_simps]:
  "gets (put_section_opt k f ox m) k' =
     (case ox of
        None \<Rightarrow> gets m k'
      | Some x \<Rightarrow> if f x \<noteq> [] \<and> k' = k then Some (YMap (f x)) else gets m k')"
  by (simp add: put_section_opt_def gets_put_section split: option.split)

lemma gets_kafka_security:
  "gets (build_kafka_config cluster auth topics connection) ''security'' =
     Some (YMap (build_security_config cluster auth))"
  by (simp add: build_kafka_config_def Let_def kv_simps split: option.split)

lemma gets_kafka_bootstrap:
  "gets (build_kafka_config cluster auth topics connection) ''bootstrap_servers'' =
     Some (YSeq [YStr (kcl_bootstrap_servers cluster)])"
  by (simp add: build_kafka_config_def Let_def kv_simps split: option.split)

lemma gets_security_protocol:
  "gets (build_security_config cluster auth) ''security_protocol'' =
     Some (YStr (security_protocol (kcl_tls_enabled cluster) auth))"
  by (simp add: build_security_config_def Let_def kv_simps split: ResolvedAuth.split)

lemma gets_ssl_ca:
  "gets (build_security_config cluster auth) ''ssl_ca_location'' =
     (if kcl_tls_enabled cluster \<or> is_tls_auth auth
      then Some (YStr ''/certs/cluster-ca/ca.crt'') else None)"
  by (simp add: build_security_config_def Let_def kv_simps split: ResolvedAuth.split)

lemma gets_sasl:
  "gets (build_security_config cluster auth) ''sasl_password'' =
     (case auth of RScramSha512 _ _ _ \<Rightarrow> Some (YStr ''${KAFKA_SASL_PASSWORD}'') | _ \<Rightarrow> None)"
  "gets (build_security_config cluster auth) ''sasl_mechanism'' =
     (case auth of RScramSha512 _ _ _ \<Rightarrow> Some (YStr ''SCRAM-SHA512'') | _ \<Rightarrow> None)"
  "gets (build_security_config cluster auth) ''sasl_username'' =
     (case auth of RScramSha512 u _ _ \<Rightarrow> Some (YStr u) | _ \<Rightarrow> None)"
  by (simp_all add: build_security_config_def Let_def kv_simps SASL_MECHANISM_SCRAM_SHA512_def
      split: ResolvedAuth.split)

lemma gets_ssl_client:
  "gets (build_security_config cluster auth) ''ssl_certificate_location'' =
     (case auth of RTls _ \<Rightarrow> Some (YStr ''/certs/user/user.crt'') | _ \<Rightarrow> None)"
  "gets (build_security_config cluster auth) ''ssl_key_location'' =
     (case auth of RTls _ \<Rightarrow> Some (YStr ''/certs/user/user.key'') | _ \<Rightarrow> None)"
  by (simp_all add: build_security_config_def Let_def kv_simps split: ResolvedAuth.split)

lemmas security_lookups =
  gets_security_protocol gets_ssl_ca gets_sasl gets_ssl_client

end
