(* ===== verification/Templates.thy ===== *)
theory Templates
  imports Config_Parts Secrets
begin

text \<open>
  The parts of a pod the Job builders share (\<open>src/src/jobs/templates.rs\<close>): labels, ports,
  volumes with their mounts and environment, and the overrides of a pod template. Values the
  source deserialises into Kubernetes types go through the \<open>Ext\<close> parameters; a value that
  does not deserialise is dropped, as in the source.
\<close>

section \<open>Empty objects (\<open>..Default::default()\<close>)\<close>

definition default_container :: Container where
  "default_container = \<lparr>ct_name = [], ct_image = None, ct_command = None, ct_args = None,
     ct_env = None, ct_ports = None, ct_volume_mounts = None, ct_resources = None,
     ct_security_context = None\<rparr>"

definition default_pod_spec :: PodSpec where
  "default_pod_spec = \<lparr>ps_containers = [], ps_volumes = None, ps_restart_policy = None,
     ps_service_account_name = None, ps_affinity = None, ps_tolerations = None,
     ps_security_context = None, ps_image_pull_secrets = None, ps_host_aliases = None\<rparr>"

section \<open>Labels and ports\<close>

definition build_labels :: "string \<Rightarrow> string \<Rightarrow> string \<Rightarrow> string btree" where
  "build_labels cr_name cluster_name job_type =
     (let labels = [];
          labels = bt_insert ''app.kubernetes.io/name'' ''kafka-backup-operator'' labels;
          labels = bt_insert ''app.kubernetes.io/instance'' cr_name labels;
          labels = bt_insert ''app.kubernetes.io/part-of'' ''kafka-backup'' labels;
          labels = bt_insert ''app.kubernetes.io/managed-by'' ''kafka-backup-operator'' labels;
          labels = bt_insert ''strimzi.io/cluster'' cluster_name labels;
          labels = bt_insert ''kafkabackup.com/type'' job_type labels;
          labels = bt_insert (''kafkabackup.com/'' @ job_type) cr_name labels
      in labels)"

definition job_metrics_enabled :: "MetricsSpec option \<Rightarrow> bool" where
  "job_metrics_enabled metrics = unwrap_or (and_then metrics ms_enabled) True"

definition job_metrics_ports :: "MetricsSpec option \<Rightarrow> ContainerPort list option" where
  "job_metrics_ports metrics =
     (if job_metrics_enabled metrics
      then Some [\<lparr>cp_name = Some ''metrics'',
                  cp_container_port = unwrap_or (and_then metrics ms_port) 8080,
                  cp_protocol = Some ''TCP''\<rparr>]
      else None)"

definition add_metrics_discovery_label ::
  "string btree \<Rightarrow> MetricsSpec option \<Rightarrow> string btree" where
  "add_metrics_discovery_label labels metrics =
     (if job_metrics_enabled metrics
      then bt_insert ''kafkabackup.com/metrics'' ''enabled'' labels
      else labels)"

section \<open>Environment variables\<close>

definition job_name_env_var :: "string \<Rightarrow> EnvVar" where
  "job_name_env_var name =
     \<lparr>ev_name = name, ev_value = None,
      ev_value_from = Some \<lparr>
        evs_field_path = Some (''metadata.labels['' @ squote ''batch.kubernetes.io/job-name'' @ '']''),
        evs_secret_key_ref = None, evs_other = None\<rparr>\<rparr>"

definition secret_env_var :: "string \<Rightarrow> string \<Rightarrow> string \<Rightarrow> EnvVar" where
  "secret_env_var name secret_name secret_key =
     \<lparr>ev_name = name, ev_value = None,
      ev_value_from = Some \<lparr>evs_field_path = None,
        evs_secret_key_ref = Some \<lparr>sk_name = secret_name, sk_key = secret_key\<rparr>,
        evs_other = None\<rparr>\<rparr>"

definition static_env_var :: "string \<Rightarrow> string \<Rightarrow> EnvVar" where
  "static_env_var name v = \<lparr>ev_name = name, ev_value = Some v, ev_value_from = None\<rparr>"

definition append_env_overrides :: "Ext \<Rightarrow> Container \<Rightarrow> json list \<Rightarrow> Container" where
  "append_env_overrides ext container env_values =
     (if env_values = [] then container
      else
        let env_vars = List.map_filter (x_env_var ext) env_values
        in if env_vars = [] then container
           else container\<lparr>ct_env := Some (unwrap_or (ct_env container) [] @ env_vars)\<rparr>)"

section \<open>Volumes and mounts\<close>

type_synonym mounted = "Volume list \<times> VolumeMount list \<times> EnvVar list"

definition secret_volume :: "string \<Rightarrow> string \<Rightarrow> KeyToPath list option \<Rightarrow> Volume" where
  "secret_volume name secret_name items =
     \<lparr>vo_name = name, vo_config_map = None,
      vo_secret = Some \<lparr>sv_secret_name = Some secret_name, sv_items = items\<rparr>\<rparr>"

definition read_only_mount :: "string \<Rightarrow> string \<Rightarrow> VolumeMount" where
  "read_only_mount name path =
     \<lparr>vm_name = name, vm_mount_path = path, vm_read_only = Some True\<rparr>"

fun push_volume :: "Volume \<Rightarrow> string \<Rightarrow> mounted \<Rightarrow> mounted" where
  "push_volume v path (volumes, mounts, env) =
     (volumes @ [v], mounts @ [read_only_mount (vo_name v) path], env)"

fun push_env :: "EnvVar \<Rightarrow> mounted \<Rightarrow> mounted" where
  "push_env e (volumes, mounts, env) = (volumes, mounts, env @ [e])"

definition add_credentials_file_volume :: "SecretKeyRef \<Rightarrow> mounted \<Rightarrow> mounted" where
  "add_credentials_file_volume secret acc =
     push_volume (secret_volume ''storage-credentials'' (sk_name secret)
       (Some [\<lparr>kp_key = sk_key secret, kp_path = ''credentials''\<rparr>])) ''/credentials'' acc"

text \<open>\<open>if let Some(secret) = ... { env.push(secret_env_var(...)) }\<close>\<close>

definition push_secret_env :: "string \<Rightarrow> SecretKeyRef option \<Rightarrow> mounted \<Rightarrow> mounted" where
  "push_secret_env name osecret acc =
     (case osecret of
        None \<Rightarrow> acc
      | Some secret \<Rightarrow> push_env (secret_env_var name (sk_name secret) (sk_key secret)) acc)"

definition push_credentials_file :: "string \<Rightarrow> SecretKeyRef option \<Rightarrow> mounted \<Rightarrow> mounted" where
  "push_credentials_file name osecret acc =
     (case osecret of
        None \<Rightarrow> acc
      | Some secret \<Rightarrow> push_env (static_env_var name ''/credentials/credentials'')
          (add_credentials_file_volume secret acc))"

definition add_storage_credentials :: "StorageSpec \<Rightarrow> mounted \<Rightarrow> mounted" where
  "add_storage_credentials storage acc =
     (case st_type storage of
        S3 \<Rightarrow>
          (case st_s3 storage of
             None \<Rightarrow> acc
           | Some s3 \<Rightarrow>
               push_credentials_file ''AWS_SHARED_CREDENTIALS_FILE'' (s3_credentials_secret s3)
                 (push_secret_env ''AWS_SECRET_ACCESS_KEY'' (s3_secret_key_secret s3)
                   (push_secret_env ''AWS_ACCESS_KEY_ID'' (s3_access_key_secret s3) acc)))
      | Azure \<Rightarrow>
          (case st_azure storage of
             None \<Rightarrow> acc
           | Some azure \<Rightarrow>
               push_secret_env ''AZURE_CLIENT_SECRET'' (az_client_secret_secret azure)
                 (push_secret_env ''AZURE_STORAGE_SAS_TOKEN'' (az_sas_token_secret azure)
                   (push_secret_env ''AZURE_STORAGE_KEY''
                     (opt_or (az_account_key_secret azure) (az_credentials_secret azure)) acc)))
      | Gcs \<Rightarrow>
          (case st_gcs storage of
             None \<Rightarrow> acc
           | Some gcs \<Rightarrow>
               push_credentials_file ''GOOGLE_APPLICATION_CREDENTIALS''
                 (gc_credentials_secret gcs) acc)
      | Filesystem \<Rightarrow> acc)"

definition config_volume :: "string \<Rightarrow> Volume" where
  "config_volume config_map_name =
     \<lparr>vo_name = ''config'', vo_config_map = Some config_map_name, vo_secret = None\<rparr>"

definition add_user_credentials :: "ResolvedAuth \<Rightarrow> mounted \<Rightarrow> mounted" where
  "add_user_credentials auth acc =
     (case auth of
        RTls secret_name \<Rightarrow>
          push_volume (secret_volume ''user-certs'' secret_name None) ''/certs/user'' acc
      | RScramSha512 _ secret_name password_key \<Rightarrow>
          push_volume (secret_volume ''user-certs'' secret_name
              (Some [\<lparr>kp_key = password_key, kp_path = ''password''\<rparr>])) ''/certs/user''
            (push_env (secret_env_var ''KAFKA_SASL_PASSWORD'' secret_name password_key) acc)
      | RNone \<Rightarrow> acc)"

definition build_volumes_and_mounts ::
  "string \<Rightarrow> string \<Rightarrow> bool \<Rightarrow> ResolvedAuth \<Rightarrow> StorageSpec \<Rightarrow>
   SecretKeyRef option \<Rightarrow> mounted" where
  "build_volumes_and_mounts config_map_name cluster_name tls_enabled auth storage ca_override =
     (let acc = push_volume (config_volume config_map_name) ''/config'' ([], [], []);
          acc = (if tls_enabled \<or> is_tls_auth auth
                 then let (ca_secret, ca_key) = ca_secret_ref cluster_name ca_override
                      in push_volume (secret_volume ''cluster-ca'' ca_secret
                           (Some [\<lparr>kp_key = ca_key, kp_path = ''ca.crt''\<rparr>]))
                           ''/certs/cluster-ca'' acc
                 else acc);
          acc = add_user_credentials auth acc
      in add_storage_credentials storage acc)"

section \<open>Pod template overrides\<close>

definition pod_affinity :: "Ext \<Rightarrow> PodOverrides \<Rightarrow> PodSpec \<Rightarrow> PodSpec" where
  "pod_affinity ext ov pod_spec =
     (case and_then (po_affinity ov) (x_affinity ext) of
        None \<Rightarrow> pod_spec
      | Some a \<Rightarrow> pod_spec\<lparr>ps_affinity := Some a\<rparr>)"

definition pod_tolerations :: "Ext \<Rightarrow> PodOverrides \<Rightarrow> PodSpec \<Rightarrow> PodSpec" where
  "pod_tolerations ext ov pod_spec =
     (if po_tolerations ov \<noteq> []
      then let ts = List.map_filter (x_toleration ext) (po_tolerations ov)
           in if ts \<noteq> [] then pod_spec\<lparr>ps_tolerations := Some ts\<rparr> else pod_spec
      else pod_spec)"

definition pod_security :: "Ext \<Rightarrow> PodOverrides \<Rightarrow> PodSpec \<Rightarrow> PodSpec" where
  "pod_security ext ov pod_spec =
     (case and_then (po_security_context ov) (x_pod_security ext) of
        None \<Rightarrow> pod_spec
      | Some s \<Rightarrow> pod_spec\<lparr>ps_security_context := Some s\<rparr>)"

definition pod_pull_secrets :: "Ext \<Rightarrow> PodOverrides \<Rightarrow> PodSpec \<Rightarrow> PodSpec" where
  "pod_pull_secrets ext ov pod_spec =
     (if po_image_pull_secrets ov \<noteq> []
      then let ss = List.map_filter (x_pull_secret ext) (po_image_pull_secrets ov)
           in if ss \<noteq> [] then pod_spec\<lparr>ps_image_pull_secrets := Some ss\<rparr> else pod_spec
      else pod_spec)"

definition pod_host_aliases :: "PodOverrides \<Rightarrow> PodSpec \<Rightarrow> PodSpec" where
  "pod_host_aliases ov pod_spec =
     (if po_host_aliases ov \<noteq> []
      then pod_spec\<lparr>ps_host_aliases := Some (po_host_aliases ov)\<rparr> else pod_spec)"

definition pod_service_account :: "PodOverrides \<Rightarrow> PodSpec \<Rightarrow> PodSpec" where
  "pod_service_account ov pod_spec =
     (case po_service_account_name ov of
        None \<Rightarrow> pod_spec
      | Some sa \<Rightarrow>
          if trim sa \<noteq> [] then pod_spec\<lparr>ps_service_account_name := Some (trim sa)\<rparr>
          else pod_spec)"

definition apply_pod_overrides :: "Ext \<Rightarrow> PodOverrides \<Rightarrow> PodSpec \<Rightarrow> PodSpec" where
  "apply_pod_overrides ext ov pod_spec =
     pod_service_account ov (pod_host_aliases ov (pod_pull_secrets ext ov
       (pod_security ext ov (pod_tolerations ext ov (pod_affinity ext ov pod_spec)))))"

definition override_container :: "Ext \<Rightarrow> ContainerOverrides \<Rightarrow> Container \<Rightarrow> Container" where
  "override_container ext ov container =
     (let container = append_env_overrides ext container (co_env ov)
      in case and_then (co_security_context ov) (x_container_security ext) of
           None \<Rightarrow> container
         | Some s \<Rightarrow> container\<lparr>ct_security_context := Some s\<rparr>)"

definition apply_container_overrides :: "Ext \<Rightarrow> ContainerOverrides \<Rightarrow> PodSpec \<Rightarrow> PodSpec" where
  "apply_container_overrides ext ov pod_spec =
     (case ps_containers pod_spec of
        [] \<Rightarrow> pod_spec
      | container # cs \<Rightarrow>
          pod_spec\<lparr>ps_containers := override_container ext ov container # cs\<rparr>)"

definition apply_pod_template :: "Ext \<Rightarrow> PodSpec \<Rightarrow> CrdPodTemplate option \<Rightarrow> PodSpec" where
  "apply_pod_template ext pod_spec template =
     (case template of
        None \<Rightarrow> pod_spec
      | Some tmpl \<Rightarrow>
          let pod_spec = (case pt_pod tmpl of
                None \<Rightarrow> pod_spec | Some ov \<Rightarrow> apply_pod_overrides ext ov pod_spec)
          in case pt_container tmpl of
               None \<Rightarrow> pod_spec
             | Some ov \<Rightarrow> apply_container_overrides ext ov pod_spec)"

definition template_metadata :: "CrdPodTemplate option \<Rightarrow> PodMetadata option" where
  "template_metadata template = and_then (and_then template pt_pod) po_metadata"

definition build_annotations :: "CrdPodTemplate option \<Rightarrow> string btree" where
  "build_annotations template =
     (case template_metadata template of
        None \<Rightarrow> []
      | Some meta \<Rightarrow> bt_extend [] (pm_annotations meta))"

definition merge_template_labels :: "string btree \<Rightarrow> CrdPodTemplate option \<Rightarrow> string btree" where
  "merge_template_labels labels template =
     (case template_metadata template of
        None \<Rightarrow> labels
      | Some meta \<Rightarrow> bt_extend labels (pm_labels meta))"

section \<open>crd/common.rs: \<open>ResourceRequirementsSpec::to\_k8s\<close>\<close>

definition to_k8s :: "ResourceRequirementsSpec \<Rightarrow> ResourceRequirements" where
  "to_k8s r =
     \<lparr>re_requests = (if rr_requests r = [] then None else Some (rr_requests r)),
      re_limits = (if rr_limits r = [] then None else Some (rr_limits r))\<rparr>"

section \<open>Labels: lemmas\<close>

lemma get_build_labels:
  assumes "job_type \<noteq> ''type''"
  shows "bt_get (build_labels cr cluster job_type) (''kafkabackup.com/'' @ job_type) = Some cr"
    and "bt_get (build_labels cr cluster job_type) ''kafkabackup.com/type'' = Some job_type"
  using assms by (simp_all add: build_labels_def Let_def bt_get_insert del: bt_insert.simps)

lemma bt_sorted_build_labels: "bt_sorted (build_labels cr cluster job_type)"
  unfolding build_labels_def Let_def by (intro bt_insert_sorted) (simp add: bt_sorted_def)

text \<open>Template labels win over the operator's own.\<close>

definition template_label :: "CrdPodTemplate option \<Rightarrow> string \<Rightarrow> string option" where
  "template_label template k =
     and_then (template_metadata template) (\<lambda>meta. map_of (rev (pm_labels meta)) k)"

lemma get_merge_template_labels:
  "bt_get (merge_template_labels labels template) k =
     opt_or (template_label template k) (bt_get labels k)"
  by (cases "template_metadata template")
     (simp_all add: merge_template_labels_def template_label_def bt_get_extend)

lemma merge_template_labels_sorted:
  "bt_sorted labels \<Longrightarrow> bt_sorted (merge_template_labels labels template)"
  by (simp add: merge_template_labels_def bt_extend_sorted split: option.split)

section \<open>What a template leaves alone\<close>

lemma pod_overrides_frame [simp]:
  "ps_containers (apply_pod_overrides ext ov p) = ps_containers p"
  "ps_volumes (apply_pod_overrides ext ov p) = ps_volumes p"
  "ps_restart_policy (apply_pod_overrides ext ov p) = ps_restart_policy p"
  by (simp_all add: apply_pod_overrides_def pod_affinity_def pod_tolerations_def pod_security_def
      pod_pull_secrets_def pod_host_aliases_def pod_service_account_def Let_def split: option.split)

lemma append_env_overrides_frame [simp]:
  "ct_name (append_env_overrides ext c vs) = ct_name c"
  "ct_image (append_env_overrides ext c vs) = ct_image c"
  "ct_command (append_env_overrides ext c vs) = ct_command c"
  "ct_args (append_env_overrides ext c vs) = ct_args c"
  "ct_volume_mounts (append_env_overrides ext c vs) = ct_volume_mounts c"
  by (simp_all add: append_env_overrides_def Let_def)

lemma override_container_frame [simp]:
  "ct_name (override_container ext ov c) = ct_name c"
  "ct_image (override_container ext ov c) = ct_image c"
  "ct_command (override_container ext ov c) = ct_command c"
  "ct_args (override_container ext ov c) = ct_args c"
  "ct_volume_mounts (override_container ext ov c) = ct_volume_mounts c"
  by (simp_all add: override_container_def Let_def split: option.split)

lemma container_overrides_frame [simp]:
  "ps_volumes (apply_container_overrides ext ov p) = ps_volumes p"
  "ps_restart_policy (apply_container_overrides ext ov p) = ps_restart_policy p"
  by (simp_all add: apply_container_overrides_def split: list.split)

lemma apply_pod_template_frame [simp]:
  "ps_volumes (apply_pod_template ext p t) = ps_volumes p"
  "ps_restart_policy (apply_pod_template ext p t) = ps_restart_policy p"
  by (simp_all add: apply_pod_template_def Let_def split: option.split)

text \<open>The variables of a container, in order; overrides only append.\<close>

definition env_list :: "Container \<Rightarrow> EnvVar list" where
  "env_list c = unwrap_or (ct_env c) []"

lemma env_list_append_overrides:
  "env_list (append_env_overrides ext c vs) =
     env_list c @ List.map_filter (x_env_var ext) vs"
  by (simp add: append_env_overrides_def env_list_def Let_def List.map_filter_def)

lemma env_list_override_container:
  "env_list (override_container ext ov c) =
     env_list c @ List.map_filter (x_env_var ext) (co_env ov)"
proof -
  have "env_list (override_container ext ov c) = env_list (append_env_overrides ext c (co_env ov))"
    by (simp add: override_container_def env_list_def Let_def split: option.split)
  then show ?thesis by (simp add: env_list_append_overrides)
qed

text \<open>A pod of one container keeps it, up to appended variables and its security context.\<close>

lemma apply_pod_template_container:
  assumes "ps_containers p = [c]"
  obtains c' extra where "ps_containers (apply_pod_template ext p t) = [c']"
    "ct_name c' = ct_name c" "ct_image c' = ct_image c" "ct_command c' = ct_command c"
    "ct_args c' = ct_args c" "ct_volume_mounts c' = ct_volume_mounts c"
    "env_list c' = env_list c @ extra"
proof (cases "and_then t pt_container")
  case None
  then have "ps_containers (apply_pod_template ext p t) = [c]"
    using assms by (auto simp: apply_pod_template_def Let_def split: option.splits)
  with that [of c "[]"] show thesis by simp
next
  case (Some ov)
  then have "ps_containers (apply_pod_template ext p t) = [override_container ext ov c]"
    using assms by (auto simp: apply_pod_template_def apply_container_overrides_def Let_def
        split: option.splits)
  with that [of "override_container ext ov c"] show thesis
    by (simp add: env_list_override_container)
qed

end
