(* ===== verification/Job_Builders.thy ===== *)
theory Job_Builders
  imports Templates
begin

text \<open>
  The three builders of the objects the operator submits: \<open>src/src/jobs/backup\_job.rs\<close>,
  \<open>restore\_job.rs\<close> and \<open>cronjob.rs\<close>, and the ConfigMap the reconcilers mount into
  them. The fallible signatures of the source never fail; the CronJob builder panics without a
  schedule. The source's \<open>job_name\<close> argument is called \<open>jname\<close> here, since
  \<open>job_name\<close> is the accessor of theory \<open>Job_State\<close>.
\<close>

definition DEFAULT_BACKUP_IMAGE :: string where
  "DEFAULT_BACKUP_IMAGE = ''osodevops/kafka-backup:v0.15.12''"

definition owner_reference :: "string \<Rightarrow> string \<Rightarrow> ObjectMeta \<Rightarrow> OwnerReference" where
  "owner_reference kind cr_name meta =
     \<lparr>ow_api_version = ''kafkabackup.com/v1alpha1'', ow_kind = kind, ow_name = cr_name,
      ow_uid = unwrap_or (om_uid meta) [], ow_controller = Some True,
      ow_block_owner_deletion = Some True\<rparr>"

definition some_unless_empty :: "'a list \<Rightarrow> 'a list option" where
  "some_unless_empty xs = (if xs = [] then None else Some xs)"

section \<open>jobs/backup\_job.rs\<close>

definition build_backup_job ::
  "Ext \<Rightarrow> KafkaBackup \<Rightarrow> string \<Rightarrow> string \<Rightarrow> ResolvedKafkaCluster \<Rightarrow> ResolvedAuth \<Rightarrow>
   string option \<Rightarrow> Job" where
  "build_backup_job ext backup jname config_map_name cluster auth service_account_name =
     (let spec = kbr_spec backup;
          cr_name = name_any (kbr_metadata backup);
          ns = unwrap_or (om_namespace (kbr_metadata backup)) [];
          image = unwrap_or (kb_image spec) DEFAULT_BACKUP_IMAGE;
          labels = merge_template_labels (build_labels cr_name (kcl_name cluster) ''backup'')
            (kb_template spec);
          annotations = build_annotations (kb_template spec);
          (volumes, volume_mounts, env) = build_volumes_and_mounts config_map_name
            (kcl_name cluster) (kcl_tls_enabled cluster) auth (kb_storage spec)
            (sc_ca_secret (kb_strimzi_cluster_ref spec));
          env = env @ [job_name_env_var ''BACKUP_ID''];
          container = default_container\<lparr>
            ct_name := ''backup'', ct_image := Some image,
            ct_command := Some [''kafka-backup''],
            ct_args := Some [''backup'', ''--config'', ''/config/backup.yaml''],
            ct_env := some_unless_empty env,
            ct_ports := job_metrics_ports (kb_metrics spec),
            ct_volume_mounts := Some volume_mounts,
            ct_resources := map_option to_k8s (kb_resources spec)\<rparr>;
          container = append_env_overrides ext container (kb_env spec);
          pod_spec = default_pod_spec\<lparr>
            ps_containers := [container], ps_volumes := Some volumes,
            ps_restart_policy := Some ''Never'',
            ps_service_account_name := service_account_name\<rparr>;
          pod_spec = apply_pod_template ext pod_spec (kb_template spec);
          owner_ref = owner_reference ''KafkaBackup'' cr_name (kbr_metadata backup);
          pod_labels = add_metrics_discovery_label
            (build_labels cr_name (kcl_name cluster) ''backup'') (kb_metrics spec)
      in \<lparr>jb_metadata = empty_meta\<lparr>
             om_name := Some jname, om_namespace := Some ns, om_labels := Some labels,
             om_annotations := some_unless_empty annotations,
             om_owner_references := Some [owner_ref]\<rparr>,
          jb_spec = Some \<lparr>
             js_backoff_limit = Some (unwrap_or (kb_backoff_limit spec) 3),
             js_template = \<lparr>
               pts_metadata = Some (empty_meta\<lparr>om_labels := Some pod_labels\<rparr>),
               pts_spec = Some pod_spec\<rparr>\<rparr>,
          jb_status = None\<rparr>)"

section \<open>jobs/restore\_job.rs\<close>

definition build_restore_job ::
  "Ext \<Rightarrow> KafkaRestore \<Rightarrow> string \<Rightarrow> string \<Rightarrow> ResolvedKafkaCluster \<Rightarrow> ResolvedAuth \<Rightarrow>
   KafkaBackup \<Rightarrow> string option \<Rightarrow> Job" where
  "build_restore_job ext restore jname config_map_name cluster auth source_backup
       service_account_name =
     (let spec = krr_spec restore;
          cr_name = name_any (krr_metadata restore);
          ns = unwrap_or (om_namespace (krr_metadata restore)) [];
          image = unwrap_or (kr_image spec) DEFAULT_BACKUP_IMAGE;
          labels = merge_template_labels (build_labels cr_name (kcl_name cluster) ''restore'')
            (kr_template spec);
          annotations = build_annotations (kr_template spec);
          (volumes, volume_mounts, env) = build_volumes_and_mounts config_map_name
            (kcl_name cluster) (kcl_tls_enabled cluster) auth
            (kb_storage (kbr_spec source_backup))
            (sc_ca_secret (kr_strimzi_cluster_ref spec));
          container = default_container\<lparr>
            ct_name := ''restore'', ct_image := Some image,
            ct_command := Some [''kafka-backup''],
            ct_args := Some [''restore'', ''--config'', ''/config/restore.yaml''],
            ct_env := some_unless_empty env,
            ct_ports := job_metrics_ports (kr_metrics spec),
            ct_volume_mounts := Some volume_mounts,
            ct_resources := map_option to_k8s (kr_resources spec)\<rparr>;
          container = append_env_overrides ext container (kr_env spec);
          pod_spec = default_pod_spec\<lparr>
            ps_containers := [container], ps_volumes := Some volumes,
            ps_restart_policy := Some ''Never'',
            ps_service_account_name := service_account_name\<rparr>;
          pod_spec = apply_pod_template ext pod_spec (kr_template spec);
          owner_ref = owner_reference ''KafkaRestore'' cr_name (krr_metadata restore);
          pod_labels = add_metrics_discovery_label
            (build_labels cr_name (kcl_name cluster) ''restore'') (kr_metrics spec)
      in \<lparr>jb_metadata = empty_meta\<lparr>
             om_name := Some jname, om_namespace := Some ns, om_labels := Some labels,
             om_annotations := some_unless_empty annotations,
             om_owner_references := Some [owner_ref]\<rparr>,
          jb_spec = Some \<lparr>
             js_backoff_limit = Some (unwrap_or (kr_backoff_limit spec) 0),
             js_template = \<lparr>
               pts_metadata = Some (empty_meta\<lparr>om_labels := Some pod_labels\<rparr>),
               pts_spec = Some pod_spec\<rparr>\<rparr>,
          jb_status = None\<rparr>)"

section \<open>jobs/cronjob.rs\<close>

definition build_backup_cronjob ::
  "Ext \<Rightarrow> KafkaBackup \<Rightarrow> string \<Rightarrow> ResolvedKafkaCluster \<Rightarrow> ResolvedAuth \<Rightarrow>
   string option \<Rightarrow> CronJob checked" where
  "build_backup_cronjob ext backup config_map_name cluster auth service_account_name =
     checked_bind (expect ''CronJob requires schedule'' (kb_schedule (kbr_spec backup)))
       (\<lambda>schedule.
     let spec = kbr_spec backup;
         cr_name = name_any (kbr_metadata backup);
         ns = unwrap_or (om_namespace (kbr_metadata backup)) [];
         image = unwrap_or (kb_image spec) DEFAULT_BACKUP_IMAGE;
         labels = merge_template_labels (build_labels cr_name (kcl_name cluster) ''backup'')
           (kb_template spec);
         (volumes, volume_mounts, env) = build_volumes_and_mounts config_map_name
           (kcl_name cluster) (kcl_tls_enabled cluster) auth (kb_storage spec)
           (sc_ca_secret (kb_strimzi_cluster_ref spec));
         env = env @ [job_name_env_var ''BACKUP_ID''];
         container = default_container\<lparr>
           ct_name := ''backup'', ct_image := Some image,
           ct_command := Some [''kafka-backup''],
           ct_args := Some [''backup'', ''--config'', ''/config/backup.yaml''],
           ct_env := some_unless_empty env,
           ct_ports := job_metrics_ports (kb_metrics spec),
           ct_volume_mounts := Some volume_mounts,
           ct_resources := map_option to_k8s (kb_resources spec)\<rparr>;
         container = append_env_overrides ext container (kb_env spec);
         pod_spec = default_pod_spec\<lparr>
           ps_containers := [container], ps_volumes := Some volumes,
           ps_restart_policy := Some ''Never'',
           ps_service_account_name := service_account_name\<rparr>;
         pod_spec = apply_pod_template ext pod_spec (kb_template spec);
         owner_ref = owner_reference ''KafkaBackup'' cr_name (kbr_metadata backup);
         pod_labels = add_metrics_discovery_label labels (kb_metrics spec)
     in Value \<lparr>cr_metadata = empty_meta\<lparr>
            om_name := Some (cr_name @ ''-scheduled''), om_namespace := Some ns,
            om_labels := Some labels, om_owner_references := Some [owner_ref]\<rparr>,
          cr_spec = Some \<lparr>
            cj_schedule = sd_cron schedule, cj_time_zone = sd_timezone schedule,
            cj_suspend = Some (sd_suspend schedule), cj_concurrency_policy = Some ''Forbid'',
            cj_successful_jobs_history_limit = Some 3, cj_failed_jobs_history_limit = Some 3,
            cj_job_template = \<lparr>
              jt_metadata = Some (empty_meta\<lparr>om_labels := Some labels\<rparr>),
              jt_spec = Some \<lparr>
                js_backoff_limit = Some (unwrap_or (kb_backoff_limit spec) 3),
                js_template = \<lparr>
                  pts_metadata = Some (empty_meta\<lparr>om_labels := Some pod_labels\<rparr>),
                  pts_spec = Some pod_spec\<rparr>\<rparr>\<rparr>\<rparr>\<rparr>)"

section \<open>Reading a built Job\<close>

definition job_labels :: "Job \<Rightarrow> string btree" where
  "job_labels job = unwrap_or (om_labels (jb_metadata job)) []"

definition job_pod :: "Job \<Rightarrow> PodSpec option" where
  "job_pod job = and_then (jb_spec job) (\<lambda>s. pts_spec (js_template s))"

definition cronjob_job_labels :: "CronJob \<Rightarrow> string btree" where
  "cronjob_job_labels cj =
     unwrap_or (and_then (and_then (cr_spec cj) (\<lambda>s. jt_metadata (cj_job_template s))) om_labels) []"

definition cronjob_pod :: "CronJob \<Rightarrow> PodSpec option" where
  "cronjob_pod cj =
     and_then (and_then (cr_spec cj) (\<lambda>s. jt_spec (cj_job_template s)))
       (\<lambda>s. pts_spec (js_template s))"

text \<open>\<open>volumes\<close> and container of a pod that hosts the runner.\<close>

definition pod_hosts :: "PodSpec \<Rightarrow> mounted \<Rightarrow> EnvVar list \<Rightarrow> bool" where
  "pod_hosts p vme own \<longleftrightarrow>
     (case vme of (vs, ms, env) \<Rightarrow>
        ps_volumes p = Some vs \<and> ps_restart_policy p = Some ''Never'' \<and>
        (\<exists>c extra. ps_containers p = [c] \<and> ct_volume_mounts c = Some ms \<and>
           ct_command c = Some [''kafka-backup''] \<and> env_list c = env @ own @ extra))"

lemma env_list_some_unless_empty: "unwrap_or (some_unless_empty xs) [] = xs"
  by (simp add: some_unless_empty_def)

lemma pod_hosts_template:
  assumes "ps_volumes p = Some vs" "ps_restart_policy p = Some ''Never''"
    and "ps_containers p = [append_env_overrides ext c over]"
    and "ct_volume_mounts c = Some ms" "ct_command c = Some [''kafka-backup'']"
    and "ct_env c = some_unless_empty (env @ own)"
  shows "pod_hosts (apply_pod_template ext p t) (vs, ms, env) own"
proof -
  have "env_list c = env @ own"
    using assms(6) by (simp add: env_list_def env_list_some_unless_empty)
  then have env: "env_list (append_env_overrides ext c over) =
      env @ own @ List.map_filter (x_env_var ext) over"
    by (simp add: env_list_append_overrides)
  show ?thesis
  proof (rule apply_pod_template_container [OF assms(3), of ext t])
    fix c' extra
    assume "ps_containers (apply_pod_template ext p t) = [c']"
      "ct_command c' = ct_command (append_env_overrides ext c over)"
      "ct_volume_mounts c' = ct_volume_mounts (append_env_overrides ext c over)"
      "env_list c' = env_list (append_env_overrides ext c over) @ extra"
    then show ?thesis
      using assms(1,2,4,5) env by (simp add: pod_hosts_def)
  qed
qed

lemma build_backup_job_pod:
  "\<exists>p. job_pod (build_backup_job ext backup jname cmap cluster auth sa) = Some p \<and>
     pod_hosts p (build_volumes_and_mounts cmap (kcl_name cluster) (kcl_tls_enabled cluster) auth
       (kb_storage (kbr_spec backup))
       (sc_ca_secret (kb_strimzi_cluster_ref (kbr_spec backup)))) [job_name_env_var ''BACKUP_ID'']"
  by (auto simp: build_backup_job_def job_pod_def Let_def split: prod.split intro!: pod_hosts_template)

lemma build_restore_job_pod:
  "\<exists>p. job_pod (build_restore_job ext restore jname cmap cluster auth source_backup sa) = Some p \<and>
     pod_hosts p (build_volumes_and_mounts cmap (kcl_name cluster) (kcl_tls_enabled cluster) auth
       (kb_storage (kbr_spec source_backup))
       (sc_ca_secret (kr_strimzi_cluster_ref (krr_spec restore)))) []"
  by (auto simp: build_restore_job_def job_pod_def Let_def split: prod.split intro!: pod_hosts_template)

lemma build_backup_cronjob_pod:
  assumes "build_backup_cronjob ext backup cmap cluster auth sa = Value cj"
  shows "\<exists>p. cronjob_pod cj = Some p \<and>
     pod_hosts p (build_volumes_and_mounts cmap (kcl_name cluster) (kcl_tls_enabled cluster) auth
       (kb_storage (kbr_spec backup))
       (sc_ca_secret (kb_strimzi_cluster_ref (kbr_spec backup)))) [job_name_env_var ''BACKUP_ID'']"
proof -
  obtain vs ms env where v: "build_volumes_and_mounts cmap (kcl_name cluster)
      (kcl_tls_enabled cluster) auth (kb_storage (kbr_spec backup))
      (sc_ca_secret (kb_strimzi_cluster_ref (kbr_spec backup))) = (vs, ms, env)"
    using prod_cases3 by blast
  show ?thesis
    using assms unfolding build_backup_cronjob_def Let_def v
    by (auto simp: cronjob_pod_def intro!: pod_hosts_template)
qed

lemma build_job_labels:
  "job_labels (build_backup_job ext backup jname cmap cluster auth sa) =
     merge_template_labels (build_labels (name_any (kbr_metadata backup)) (kcl_name cluster) ''backup'')
       (kb_template (kbr_spec backup))"
  "job_labels (build_restore_job ext restore jname cmap cluster auth source_backup sa) =
     merge_template_labels (build_labels (name_any (krr_metadata restore)) (kcl_name cluster) ''restore'')
       (kr_template (krr_spec restore))"
  by (simp_all add: build_backup_job_def build_restore_job_def job_labels_def Let_def
      split: prod.split)

lemma build_cronjob_labels:
  assumes "build_backup_cronjob ext backup cmap cluster auth sa = Value cj"
  shows "cronjob_job_labels cj =
     merge_template_labels (build_labels (name_any (kbr_metadata backup)) (kcl_name cluster) ''backup'')
       (kb_template (kbr_spec backup))"
proof -
  obtain vs ms env where v: "build_volumes_and_mounts cmap (kcl_name cluster)
      (kcl_tls_enabled cluster) auth (kb_storage (kbr_spec backup))
      (sc_ca_secret (kb_strimzi_cluster_ref (kbr_spec backup))) = (vs, ms, env)"
    using prod_cases3 by blast
  show ?thesis
    using assms unfolding build_backup_cronjob_def Let_def v by (auto simp: cronjob_job_labels_def)
qed

end
