(* ===== verification/Reconcile_Common.thy ===== *)
theory Reconcile_Common
  imports Conditions Job_State Secrets Job_Builders
begin

text \<open>
  What the two reconcilers share (\<open>src/src/reconcilers/mod.rs\<close>): the finalizer, the pause
  and trigger annotations, the deletion parameters, the service account of the Jobs, and the
  fragments of the protocol both write the same way, among them the interface of a status
  writer.
\<close>

section \<open>reconcilers/mod.rs\<close>

definition FINALIZER :: string where "FINALIZER = ''kafkabackup.com/cleanup''"
definition TRIGGER_ANNOTATION :: string where "TRIGGER_ANNOTATION = ''kafkabackup.com/trigger''"
definition TRIGGER_VALUE_NOW :: string where "TRIGGER_VALUE_NOW = ''now''"
definition PAUSE_RECONCILIATION_ANNOTATION :: string where
  "PAUSE_RECONCILIATION_ANNOTATION = ''strimzi.io/pause-reconciliation''"
definition JOB_SERVICE_ACCOUNT_ENV :: string where
  "JOB_SERVICE_ACCOUNT_ENV = ''BACKUP_JOB_SERVICE_ACCOUNT''"
definition DEFAULT_JOB_SERVICE_ACCOUNT :: string where
  "DEFAULT_JOB_SERVICE_ACCOUNT = ''strimzi-backup-operator''"

text \<open>\<open>ResourceExt::annotations\<close>: an absent map is empty.\<close>

definition annotations_of :: "ObjectMeta \<Rightarrow> string btree" where
  "annotations_of meta = unwrap_or (om_annotations meta) []"

definition is_reconciliation_paused :: "ObjectMeta \<Rightarrow> bool" where
  "is_reconciliation_paused resource =
     is_some_and (bt_get (annotations_of resource) PAUSE_RECONCILIATION_ANNOTATION)
       (\<lambda>v. eq_ignore_ascii_case v ''true'')"

definition cleanup_delete_params :: DeleteParams where
  "cleanup_delete_params = \<lparr>dp_propagation_policy = Some PropBackground\<rparr>"

definition account_of :: "string option \<Rightarrow> string option" where
  "account_of var =
     (let v = trim (unwrap_or var DEFAULT_JOB_SERVICE_ACCOUNT)
      in if v = [] then None else Some v)"

definition job_service_account_name :: "string option prog" where
  "job_service_account_name = pmap account_of (env_var JOB_SERVICE_ACCOUNT_ENV)"

section \<open>Shared fragments\<close>

text \<open>\<open>PatchParams::apply("kafka-backup-operator")\<close>.\<close>

definition apply_params :: PatchParams where
  "apply_params = \<lparr>pp_field_manager = Some ''kafka-backup-operator'', pp_force = False\<rparr>"

definition has_finalizer :: "ObjectMeta \<Rightarrow> bool" where
  "has_finalizer meta = is_some_and (om_finalizers meta) (\<lambda>f. FINALIZER \<in> set f)"

definition generation_of :: "ObjectMeta \<Rightarrow> int" where
  "generation_of meta = unwrap_or (om_generation meta) 0"

fun lift_checked :: "'a checked \<Rightarrow> 'a io" where
  "lift_checked (Panics m) = Panic m"
| "lift_checked (Value x) = ok x"

text \<open>\<open>max_by_key\<close>: the last of the maximal elements.\<close>

fun max_by_key :: "('a \<Rightarrow> 'k::linorder) \<Rightarrow> 'a list \<Rightarrow> 'a option" where
  "max_by_key f [] = None"
| "max_by_key f (x # xs) = Some (fold (\<lambda>y acc. if f acc \<le> f y then y else acc) xs x)"

text \<open>Create a Job; a refusal is a \<open>JobCreationFailed\<close>.\<close>

definition create_job :: "string \<Rightarrow> Job \<Rightarrow> unit io" where
  "create_job ns job =
     map_err (\<lambda>e. EJobCreationFailed (kube_error_string e)) (kube_call (KCreateJob ns job) as_unit)"

text \<open>The part of a ConfigMap both reconcilers write: one file, owned by the resource.\<close>

definition owned_config_map ::
  "string \<Rightarrow> string \<Rightarrow> string \<Rightarrow> string \<Rightarrow> ObjectMeta \<Rightarrow> string \<Rightarrow> string \<Rightarrow> ConfigMap" where
  "owned_config_map kind label ns name owner file config_yaml =
     \<lparr>cm_metadata = empty_meta\<lparr>
        om_name := Some name, om_namespace := Some ns,
        om_labels := Some (bt_insert label (name_any owner)
          (bt_insert ''app.kubernetes.io/part-of'' ''kafka-backup''
            (bt_insert ''app.kubernetes.io/managed-by'' ''kafka-backup-operator'' []))),
        om_owner_references := Some [owner_reference kind (name_any owner) owner]\<rparr>,
      cm_data = [(file, config_yaml)]\<rparr>"

section \<open>Lemmas\<close>

lemma fold_max_in: "fold (\<lambda>y acc. if f acc \<le> f y then y else acc) xs x \<in> insert x (set xs)"
proof (induction xs arbitrary: x)
  case (Cons y ys)
  then show ?case using Cons.IH [of y] Cons.IH [of x] by auto
qed simp

lemma fold_max_ge:
  fixes f :: "'a \<Rightarrow> 'k::linorder"
  shows "f x \<le> f (fold (\<lambda>y acc. if f acc \<le> f y then y else acc) xs x) \<and>
    (\<forall>z \<in> set xs. f z \<le> f (fold (\<lambda>y acc. if f acc \<le> f y then y else acc) xs x))"
proof (induction xs arbitrary: x)
  case (Cons y ys)
  show ?case
  proof (cases "f x \<le> f y")
    case True
    then show ?thesis using Cons.IH [of y] by (auto intro: order_trans)
  next
    case False
    then have "f y \<le> f x" by simp
    then show ?thesis using False Cons.IH [of x] by (auto intro: order_trans)
  qed
qed simp

lemma max_by_key_in: "max_by_key f xs = Some x \<Longrightarrow> x \<in> set xs"
proof (cases xs)
  case (Cons y ys)
  assume "max_by_key f xs = Some x"
  then show ?thesis using fold_max_in [of f ys y] by (auto simp: Cons)
qed simp

lemma max_by_key_ge: "max_by_key f xs = Some x \<Longrightarrow> z \<in> set xs \<Longrightarrow> f z \<le> f x"
proof (cases xs)
  case (Cons y ys)
  assume "max_by_key f xs = Some x" "z \<in> set xs"
  then show ?thesis using fold_max_ge [of f y ys] by (auto simp: Cons)
qed simp

lemma max_by_key_None [simp]: "max_by_key f xs = None \<longleftrightarrow> xs = []"
  by (cases xs) simp_all

lemma account_of_nonempty: "account_of var = Some v \<Longrightarrow> v \<noteq> []"
  by (auto simp: account_of_def Let_def split: if_splits)

lemma only_create_job [only_intro]:
  "(\<And>r. P (EvKube (KCreateJob ns job) r)) \<Longrightarrow> only P (create_job ns job)"
  by (auto simp: create_job_def intro!: only_intro)

lemma only_service_account [only_intro]:
  "(\<And>n v. P (EvEnv n v)) \<Longrightarrow> only P job_service_account_name"
  by (auto simp: job_service_account_name_def intro!: only_intro)

lemma only_lift_checked [only_intro]: "only P (lift_checked c)"
  by (cases c) simp_all

end
