(* ===== verification/Config_Backup.thy ===== *)
theory Config_Backup
  imports Config_Parts
begin

text \<open>
  The configuration file of a backup run (\<open>src/src/adapters/backup\_config.rs\<close>):
  \<open>build_backup_config_yaml\<close> and the sections only a backup has. The TLS certificates the
  source passes along are not read by the builders, so the model leaves the argument out.
  The mapping is built first (\<open>backup_config_map\<close>); turning it into text is the library's.
\<close>

definition encryption_unsupported :: string where
  "encryption_unsupported = ''spec.backup.encryption is an Enterprise Edition capability and is not supported by the OSS Strimzi operator''"

definition build_backup_options :: "BackupOptionsSpec \<Rightarrow> Error + ymap" where
  "build_backup_options opts =
     (if is_some_and (bo_encryption opts) ue_enabled
      then Inl (EInvalidConfig encryption_unsupported)
      else
        let config = [];
            config = put_opt ''compression'' YStr (bo_compression opts) config;
            config = insert_i32 ''compression_level'' (bo_compression_level opts) config;
            config = put_opt ''segment_max_bytes'' YNum (bo_segment_size opts) config;
            config = insert_u64 ''segment_max_interval_ms'' (bo_segment_max_interval_ms opts) config;
            config = put_opt ''max_concurrent_partitions'' YNum (bo_parallelism opts) config;
            config = put_opt ''start_offset'' YStr (bo_start_offset opts) config;
            config = insert_bool ''continuous'' (bo_continuous opts) config;
            config = insert_bool ''include_internal_topics'' (bo_include_internal_topics opts) config;
            config = put_if (bo_internal_topics opts \<noteq> []) ''internal_topics''
              (strs (bo_internal_topics opts)) config;
            config = insert_u64 ''checkpoint_interval_secs'' (bo_checkpoint_interval_secs opts) config;
            config = insert_u64 ''sync_interval_secs'' (bo_sync_interval_secs opts) config;
            config = insert_bool ''include_offset_headers'' (bo_include_offset_headers opts) config;
            config = put_opt ''source_cluster_id'' YStr (bo_source_cluster_id opts) config;
            config = insert_bool ''stop_at_current_offsets'' (bo_stop_at_current_offsets opts) config;
            config = insert_u64 ''poll_interval_ms'' (bo_poll_interval_ms opts) config;
            config = insert_bool ''consumer_group_snapshot'' (bo_consumer_group_snapshot opts) config
        in Inr config)"

definition build_offset_storage_options :: "OffsetStorageSpec \<Rightarrow> ymap" where
  "build_offset_storage_options offset_storage =
     (let config = [];
          config = put_opt ''backend'' YStr (os_backend offset_storage) config;
          config = put_opt ''db_path'' YStr (os_db_path offset_storage) config;
          config = put_opt ''s3_key'' YStr (os_s3_key offset_storage) config;
          config = insert_u64 ''sync_interval_secs'' (os_sync_interval_secs offset_storage) config
      in config)"

definition is_incremental_one_shot :: "KafkaBackup \<Rightarrow> bool" where
  "is_incremental_one_shot backup =
     (let offset_storage_set = is_some (kb_offset_storage (kbr_spec backup));
          continuous = unwrap_or (and_then (kb_backup (kbr_spec backup)) bo_continuous) False
      in offset_storage_set \<and> \<not> continuous)"

definition config_backup_id :: "KafkaBackup \<Rightarrow> string" where
  "config_backup_id backup =
     (if is_incremental_one_shot backup
      then unwrap_or (om_name (kbr_metadata backup)) ''backup''
      else ''${BACKUP_ID}'')"

definition backup_config_map ::
  "KafkaBackup \<Rightarrow> ResolvedKafkaCluster \<Rightarrow> ResolvedAuth \<Rightarrow> Error + ymap" where
  "backup_config_map backup cluster auth =
     (let spec = kbr_spec backup;
          config = [];
          config = put ''mode'' (YStr ''backup'') config;
          config = put ''backup_id'' (YStr (config_backup_id backup)) config;
          source = build_kafka_config cluster auth (kb_topics spec) (kb_connection spec);
          config = put ''source'' (YMap source) config
      in try_bind (build_storage_config (kb_storage spec)) (\<lambda>storage.
         let config = put ''storage'' (YMap storage) config;
             config = put_section_opt ''logging'' build_logging_config (kb_logging spec) config
         in try_bind (case kb_backup spec of
                        None \<Rightarrow> Inr config
                      | Some backup_opts \<Rightarrow>
                          try_bind (build_backup_options backup_opts) (\<lambda>opts.
                            Inr (put ''backup'' (YMap opts) config))) (\<lambda>config.
            let config = put_section_opt ''metrics'' build_metrics_options (kb_metrics spec) config;
                config = put_section_opt ''offset_storage'' build_offset_storage_options
                  (kb_offset_storage spec) config
            in Inr config)))"

definition build_backup_config_yaml ::
  "Ext \<Rightarrow> KafkaBackup \<Rightarrow> ResolvedKafkaCluster \<Rightarrow> ResolvedAuth \<Rightarrow> Error + string" where
  "build_backup_config_yaml ext backup cluster auth =
     try_bind (backup_config_map backup cluster auth) (\<lambda>config.
       case x_yaml ext (YMap config) of
         Inl e \<Rightarrow> Inl (EYaml e)
       | Inr text \<Rightarrow> Inr text)"

section \<open>Lemmas\<close>

lemma build_backup_options_ok:
  "is_ok (build_backup_options opts) \<longleftrightarrow> \<not> is_some_and (bo_encryption opts) ue_enabled"
  by (simp add: build_backup_options_def Let_def)

definition encryption_requested :: "KafkaBackup \<Rightarrow> bool" where
  "encryption_requested backup =
     is_some_and (and_then (kb_backup (kbr_spec backup)) bo_encryption) ue_enabled"

lemma backup_config_map_ok:
  "is_ok (backup_config_map backup cluster auth) \<longleftrightarrow>
     storage_section_present (kb_storage (kbr_spec backup)) \<and> \<not> encryption_requested backup"
  using build_storage_config_ok [of "kb_storage (kbr_spec backup)"] build_backup_options_ok
  by (cases "build_storage_config (kb_storage (kbr_spec backup))"; cases "kb_backup (kbr_spec backup)")
     (auto simp: backup_config_map_def encryption_requested_def Let_def is_ok_iff
       build_backup_options_def)

lemma backup_config_map_sections:
  assumes "backup_config_map backup cluster auth = Inr config"
  shows "gets config ''mode'' = Some (YStr ''backup'')"
    and "gets config ''backup_id'' = Some (YStr (config_backup_id backup))"
    and "gets config ''source'' = Some (YMap (build_kafka_config cluster auth
           (kb_topics (kbr_spec backup)) (kb_connection (kbr_spec backup))))"
    and "\<exists>st. build_storage_config (kb_storage (kbr_spec backup)) = Inr st \<and>
           gets config ''storage'' = Some (YMap st)"
  using assms
  by (auto simp: backup_config_map_def Let_def kv_simps split: option.splits)

end
