(* ===== verification/Retention_Policy.thy ===== *)
theory Retention_Policy
  imports K8s
begin

text \<open>
  Which backups are to be pruned (\<open>src/src/retention/policy.rs\<close>). The instant \<open>Utc::now()\<close>
  is an argument. Splitting the duration text off its last byte and chrono's arithmetic can
  panic, so both functions return a \<open>checked\<close> value.
\<close>

definition duration_unit :: "string \<Rightarrow> DurationUnit option" where
  "duration_unit u =
     (if u = ''s'' then Some USeconds
      else if u = ''m'' then Some UMinutes
      else if u = ''h'' then Some UHours
      else if u = ''d'' then Some UDays
      else if u = ''w'' then Some UWeeks
      else None)"

definition parse_duration :: "Ext \<Rightarrow> string \<Rightarrow> int option checked" where
  "parse_duration X str =
     (let s = trim str in
      if s = [] then Value None
      else checked_bind (expect ''byte index is not a char boundary'' (split_at s (length s - 1)))
        (\<lambda>(num_str, unit_str).
          case parse_i64 num_str of
            None \<Rightarrow> Value None
          | Some value \<Rightarrow>
              (case duration_unit unit_str of
                 None \<Rightarrow> Value None
               | Some u \<Rightarrow>
                   checked_bind (expect ''TimeDelta out of bounds'' (x_duration X u value))
                     (\<lambda>d. Value (Some d)))))"

definition prune_by_count :: "BackupHistoryEntry list \<Rightarrow> i32 option \<Rightarrow> string list" where
  "prune_by_count sorted_history max_backups =
     (case max_backups of
        None \<Rightarrow> []
      | Some m \<Rightarrow>
          if length sorted_history > i32_as_usize m
          then push_new [] (map he_id (drop (i32_as_usize m) sorted_history))
          else [])"

definition prune_by_age ::
  "string list \<Rightarrow> BackupHistoryEntry list \<Rightarrow> timestamp \<Rightarrow> string list" where
  "prune_by_age to_prune sorted_history cutoff =
     push_new to_prune (map he_id (filter (\<lambda>e. he_start_time e < cutoff) sorted_history))"

definition evaluate_retention ::
  "Ext \<Rightarrow> timestamp \<Rightarrow> BackupHistoryEntry list \<Rightarrow> RetentionSpec \<Rightarrow> string list checked" where
  "evaluate_retention X t history retention =
     (if history = [] then Value []
      else
        let sorted_history = sort_desc he_start_time history;
            to_prune = prune_by_count sorted_history (rt_max_backups retention)
        in case rt_max_age retention of
             None \<Rightarrow> Value to_prune
           | Some max_age \<Rightarrow>
               checked_bind (parse_duration X max_age)
                 (\<lambda>od. case od of
                    None \<Rightarrow> Value to_prune
                  | Some duration \<Rightarrow>
                      checked_bind (expect ''DateTime overflow'' (x_time_sub X t duration))
                        (\<lambda>cutoff. Value (prune_by_age to_prune sorted_history cutoff))))"

section \<open>Durations\<close>

lemma duration_unit_cases:
  "duration_unit u = Some d \<longleftrightarrow>
     (u, d) \<in> {(''s'', USeconds), (''m'', UMinutes), (''h'', UHours), (''d'', UDays),
       (''w'', UWeeks)}"
  by (auto simp: duration_unit_def)

lemma duration_unit_last_ascii:
  "duration_unit [c] = Some d \<Longrightarrow> \<not> ws_last_byte c \<and> \<not> is_cont c"
  by (auto simp: duration_unit_cases ws_last_byte_def is_cont_def)

lemma string_of_int_hd_not_ws: "hd (string_of_int i) \<notin> set ws_first_bytes"
  using string_of_nat_hd [of "nat i"]
  by (auto simp: string_of_int_def ws_first_bytes_def)

lemma string_of_int_nonempty [simp]: "string_of_int i \<noteq> []"
  by (simp add: string_of_int_def)

text \<open>
  A printed 64-bit number followed by one of the five unit letters is read as that many units.
\<close>

lemma parse_duration_printed:
  assumes v: "in_i64 v" and u: "duration_unit [c] = Some d"
  shows "parse_duration X (string_of_int v @ [c]) =
    checked_bind (expect ''TimeDelta out of bounds'' (x_duration X d v)) (\<lambda>r. Value (Some r))"
proof -
  let ?s = "string_of_int v @ [c]"
  have trim: "trim ?s = ?s"
    using string_of_int_hd_not_ws [of v] duration_unit_last_ascii [OF u]
    by (intro trim_id) simp_all
  have "split_at ?s (length ?s - 1) = Some (string_of_int v, [c])"
    using duration_unit_last_ascii [OF u]
    by (simp add: split_at_def is_char_boundary_def)
  with trim u show ?thesis
    by (simp add: parse_duration_def Let_def parse_i64_string_of_int [OF v])
qed

text \<open>
  The only way to panic before the arithmetic: the trimmed text is not empty and ends inside a
  multi-byte character.
\<close>

lemma parse_duration_char_boundary:
  "trim s \<noteq> [] \<Longrightarrow> is_cont (last (trim s)) \<Longrightarrow> 1 < length (trim s) \<Longrightarrow>
     parse_duration X s = Panics ''byte index is not a char boundary''"
  by (auto simp: parse_duration_def Let_def split_at_def is_char_boundary_def last_conv_nth)

section \<open>The prune set\<close>

lemma set_dropD: "x \<in> set (drop n xs) \<Longrightarrow> n < length xs"
  by (cases "n < length xs") auto

lemma set_prune_by_count:
  "set (prune_by_count hs mb) =
     (case mb of None \<Rightarrow> {} | Some m \<Rightarrow> he_id ` set (drop (i32_as_usize m) hs))"
  by (auto simp: prune_by_count_def dest: set_dropD split: option.splits)

lemma set_prune_by_age:
  "set (prune_by_age ids hs cutoff) = set ids \<union> he_id ` {e \<in> set hs. he_start_time e < cutoff}"
  by (auto simp: prune_by_age_def)

lemma distinct_prune_by_count: "distinct (prune_by_count hs mb)"
  by (simp add: prune_by_count_def distinct_push_new split: option.splits)

lemma distinct_prune_by_age: "distinct ids \<Longrightarrow> distinct (prune_by_age ids hs cutoff)"
  by (simp add: prune_by_age_def distinct_push_new)

lemmas prune_set_simps = set_prune_by_count set_prune_by_age

text \<open>The age cutoff in force, if any: the specification's maximal age, when it parses.\<close>

definition age_cutoff :: "Ext \<Rightarrow> timestamp \<Rightarrow> RetentionSpec \<Rightarrow> timestamp option checked" where
  "age_cutoff X t retention =
     (case rt_max_age retention of
        None \<Rightarrow> Value None
      | Some max_age \<Rightarrow>
          checked_bind (parse_duration X max_age)
            (\<lambda>od. case od of
               None \<Rightarrow> Value None
             | Some d \<Rightarrow> checked_bind (expect ''DateTime overflow'' (x_time_sub X t d))
                 (\<lambda>c. Value (Some c))))"

lemma evaluate_retention_cutoff:
  "history \<noteq> [] \<Longrightarrow>
   evaluate_retention X t history retention =
     checked_bind (age_cutoff X t retention)
       (\<lambda>oc. let hs = sort_desc he_start_time history;
                 ids = prune_by_count hs (rt_max_backups retention)
             in Value (case oc of None \<Rightarrow> ids | Some c \<Rightarrow> prune_by_age ids hs c))"
proof (cases "rt_max_age retention")
  case None
  then show "history \<noteq> [] \<Longrightarrow> ?thesis"
    by (simp add: evaluate_retention_def age_cutoff_def Let_def)
next
  case (Some a)
  show "history \<noteq> [] \<Longrightarrow> ?thesis"
  proof (cases "parse_duration X a")
    case (Value od)
    with Some show "history \<noteq> [] \<Longrightarrow> ?thesis"
      by (cases od; cases "x_time_sub X t (the od)")
        (simp_all add: evaluate_retention_def age_cutoff_def Let_def)
  qed (simp add: Some evaluate_retention_def age_cutoff_def Let_def)
qed

end
