(* ===== verification/Retention_Storage.thy ===== *)
theory Retention_Storage
  imports Secrets
begin

text \<open>
  The object store as retention sees it (\<open>src/src/retention/storage.rs\<close>): keys relative to
  the configured prefix, the four ways to configure a store, the discovery of stored backups and
  their deletion. The store itself is outside: a handle, and requests against it
  (\<open>StoreReq\<close>). Rust's \<open>sum::<u64>()\<close> is addition on words, which wraps in the
  release profile.
\<close>

section \<open>Keys\<close>

definition normalize_optional_prefix :: "string option \<Rightarrow> string option" where
  "normalize_optional_prefix prefix =
     (case map_option (trim_matches (CHR ''/'')) prefix of
        None \<Rightarrow> None
      | Some p \<Rightarrow> if p \<noteq> [] then Some p else None)"

definition join_key :: "string option \<Rightarrow> string \<Rightarrow> string" where
  "join_key prefix key =
     (let key = trim_start_matches (CHR ''/'') key
      in case prefix of
           Some p \<Rightarrow> if key = [] then p else p @ ''/'' @ key
         | None \<Rightarrow> key)"

record BackupObjectStore =
  bos_store :: nat
  bos_prefix :: "string option"

definition bos_new :: "nat \<Rightarrow> string option \<Rightarrow> BackupObjectStore" where
  "bos_new store prefix = \<lparr>bos_store = store, bos_prefix = normalize_optional_prefix prefix\<rparr>"

definition full_path :: "Ext \<Rightarrow> BackupObjectStore \<Rightarrow> string \<Rightarrow> string" where
  "full_path ext store key = x_path ext (join_key (bos_prefix store) key)"

definition bos_strip_prefix :: "BackupObjectStore \<Rightarrow> string \<Rightarrow> string" where
  "bos_strip_prefix store key =
     (case bos_prefix store of
        Some prefix \<Rightarrow> unwrap_or (strip_prefix key (prefix @ ''/'')) key
      | None \<Rightarrow> key)"

fun store_error_string :: "StoreError \<Rightarrow> string" where
  "store_error_string (SNotFound m) = m"
| "store_error_string (SOther m) = m"

definition storage_error :: "StoreError \<Rightarrow> Error" where
  "storage_error e = EStorage (store_error_string e)"

section \<open>Operations on a store\<close>

definition bos_get :: "Ext \<Rightarrow> BackupObjectStore \<Rightarrow> string \<Rightarrow> string io" where
  "bos_get ext store key =
     map_err storage_error (store_call (SGet (bos_store store) (full_path ext store key)) as_bytes)"

text \<open>The listing stops at the first item that is an error.\<close>

fun collect_keys :: "BackupObjectStore \<Rightarrow> (StoreError + string) list \<Rightarrow> Error + string list" where
  "collect_keys store [] = Inr []"
| "collect_keys store (Inl e # items) = Inl (storage_error e)"
| "collect_keys store (Inr location # items) =
     try_bind (collect_keys store items) (\<lambda>keys. Inr (bos_strip_prefix store location # keys))"

definition bos_list :: "Ext \<Rightarrow> BackupObjectStore \<Rightarrow> string \<Rightarrow> string list io" where
  "bos_list ext store prefix =
     ebind (map_err storage_error
             (store_call (SList (bos_store store) (full_path ext store prefix)) as_items)) (\<lambda>items.
     ebind (Ret (collect_keys store items)) (\<lambda>keys. ok (sort keys)))"

definition bos_delete :: "Ext \<Rightarrow> BackupObjectStore \<Rightarrow> string \<Rightarrow> unit io" where
  "bos_delete ext store key =
     pbind (store_call (SDelete (bos_store store) (full_path ext store key)) as_store_unit) (\<lambda>r.
       case r of
         Inr _ \<Rightarrow> ok ()
       | Inl (SNotFound m) \<Rightarrow> ok ()
       | Inl e \<Rightarrow> throw (storage_error e))"

section \<open>Credentials\<close>

record AwsSharedCredentials =
  ac_access_key_id :: "string option"
  ac_secret_access_key :: "string option"
  ac_session_token :: "string option"

definition trim_credential_value :: "string \<Rightarrow> string" where
  "trim_credential_value v = trim_matches (CHR 0x27) (trim_matches (CHR 0x22) (trim v))"

definition aws_field :: "string \<Rightarrow> string \<Rightarrow> AwsSharedCredentials \<Rightarrow> AwsSharedCredentials" where
  "aws_field key v credentials =
     (if key \<in> {''aws_access_key_id'', ''access_key'', ''access_key_id''}
      then credentials\<lparr>ac_access_key_id := Some v\<rparr>
      else if key \<in> {''aws_secret_access_key'', ''secret_key'', ''secret_access_key''}
      then credentials\<lparr>ac_secret_access_key := Some v\<rparr>
      else if key \<in> {''aws_session_token'', ''session_token'', ''token''}
      then credentials\<lparr>ac_session_token := Some v\<rparr>
      else credentials)"

definition aws_line :: "string \<Rightarrow> AwsSharedCredentials \<Rightarrow> AwsSharedCredentials" where
  "aws_line raw credentials =
     (let line = trim raw
      in if line = [] \<or> starts_with line ''#'' \<or> starts_with line ''['' then credentials
         else case split_once (CHR ''='') line of
                None \<Rightarrow> credentials
              | Some (key, v) \<Rightarrow> aws_field (trim key) (trim_credential_value v) credentials)"

definition parse_aws_shared_credentials :: "string \<Rightarrow> AwsSharedCredentials" where
  "parse_aws_shared_credentials input =
     fold aws_line (str_lines input)
       \<lparr>ac_access_key_id = None, ac_secret_access_key = None, ac_session_token = None\<rparr>"

definition sas_token_pairs :: "string \<Rightarrow> (string \<times> string) list" where
  "sas_token_pairs token =
     List.map_filter (split_once (CHR ''=''))
       (split_on (CHR ''&'') (trim_start_matches (CHR ''?'') token))"

section \<open>Building a store\<close>

text \<open>Read one value of a secret the specification may name.\<close>

definition secret_value :: "SecretKeyRef option \<Rightarrow> string \<Rightarrow> string option io" where
  "secret_value oref ns =
     (case oref of
        None \<Rightarrow> ok None
      | Some r \<Rightarrow>
          ebind (get_secret (sk_name r) ns) (\<lambda>secret.
          ebind (Ret (extract_secret_data secret (sk_key r))) (\<lambda>v. ok (Some v))))"

definition build_call :: "StoreBuilder \<Rightarrow> string option \<Rightarrow> BackupObjectStore io" where
  "build_call builder prefix =
     ebind (map_err storage_error (store_call (SBuild builder) as_handle)) (\<lambda>store.
       ok (bos_new store prefix))"

definition build_s3_store :: "string \<Rightarrow> StorageSpec \<Rightarrow> BackupObjectStore io" where
  "build_s3_store ns storage =
     ebind (Ret (ok_or (st_s3 storage)
       (EInvalidConfig ''Storage type is S3 but s3 config is missing''))) (\<lambda>s3.
     ebind (secret_value (s3_credentials_secret s3) ns) (\<lambda>credentials.
     let parsed = (case credentials of
             None \<Rightarrow> \<lparr>ac_access_key_id = None, ac_secret_access_key = None, ac_session_token = None\<rparr>
           | Some text \<Rightarrow> parse_aws_shared_credentials text)
     in
     ebind (secret_value (s3_access_key_secret s3) ns) (\<lambda>access.
     ebind (secret_value (s3_secret_key_secret s3) ns) (\<lambda>secret.
     let builder = \<lparr>sb_bucket_name = s3_bucket s3,
           sb_region = s3_region s3,
           sb_endpoint = s3_endpoint s3,
           sb_virtual_hosted =
             (if is_some (s3_endpoint s3) \<or> unwrap_or (s3_force_path_style s3) False
              then Some False else None),
           sb_allow_http = (if unwrap_or (s3_allow_http s3) False then Some True else None),
           sb_access_key_id = opt_or access (ac_access_key_id parsed),
           sb_secret_access_key = opt_or secret (ac_secret_access_key parsed),
           sb_token = ac_session_token parsed\<rparr>
     in build_call (BuildS3 builder) (s3_prefix s3)))))"

definition build_azure_store :: "string \<Rightarrow> StorageSpec \<Rightarrow> BackupObjectStore io" where
  "build_azure_store ns storage =
     ebind (Ret (ok_or (st_azure storage)
       (EInvalidConfig ''Storage type is Azure but azure config is missing''))) (\<lambda>azure.
     ebind (secret_value (opt_or (az_account_key_secret azure) (az_credentials_secret azure)) ns)
       (\<lambda>access.
     ebind (secret_value (az_sas_token_secret azure) ns) (\<lambda>sas.
     ebind (secret_value (az_client_secret_secret azure) ns) (\<lambda>client_secret.
     ebind (if unwrap_or (az_use_workload_identity azure) False
            then pmap Inr (env_var ''AZURE_FEDERATED_TOKEN_FILE'')
            else ok None) (\<lambda>token_file.
     let builder = \<lparr>ab_account = az_storage_account azure,
           ab_container_name = az_container azure,
           ab_endpoint = az_endpoint azure,
           ab_allow_http =
             (if is_some_and (az_endpoint azure) (\<lambda>e. starts_with e ''http://'')
              then Some True else None),
           ab_access_key = access,
           ab_sas = map_option sas_token_pairs sas,
           ab_client_id = az_client_id azure,
           ab_tenant_id = az_tenant_id azure,
           ab_client_secret = client_secret,
           ab_federated_token_file = token_file,
           ab_use_azure_cli =
             (if unwrap_or (az_use_workload_identity azure) False then Some False else None)\<rparr>
     in build_call (BuildAzure builder) (az_prefix azure))))))"

definition build_gcs_store :: "string \<Rightarrow> StorageSpec \<Rightarrow> BackupObjectStore io" where
  "build_gcs_store ns storage =
     ebind (Ret (ok_or (st_gcs storage)
       (EInvalidConfig ''Storage type is GCS but gcs config is missing''))) (\<lambda>gcs.
     ebind (secret_value (gc_credentials_secret gcs) ns) (\<lambda>key.
     let builder = \<lparr>gb_bucket_name = gc_bucket gcs,
           gb_service_account_key = key,
           gb_service_account_path =
             (if is_some (gc_credentials_secret gcs) then None else gc_service_account_path gcs)\<rparr>
     in build_call (BuildGcs builder) (gc_prefix gcs)))"

definition build_filesystem_store :: "StorageSpec \<Rightarrow> BackupObjectStore io" where
  "build_filesystem_store storage =
     ebind (Ret (ok_or (st_filesystem storage)
       (EInvalidConfig ''Storage type is Filesystem but filesystem config is missing'')))
       (\<lambda>filesystem. build_call (BuildLocal (fs_path filesystem)) None)"

definition build_store :: "string \<Rightarrow> StorageSpec \<Rightarrow> BackupObjectStore io" where
  "build_store ns storage =
     (case st_type storage of
        S3 \<Rightarrow> build_s3_store ns storage
      | Azure \<Rightarrow> build_azure_store ns storage
      | Gcs \<Rightarrow> build_gcs_store ns storage
      | Filesystem \<Rightarrow> build_filesystem_store storage)"

section \<open>Discovery\<close>

definition backup_id_belongs_to_cr :: "string \<Rightarrow> string \<Rightarrow> bool" where
  "backup_id_belongs_to_cr backup_id owner_name \<longleftrightarrow>
     backup_id = owner_name \<or> starts_with backup_id (owner_name @ ''-'')"

definition stored_partitions :: "StoredBackupManifest \<Rightarrow> StoredPartition list" where
  "stored_partitions manifest = concat (map sto_partitions (sm_topics manifest))"

definition stored_segments :: "StoredBackupManifest \<Rightarrow> StoredSegment list" where
  "stored_segments manifest = concat (map sp_segments (stored_partitions manifest))"

definition u64_sum :: "u64 list \<Rightarrow> u64" where
  "u64_sum xs = fold (\<lambda>x acc. acc + x) xs 0"

definition manifest_to_history_entry ::
  "Ext \<Rightarrow> StoredBackupManifest \<Rightarrow> BackupHistoryEntry prog" where
  "manifest_to_history_entry ext manifest =
     pbind (case x_from_millis ext (sm_created_at manifest) of
              Some t \<Rightarrow> Ret t
            | None \<Rightarrow> now) (\<lambda>start_time.
     let partitions_backed_up = sum_list (map (\<lambda>t. length (sto_partitions t)) (sm_topics manifest));
         size_bytes = u64_sum (map ss_compressed_size (stored_segments manifest))
     in Ret \<lparr>he_id = sm_backup_id manifest, he_status = BkCompleted, he_start_time = start_time,
          he_completion_time = None, he_size_bytes = i64_try_from_u64 size_bytes,
          he_topics_backed_up = i32_try_from_usize (length (sm_topics manifest)),
          he_partitions_backed_up = i32_try_from_usize partitions_backed_up\<rparr>)"

definition manifest_suffix :: string where
  "manifest_suffix = ''/manifest.json''"

definition discover_one ::
  "Ext \<Rightarrow> BackupObjectStore \<Rightarrow> string \<Rightarrow> string \<Rightarrow> BackupHistoryEntry list \<Rightarrow>
   BackupHistoryEntry list io" where
  "discover_one ext store owner_name key history =
     (let backup_id = trim_end_str manifest_suffix key
      in if \<not> backup_id_belongs_to_cr backup_id owner_name then ok history
         else pbind (bos_get ext store key) (\<lambda>r.
           case r of
             Inl e \<Rightarrow> ok history
           | Inr bytes \<Rightarrow>
               (case x_manifest ext bytes of
                  None \<Rightarrow> ok history
                | Some manifest \<Rightarrow>
                    pbind (manifest_to_history_entry ext manifest) (\<lambda>entry.
                      ok (history @ [entry])))))"

definition discover_backup_history ::
  "Ext \<Rightarrow> string \<Rightarrow> StorageSpec \<Rightarrow> string \<Rightarrow> BackupHistoryEntry list io" where
  "discover_backup_history ext ns storage owner_name =
     ebind (build_store ns storage) (\<lambda>store.
     ebind (bos_list ext store []) (\<lambda>keys.
     for_fold (filter (\<lambda>k. ends_with k manifest_suffix) keys) []
       (discover_one ext store owner_name)))"

section \<open>Pruning\<close>

definition prune_prefix :: "string \<Rightarrow> string" where
  "prune_prefix backup_id = trim_end_matches (CHR ''/'') backup_id @ ''/''"

definition prune_one ::
  "Ext \<Rightarrow> BackupObjectStore \<Rightarrow> string \<Rightarrow> string list \<Rightarrow> string list io" where
  "prune_one ext store backup_id pruned =
     (let prefix = prune_prefix backup_id
      in ebind (bos_list ext store prefix) (\<lambda>keys.
         if keys = [] then ok (pruned @ [backup_id])
         else ebind (for_each (filter (\<lambda>k. starts_with k prefix) keys) (bos_delete ext store)) (\<lambda>_.
              ok (pruned @ [backup_id]))))"

definition prune_backup_ids ::
  "Ext \<Rightarrow> string \<Rightarrow> StorageSpec \<Rightarrow> string list \<Rightarrow> string list io" where
  "prune_backup_ids ext ns storage backup_ids =
     (if backup_ids = [] then ok []
      else ebind (build_store ns storage) (\<lambda>store.
           for_fold backup_ids [] (prune_one ext store)))"

section \<open>Keys: lemmas\<close>

definition clean_prefix :: "string option \<Rightarrow> bool" where
  "clean_prefix prefix \<longleftrightarrow>
     (case prefix of None \<Rightarrow> True | Some p \<Rightarrow> p \<noteq> [] \<and> hd p \<noteq> CHR ''/'' \<and> last p \<noteq> CHR ''/'')"

lemma normalize_clean: "clean_prefix (normalize_optional_prefix prefix)"
proof (cases prefix)
  case None
  then show ?thesis by (simp add: clean_prefix_def normalize_optional_prefix_def)
next
  case (Some p)
  then show ?thesis
    using trim_matches_ends [of "CHR ''/''" p]
    by (auto simp: clean_prefix_def normalize_optional_prefix_def)
qed

lemma normalize_id: "clean_prefix prefix \<Longrightarrow> normalize_optional_prefix prefix = prefix"
  by (cases prefix)
     (auto simp: clean_prefix_def normalize_optional_prefix_def trim_matches_id)

lemma bos_new_sel [simp]:
  "bos_prefix (bos_new h prefix) = normalize_optional_prefix prefix"
  "bos_store (bos_new h prefix) = h"
  by (simp_all add: bos_new_def)

lemma strip_join:
  assumes "key \<noteq> []" "hd key \<noteq> CHR ''/''"
  shows "bos_strip_prefix store (join_key (bos_prefix store) key) = key"
proof -
  have "trim_start_matches (CHR ''/'') key = key"
    using assms by (simp add: trim_start_matches_id)
  with assms show ?thesis
    by (cases "bos_prefix store")
       (auto simp: bos_strip_prefix_def join_key_def strip_prefix_def starts_with_iff)
qed

lemma u64_sum_eq: "u64_sum xs = sum_list xs"
proof -
  have "fold (\<lambda>x acc. acc + x) xs a = a + sum_list xs" for a :: u64
    by (induction xs arbitrary: a) (simp_all add: ac_simps)
  then show ?thesis by (simp add: u64_sum_def)
qed

lemma uint_sum_list_words:
  "sum_list (map uint xs) < 2 ^ 64 \<Longrightarrow> uint (sum_list (xs :: u64 list)) = sum_list (map uint xs)"
proof (induction xs)
  case (Cons x xs)
  have nn: "0 \<le> sum_list (map uint xs)" by (rule sum_list_nonneg) auto
  have x: "0 \<le> uint x" by simp
  from Cons.prems have le: "uint x + sum_list (map uint xs) < 2 ^ 64" by simp
  with x have "sum_list (map uint xs) < 2 ^ 64" by linarith
  with Cons.IH have ih: "uint (sum_list xs) = sum_list (map uint xs)" .
  have "uint (x + sum_list xs) = (uint x + sum_list (map uint xs)) mod 2 ^ 64"
    by (simp add: uint_word_ariths ih)
  also have "\<dots> = uint x + sum_list (map uint xs)"
    using le nn x by (intro mod_pos_pos_trivial) simp_all
  finally show ?case by simp
qed simp

section \<open>Requests of the store operations\<close>

text \<open>
  The requests each operation may make, by any predicate \<open>P\<close> on events that allows them.
\<close>

lemma only_bos_get [only_intro]:
  "(\<And>r. P (EvStore (SGet (bos_store store) (full_path ext store key)) r)) \<Longrightarrow>
   only P (bos_get ext store key)"
  by (auto simp: bos_get_def intro!: only_intro)

lemma only_bos_list [only_intro]:
  "(\<And>r. P (EvStore (SList (bos_store store) (full_path ext store prefix)) r)) \<Longrightarrow>
   only P (bos_list ext store prefix)"
  by (auto simp: bos_list_def intro!: only_intro)

lemma only_bos_delete [only_intro]:
  "(\<And>r. P (EvStore (SDelete (bos_store store) (full_path ext store key)) r)) \<Longrightarrow>
   only P (bos_delete ext store key)"
  by (auto simp: bos_delete_def intro!: only_intro split: sum.split StoreError.split)

text \<open>A configured store has the normalised prefix of its section.\<close>

definition storage_prefix :: "StorageSpec \<Rightarrow> string option" where
  "storage_prefix storage =
     (case st_type storage of
        S3 \<Rightarrow> and_then (st_s3 storage) s3_prefix
      | Azure \<Rightarrow> and_then (st_azure storage) az_prefix
      | Gcs \<Rightarrow> and_then (st_gcs storage) gc_prefix
      | Filesystem \<Rightarrow> None)"

lemma yields_build_call:
  "storage_prefix storage = prefix \<Longrightarrow>
   yields (\<lambda>store. bos_prefix store = normalize_optional_prefix (storage_prefix storage))
     (build_call b prefix)"
  unfolding build_call_def by (rule yields_ebind [where P = "\<lambda>_. True"]) (auto intro: yields_any)

lemma yields_Ret: "(\<And>x. r = Inr x \<Longrightarrow> P x) \<Longrightarrow> yields P (Ret r)"
  by (cases r) (simp_all add: yields_def)

lemma yields_build_store:
  "yields (\<lambda>store. bos_prefix store = normalize_optional_prefix (storage_prefix storage))
     (build_store ns storage)"
proof (cases "st_type storage")
  case S3
  show ?thesis
    unfolding build_store_def S3 StorageType.case build_s3_store_def
    apply (rule yields_ebind [where P = "\<lambda>s3. st_s3 storage = Some s3"])
     apply (rule yields_Ret, simp)
    apply (rule yields_ebind [where P = "\<lambda>_. True"], rule yields_any, simp)
    apply (simp only: Let_def)
    apply (rule yields_ebind [where P = "\<lambda>_. True"], rule yields_any, simp)+
    apply (rule yields_build_call)
    apply (simp add: storage_prefix_def S3)
    done
next
  case Azure
  show ?thesis
    unfolding build_store_def Azure StorageType.case build_azure_store_def
    apply (rule yields_ebind [where P = "\<lambda>a. st_azure storage = Some a"])
     apply (rule yields_Ret, simp)
    apply (simp only: Let_def)
    apply (rule yields_ebind [where P = "\<lambda>_. True"], rule yields_any, simp)+
    apply (rule yields_build_call)
    apply (simp add: storage_prefix_def Azure)
    done
next
  case Gcs
  show ?thesis
    unfolding build_store_def Gcs StorageType.case build_gcs_store_def
    apply (rule yields_ebind [where P = "\<lambda>a. st_gcs storage = Some a"])
     apply (rule yields_Ret, simp)
    apply (simp only: Let_def)
    apply (rule yields_ebind [where P = "\<lambda>_. True"], rule yields_any, simp)+
    apply (rule yields_build_call)
    apply (simp add: storage_prefix_def Gcs)
    done
next
  case Filesystem
  show ?thesis
    unfolding build_store_def Filesystem StorageType.case build_filesystem_store_def
    apply (rule yields_ebind [where P = "\<lambda>_. True"], rule yields_any, simp)
    apply (rule yields_build_call)
    apply (simp add: storage_prefix_def Filesystem)
    done
qed

lemma only_secret_value [only_intro]:
  "(\<And>n r. P (EvKube (KGetSecret ns n) r)) \<Longrightarrow> only P (secret_value oref ns)"
  by (auto simp: secret_value_def get_secret_def intro!: only_intro split: option.split)

lemma only_build_call [only_intro]:
  "(\<And>b r. P (EvStore (SBuild b) r)) \<Longrightarrow> only P (build_call builder prefix)"
  by (auto simp: build_call_def intro!: only_intro)

lemma only_build_store [only_intro]:
  assumes "\<And>n r. P (EvKube (KGetSecret ns n) r)" "\<And>b r. P (EvStore (SBuild b) r)"
    and "\<And>n v. P (EvEnv n v)"
  shows "only P (build_store ns storage)"
  unfolding build_store_def build_s3_store_def build_azure_store_def build_gcs_store_def
    build_filesystem_store_def Let_def
  using assms by (auto intro!: only_intro split: StorageType.split)

section \<open>Deletion stays inside the pruned backups\<close>

text \<open>
  A deletion is confined when its path is that of a key under \<open>id/\<close> for one of the ids.
\<close>

definition confined :: "Ext \<Rightarrow> string option \<Rightarrow> string list \<Rightarrow> string \<Rightarrow> bool" where
  "confined ext prefix ids path \<longleftrightarrow>
     (\<exists>id \<in> set ids. \<exists>k. starts_with k (prune_prefix id) \<and> path = x_path ext (join_key prefix k))"

fun prune_event :: "Ext \<Rightarrow> string option \<Rightarrow> string list \<Rightarrow> event \<Rightarrow> bool" where
  "prune_event ext prefix ids (EvStore (SDelete h path) r) = confined ext prefix ids path"
| "prune_event ext prefix ids (EvKube q r) = (\<not> kube_write q)"
| "prune_event ext prefix ids e = True"

lemma prune_event_mono:
  "prune_event ext prefix ids e \<Longrightarrow> set ids \<subseteq> set ids' \<Longrightarrow> prune_event ext prefix ids' e"
  by (cases "(ext, prefix, ids, e)" rule: prune_event.cases) (auto simp: confined_def)

lemma confinedI:
  "bid \<in> set ids \<Longrightarrow> starts_with k (prune_prefix bid) \<Longrightarrow>
   confined ext prefix ids (x_path ext (join_key prefix k))"
  by (auto simp: confined_def)

lemma prune_event_store [simp]:
  "\<not> store_write q \<Longrightarrow> prune_event ext prefix ids (EvStore q r)"
  by (cases q) simp_all

lemma only_prune_one:
  assumes "bos_prefix store = prefix" "bid \<in> set ids"
  shows "only (prune_event ext prefix ids) (prune_one ext store bid pruned)"
  unfolding prune_one_def Let_def
  using assms by (auto intro!: only_intro confinedI simp: full_path_def)

lemma only_prune_backup_ids:
  "only (prune_event ext (normalize_optional_prefix (storage_prefix storage)) ids)
     (prune_backup_ids ext ns storage ids)"
proof (cases "ids = []")
  case True
  then show ?thesis by (simp add: prune_backup_ids_def)
next
  case False
  show ?thesis
    unfolding prune_backup_ids_def if_not_P [OF False]
    by (rule only_ebind_yields [OF yields_build_store])
       (auto intro!: only_intro only_prune_one)
qed

lemma yields_prune_one: "yields (\<lambda>r. r = pruned @ [bid]) (prune_one ext store bid pruned)"
  unfolding prune_one_def Let_def
  apply (rule yields_ebind [where P = "\<lambda>_. True"], rule yields_any, simp)
  apply (simp split: if_split)
  apply (rule impI, rule yields_ebind [where P = "\<lambda>_. True"], rule yields_any, simp_all)
  done

lemma yields_prune_backup_ids: "yields (\<lambda>r. r = ids) (prune_backup_ids ext ns storage ids)"
proof (cases "ids = []")
  case True
  then show ?thesis by (simp add: prune_backup_ids_def)
next
  case False
  show ?thesis
    unfolding prune_backup_ids_def if_not_P [OF False]
    using yields_for_fold_append [where s = "[]" and f = "prune_one ext _", OF yields_prune_one]
    by (intro yields_ebind [where P = "\<lambda>_. True"]) (auto intro: yields_any)
qed

section \<open>Discovery reads the owner's manifests only\<close>

fun discover_event :: "Ext \<Rightarrow> string option \<Rightarrow> string \<Rightarrow> event \<Rightarrow> bool" where
  "discover_event ext prefix owner (EvStore (SGet h path) r) =
     (\<exists>k. ends_with k manifest_suffix
        \<and> backup_id_belongs_to_cr (trim_end_str manifest_suffix k) owner
        \<and> path = x_path ext (join_key prefix k))"
| "discover_event ext prefix owner e = (\<not> is_write e)"

lemma only_manifest_entry [only_intro]:
  "(\<And>t. P (EvClock t)) \<Longrightarrow> only P (manifest_to_history_entry ext manifest)"
  unfolding manifest_to_history_entry_def Let_def
  by (auto intro!: only_intro split: option.split)

lemma only_discover_one:
  assumes "bos_prefix store = prefix" "ends_with key manifest_suffix"
  shows "only (discover_event ext prefix owner) (discover_one ext store owner key history)"
  unfolding discover_one_def Let_def
  using assms by (auto intro!: only_intro simp: full_path_def split: sum.split option.split)

lemma only_discover:
  "only (discover_event ext (normalize_optional_prefix (storage_prefix storage)) owner)
     (discover_backup_history ext ns storage owner)"
  unfolding discover_backup_history_def
  by (rule only_ebind_yields [OF yields_build_store])
     (auto intro!: only_intro only_discover_one)

lemma discover_event_read: "discover_event ext prefix owner e \<Longrightarrow> \<not> is_write e"
  by (cases "(ext, prefix, owner, e)" rule: discover_event.cases) auto

text \<open>What discovery returns is completed: it reads finished backups.\<close>

lemma yields_discover_one:
  assumes "\<forall>e \<in> set history. he_status e = BkCompleted"
  shows "yields (\<lambda>r. \<forall>e \<in> set r. he_status e = BkCompleted)
     (discover_one ext store owner key history)"
  using assms
  by (auto simp: discover_one_def Let_def yields_def ends_pbind manifest_to_history_entry_def
      now_def split: sum.splits option.splits outcome.splits
      intro!: ends_mono [OF ends_True])

end
