(* ===== verification/History.thy ===== *)
theory History
  imports K8s
begin

text \<open>
  The backup history kept in the status (\<open>upsert\_history\_entry\<close> and
  \<open>merge\_backup\_history\<close> of \<open>src/src/reconcilers/backup.rs\<close>): one entry per
  backup id, newest first. The interface \<open>merge_store\<close> says what its clients rely on, and
  the history implements it.
\<close>

section \<open>The interface\<close>

text \<open>
  A store of values by key whose update combines the new value with the one it replaces.
\<close>

locale merge_store =
  fixes inv :: "'h \<Rightarrow> bool"
    and get :: "'h \<Rightarrow> 'k \<Rightarrow> 'v option"
    and upd :: "'v \<Rightarrow> 'h \<Rightarrow> 'h"
    and key :: "'v \<Rightarrow> 'k"
    and combine :: "'v \<Rightarrow> 'v option \<Rightarrow> 'v"
  assumes inv_upd: "inv h \<Longrightarrow> inv (upd v h)"
    and get_upd: "inv h \<Longrightarrow>
      get (upd v h) k = (if k = key v then Some (combine v (get h (key v))) else get h k)"
begin

definition upd_all :: "'v list \<Rightarrow> 'h \<Rightarrow> 'h" where
  "upd_all vs h = fold upd vs h"

text \<open>The map the store stands for, and what an update does to it.\<close>

definition map_upd :: "'v \<Rightarrow> ('k \<Rightarrow> 'v option) \<Rightarrow> 'k \<Rightarrow> 'v option" where
  "map_upd v m = m(key v \<mapsto> combine v (m (key v)))"

lemma upd_refines: "inv h \<Longrightarrow> get (upd v h) = map_upd v (get h)"
  by (rule ext) (simp add: map_upd_def get_upd)

lemma upd_all_refines: "inv h \<Longrightarrow> get (upd_all vs h) = fold map_upd vs (get h)"
  by (induction vs arbitrary: h) (simp_all add: upd_all_def inv_upd upd_refines)

lemma inv_upd_all: "inv h \<Longrightarrow> inv (upd_all vs h)"
  by (induction vs arbitrary: h) (simp_all add: upd_all_def inv_upd)

lemma get_upd_all_other:
  "inv h \<Longrightarrow> k \<notin> key ` set vs \<Longrightarrow> get (upd_all vs h) k = get h k"
  by (induction vs arbitrary: h) (simp_all add: upd_all_def inv_upd get_upd)

lemma dom_upd_all:
  "inv h \<Longrightarrow> get (upd_all vs h) k \<noteq> None \<longleftrightarrow> get h k \<noteq> None \<or> k \<in> key ` set vs"
  by (induction vs arbitrary: h) (auto simp: upd_all_def inv_upd get_upd)

lemma get_upd_all_one:
  assumes "inv h" "vs = us @ v # ws" "key v \<notin> key ` set us" "key v \<notin> key ` set ws"
  shows "get (upd_all vs h) (key v) = Some (combine v (get h (key v)))"
proof -
  have "upd_all vs h = upd_all ws (upd v (upd_all us h))"
    by (simp add: upd_all_def assms(2))
  then show ?thesis
    using assms by (simp add: get_upd_all_other inv_upd inv_upd_all get_upd)
qed

end

section \<open>The operations\<close>

text \<open>The entry written over an existing one keeps its completion time if it brings none.\<close>

definition keep_completion :: "BackupHistoryEntry \<Rightarrow> BackupHistoryEntry \<Rightarrow> BackupHistoryEntry" where
  "keep_completion entry existing =
     (if he_completion_time entry = None
      then entry\<lparr>he_completion_time := he_completion_time existing\<rparr>
      else entry)"

text \<open>\<open>iter\_mut().find\<close>: overwrite the first entry with the id, or push.\<close>

fun upsert_first :: "BackupHistoryEntry list \<Rightarrow> BackupHistoryEntry \<Rightarrow> BackupHistoryEntry list" where
  "upsert_first [] entry = [entry]"
| "upsert_first (existing # rest) entry =
     (if he_id existing = he_id entry
      then keep_completion entry existing # rest
      else existing # upsert_first rest entry)"

definition upsert_history_entry ::
  "BackupHistoryEntry list \<Rightarrow> BackupHistoryEntry \<Rightarrow> BackupHistoryEntry list" where
  "upsert_history_entry history entry = sort_desc he_start_time (upsert_first history entry)"

definition merge_backup_history ::
  "BackupHistoryEntry list \<Rightarrow> BackupHistoryEntry list \<Rightarrow> BackupHistoryEntry list" where
  "merge_backup_history history discovered =
     sort_desc he_start_time
       (fold (\<lambda>entry h. upsert_history_entry h entry) discovered history)"

section \<open>The history is a merge store\<close>

definition history_ids :: "BackupHistoryEntry list \<Rightarrow> string list" where
  "history_ids h = map he_id h"

definition unique_ids :: "BackupHistoryEntry list \<Rightarrow> bool" where
  "unique_ids h \<longleftrightarrow> distinct (history_ids h)"

definition newest_first :: "BackupHistoryEntry list \<Rightarrow> bool" where
  "newest_first h \<longleftrightarrow> sorted_wrt (\<lambda>x y. he_start_time y \<le> he_start_time x) h"

definition history_get :: "BackupHistoryEntry list \<Rightarrow> string \<Rightarrow> BackupHistoryEntry option" where
  "history_get h i = List.find (\<lambda>e. he_id e = i) h"

definition combine_entry :: "BackupHistoryEntry \<Rightarrow> BackupHistoryEntry option \<Rightarrow> BackupHistoryEntry" where
  "combine_entry entry old = (case old of None \<Rightarrow> entry | Some e \<Rightarrow> keep_completion entry e)"

lemma he_id_keep_completion [simp]: "he_id (keep_completion a b) = he_id a"
  by (simp add: keep_completion_def)

lemma he_start_keep_completion [simp]: "he_start_time (keep_completion a b) = he_start_time a"
  by (simp add: keep_completion_def)

lemma history_get_None: "history_get h i = None \<longleftrightarrow> i \<notin> set (history_ids h)"
  by (auto simp: history_get_def history_ids_def find_None_iff')

lemma history_get_in: "unique_ids h \<Longrightarrow> history_get h i = Some e \<longleftrightarrow> e \<in> set h \<and> he_id e = i"
proof (induction h)
  case Nil
  then show ?case by (simp add: history_get_def)
next
  case (Cons x h)
  then show ?case
    by (auto simp: history_get_def unique_ids_def history_ids_def)
qed

lemma history_get_permute:
  assumes "unique_ids h" "set h' = set h" "unique_ids h'"
  shows "history_get h' i = history_get h i"
proof (cases "history_get h i")
  case None
  then have "history_get h' i = None"
    using assms(2) by (simp add: history_get_None history_ids_def)
  with None show ?thesis by simp
next
  case (Some e)
  then show ?thesis
    using assms by (metis history_get_in)
qed

lemma upsert_first_ids:
  "history_ids (upsert_first h e) =
     (if he_id e \<in> set (history_ids h) then history_ids h else history_ids h @ [he_id e])"
  by (induction h e rule: upsert_first.induct) (auto simp: history_ids_def)

lemma upsert_first_unique: "unique_ids h \<Longrightarrow> unique_ids (upsert_first h e)"
  by (auto simp: unique_ids_def upsert_first_ids)

lemma unique_ids_sort [simp]: "unique_ids (sort_desc he_start_time h) = unique_ids h"
  by (simp add: unique_ids_def history_ids_def)

lemma newest_first_sort [simp]: "newest_first (sort_desc he_start_time h)"
  by (simp add: newest_first_def sort_desc_sorted)

lemma upsert_first_get:
  "history_get (upsert_first h e) i =
     (if i = he_id e then Some (combine_entry e (history_get h (he_id e))) else history_get h i)"
  by (induction h e rule: upsert_first.induct) (auto simp: history_get_def combine_entry_def)

lemma upsert_unique: "unique_ids h \<Longrightarrow> unique_ids (upsert_history_entry h e)"
  by (simp add: upsert_history_entry_def upsert_first_unique)

lemma upsert_get:
  assumes "unique_ids h"
  shows "history_get (upsert_history_entry h e) i =
     (if i = he_id e then Some (combine_entry e (history_get h (he_id e))) else history_get h i)"
proof -
  have "history_get (upsert_history_entry h e) i = history_get (upsert_first h e) i"
    unfolding upsert_history_entry_def
    by (rule history_get_permute) (simp_all add: upsert_first_unique assms)
  then show ?thesis by (simp add: upsert_first_get)
qed

interpretation history: merge_store unique_ids history_get
  "\<lambda>e h. upsert_history_entry h e" he_id combine_entry
  by unfold_locales (simp_all add: upsert_unique upsert_get)

lemma merge_upd_all:
  "merge_backup_history h ds = sort_desc he_start_time (history.upd_all ds h)"
  by (simp add: merge_backup_history_def history.upd_all_def)

lemma merge_get:
  "unique_ids h \<Longrightarrow> history_get (merge_backup_history h ds) i = history_get (history.upd_all ds h) i"
  unfolding merge_upd_all
  by (rule history_get_permute) (simp_all add: history.inv_upd_all)

lemma merge_unique: "unique_ids h \<Longrightarrow> unique_ids (merge_backup_history h ds)"
  by (simp add: merge_upd_all history.inv_upd_all)

lemma merge_newest_first: "newest_first (merge_backup_history h ds)"
  by (simp add: merge_upd_all)

lemma merge_ids:
  assumes "unique_ids h"
  shows "set (history_ids (merge_backup_history h ds)) = set (history_ids h) \<union> he_id ` set ds"
proof (rule set_eqI)
  fix i
  have "i \<in> set (history_ids (merge_backup_history h ds)) \<longleftrightarrow>
      history_get (history.upd_all ds h) i \<noteq> None"
    using merge_get [OF assms] history_get_None by metis
  also have "\<dots> \<longleftrightarrow> history_get h i \<noteq> None \<or> i \<in> he_id ` set ds"
    by (rule history.dom_upd_all [OF assms])
  finally show "i \<in> set (history_ids (merge_backup_history h ds)) \<longleftrightarrow>
      i \<in> set (history_ids h) \<union> he_id ` set ds"
    by (simp add: history_get_None)
qed

text \<open>Dropping pruned ids restricts the map and keeps both invariants.\<close>

lemma retain_get:
  "history_get (filter (\<lambda>e. he_id e \<notin> set pruned) h) = history_get h |` (- set pruned)"
  by (rule ext, induction h) (auto simp: history_get_def restrict_map_def)

lemma retain_unique: "unique_ids h \<Longrightarrow> unique_ids (filter P h)"
  by (simp add: unique_ids_def history_ids_def distinct_map_filter)

lemma retain_newest_first: "newest_first h \<Longrightarrow> newest_first (filter P h)"
  by (simp add: newest_first_def sorted_wrt_filter)

end
