(* ===== verification/Reconcile_Backup.thy ===== *)
theory Reconcile_Backup
  imports Reconcile_Common Config_Backup Retention_Policy Retention_Storage History
    "HOL-Library.Option_ord"
begin

text \<open>
  The reconciler of \<open>KafkaBackup\<close> resources (\<open>src/src/reconcilers/backup.rs\<close>), whole:
  the dispatch on deletion and pause, the finalizer, the resolution of the cluster and the
  credentials, the ConfigMap, the CronJob of a scheduled backup, the Job of a one-shot or
  triggered one, the recording of outcomes and the retention policy. Every \<open>await\<close> of the
  source is one request of the program; log lines are left out. Functions of the source that
  also exist in \<open>restore.rs\<close> carry the prefix \<open>backup_\<close>.
\<close>

section \<open>Reading and writing the status\<close>

definition current_backup_status :: "string \<Rightarrow> string \<Rightarrow> KafkaBackupStatus io" where
  "current_backup_status ns name =
     ebind (kube_io (KGetBackupStatus ns name) as_backup) (\<lambda>b.
       ok (unwrap_or (kbr_status b) default_backup_status))"

definition send_backup_status :: "string \<Rightarrow> string \<Rightarrow> BackupStatusPatch \<Rightarrow> unit io" where
  "send_backup_status ns name patch =
     kube_io (KPatchBackupStatus ns name apply_params patch) as_unit"

definition backup_patch_status :: "string \<Rightarrow> string \<Rightarrow> KafkaBackupStatus \<Rightarrow> unit io" where
  "backup_patch_status ns name status = send_backup_status ns name (backup_status_patch status)"

definition patch_backup_history ::
  "string \<Rightarrow> string \<Rightarrow> BackupHistoryEntry list \<Rightarrow> unit io" where
  "patch_backup_history ns name history =
     send_backup_status ns name
       \<lparr>bsp_conditions = None, bsp_last_backup = None, bsp_backup_history = Some history,
        bsp_observed_generation = None, bsp_next_scheduled_backup = None\<rparr>"

definition backup_update_status_running :: "string \<Rightarrow> string \<Rightarrow> int \<Rightarrow> unit io" where
  "backup_update_status_running ns name generation =
     ebind (current_backup_status ns name) (\<lambda>status.
     pbind (not_ready_io REASON_BACKUP_RUNNING ''Backup job is running'') (\<lambda>c.
     backup_patch_status ns name
       (status\<lparr>bs_conditions := [c], bs_observed_generation := Some generation\<rparr>)))"

definition backup_update_status_reconciliation_paused :: "string \<Rightarrow> KafkaBackup \<Rightarrow> unit io" where
  "backup_update_status_reconciliation_paused ns backup =
     (let name = name_any (kbr_metadata backup);
          generation = generation_of (kbr_metadata backup);
          status = unwrap_or (kbr_status backup) default_backup_status;
          already_current =
            is_condition_true (bs_conditions status) CONDITION_TYPE_RECONCILIATION_PAUSED
            \<and> bs_observed_generation status = Some generation
      in if already_current then ok ()
         else pbind reconciliation_paused_io (\<lambda>c.
           backup_patch_status ns name
             (status\<lparr>bs_conditions := [c], bs_observed_generation := Some generation\<rparr>)))"

definition update_status_scheduled :: "string \<Rightarrow> string \<Rightarrow> int \<Rightarrow> string \<Rightarrow> unit io" where
  "update_status_scheduled ns name generation next_backup =
     ebind (current_backup_status ns name) (\<lambda>status.
     let already_current =
           is_some_and (find_condition (bs_conditions status) CONDITION_TYPE_READY)
             (\<lambda>c. cd_reason c = Some REASON_BACKUP_SCHEDULED)
           \<and> bs_next_scheduled_backup status = Some next_backup
           \<and> bs_observed_generation status = Some generation
     in if already_current then ok ()
        else pbind (ready_io REASON_BACKUP_SCHEDULED (''Next backup scheduled: '' @ next_backup))
          (\<lambda>c. backup_patch_status ns name
             (status\<lparr>bs_conditions := [c], bs_observed_generation := Some generation,
                bs_next_scheduled_backup := Some next_backup\<rparr>)))"

definition update_status_suspended :: "string \<Rightarrow> string \<Rightarrow> int \<Rightarrow> unit io" where
  "update_status_suspended ns name generation =
     ebind (current_backup_status ns name) (\<lambda>current.
     let already_current =
           is_some_and (find_condition (bs_conditions current) CONDITION_TYPE_READY)
             (\<lambda>c. cd_reason c = Some REASON_BACKUP_SUSPENDED)
           \<and> bs_next_scheduled_backup current = None
           \<and> bs_observed_generation current = Some generation
     in if already_current then ok ()
        else pbind (ready_io REASON_BACKUP_SUSPENDED ''Backup schedule is suspended'') (\<lambda>c.
          send_backup_status ns name
            \<lparr>bsp_conditions = Some [c], bsp_last_backup = None, bsp_backup_history = None,
             bsp_observed_generation = Some generation,
             bsp_next_scheduled_backup = Some None\<rparr>))"

definition last_backup_of :: "BackupHistoryEntry \<Rightarrow> LastBackupInfo" where
  "last_backup_of entry =
     \<lparr>lb_id = he_id entry, lb_start_time = he_start_time entry,
      lb_completion_time = he_completion_time entry, lb_status = BkCompleted,
      lb_size_bytes = he_size_bytes entry, lb_topics_backed_up = he_topics_backed_up entry,
      lb_partitions_backed_up = he_partitions_backed_up entry,
      lb_oldest_timestamp = None, lb_newest_timestamp = None\<rparr>"

definition backup_update_status_completed ::
  "string \<Rightarrow> string \<Rightarrow> int \<Rightarrow> BackupHistoryEntry \<Rightarrow> unit io" where
  "backup_update_status_completed ns name generation entry =
     ebind (current_backup_status ns name) (\<lambda>status.
     pbind (ready_io REASON_BACKUP_COMPLETED ''Backup completed successfully'') (\<lambda>c.
     backup_patch_status ns name
       (status\<lparr>bs_conditions := [c],
          bs_last_backup := Some (last_backup_of entry),
          bs_observed_generation := Some generation,
          bs_backup_history := upsert_history_entry (bs_backup_history status) entry\<rparr>)))"

definition backup_update_status_error :: "string \<Rightarrow> string \<Rightarrow> int \<Rightarrow> Error \<Rightarrow> unit io" where
  "backup_update_status_error ns name generation error =
     ebind (current_backup_status ns name) (\<lambda>status.
     pbind (error_conditions_io (error_reason error) (error_string error)) (\<lambda>cs.
     backup_patch_status ns name
       (status\<lparr>bs_conditions := cs, bs_observed_generation := Some generation\<rparr>)))"

section \<open>Metadata, ConfigMap and cleanup\<close>

definition backup_add_finalizer :: "string \<Rightarrow> string \<Rightarrow> unit io" where
  "backup_add_finalizer ns name =
     kube_io (KPatchBackup ns name apply_params (SetFinalizers [FINALIZER])) as_unit"

definition backup_remove_finalizer :: "string \<Rightarrow> string \<Rightarrow> unit io" where
  "backup_remove_finalizer ns name =
     kube_io (KPatchBackup ns name apply_params NullFinalizers) as_unit"

definition remove_trigger_annotation :: "string \<Rightarrow> string \<Rightarrow> unit io" where
  "remove_trigger_annotation ns name =
     kube_io (KPatchBackup ns name apply_params (NullAnnotation TRIGGER_ANNOTATION)) as_unit"

definition backup_create_or_update_config_map ::
  "string \<Rightarrow> string \<Rightarrow> string \<Rightarrow> KafkaBackup \<Rightarrow> unit io" where
  "backup_create_or_update_config_map ns name config_yaml owner =
     kube_io (KApplyConfigMap ns name apply_params
       (owned_config_map ''KafkaBackup'' ''kafkabackup.com/backup'' ns name (kbr_metadata owner)
          ''backup.yaml'' config_yaml)) as_unit"

definition apply_cronjob :: "string \<Rightarrow> string \<Rightarrow> CronJob \<Rightarrow> unit io" where
  "apply_cronjob ns name resource =
     kube_io (KApplyCronJob ns name (apply_params\<lparr>pp_force := True\<rparr>) resource) as_unit"

definition backup_jobs_selector :: "string \<Rightarrow> string" where
  "backup_jobs_selector backup_name =
     ''kafkabackup.com/backup='' @ backup_name @ '',kafkabackup.com/type=backup''"

definition backup_cleanup_selector :: "string \<Rightarrow> string" where
  "backup_cleanup_selector name =
     ''app.kubernetes.io/managed-by=kafka-backup-operator,kafkabackup.com/backup='' @ name"

definition list_backup_jobs :: "string \<Rightarrow> string \<Rightarrow> Job list io" where
  "list_backup_jobs ns name = kube_io (KListJobs ns (backup_jobs_selector name)) as_jobs"

definition delete_job :: "string \<Rightarrow> Job \<Rightarrow> (KubeError + unit) prog" where
  "delete_job ns job =
     kube_call (KDeleteJob ns (unwrap_or (om_name (jb_metadata job)) []) cleanup_delete_params) as_unit"

text \<open>Every deletion is best effort; only the finalizer's removal can fail.\<close>

definition backup_handle_cleanup :: "KafkaBackup \<Rightarrow> string \<Rightarrow> unit io" where
  "backup_handle_cleanup backup ns =
     (let name = name_any (kbr_metadata backup) in
      pbind (kube_call (KListJobs ns (backup_cleanup_selector name)) as_jobs) (\<lambda>r.
      pbind (case r of
               Inr job_list \<Rightarrow> for_ignore job_list (delete_job ns)
             | Inl _ \<Rightarrow> Ret ()) (\<lambda>_.
      pbind (kube_call (KDeleteCronJob ns (name @ ''-scheduled'') cleanup_delete_params) as_unit) (\<lambda>_.
      pbind (kube_call (KDeleteConfigMap ns (name @ ''-config'') cleanup_delete_params) as_unit) (\<lambda>_.
      backup_remove_finalizer ns name)))))"

section \<open>Outcomes\<close>

definition terminal_job :: "Job \<Rightarrow> bool" where
  "terminal_job j \<longleftrightarrow> job_succeeded j \<or> job_failed j"

definition job_start_time :: "Job \<Rightarrow> timestamp option" where
  "job_start_time j = and_then (jb_status j) jst_start_time"

definition job_completion_time :: "Job \<Rightarrow> timestamp option" where
  "job_completion_time j = and_then (jb_status j) jst_completion_time"

definition latest_terminal :: "Job list \<Rightarrow> Job option" where
  "latest_terminal jobs = max_by_key job_start_time (filter terminal_job jobs)"

definition history_entry_of :: "Job \<Rightarrow> timestamp \<Rightarrow> BackupHistoryEntry" where
  "history_entry_of job t =
     \<lparr>he_id = job_name job, he_status = BkCompleted,
      he_start_time = unwrap_or (job_start_time job) t,
      he_completion_time = Some (unwrap_or (job_completion_time job) t),
      he_size_bytes = None, he_topics_backed_up = None, he_partitions_backed_up = None\<rparr>"

definition failure_message :: "Job \<Rightarrow> string" where
  "failure_message job = ''Backup job '' @ job_name job @ '' failed''"

definition success_recorded :: "KafkaBackup \<Rightarrow> Job \<Rightarrow> bool" where
  "success_recorded backup job =
     is_some_and (and_then (kbr_status backup) bs_last_backup) (\<lambda>lb. lb_id lb = job_name job)"

definition failure_recorded :: "KafkaBackup \<Rightarrow> Job \<Rightarrow> bool" where
  "failure_recorded backup job =
     is_some_and (and_then (kbr_status backup)
         (\<lambda>s. find_condition (bs_conditions s) CONDITION_TYPE_ERROR))
       (\<lambda>c. cd_message c = Some (failure_message job))"

definition check_job_completion :: "KafkaBackup \<Rightarrow> string \<Rightarrow> int \<Rightarrow> unit io" where
  "check_job_completion backup ns generation =
     (let name = name_any (kbr_metadata backup) in
      ebind (list_backup_jobs ns name) (\<lambda>jobs.
      case latest_terminal jobs of
        None \<Rightarrow> ok ()
      | Some job \<Rightarrow>
          if job_succeeded job
          then if success_recorded backup job then ok ()
               else pbind now (\<lambda>t.
                 backup_update_status_completed ns name generation (history_entry_of job t))
          else if failure_recorded backup job then ok ()
               else ebind (current_backup_status ns name) (\<lambda>status.
                    pbind (error_conditions_io REASON_BACKUP_FAILED (failure_message job)) (\<lambda>cs.
                    backup_patch_status ns name
                      (status\<lparr>bs_conditions := cs, bs_observed_generation := Some generation\<rparr>)))))"

section \<open>Retention\<close>

definition active_ids_of :: "Job list \<Rightarrow> string \<Rightarrow> KafkaBackup \<Rightarrow> string list" where
  "active_ids_of jobs backup_name backup =
     concat (map (\<lambda>job.
       if unwrap_or (and_then (jb_status job) jst_active) 0 > 0
       then (case om_name (jb_metadata job) of None \<Rightarrow> [] | Some n \<Rightarrow> [n])
            @ (if is_some (kb_offset_storage (kbr_spec backup)) then [backup_name] else [])
       else []) jobs)"

definition active_backup_ids :: "string \<Rightarrow> string \<Rightarrow> KafkaBackup \<Rightarrow> string list io" where
  "active_backup_ids ns backup_name backup =
     ebind (list_backup_jobs ns backup_name) (\<lambda>jobs. ok (active_ids_of jobs backup_name backup))"

text \<open>\<open>evaluate_retention\<close> reads the clock only to apply an age that parses.\<close>

definition evaluate_retention_io ::
  "Ext \<Rightarrow> BackupHistoryEntry list \<Rightarrow> RetentionSpec \<Rightarrow> string list io" where
  "evaluate_retention_io ext history retention =
     (case (if history = [] then None else rt_max_age retention) of
        None \<Rightarrow> lift_checked (evaluate_retention ext 0 history retention)
      | Some max_age \<Rightarrow>
          (case parse_duration ext max_age of
             Value (Some d) \<Rightarrow>
               pbind now (\<lambda>t. lift_checked (evaluate_retention ext t history retention))
           | _ \<Rightarrow> lift_checked (evaluate_retention ext 0 history retention)))"

definition retention_due :: "KafkaBackup \<Rightarrow> RetentionSpec \<Rightarrow> bool" where
  "retention_due backup retention \<longleftrightarrow>
     kb_schedule (kbr_spec backup) \<noteq> None \<and> rt_prune_on_schedule retention"

definition apply_retention_policy :: "Ext \<Rightarrow> KafkaBackup \<Rightarrow> string \<Rightarrow> unit io" where
  "apply_retention_policy ext backup ns =
     (case kb_retention (kbr_spec backup) of
        None \<Rightarrow> ok ()
      | Some retention \<Rightarrow>
          if \<not> retention_due backup retention then ok ()
          else
            let name = name_any (kbr_metadata backup);
                storage = kb_storage (kbr_spec backup) in
            ebind (current_backup_status ns name) (\<lambda>status.
            ebind (discover_backup_history ext ns storage name) (\<lambda>discovered.
            let history = merge_backup_history (bs_backup_history status) discovered in
            ebind (active_backup_ids ns name backup) (\<lambda>active.
            ebind (evaluate_retention_io ext history retention) (\<lambda>evaluated.
            let to_prune = filter (\<lambda>i. i \<notin> set active) evaluated in
            if to_prune = [] then patch_backup_history ns name history
            else ebind (prune_backup_ids ext ns storage to_prune) (\<lambda>pruned.
                 patch_backup_history ns name
                   (filter (\<lambda>e. he_id e \<notin> set pruned) history)))))))"

section \<open>The reconciler\<close>

definition triggered_now :: "KafkaBackup \<Rightarrow> bool" where
  "triggered_now backup =
     is_some_and (and_then (om_annotations (kbr_metadata backup)) (\<lambda>a. bt_get a TRIGGER_ANNOTATION))
       (\<lambda>v. v = TRIGGER_VALUE_NOW)"

definition schedule_step ::
  "Ext \<Rightarrow> KafkaBackup \<Rightarrow> string \<Rightarrow> int \<Rightarrow> ResolvedKafkaCluster \<Rightarrow> ResolvedAuth \<Rightarrow>
   string option \<Rightarrow> unit io" where
  "schedule_step ext backup ns generation cluster auth account =
     (case kb_schedule (kbr_spec backup) of
        None \<Rightarrow> ok ()
      | Some schedule \<Rightarrow>
          let name = name_any (kbr_metadata backup) in
          ebind (lift_checked (build_backup_cronjob ext backup (name @ ''-config'') cluster auth account))
            (\<lambda>cronjob.
          ebind (apply_cronjob ns (name @ ''-scheduled'') cronjob) (\<lambda>_.
          if sd_suspend schedule then update_status_suspended ns name generation
          else update_status_scheduled ns name generation (sd_cron schedule))))"

definition job_step ::
  "Ext \<Rightarrow> KafkaBackup \<Rightarrow> string \<Rightarrow> int \<Rightarrow> ResolvedKafkaCluster \<Rightarrow> ResolvedAuth \<Rightarrow>
   string option \<Rightarrow> unit io" where
  "job_step ext backup ns generation cluster auth account =
     (let name = name_any (kbr_metadata backup);
          triggered = triggered_now backup in
      if kb_schedule (kbr_spec backup) = None \<or> triggered
      then ebind (list_backup_jobs ns name) (\<lambda>jobs.
           ebind (if should_create_backup_job (classify_jobs jobs) triggered
                  then pbind now (\<lambda>t.
                       let jname = name @ ''-'' @ x_job_stamp ext t;
                           job = build_backup_job ext backup jname (name @ ''-config'') cluster auth
                             account
                       in ebind (create_job ns job) (\<lambda>_.
                          backup_update_status_running ns name generation))
                  else ok ()) (\<lambda>_.
           if triggered then remove_trigger_annotation ns name else ok ()))
      else ok ())"

definition reconcile_backup_active :: "Ext \<Rightarrow> KafkaBackup \<Rightarrow> string \<Rightarrow> unit io" where
  "reconcile_backup_active ext backup ns =
     (let spec = kbr_spec backup;
          name = name_any (kbr_metadata backup);
          generation = generation_of (kbr_metadata backup) in
      pbind (resolve_kafka_cluster (kb_strimzi_cluster_ref spec) ns
        (map_option au_type (kb_authentication spec))) (\<lambda>rc.
      case rc of
        Inl e \<Rightarrow> ebind (backup_update_status_error ns name generation e) (\<lambda>_. throw e)
      | Inr cluster \<Rightarrow>
          pbind (resolve_cluster_ca (kcl_name cluster) (sc_ca_secret (kb_strimzi_cluster_ref spec)) ns)
            (\<lambda>tls_certs.
          ebind (resolve_auth (kb_authentication spec) ns) (\<lambda>auth.
          ebind (Ret (build_backup_config_yaml ext backup cluster auth)) (\<lambda>config_yaml.
          ebind (backup_create_or_update_config_map ns (name @ ''-config'') config_yaml backup) (\<lambda>_.
          pbind job_service_account_name (\<lambda>account.
          ebind (schedule_step ext backup ns generation cluster auth account) (\<lambda>_.
          ebind (job_step ext backup ns generation cluster auth account) (\<lambda>_.
          ebind (check_job_completion backup ns generation) (\<lambda>_.
          apply_retention_policy ext backup ns))))))))))"

definition reconcile_backup :: "Ext \<Rightarrow> KafkaBackup \<Rightarrow> unit io" where
  "reconcile_backup ext backup =
     (let meta = kbr_metadata backup;
          name = name_any meta in
      ebind (Ret (ok_or (om_namespace meta) (EMissingObjectKey ''.metadata.namespace''))) (\<lambda>ns.
      if om_deletion_timestamp meta \<noteq> None then backup_handle_cleanup backup ns
      else if is_reconciliation_paused meta
      then backup_update_status_reconciliation_paused ns backup
      else ebind (if has_finalizer meta then ok () else backup_add_finalizer ns name) (\<lambda>_.
           reconcile_backup_active ext backup ns)))"

end
