(* ===== verification/Config_Restore.thy ===== *)
theory Config_Restore
  imports Config_Parts
begin

text \<open>
  The configuration file of a restore run (\<open>src/src/adapters/restore\_config.rs\<close>). The
  options function is one long body in the source; here it is the composition, in the source's
  order, of its four blocks (point in time, topic mapping, restore options, consumer groups),
  each of which may stop with an error. The private copies the source keeps of the shared
  builders are modelled from their own text and proved equal to those of \<open>Config_Parts\<close>.
\<close>

section \<open>The private copies of the shared builders\<close>

definition restore_insert_bool :: "string \<Rightarrow> bool option \<Rightarrow> ymap \<Rightarrow> ymap" where
  "restore_insert_bool k v m = put_opt k YBool v m"

definition restore_insert_u64 :: "string \<Rightarrow> int option \<Rightarrow> ymap \<Rightarrow> ymap" where
  "restore_insert_u64 k v m = put_opt k YNum v m"

definition restore_connection_config :: "KafkaConnectionSpec \<Rightarrow> ymap" where
  "restore_connection_config connection =
     (let config = [];
          config = restore_insert_bool ''tcp_keepalive'' (kc_tcp_keepalive connection) config;
          config = restore_insert_u64 ''keepalive_time_secs'' (kc_keepalive_time_secs connection)
            config;
          config = restore_insert_u64 ''keepalive_interval_secs''
            (kc_keepalive_interval_secs connection) config;
          config = restore_insert_bool ''tcp_nodelay'' (kc_tcp_nodelay connection) config;
          config = put_opt ''connections_per_broker'' YNum (kc_connections_per_broker connection)
            config
      in config)"

definition restore_metrics_options :: "MetricsSpec \<Rightarrow> ymap" where
  "restore_metrics_options metrics =
     (let config = [];
          config = restore_insert_bool ''enabled'' (ms_enabled metrics) config;
          config = put_opt ''port'' YNum (ms_port metrics) config;
          config = put_opt ''bind_address'' YStr (ms_bind_address metrics) config;
          config = put_opt ''path'' YStr (ms_path metrics) config;
          config = restore_insert_u64 ''keep_alive_seconds'' (ms_keep_alive_seconds metrics) config;
          config = restore_insert_u64 ''update_interval_ms'' (ms_update_interval_ms metrics) config;
          config = put_opt ''max_partition_labels'' YNum (ms_max_partition_labels metrics) config
      in config)"

definition restore_kafka_config ::
  "ResolvedKafkaCluster \<Rightarrow> ResolvedAuth \<Rightarrow> TopicSelection option \<Rightarrow>
   KafkaConnectionSpec option \<Rightarrow> ymap" where
  "restore_kafka_config cluster auth topics connection =
     (let kafka = put ''bootstrap_servers'' (YSeq [YStr (kcl_bootstrap_servers cluster)]) [];
          security = [];
          protocol = (case (kcl_tls_enabled cluster, auth) of
              (_, RTls _) \<Rightarrow> ''SSL''
            | (True, RScramSha512 _ _ _) \<Rightarrow> ''SASL_SSL''
            | (False, RScramSha512 _ _ _) \<Rightarrow> ''SASL_PLAINTEXT''
            | (True, RNone) \<Rightarrow> ''SSL''
            | (False, RNone) \<Rightarrow> ''PLAINTEXT'');
          security = put ''security_protocol'' (YStr protocol) security;
          security = put_if (kcl_tls_enabled cluster \<or> is_tls_auth auth) ''ssl_ca_location''
            (YStr ''/certs/cluster-ca/ca.crt'') security;
          security = (case auth of
              RTls _ \<Rightarrow>
                put ''ssl_key_location'' (YStr ''/certs/user/user.key'')
                  (put ''ssl_certificate_location'' (YStr ''/certs/user/user.crt'') security)
            | RScramSha512 username _ _ \<Rightarrow>
                put ''sasl_password'' (YStr ''${KAFKA_SASL_PASSWORD}'')
                  (put ''sasl_username'' (YStr username)
                    (put ''sasl_mechanism'' (YStr SASL_MECHANISM_SCRAM_SHA512) security))
            | RNone \<Rightarrow> security);
          kafka = put ''security'' (YMap security) kafka;
          kafka = put_section_opt ''topics'' build_topic_selection topics kafka;
          kafka = put_section_opt ''connection'' restore_connection_config connection kafka
      in kafka)"

lemma restore_connection_config_eq: "restore_connection_config = build_connection_config"
  by (rule ext) (simp add: restore_connection_config_def build_connection_config_def Let_def
      restore_insert_bool_def restore_insert_u64_def insert_bool_def insert_u64_def)

lemma restore_metrics_options_eq: "restore_metrics_options = build_metrics_options"
  by (rule ext) (simp add: restore_metrics_options_def build_metrics_options_def Let_def
      restore_insert_bool_def restore_insert_u64_def insert_bool_def insert_u64_def)

lemma restore_kafka_config_eq: "restore_kafka_config = build_kafka_config"
proof (intro ext)
  fix cluster auth topics connection
  show "restore_kafka_config cluster auth topics connection =
      build_kafka_config cluster auth topics connection"
    by (cases auth; cases "kcl_tls_enabled cluster")
       (simp_all add: restore_kafka_config_def build_kafka_config_def build_security_config_def
         security_protocol_def restore_connection_config_eq Let_def)
qed

section \<open>Restore options\<close>

definition offset_from_end_unsupported :: string where
  "offset_from_end_unsupported = ''pointInTime.offsetFromEnd is not supported by the current kafka-backup core config''"

definition fail_policy_unsupported :: string where
  "fail_policy_unsupported = ''restore.existingTopicPolicy: fail is not supported by the current kafka-backup core config''"

definition groups_required :: string where
  "groups_required = ''consumerGroups.restore requires consumerGroups.groups, consumerGroups.mapping, or consumerGroups.auto: true''"

definition renaming_unsupported :: string where
  "renaming_unsupported = ''consumerGroups.mapping with different sourceGroup and targetGroup is not supported by the current kafka-backup core config''"

definition put_instant ::
  "Ext \<Rightarrow> string \<Rightarrow> string \<Rightarrow> string option \<Rightarrow> ymap \<Rightarrow> Error + ymap" where
  "put_instant ext key label ots config =
     (case ots of
        None \<Rightarrow> Inr config
      | Some timestamp \<Rightarrow>
          (case x_rfc3339_millis ext timestamp of
             None \<Rightarrow> Inl (EInvalidConfig (''Invalid '' @ label @ '' format: '' @ timestamp))
           | Some ms \<Rightarrow> Inr (put key (YNum ms) config)))"

definition put_point_in_time :: "Ext \<Rightarrow> PointInTimeSpec option \<Rightarrow> ymap \<Rightarrow> Error + ymap" where
  "put_point_in_time ext opitr config =
     (case opitr of
        None \<Rightarrow> Inr config
      | Some pitr \<Rightarrow>
          try_bind (put_instant ext ''time_window_start'' ''startTimestamp''
            (pit_start_timestamp pitr) config) (\<lambda>config.
          try_bind (put_instant ext ''time_window_end'' ''timestamp''
            (pit_timestamp pitr) config) (\<lambda>config.
          if is_some (pit_offset_from_end pitr)
          then Inl (EInvalidConfig offset_from_end_unsupported)
          else Inr config)))"

definition put_topic_mapping :: "TopicMappingEntry list \<Rightarrow> ymap \<Rightarrow> ymap" where
  "put_topic_mapping entries config =
     put_if (entries \<noteq> []) ''topic_mapping''
       (YMap (fold (\<lambda>entry. put (tm_source_topic entry) (YStr (tm_target_topic entry))) entries []))
       config"

definition repartitioning_entry :: "TopicRepartitioningSpec \<Rightarrow> ymap" where
  "repartitioning_entry entry =
     (let topic_config = [];
          topic_config = put_opt ''strategy'' YStr (tr_strategy entry) topic_config;
          topic_config = put ''target_partitions'' (YNum (tr_target_partitions entry)) topic_config
      in topic_config)"

text \<open>The options before the existing-topic policy, then the policy, then the rest.\<close>

definition put_produce_options :: "RestoreOptionsSpec \<Rightarrow> ymap \<Rightarrow> ymap" where
  "put_produce_options opts config =
     (let config = restore_insert_bool ''dry_run'' (ro_dry_run opts) config;
          config = restore_insert_bool ''include_original_offset_header''
            (ro_include_original_offset_header opts) config;
          config = put_if (ro_source_partitions opts \<noteq> []) ''source_partitions''
            (YSeq (map YNum (ro_source_partitions opts))) config;
          config = put_if (ro_partition_mapping opts \<noteq> []) ''partition_mapping''
            (YMap (fold (\<lambda>entry. y_insert (YNum (pme_source_partition entry))
                (YNum (pme_target_partition entry))) (ro_partition_mapping opts) [])) config;
          config = put_opt ''max_concurrent_partitions'' YNum (ro_parallelism opts) config;
          config = restore_insert_u64 ''rate_limit_records_per_sec''
            (ro_rate_limit_records_per_sec opts) config;
          config = restore_insert_u64 ''rate_limit_bytes_per_sec''
            (ro_rate_limit_bytes_per_sec opts) config;
          config = put_opt ''produce_batch_size'' YNum (ro_produce_batch_size opts) config;
          config = put_opt ''produce_acks'' YNum (ro_produce_acks opts) config;
          config = put_opt ''produce_timeout_ms'' YNum (ro_produce_timeout_ms opts) config;
          config = put_opt ''checkpoint_state'' YStr (ro_checkpoint_state opts) config;
          config = restore_insert_u64 ''checkpoint_interval_secs''
            (ro_checkpoint_interval_secs opts) config;
          config = restore_insert_bool ''create_topics''
            (map_option (\<lambda>p. p = TcAuto) (ro_topic_creation opts)) config;
          config = put_opt ''default_replication_factor'' YNum
            (ro_default_replication_factor opts) config
      in config)"

definition put_topic_policy :: "ExistingTopicPolicy option \<Rightarrow> ymap \<Rightarrow> Error + ymap" where
  "put_topic_policy opolicy config =
     (case opolicy of
        None \<Rightarrow> Inr config
      | Some EtOverwrite \<Rightarrow> Inr (put ''purge_topics'' (YBool True) config)
      | Some EtAppend \<Rightarrow> Inr config
      | Some EtFail \<Rightarrow> Inl (EInvalidConfig fail_policy_unsupported))"

definition put_restore_options :: "RestoreOptionsSpec option \<Rightarrow> ymap \<Rightarrow> Error + ymap" where
  "put_restore_options oopts config =
     (case oopts of
        None \<Rightarrow> Inr config
      | Some opts \<Rightarrow>
          try_bind (put_topic_policy (ro_existing_topic_policy opts)
            (put_produce_options opts config)) (\<lambda>config.
          let config = restore_insert_bool ''purge_topics'' (ro_purge_topics opts) config;
              config = put_if (ro_repartitioning opts \<noteq> []) ''repartitioning''
                (YMap (fold (\<lambda>entry. put (tr_topic entry) (YMap (repartitioning_entry entry)))
                   (ro_repartitioning opts) [])) config
          in Inr config))"

definition put_consumer_groups :: "ConsumerGroupRestoreSpec option \<Rightarrow> ymap \<Rightarrow> Error + ymap" where
  "put_consumer_groups ocg config =
     (case ocg of
        None \<Rightarrow> Inr config
      | Some cg \<Rightarrow>
          if \<not> cg_restore cg then Inr config
          else
            let has_explicit_groups = cg_mapping cg \<noteq> [] \<or> cg_groups cg \<noteq> [];
                auto_groups = unwrap_or (cg_auto cg) False
            in if \<not> has_explicit_groups \<and> \<not> auto_groups
               then Inl (EInvalidConfig groups_required)
               else
                 let config = put_if has_explicit_groups ''reset_consumer_offsets'' (YBool True)
                       config;
                     config = put_opt ''consumer_group_strategy'' YStr (cg_strategy cg) config;
                     config = put_opt ''offset_report'' YStr (cg_offset_report cg) config;
                     config = restore_insert_bool ''auto_consumer_groups'' (cg_auto cg) config
                 in if cg_mapping cg \<noteq> []
                    then if list_ex (\<lambda>e. cgm_source_group e \<noteq> cgm_target_group e) (cg_mapping cg)
                         then Inl (EInvalidConfig renaming_unsupported)
                         else Inr (put ''consumer_groups''
                                (strs (map cgm_target_group (cg_mapping cg))) config)
                    else Inr (put_if (cg_groups cg \<noteq> []) ''consumer_groups''
                                (strs (cg_groups cg)) config))"

definition build_restore_options :: "Ext \<Rightarrow> KafkaRestore \<Rightarrow> Error + ymap" where
  "build_restore_options ext restore =
     (let spec = krr_spec restore in
      try_bind (put_point_in_time ext (kr_point_in_time spec) []) (\<lambda>config.
      try_bind (put_restore_options (kr_restore spec)
        (put_topic_mapping (kr_topic_mapping spec) config)) (\<lambda>config.
      put_consumer_groups (kr_consumer_groups spec) config)))"

section \<open>The configuration\<close>

definition backup_id_required :: string where
  "backup_id_required = ''backupRef.backupId is required when the source KafkaBackup has no status.lastBackup.id''"

definition resolve_backup_id :: "KafkaRestore \<Rightarrow> KafkaBackup \<Rightarrow> Error + string" where
  "resolve_backup_id restore source_backup =
     (case br_backup_id (kr_backup_ref (krr_spec restore)) of
        Some backup_id \<Rightarrow> Inr backup_id
      | None \<Rightarrow>
          ok_or (map_option lb_id (and_then (kbr_status source_backup) bs_last_backup))
            (EInvalidConfig backup_id_required))"

definition restore_config_map ::
  "Ext \<Rightarrow> KafkaRestore \<Rightarrow> KafkaBackup \<Rightarrow> ResolvedKafkaCluster \<Rightarrow> ResolvedAuth \<Rightarrow>
   Error + ymap" where
  "restore_config_map ext restore source_backup cluster auth =
     (let spec = krr_spec restore;
          config = put ''mode'' (YStr ''restore'') []
      in try_bind (resolve_backup_id restore source_backup) (\<lambda>backup_id.
         let config = put ''backup_id'' (YStr backup_id) config;
             config = put ''target'' (YMap (restore_kafka_config cluster auth (kr_topics spec)
               (kr_connection spec))) config
         in try_bind (build_storage_config (kb_storage (kbr_spec source_backup))) (\<lambda>storage.
            let config = put ''storage'' (YMap storage) config;
                config = put_section_opt ''logging'' build_logging_config (kr_logging spec) config
            in try_bind (build_restore_options ext restore) (\<lambda>restore_opts.
               let config = put_section ''restore'' restore_opts config;
                   config = put_section_opt ''metrics'' restore_metrics_options (kr_metrics spec)
                     config
               in Inr config))))"

definition build_restore_config_yaml ::
  "Ext \<Rightarrow> KafkaRestore \<Rightarrow> KafkaBackup \<Rightarrow> ResolvedKafkaCluster \<Rightarrow> ResolvedAuth \<Rightarrow>
   Error + string" where
  "build_restore_config_yaml ext restore source_backup cluster auth =
     try_bind (restore_config_map ext restore source_backup cluster auth) (\<lambda>config.
       case x_yaml ext (YMap config) of
         Inl e \<Rightarrow> Inl (EYaml e)
       | Inr text \<Rightarrow> Inr text)"

section \<open>When the options are accepted\<close>

definition instants_valid :: "Ext \<Rightarrow> PointInTimeSpec option \<Rightarrow> bool" where
  "instants_valid ext opitr =
     (case opitr of
        None \<Rightarrow> True
      | Some pitr \<Rightarrow>
          (\<forall>t \<in> set_option (pit_start_timestamp pitr) \<union> set_option (pit_timestamp pitr).
             x_rfc3339_millis ext t \<noteq> None)
          \<and> pit_offset_from_end pitr = None)"

definition policy_valid :: "RestoreOptionsSpec option \<Rightarrow> bool" where
  "policy_valid oopts \<longleftrightarrow> and_then oopts ro_existing_topic_policy \<noteq> Some EtFail"

definition groups_valid :: "ConsumerGroupRestoreSpec option \<Rightarrow> bool" where
  "groups_valid ocg =
     (case ocg of
        None \<Rightarrow> True
      | Some cg \<Rightarrow> cg_restore cg \<longrightarrow>
          (cg_mapping cg \<noteq> [] \<or> cg_groups cg \<noteq> [] \<or> cg_auto cg = Some True)
          \<and> (\<forall>e \<in> set (cg_mapping cg). cgm_source_group e = cgm_target_group e))"

lemma put_instant_ok:
  "is_ok (put_instant ext key label ots config) \<longleftrightarrow>
     (\<forall>t \<in> set_option ots. x_rfc3339_millis ext t \<noteq> None)"
  by (auto simp: put_instant_def split: option.splits)

lemma put_point_in_time_ok:
  "is_ok (put_point_in_time ext opitr config) \<longleftrightarrow> instants_valid ext opitr"
proof (cases opitr)
  case None
  then show ?thesis by (simp add: put_point_in_time_def instants_valid_def)
next
  case (Some pitr)
  show ?thesis
  proof (cases "put_instant ext ''time_window_start'' ''startTimestamp''
      (pit_start_timestamp pitr) config")
    case (Inl e)
    then have "\<not> (\<forall>t \<in> set_option (pit_start_timestamp pitr). x_rfc3339_millis ext t \<noteq> None)"
      using put_instant_ok [of ext _ _ "pit_start_timestamp pitr" config] by (metis is_ok.simps(1))
    with Inl Some show ?thesis by (auto simp: put_point_in_time_def instants_valid_def)
  next
    case (Inr c1)
    then have start: "\<forall>t \<in> set_option (pit_start_timestamp pitr). x_rfc3339_millis ext t \<noteq> None"
      using put_instant_ok [of ext _ _ "pit_start_timestamp pitr" config] by (metis is_ok.simps(2))
    have "is_ok (put_instant ext ''time_window_end'' ''timestamp'' (pit_timestamp pitr) c1) \<longleftrightarrow>
        (\<forall>t \<in> set_option (pit_timestamp pitr). x_rfc3339_millis ext t \<noteq> None)"
      by (rule put_instant_ok)
    with start Inr Some show ?thesis
      by (cases "put_instant ext ''time_window_end'' ''timestamp'' (pit_timestamp pitr) c1")
         (auto simp: put_point_in_time_def instants_valid_def is_some_iff)
  qed
qed

lemma put_restore_options_ok: "is_ok (put_restore_options oopts config) \<longleftrightarrow> policy_valid oopts"
  by (auto simp: put_restore_options_def put_topic_policy_def policy_valid_def Let_def
      split: option.splits ExistingTopicPolicy.splits)

lemma put_consumer_groups_ok: "is_ok (put_consumer_groups ocg config) \<longleftrightarrow> groups_valid ocg"
proof (cases ocg)
  case None
  then show ?thesis by (simp add: put_consumer_groups_def groups_valid_def)
next
  case (Some cg)
  have "unwrap_or (cg_auto cg) False \<longleftrightarrow> cg_auto cg = Some True"
    by (cases "cg_auto cg") simp_all
  with Some show ?thesis
    by (auto simp: put_consumer_groups_def groups_valid_def Let_def list_ex_iff)
qed

lemma build_restore_options_ok:
  "is_ok (build_restore_options ext restore) \<longleftrightarrow>
     instants_valid ext (kr_point_in_time (krr_spec restore))
     \<and> policy_valid (kr_restore (krr_spec restore))
     \<and> groups_valid (kr_consumer_groups (krr_spec restore))"
proof (cases "put_point_in_time ext (kr_point_in_time (krr_spec restore)) []")
  case (Inl e)
  then show ?thesis
    using put_point_in_time_ok [of ext "kr_point_in_time (krr_spec restore)" "[]"]
    by (simp add: build_restore_options_def)
next
  case (Inr c1)
  then have v1: "instants_valid ext (kr_point_in_time (krr_spec restore))"
    using put_point_in_time_ok [of ext "kr_point_in_time (krr_spec restore)" "[]"] by simp
  show ?thesis
    using v1 Inr put_consumer_groups_ok
      put_restore_options_ok [of "kr_restore (krr_spec restore)"
        "put_topic_mapping (kr_topic_mapping (krr_spec restore)) c1"]
    by (cases "put_restore_options (kr_restore (krr_spec restore))
          (put_topic_mapping (kr_topic_mapping (krr_spec restore)) c1)")
       (simp_all add: build_restore_options_def)
qed

section \<open>Lookups\<close>

lemma gets_put_instant_other:
  "put_instant ext key label ots config = Inr config' \<Longrightarrow> k \<noteq> key \<Longrightarrow>
   gets config' k = gets config k"
  by (auto simp: put_instant_def kv_simps split: option.splits)

lemma gets_put_point_in_time_other:
  assumes "put_point_in_time ext opitr config = Inr config'"
    and "k \<noteq> ''time_window_start''" "k \<noteq> ''time_window_end''"
  shows "gets config' k = gets config k"
proof (cases opitr)
  case None
  with assms show ?thesis by (simp add: put_point_in_time_def)
next
  case (Some pitr)
  with assms obtain c1 where
    "put_instant ext ''time_window_start'' ''startTimestamp'' (pit_start_timestamp pitr) config
       = Inr c1"
    "put_instant ext ''time_window_end'' ''timestamp'' (pit_timestamp pitr) c1 = Inr config'"
    by (auto simp: put_point_in_time_def split: if_splits)
  then show ?thesis
    using gets_put_instant_other [of ext _ _ _ config c1 k]
      gets_put_instant_other [of ext _ _ _ c1 config' k] assms(2,3) by metis
qed

lemma gets_put_produce_purge:
  "gets (put_produce_options opts config) ''purge_topics'' = gets config ''purge_topics''"
  by (simp add: put_produce_options_def Let_def restore_insert_bool_def restore_insert_u64_def
      kv_simps)

lemma gets_put_restore_purge:
  assumes "put_restore_options oopts config = Inr config'"
  shows "gets config' ''purge_topics'' =
     opt_or (map_option YBool (and_then oopts ro_purge_topics))
       (opt_or (if and_then oopts ro_existing_topic_policy = Some EtOverwrite
                then Some (YBool True) else None) (gets config ''purge_topics''))"
  using assms
  by (auto simp: put_restore_options_def put_topic_policy_def Let_def kv_simps
      restore_insert_bool_def gets_put_produce_purge
      split: option.splits ExistingTopicPolicy.splits)

lemma gets_put_consumer_groups_other:
  assumes "put_consumer_groups ocg config = Inr config'"
    and "k \<notin> {''reset_consumer_offsets'', ''consumer_group_strategy'', ''offset_report'',
      ''auto_consumer_groups'', ''consumer_groups''}"
  shows "gets config' k = gets config k"
proof (cases ocg)
  case None
  with assms show ?thesis by (simp add: put_consumer_groups_def)
next
  case (Some cg)
  from assms(2) have ks: "k \<noteq> ''reset_consumer_offsets''" "k \<noteq> ''consumer_group_strategy''"
    "k \<noteq> ''offset_report''" "k \<noteq> ''auto_consumer_groups''" "k \<noteq> ''consumer_groups''" by simp_all
  from Some assms(1) ks show ?thesis
    by (auto simp: put_consumer_groups_def Let_def restore_insert_bool_def kv_simps simp del: char.simps
        split: if_splits)
qed

lemma gets_topic_mapping_other:
  "k \<noteq> ''topic_mapping'' \<Longrightarrow> gets (put_topic_mapping es config) k = gets config k"
  by (simp add: put_topic_mapping_def kv_simps)

lemma gets_restore_options_purge:
  assumes "build_restore_options ext restore = Inr config"
  shows "gets config ''purge_topics'' =
     opt_or (map_option YBool (and_then (kr_restore (krr_spec restore)) ro_purge_topics))
       (if and_then (kr_restore (krr_spec restore)) ro_existing_topic_policy = Some EtOverwrite
        then Some (YBool True) else None)"
proof -
  from assms obtain c1 c2 where
    1: "put_point_in_time ext (kr_point_in_time (krr_spec restore)) [] = Inr c1" and
    2: "put_restore_options (kr_restore (krr_spec restore))
          (put_topic_mapping (kr_topic_mapping (krr_spec restore)) c1) = Inr c2" and
    3: "put_consumer_groups (kr_consumer_groups (krr_spec restore)) c2 = Inr config"
    by (auto simp: build_restore_options_def Let_def)
  have "gets config ''purge_topics'' = gets c2 ''purge_topics''"
    by (rule gets_put_consumer_groups_other [OF 3]) simp
  moreover have "gets c1 ''purge_topics'' = gets [] ''purge_topics''"
    by (rule gets_put_point_in_time_other [OF 1]) simp_all
  ultimately show ?thesis
    using gets_put_restore_purge [OF 2] by (simp add: gets_topic_mapping_other kv_simps)
qed

text \<open>Later entries of the topic mapping win, as in any insertion loop.\<close>

lemma gets_mapping_fold:
  "gets (fold (\<lambda>e. put (src e) (f e)) es m) k =
     opt_or (map_option f (List.find (\<lambda>e. src e = k) (rev es))) (gets m k)"
proof (induction es arbitrary: m)
  case Nil
  then show ?case by simp
next
  case (Cons e es)
  then show ?case
    by (cases "List.find (\<lambda>e. src e = k) (rev es)") (simp_all add: kv_simps find_append_or)
qed

end
