(* ===== verification/Reconcile_Restore.thy ===== *)
theory Reconcile_Restore
  imports Reconcile_Common Config_Restore
begin

text \<open>
  The reconciler of \<open>KafkaRestore\<close> resources (\<open>src/src/reconcilers/restore.rs\<close>), whole.
  A restore is one-shot: the Jobs that already carry its labels decide, and only when there is
  none are the source backup, the cluster and the credentials resolved and a Job created.
  Functions of the source that also exist in \<open>backup.rs\<close> carry the prefix
  \<open>restore_\<close>.
\<close>

section \<open>Writing the status\<close>

definition restore_patch_status :: "string \<Rightarrow> string \<Rightarrow> KafkaRestoreStatus \<Rightarrow> unit io" where
  "restore_patch_status ns name status =
     kube_io (KPatchRestoreStatus ns name apply_params (restore_status_patch status)) as_unit"

definition restore_update_status_running :: "string \<Rightarrow> string \<Rightarrow> int \<Rightarrow> unit io" where
  "restore_update_status_running ns name generation =
     pbind (not_ready_io REASON_RESTORE_RUNNING ''Restore job is running'') (\<lambda>c.
     restore_patch_status ns name
       (default_restore_status\<lparr>rs_conditions := [c], rs_observed_generation := Some generation\<rparr>))"

definition restore_update_status_reconciliation_paused :: "string \<Rightarrow> KafkaRestore \<Rightarrow> unit io" where
  "restore_update_status_reconciliation_paused ns restore =
     (let name = name_any (krr_metadata restore);
          generation = generation_of (krr_metadata restore);
          status = unwrap_or (krr_status restore) default_restore_status;
          already_current =
            is_condition_true (rs_conditions status) CONDITION_TYPE_RECONCILIATION_PAUSED
            \<and> rs_observed_generation status = Some generation
      in if already_current then ok ()
         else pbind reconciliation_paused_io (\<lambda>c.
           restore_patch_status ns name
             (status\<lparr>rs_conditions := [c], rs_observed_generation := Some generation\<rparr>)))"

definition restore_update_status_completed ::
  "string \<Rightarrow> string \<Rightarrow> int \<Rightarrow> RestoreInfo \<Rightarrow> unit io" where
  "restore_update_status_completed ns name generation info =
     pbind (ready_io REASON_RESTORE_COMPLETED ''Restore completed successfully'') (\<lambda>c1.
     pbind (pmap (\<lambda>t. new_condition t CONDITION_TYPE_RESTORE_COMPLETE STATUS_TRUE
                   REASON_RESTORE_COMPLETED ''Restore completed successfully'') now) (\<lambda>c2.
     restore_patch_status ns name
       \<lparr>rs_conditions = [c1, c2], rs_restore = Some info,
        rs_observed_generation = Some generation\<rparr>))"

definition restore_update_status_failed :: "string \<Rightarrow> string \<Rightarrow> int \<Rightarrow> string \<Rightarrow> unit io" where
  "restore_update_status_failed ns name generation jname =
     pbind (error_conditions_io REASON_RESTORE_FAILED (''Restore job '' @ jname @ '' failed''))
       (\<lambda>cs. restore_patch_status ns name
          (default_restore_status\<lparr>rs_conditions := cs, rs_observed_generation := Some generation\<rparr>))"

definition restore_update_status_error :: "string \<Rightarrow> string \<Rightarrow> int \<Rightarrow> Error \<Rightarrow> unit io" where
  "restore_update_status_error ns name generation error =
     pbind (error_conditions_io (error_reason error) (error_string error)) (\<lambda>cs.
     restore_patch_status ns name
       (default_restore_status\<lparr>rs_conditions := cs, rs_observed_generation := Some generation\<rparr>))"

definition has_condition_reason ::
  "KafkaRestoreStatus option \<Rightarrow> string \<Rightarrow> string \<Rightarrow> bool" where
  "has_condition_reason status condition_type reason =
     (let conditions = (case status of None \<Rightarrow> [] | Some s \<Rightarrow> rs_conditions s)
      in is_some_and (find_condition conditions condition_type) (\<lambda>c. cd_reason c = Some reason))"

section \<open>Metadata, ConfigMap and cleanup\<close>

definition restore_add_finalizer :: "string \<Rightarrow> string \<Rightarrow> unit io" where
  "restore_add_finalizer ns name =
     kube_io (KPatchRestore ns name apply_params (SetFinalizers [FINALIZER])) as_unit"

definition restore_remove_finalizer :: "string \<Rightarrow> string \<Rightarrow> unit io" where
  "restore_remove_finalizer ns name =
     kube_io (KPatchRestore ns name apply_params NullFinalizers) as_unit"

definition restore_create_or_update_config_map ::
  "string \<Rightarrow> string \<Rightarrow> string \<Rightarrow> KafkaRestore \<Rightarrow> unit io" where
  "restore_create_or_update_config_map ns name config_yaml owner =
     kube_io (KApplyConfigMap ns name apply_params
       (owned_config_map ''KafkaRestore'' ''kafkabackup.com/restore'' ns name (krr_metadata owner)
          ''restore.yaml'' config_yaml)) as_unit"

definition restore_jobs_selector :: "string \<Rightarrow> string" where
  "restore_jobs_selector name =
     ''kafkabackup.com/restore='' @ name @ '',kafkabackup.com/type=restore''"

definition restore_cleanup_selector :: "string \<Rightarrow> string" where
  "restore_cleanup_selector name =
     ''app.kubernetes.io/managed-by=kafka-backup-operator,kafkabackup.com/restore='' @ name"

definition restore_delete_job :: "string \<Rightarrow> Job \<Rightarrow> (KubeError + unit) prog" where
  "restore_delete_job ns job =
     kube_call (KDeleteJob ns (unwrap_or (om_name (jb_metadata job)) []) cleanup_delete_params) as_unit"

definition restore_handle_cleanup :: "KafkaRestore \<Rightarrow> string \<Rightarrow> unit io" where
  "restore_handle_cleanup restore ns =
     (let name = name_any (krr_metadata restore) in
      pbind (kube_call (KListJobs ns (restore_cleanup_selector name)) as_jobs) (\<lambda>r.
      pbind (case r of
               Inr job_list \<Rightarrow> for_ignore job_list (restore_delete_job ns)
             | Inl _ \<Rightarrow> Ret ()) (\<lambda>_.
      pbind (kube_call (KDeleteConfigMap ns (name @ ''-config'') cleanup_delete_params) as_unit) (\<lambda>_.
      restore_remove_finalizer ns name))))"

section \<open>Outcomes of an existing Job\<close>

definition restore_info_of :: "Job list \<Rightarrow> string \<Rightarrow> timestamp \<Rightarrow> RestoreInfo" where
  "restore_info_of jobs jname t =
     (let job_status = and_then (List.find (\<lambda>j. om_name (jb_metadata j) = Some jname) jobs) jb_status
      in \<lparr>ri_start_time = unwrap_or (and_then job_status jst_start_time) t,
          ri_completion_time = Some (unwrap_or (and_then job_status jst_completion_time) t),
          ri_status = RsCompleted, ri_restored_topics = None, ri_restored_partitions = None,
          ri_restored_bytes = None, ri_point_in_time_target = None,
          ri_actual_point_in_time = None\<rparr>)"

definition report_existing ::
  "KafkaRestore \<Rightarrow> string \<Rightarrow> int \<Rightarrow> Job list \<Rightarrow> JobsState \<Rightarrow> unit io" where
  "report_existing restore ns generation jobs state =
     (let name = name_any (krr_metadata restore) in
      case state of
        Succeeded jname \<Rightarrow>
          pbind now (\<lambda>t.
            restore_update_status_completed ns name generation (restore_info_of jobs jname t))
      | JFailed jname \<Rightarrow>
          if \<not> has_condition_reason (krr_status restore) CONDITION_TYPE_ERROR REASON_RESTORE_FAILED
          then restore_update_status_failed ns name generation jname
          else ok ()
      | InProgress \<Rightarrow>
          if \<not> has_condition_reason (krr_status restore) CONDITION_TYPE_READY REASON_RESTORE_RUNNING
          then restore_update_status_running ns name generation
          else ok ()
      | NoJobs \<Rightarrow> ok ())"

section \<open>Creating the Job\<close>

definition get_source_backup :: "string \<Rightarrow> string \<Rightarrow> KafkaBackup io" where
  "get_source_backup ns name = map_err (\<lambda>_. EBackupNotFound name) (kube_call (KGetBackup ns name) as_backup)"

definition start_restore :: "Ext \<Rightarrow> KafkaRestore \<Rightarrow> string \<Rightarrow> int \<Rightarrow> unit io" where
  "start_restore ext restore ns generation =
     (let spec = krr_spec restore;
          name = name_any (krr_metadata restore) in
      ebind (get_source_backup ns (br_name (kr_backup_ref spec))) (\<lambda>source_backup.
      pbind (resolve_kafka_cluster (kr_strimzi_cluster_ref spec) ns
        (map_option au_type (kr_authentication spec))) (\<lambda>rc.
      case rc of
        Inl e \<Rightarrow> ebind (restore_update_status_error ns name generation e) (\<lambda>_. throw e)
      | Inr cluster \<Rightarrow>
          pbind (resolve_cluster_ca (kcl_name cluster) (sc_ca_secret (kr_strimzi_cluster_ref spec)) ns)
            (\<lambda>tls_certs.
          ebind (resolve_auth (kr_authentication spec) ns) (\<lambda>auth.
          ebind (Ret (build_restore_config_yaml ext restore source_backup cluster auth)) (\<lambda>config_yaml.
          ebind (restore_create_or_update_config_map ns (name @ ''-config'') config_yaml restore) (\<lambda>_.
          pbind now (\<lambda>t.
          let jname = name @ ''-'' @ x_job_stamp ext t in
          pbind job_service_account_name (\<lambda>account.
          let job = build_restore_job ext restore jname (name @ ''-config'') cluster auth
                source_backup account in
          ebind (create_job ns job) (\<lambda>_.
          restore_update_status_running ns name generation))))))))))"

definition restore_done :: "KafkaRestore \<Rightarrow> bool" where
  "restore_done restore =
     is_some_and (krr_status restore)
       (\<lambda>status. is_condition_true (rs_conditions status) CONDITION_TYPE_RESTORE_COMPLETE)"

definition list_restore_jobs :: "string \<Rightarrow> string \<Rightarrow> Job list io" where
  "list_restore_jobs ns name = kube_io (KListJobs ns (restore_jobs_selector name)) as_jobs"

definition reconcile_restore_active :: "Ext \<Rightarrow> KafkaRestore \<Rightarrow> string \<Rightarrow> unit io" where
  "reconcile_restore_active ext restore ns =
     (let name = name_any (krr_metadata restore);
          generation = generation_of (krr_metadata restore) in
      if restore_done restore then ok ()
      else ebind (list_restore_jobs ns name) (\<lambda>jobs.
           case classify_jobs jobs of
             NoJobs \<Rightarrow> start_restore ext restore ns generation
           | state \<Rightarrow> report_existing restore ns generation jobs state))"

definition reconcile_restore :: "Ext \<Rightarrow> KafkaRestore \<Rightarrow> unit io" where
  "reconcile_restore ext restore =
     (let meta = krr_metadata restore;
          name = name_any meta in
      ebind (Ret (ok_or (om_namespace meta) (EMissingObjectKey ''.metadata.namespace''))) (\<lambda>ns.
      if om_deletion_timestamp meta \<noteq> None then restore_handle_cleanup restore ns
      else if is_reconciliation_paused meta
      then restore_update_status_reconciliation_paused ns restore
      else ebind (if has_finalizer meta then ok () else restore_add_finalizer ns name) (\<lambda>_.
           reconcile_restore_active ext restore ns)))"

end
