(* ===== verification/Status_Writers.thy ===== *)
theory Status_Writers
  imports Reconcile_Backup Reconcile_Restore
begin

text \<open>
  The contract of a status update, as the reconcilers rely on it: it may read, it patches the
  status subresource at most once, and it touches nothing else. The locale
  \<open>status_writer\<close> states it, its consequences are proved once, and every status function
  of both reconcilers is an instance.
\<close>

text \<open>Writes to the status subresource, and all other writes.\<close>

fun status_write :: "event \<Rightarrow> bool" where
  "status_write (EvKube (KPatchBackupStatus _ _ _ _) r) = True"
| "status_write (EvKube (KPatchRestoreStatus _ _ _ _) r) = True"
| "status_write e = False"

definition workload_write :: "event \<Rightarrow> bool" where
  "workload_write e \<longleftrightarrow> is_write e \<and> \<not> status_write e"

fun creates_job :: "event \<Rightarrow> bool" where
  "creates_job (EvKube (KCreateJob _ _) r) = True"
| "creates_job e = False"

lemma status_write_is_write: "status_write e \<Longrightarrow> is_write e"
  by (cases e rule: status_write.cases) simp_all

lemma creates_workload: "creates_job e \<Longrightarrow> workload_write e"
  by (cases e rule: creates_job.cases) (simp_all add: workload_write_def)

section \<open>The contract\<close>

locale status_writer =
  fixes writer :: "'a \<Rightarrow> unit io"
  assumes quiet: "only (\<lambda>e. \<not> workload_write e) (writer a)"
    and single: "once status_write (writer a)"
begin

lemma no_create: "only (\<lambda>e. \<not> creates_job e) (writer a)"
  by (rule only_mono [OF quiet]) (use creates_workload in blast)

lemma no_deletion: "only (\<lambda>e. is_write e \<longrightarrow> status_write e) (writer a)"
  by (rule only_mono [OF quiet]) (simp add: workload_write_def)

lemma guarded_any: "(\<And>e. T e \<Longrightarrow> workload_write e) \<Longrightarrow> guarded G T (writer a)"
  by (rule only_guarded, rule only_mono [OF quiet]) blast

lemma one_patch: "length (filter status_write (trace_of W (writer a) s)) \<le> 1"
  by (rule once_run [OF single])

lemma writes_are_patches:
  "e \<in> set (trace_of W (writer a) s) \<Longrightarrow> is_write e \<Longrightarrow> status_write e"
  by (drule only_run [OF no_deletion]) simp

end

section \<open>The pieces a status update is made of\<close>

lemma only_patch_pieces:
  "only (\<lambda>e. \<not> workload_write e) (current_backup_status ns name)"
  "only (\<lambda>e. \<not> workload_write e) (send_backup_status ns name bp)"
  "only (\<lambda>e. \<not> workload_write e) (restore_patch_status ns name rst)"
  "only (\<lambda>e. \<not> workload_write e) (ready_io r m)"
  "only (\<lambda>e. \<not> workload_write e) (not_ready_io r m)"
  "only (\<lambda>e. \<not> workload_write e) reconciliation_paused_io"
  "only (\<lambda>e. \<not> workload_write e) (error_conditions_io r m)"
  "only (\<lambda>e. \<not> workload_write e) now"
  by (auto simp: current_backup_status_def send_backup_status_def restore_patch_status_def
      workload_write_def intro!: only_intro)

lemma once_patch_pieces:
  "once status_write (send_backup_status ns name bp)"
  "once status_write (restore_patch_status ns name rst)"
  by (auto simp: send_backup_status_def restore_patch_status_def kube_io_def kube_call_def
      map_err_def pmap_def)

lemma read_pieces:
  "only (\<lambda>e. \<not> status_write e) (current_backup_status ns name)"
  "only (\<lambda>e. \<not> status_write e) (ready_io r m)"
  "only (\<lambda>e. \<not> status_write e) (not_ready_io r m)"
  "only (\<lambda>e. \<not> status_write e) reconciliation_paused_io"
  "only (\<lambda>e. \<not> status_write e) (error_conditions_io r m)"
  "only (\<lambda>e. \<not> status_write e) now"
  by (auto simp: current_backup_status_def intro!: only_intro)

lemmas writer_intro =
  only_intro only_patch_pieces once_patch_pieces read_pieces
  once_ebind_right once_pbind_right

lemmas backup_status_defs =
  backup_patch_status_def patch_backup_history_def backup_update_status_running_def
  backup_update_status_reconciliation_paused_def update_status_scheduled_def
  update_status_suspended_def backup_update_status_completed_def backup_update_status_error_def

lemmas restore_status_defs =
  restore_update_status_running_def restore_update_status_reconciliation_paused_def
  restore_update_status_completed_def restore_update_status_failed_def
  restore_update_status_error_def

section \<open>The backup reconciler's status functions\<close>

interpretation bk_running: status_writer "\<lambda>(ns, name, g). backup_update_status_running ns name g"
  by unfold_locales (auto simp: backup_status_defs Let_def intro!: writer_intro)

interpretation bk_paused: status_writer
  "\<lambda>(ns, b). backup_update_status_reconciliation_paused ns b"
  by unfold_locales (auto simp: backup_status_defs Let_def intro!: writer_intro)

interpretation bk_scheduled: status_writer
  "\<lambda>(ns, name, g, cron). update_status_scheduled ns name g cron"
  by unfold_locales (auto simp: backup_status_defs Let_def intro!: writer_intro)

interpretation bk_suspended: status_writer "\<lambda>(ns, name, g). update_status_suspended ns name g"
  by unfold_locales (auto simp: backup_status_defs Let_def intro!: writer_intro)

interpretation bk_completed: status_writer
  "\<lambda>(ns, name, g, entry). backup_update_status_completed ns name g entry"
  by unfold_locales (auto simp: backup_status_defs Let_def intro!: writer_intro)

interpretation bk_error: status_writer
  "\<lambda>(ns, name, g, err). backup_update_status_error ns name g err"
  by unfold_locales (auto simp: backup_status_defs Let_def intro!: writer_intro)

interpretation bk_history: status_writer "\<lambda>(ns, name, h). patch_backup_history ns name h"
  by unfold_locales (auto simp: backup_status_defs Let_def intro!: writer_intro)

section \<open>The restore reconciler's status functions\<close>

interpretation rs_running: status_writer "\<lambda>(ns, name, g). restore_update_status_running ns name g"
  by unfold_locales (auto simp: restore_status_defs Let_def intro!: writer_intro)

interpretation rs_paused: status_writer
  "\<lambda>(ns, r). restore_update_status_reconciliation_paused ns r"
  by unfold_locales (auto simp: restore_status_defs Let_def intro!: writer_intro)

interpretation rs_completed: status_writer
  "\<lambda>(ns, name, g, i). restore_update_status_completed ns name g i"
  by unfold_locales (auto simp: restore_status_defs Let_def intro!: writer_intro)

interpretation rs_failed: status_writer
  "\<lambda>(ns, name, g, j). restore_update_status_failed ns name g j"
  by unfold_locales (auto simp: restore_status_defs Let_def intro!: writer_intro)

interpretation rs_error: status_writer
  "\<lambda>(ns, name, g, err). restore_update_status_error ns name g err"
  by unfold_locales (auto simp: restore_status_defs Let_def intro!: writer_intro)

text \<open>The recording of an outcome is an instance too: it patches once or not at all.\<close>

lemma read_list_backup_jobs: "only (\<lambda>e. \<not> is_write e) (list_backup_jobs ns name)"
  by (auto simp: list_backup_jobs_def intro!: only_intro)

lemma read_list_restore_jobs: "only (\<lambda>e. \<not> is_write e) (list_restore_jobs ns name)"
  by (auto simp: list_restore_jobs_def intro!: only_intro)

interpretation bk_outcome: status_writer "\<lambda>(b, ns, g). check_job_completion b ns g"
proof (unfold_locales, goal_cases)
  case (1 a)
  have l: "only (\<lambda>e. \<not> workload_write e) (list_backup_jobs ns name)" for ns name
    by (rule only_mono [OF read_list_backup_jobs]) (simp add: workload_write_def)
  obtain b ns g where a: "a = (b, ns, g)" by (cases a)
  show ?case
    using bk_completed.quiet [of "(ns, _, g, _)"]
    by (auto simp: a check_job_completion_def backup_patch_status_def Let_def
        intro!: writer_intro l split: option.split)
next
  case (2 a)
  have l: "only (\<lambda>e. \<not> status_write e) (list_backup_jobs ns name)" for ns name
    by (rule only_mono [OF read_list_backup_jobs]) (use status_write_is_write in blast)
  obtain b ns g where a: "a = (b, ns, g)" by (cases a)
  show ?case
    using bk_completed.single [of "(ns, _, g, _)"]
    by (auto simp: a check_job_completion_def backup_patch_status_def Let_def
        intro!: writer_intro l split: option.split)
qed

end
