(* ===== verification/Backup_Protocol.thy ===== *)
theory Backup_Protocol
  imports Status_Writers
begin

text \<open>
  What a reconciliation of a \<open>KafkaBackup\<close> may ask of the cluster and of the store, and in
  which order, whatever they answer: lemmas over the programs of \<open>Reconcile_Backup\<close>, and
  the properties of one reconciliation.
\<close>

text \<open>A listing of Jobs by one selector, answered with Jobs that satisfy \<open>P\<close>.\<close>

fun listing :: "string \<Rightarrow> string \<Rightarrow> (Job list \<Rightarrow> bool) \<Rightarrow> event \<Rightarrow> bool" where
  "listing ns sel P (EvKube (KListJobs ns' sel') (Inr (AJobs js))) \<longleftrightarrow> ns' = ns \<and> sel' = sel \<and> P js"
| "listing ns sel P e = False"

text \<open>The Kubernetes requests of a trace.\<close>

fun kube_requests :: "event list \<Rightarrow> KubeReq list" where
  "kube_requests [] = []"
| "kube_requests (EvKube q r # tr) = q # kube_requests tr"
| "kube_requests (e # tr) = kube_requests tr"

lemma kube_requests_append [simp]: "kube_requests (a @ b) = kube_requests a @ kube_requests b"
  by (induction a rule: kube_requests.induct) simp_all

section \<open>The parts that only read\<close>

lemma read_resolution:
  "only (\<lambda>e. \<not> is_write e) (resolve_kafka_cluster ref ns d)"
  "only (\<lambda>e. \<not> is_write e) (resolve_cluster_ca c ov ns)"
  "only (\<lambda>e. \<not> is_write e) (resolve_auth spec ns)"
  "only (\<lambda>e. \<not> is_write e) job_service_account_name"
  "only (\<lambda>e. \<not> is_write e) (current_backup_status ns name)"
  "only (\<lambda>e. \<not> is_write e) (active_backup_ids ns name b)"
  "only (\<lambda>e. \<not> is_write e) (evaluate_retention_io ext h r)"
  by (auto simp: current_backup_status_def active_backup_ids_def evaluate_retention_io_def
      intro!: only_intro read_list_backup_jobs split: option.split checked.split)

lemma read_discover: "only (\<lambda>e. \<not> is_write e) (discover_backup_history ext ns st owner)"
  by (rule only_mono [OF only_discover]) (rule discover_event_read)

text \<open>A read satisfies every predicate that only restricts writes.\<close>

lemma read_only_mono:
  "only (\<lambda>e. \<not> is_write e) p \<Longrightarrow> (\<And>e. \<not> is_write e \<Longrightarrow> P e) \<Longrightarrow> only P p"
  by (rule only_mono)

lemma workload_is_write: "workload_write e \<Longrightarrow> is_write e"
  by (simp add: workload_write_def)

lemma creates_is_write: "creates_job e \<Longrightarrow> is_write e"
  by (rule workload_is_write [OF creates_workload])

lemmas read_parts =
  read_resolution read_discover read_list_backup_jobs

lemma read_no_create: "only (\<lambda>e. \<not> is_write e) p \<Longrightarrow> only (\<lambda>e. \<not> creates_job e) p"
  by (erule only_mono) (auto dest: creates_is_write)

lemmas no_create_reads =
  read_resolution [THEN read_no_create] read_discover [THEN read_no_create]
  read_list_backup_jobs [THEN read_no_create]

section \<open>No Job but in the Job step\<close>

lemma no_create_pieces:
  "only (\<lambda>e. \<not> creates_job e) (backup_create_or_update_config_map ns n y b)"
  "only (\<lambda>e. \<not> creates_job e) (backup_add_finalizer ns n)"
  "only (\<lambda>e. \<not> creates_job e) (remove_trigger_annotation ns n)"
  "only (\<lambda>e. \<not> creates_job e) (apply_cronjob ns n cj)"
  "only (\<lambda>e. \<not> creates_job e) (patch_backup_history ns n h)"
  "only (\<lambda>e. \<not> creates_job e) (backup_update_status_running ns n g)"
  "only (\<lambda>e. \<not> creates_job e) (backup_update_status_error ns n g err)"
  "only (\<lambda>e. \<not> creates_job e) (update_status_scheduled ns n g cron)"
  "only (\<lambda>e. \<not> creates_job e) (update_status_suspended ns n g)"
  "only (\<lambda>e. \<not> creates_job e) (backup_update_status_reconciliation_paused ns b)"
  "only (\<lambda>e. \<not> creates_job e) (check_job_completion b ns g)"
  using bk_history.no_create [of "(ns, n, h)"] bk_running.no_create [of "(ns, n, g)"]
    bk_error.no_create [of "(ns, n, g, err)"] bk_scheduled.no_create [of "(ns, n, g, cron)"]
    bk_suspended.no_create [of "(ns, n, g)"] bk_paused.no_create [of "(ns, b)"]
    bk_outcome.no_create [of "(b, ns, g)"]
  by (simp_all add: backup_create_or_update_config_map_def backup_add_finalizer_def
      remove_trigger_annotation_def apply_cronjob_def only_kube_io)

lemma no_create_prune: "only (\<lambda>e. \<not> creates_job e) (prune_backup_ids ext ns st ids)"
proof (rule only_mono [OF only_prune_backup_ids])
  fix e
  assume "prune_event ext (normalize_optional_prefix (storage_prefix st)) ids e"
  then show "\<not> creates_job e" by (cases e rule: creates_job.cases) simp_all
qed

lemma no_create_retention: "only (\<lambda>e. \<not> creates_job e) (apply_retention_policy ext b ns)"
  unfolding apply_retention_policy_def Let_def
  by (auto intro!: only_intro no_create_pieces no_create_prune no_create_reads
      split: option.split)

lemma no_create_schedule:
  "only (\<lambda>e. \<not> creates_job e) (schedule_step ext b ns g cluster auth account)"
  unfolding schedule_step_def Let_def
  by (auto intro!: only_intro no_create_pieces split: option.split)

lemma no_create_cleanup: "only (\<lambda>e. \<not> creates_job e) (backup_handle_cleanup b ns)"
  unfolding backup_handle_cleanup_def Let_def delete_job_def backup_remove_finalizer_def
  by (auto intro!: only_intro split: sum.split)

lemmas no_create_parts =
  no_create_pieces no_create_prune no_create_retention no_create_schedule no_create_cleanup
  no_create_reads

section \<open>The Job step\<close>

text \<open>The listing after which a Job may be created.\<close>

definition backup_admitting :: "KafkaBackup \<Rightarrow> string \<Rightarrow> event \<Rightarrow> bool" where
  "backup_admitting backup ns =
     listing ns (backup_jobs_selector (name_any (kbr_metadata backup)))
       (\<lambda>js. (kb_schedule (kbr_spec backup) = None \<or> triggered_now backup)
          \<and> should_create_backup_job (classify_jobs js) (triggered_now backup))"

lemma guarded_job_step:
  "guarded (backup_admitting backup ns) creates_job
     (job_step ext backup ns g cluster auth account)"
proof (cases "kb_schedule (kbr_spec backup) = None \<or> triggered_now backup")
  case False
  then show ?thesis by (auto simp: job_step_def Let_def)
next
  case True
  show ?thesis
    unfolding job_step_def Let_def if_P [OF True] list_backup_jobs_def
  proof (rule guarded_kube_io_ebind)
    fix a jobs
    assume "as_jobs a = Some jobs"
      and no: "\<not> backup_admitting backup ns
        (EvKube (KListJobs ns (backup_jobs_selector (name_any (kbr_metadata backup)))) (Inr a))"
    then have "\<not> should_create_backup_job (classify_jobs jobs) (triggered_now backup)"
      using True by (cases a) (auto simp: backup_admitting_def)
    then show "guarded (backup_admitting backup ns) creates_job
       (ebind (if should_create_backup_job (classify_jobs jobs) (triggered_now backup)
          then pbind now (\<lambda>t. ebind (create_job ns (build_backup_job ext backup
              (name_any (kbr_metadata backup) @ ''-'' @ x_job_stamp ext t)
              (name_any (kbr_metadata backup) @ ''-config'') cluster auth account))
            (\<lambda>_. backup_update_status_running ns (name_any (kbr_metadata backup)) g))
          else ok ())
        (\<lambda>_. if triggered_now backup then remove_trigger_annotation ns (name_any (kbr_metadata backup))
           else ok ()))"
      by (auto intro!: only_guarded no_create_parts)
  qed simp
qed

lemma no_create_report:
  "only (\<lambda>e. \<not> creates_job e)
     (ebind (backup_update_status_error ns name g e) (\<lambda>_. throw e))"
  by (auto intro!: only_ebind no_create_parts)

lemma guarded_reconcile_backup_active:
  "guarded (backup_admitting backup ns) creates_job (reconcile_backup_active ext backup ns)"
  unfolding reconcile_backup_active_def Let_def
  apply (rule guarded_pbind [OF only_guarded [OF no_create_parts(16)]])
  apply (rule sum.split [THEN iffD2], intro conjI allI impI)
   apply (rule only_guarded [OF no_create_report])
  apply (rule guarded_pbind, rule only_guarded, rule no_create_parts)
  apply (rule guarded_ebind, rule only_guarded, rule no_create_parts)
  apply (rule guarded_ebind, rule only_guarded, rule only.simps(1) [THEN iffD2], rule TrueI)
  apply (rule guarded_ebind, rule only_guarded, rule no_create_parts)
  apply (rule guarded_pbind, rule only_guarded, rule no_create_parts)
  apply (rule guarded_ebind, rule only_guarded, rule no_create_parts)
  apply (rule guarded_ebind, rule guarded_job_step)
  apply (rule only_guarded, rule only_ebind, rule no_create_parts)
  apply (rule no_create_parts)
  done

definition ns_of :: "ObjectMeta \<Rightarrow> string" where
  "ns_of meta = unwrap_or (om_namespace meta) []"

text \<open>
  The reconciler's dispatch: what holds of the cleanup, the pause report, the finalizer and the
  main part holds of the whole.
\<close>

lemma reconcile_backup_cases:
  assumes "om_namespace (kbr_metadata backup) = Some ns"
  shows "reconcile_backup ext backup =
    (if om_deletion_timestamp (kbr_metadata backup) \<noteq> None then backup_handle_cleanup backup ns
     else if is_reconciliation_paused (kbr_metadata backup)
     then backup_update_status_reconciliation_paused ns backup
     else if has_finalizer (kbr_metadata backup) then reconcile_backup_active ext backup ns
     else ebind (backup_add_finalizer ns (name_any (kbr_metadata backup)))
       (\<lambda>_. reconcile_backup_active ext backup ns))"
  using assms by (simp add: reconcile_backup_def Let_def)

lemma guarded_reconcile_backup:
  "guarded (backup_admitting backup (ns_of (kbr_metadata backup))) creates_job
     (reconcile_backup ext backup)"
proof (cases "om_namespace (kbr_metadata backup)")
  case None
  then show ?thesis by (simp add: reconcile_backup_def)
next
  case (Some ns)
  show ?thesis
    unfolding reconcile_backup_cases [OF Some] ns_of_def Some unwrap_or.simps
    by (simp add: only_guarded no_create_parts guarded_reconcile_backup_active guarded_ebind)
qed

lemma once_create_job: "once creates_job (create_job ns job)"
  by (simp add: create_job_def kube_call_def map_err_def pmap_def)

lemma once_job_step: "once creates_job (job_step ext backup ns g cluster auth account)"
proof -
  have 1: "once creates_job (pbind now (\<lambda>t. ebind (create_job ns (job t)) (\<lambda>_.
      backup_update_status_running ns name g)))" for job name
    by (rule once_pbind_right, rule once_ebind_left, rule no_create_parts, rule once_create_job)
      (rule no_create_pieces only_now, simp)
  show ?thesis
    unfolding job_step_def Let_def
    by (auto intro!: once_ebind_right [OF once_ebind_left] 1 no_create_parts)
qed

lemma once_reconcile_backup_active: "once creates_job (reconcile_backup_active ext backup ns)"
  unfolding reconcile_backup_active_def Let_def
  apply (rule once_pbind_right)
   apply (rule sum.split [THEN iffD2], intro conjI allI impI)
    apply (rule only_once, rule no_create_report)
   apply (rule once_pbind_right)
    apply (rule once_ebind_right)
     apply (rule once_ebind_right)
      apply (rule once_ebind_right)
       apply (rule once_pbind_right)
        apply (rule once_ebind_right)
         apply (rule once_ebind_left [OF _ once_job_step])
         apply (rule only_ebind, (rule no_create_parts)+)
     apply simp
    apply (rule no_create_parts)+
  done

lemma once_reconcile_backup: "once creates_job (reconcile_backup ext backup)"
proof (cases "om_namespace (kbr_metadata backup)")
  case None
  then show ?thesis by (simp add: reconcile_backup_def)
next
  case (Some ns)
  show ?thesis
    unfolding reconcile_backup_cases [OF Some]
    by (simp add: only_once no_create_parts once_reconcile_backup_active once_ebind_right)
qed

end
