(* ===== verification/Status_Merge.thy ===== *)
theory Status_Merge
  imports K8s
begin

text \<open>
  What the API server makes of the operator's status patches: a JSON merge patch (RFC 7386)
  replaces the fields it carries, keeps the others, recurses into objects and replaces lists
  whole; an explicit null removes the field. The reconcilers' \<open>already recorded\<close> guards are
  stated over the statuses these merges produce.
\<close>

definition merge_last_backup :: "LastBackupInfo option \<Rightarrow> LastBackupInfo \<Rightarrow> LastBackupInfo" where
  "merge_last_backup old new =
     new\<lparr>lb_completion_time := opt_or (lb_completion_time new) (and_then old lb_completion_time),
         lb_size_bytes := opt_or (lb_size_bytes new) (and_then old lb_size_bytes),
         lb_topics_backed_up := opt_or (lb_topics_backed_up new) (and_then old lb_topics_backed_up),
         lb_partitions_backed_up :=
           opt_or (lb_partitions_backed_up new) (and_then old lb_partitions_backed_up),
         lb_oldest_timestamp := opt_or (lb_oldest_timestamp new) (and_then old lb_oldest_timestamp),
         lb_newest_timestamp := opt_or (lb_newest_timestamp new) (and_then old lb_newest_timestamp)\<rparr>"

definition merge_backup_status :: "BackupStatusPatch \<Rightarrow> KafkaBackupStatus \<Rightarrow> KafkaBackupStatus" where
  "merge_backup_status p s =
     \<lparr>bs_conditions = unwrap_or (bsp_conditions p) (bs_conditions s),
      bs_last_backup = (case bsp_last_backup p of
          None \<Rightarrow> bs_last_backup s
        | Some new \<Rightarrow> Some (merge_last_backup (bs_last_backup s) new)),
      bs_backup_history = unwrap_or (bsp_backup_history p) (bs_backup_history s),
      bs_observed_generation = opt_or (bsp_observed_generation p) (bs_observed_generation s),
      bs_next_scheduled_backup = unwrap_or (bsp_next_scheduled_backup p)
        (bs_next_scheduled_backup s)\<rparr>"

definition merge_restore_info :: "RestoreInfo option \<Rightarrow> RestoreInfo \<Rightarrow> RestoreInfo" where
  "merge_restore_info old new =
     new\<lparr>ri_completion_time := opt_or (ri_completion_time new) (and_then old ri_completion_time),
         ri_restored_topics := opt_or (ri_restored_topics new) (and_then old ri_restored_topics),
         ri_restored_partitions :=
           opt_or (ri_restored_partitions new) (and_then old ri_restored_partitions),
         ri_restored_bytes := opt_or (ri_restored_bytes new) (and_then old ri_restored_bytes),
         ri_point_in_time_target :=
           opt_or (ri_point_in_time_target new) (and_then old ri_point_in_time_target),
         ri_actual_point_in_time :=
           opt_or (ri_actual_point_in_time new) (and_then old ri_actual_point_in_time)\<rparr>"

definition merge_restore_status ::
  "RestoreStatusPatch \<Rightarrow> KafkaRestoreStatus \<Rightarrow> KafkaRestoreStatus" where
  "merge_restore_status p s =
     \<lparr>rs_conditions = unwrap_or (rsp_conditions p) (rs_conditions s),
      rs_restore = (case rsp_restore p of
          None \<Rightarrow> rs_restore s
        | Some new \<Rightarrow> Some (merge_restore_info (rs_restore s) new)),
      rs_observed_generation = opt_or (rsp_observed_generation p) (rs_observed_generation s)\<rparr>"

section \<open>Merging a whole status\<close>

lemma unwrap_vec_field: "xs \<noteq> [] \<Longrightarrow> unwrap_or (vec_field xs) d = xs"
  by (simp add: vec_field_def)

lemma merge_backup_conditions:
  "bs_conditions s' \<noteq> [] \<Longrightarrow>
   bs_conditions (merge_backup_status (backup_status_patch s') s) = bs_conditions s'"
  by (simp add: merge_backup_status_def backup_status_patch_def unwrap_vec_field)

lemma merge_backup_generation:
  "bs_observed_generation s' = Some g \<Longrightarrow>
   bs_observed_generation (merge_backup_status (backup_status_patch s') s) = Some g"
  by (simp add: merge_backup_status_def backup_status_patch_def)

lemma merge_backup_next:
  "bs_next_scheduled_backup s' = Some n \<Longrightarrow>
   bs_next_scheduled_backup (merge_backup_status (backup_status_patch s') s) = Some n"
  by (simp add: merge_backup_status_def backup_status_patch_def)

lemma merge_backup_last_id:
  "bs_last_backup s' = Some b \<Longrightarrow>
   map_option lb_id (bs_last_backup (merge_backup_status (backup_status_patch s') s)) = Some (lb_id b)"
  by (simp add: merge_backup_status_def backup_status_patch_def merge_last_backup_def)

lemma merge_restore_conditions:
  "rs_conditions s' \<noteq> [] \<Longrightarrow>
   rs_conditions (merge_restore_status (restore_status_patch s') s) = rs_conditions s'"
  by (simp add: merge_restore_status_def restore_status_patch_def unwrap_vec_field)

lemma merge_restore_generation:
  "rs_observed_generation s' = Some g \<Longrightarrow>
   rs_observed_generation (merge_restore_status (restore_status_patch s') s) = Some g"
  by (simp add: merge_restore_status_def restore_status_patch_def)

lemmas merge_simps =
  merge_backup_conditions merge_backup_generation merge_backup_next merge_backup_last_id
  merge_restore_conditions merge_restore_generation

text \<open>A patch made of a whole status can never clear the next schedule.\<close>

lemma merge_keeps_next:
  "bs_next_scheduled_backup s' = None \<Longrightarrow>
   bs_next_scheduled_backup (merge_backup_status (backup_status_patch s') s) =
     bs_next_scheduled_backup s"
  by (simp add: merge_backup_status_def backup_status_patch_def)

end
