(* ===== verification/Backup_Outcomes.thy ===== *)
theory Backup_Outcomes
  imports Backup_Protocol Status_Merge
begin

text \<open>
  How the backup reconciler's status reports settle: each report is guarded by a test that the
  status already says so, and the status its own patch produces passes that test, so a second
  report of the same fact writes nothing. For a schedule whose last Job failed, two reports with
  incompatible tests replace each other.
\<close>

section \<open>The guards\<close>

definition scheduled_current :: "KafkaBackupStatus \<Rightarrow> string \<Rightarrow> int \<Rightarrow> bool" where
  "scheduled_current status next_backup generation \<longleftrightarrow>
     is_some_and (find_condition (bs_conditions status) CONDITION_TYPE_READY)
       (\<lambda>c. cd_reason c = Some REASON_BACKUP_SCHEDULED)
     \<and> bs_next_scheduled_backup status = Some next_backup
     \<and> bs_observed_generation status = Some generation"

definition suspended_current :: "KafkaBackupStatus \<Rightarrow> int \<Rightarrow> bool" where
  "suspended_current status generation \<longleftrightarrow>
     is_some_and (find_condition (bs_conditions status) CONDITION_TYPE_READY)
       (\<lambda>c. cd_reason c = Some REASON_BACKUP_SUSPENDED)
     \<and> bs_next_scheduled_backup status = None
     \<and> bs_observed_generation status = Some generation"

definition paused_current :: "KafkaBackupStatus \<Rightarrow> int \<Rightarrow> bool" where
  "paused_current status generation \<longleftrightarrow>
     is_condition_true (bs_conditions status) CONDITION_TYPE_RECONCILIATION_PAUSED
     \<and> bs_observed_generation status = Some generation"

text \<open>A status read, answered with a status that satisfies \<open>P\<close>.\<close>

fun status_read :: "(KafkaBackupStatus \<Rightarrow> bool) \<Rightarrow> event \<Rightarrow> bool" where
  "status_read P (EvKube (KGetBackupStatus ns name) (Inr (ABackup b))) =
     P (unwrap_or (kbr_status b) default_backup_status)"
| "status_read P e = False"

text \<open>Every backup status patch of a trace, merged into any status, gives one in \<open>P\<close>.\<close>

fun patches_establish :: "(KafkaBackupStatus \<Rightarrow> bool) \<Rightarrow> KafkaBackupStatus \<Rightarrow> event \<Rightarrow> bool" where
  "patches_establish P s (EvKube (KPatchBackupStatus ns name pp p) r) = P (merge_backup_status p s)"
| "patches_establish P s e = True"

lemma patches_establish_other [simp]:
  "\<not> status_write e \<Longrightarrow> patches_establish P s e"
  by (cases "(P, s, e)" rule: patches_establish.cases) simp_all

lemma only_establish_read:
  "only (\<lambda>e. \<not> status_write e) p \<Longrightarrow> only (patches_establish P s) p"
  by (erule only_mono) simp

lemmas establish_reads = read_pieces [THEN only_establish_read]

lemma only_establish_patch:
  "P (merge_backup_status (backup_status_patch st) s) \<Longrightarrow>
   only (patches_establish P s) (backup_patch_status ns name st)"
  by (auto simp: backup_patch_status_def send_backup_status_def intro!: only_intro)

lemma only_establish_send:
  "P (merge_backup_status p s) \<Longrightarrow>
   only (patches_establish P s) (send_backup_status ns name p)"
  by (auto simp: send_backup_status_def intro!: only_intro)

lemma only_pmap_ret:
  "only P m \<Longrightarrow> (\<And>x. only P (f (g x))) \<Longrightarrow> only P (pbind (pmap g m) f)"
  by (simp add: pmap_def pbind_assoc only_pbind)

section \<open>Scheduled and suspended\<close>

lemma guarded_scheduled:
  "guarded (status_read (\<lambda>s. \<not> scheduled_current s cron g)) status_write
     (update_status_scheduled ns name g cron)"
  unfolding update_status_scheduled_def current_backup_status_def ebind_assoc
  by (rule guarded_kube_io_ebind)
     (auto simp: scheduled_current_def elim!: as_backup.elims)

lemma establish_scheduled:
  "only (patches_establish (\<lambda>s. scheduled_current s cron g) s0)
     (update_status_scheduled ns name g cron)"
  unfolding update_status_scheduled_def Let_def ready_io_def
  by (auto intro!: only_ebind only_pmap_ret only_establish_patch establish_reads
      simp: scheduled_current_def merge_simps ready_def)

lemma guarded_suspended:
  "guarded (status_read (\<lambda>s. \<not> suspended_current s g)) status_write
     (update_status_suspended ns name g)"
  unfolding update_status_suspended_def current_backup_status_def ebind_assoc
  by (rule guarded_kube_io_ebind)
     (auto simp: suspended_current_def elim!: as_backup.elims)

lemma establish_suspended:
  "only (patches_establish (\<lambda>s. suspended_current s g) s0) (update_status_suspended ns name g)"
  unfolding update_status_suspended_def Let_def ready_io_def
  by (auto intro!: only_ebind only_pmap_ret only_establish_send establish_reads
      simp: suspended_current_def merge_backup_status_def ready_def)

section \<open>Outcomes\<close>

definition outcome_recorded :: "KafkaBackup \<Rightarrow> Job \<Rightarrow> bool" where
  "outcome_recorded backup job =
     (if job_succeeded job then success_recorded backup job else failure_recorded backup job)"

text \<open>The listing after which an outcome is written: its latest terminal Job is news.\<close>

definition news :: "KafkaBackup \<Rightarrow> string \<Rightarrow> event \<Rightarrow> bool" where
  "news backup ns =
     listing ns (backup_jobs_selector (name_any (kbr_metadata backup)))
       (\<lambda>js. is_some_and (latest_terminal js) (\<lambda>j. \<not> outcome_recorded backup j))"

lemma guarded_outcome: "guarded (news backup ns) status_write (check_job_completion backup ns g)"
  unfolding check_job_completion_def Let_def list_backup_jobs_def
proof (rule guarded_kube_io_ebind)
  fix a jobs
  assume "as_jobs a = Some jobs" "\<not> news backup ns
    (EvKube (KListJobs ns (backup_jobs_selector (name_any (kbr_metadata backup)))) (Inr a))"
  then show "guarded (news backup ns) status_write (case latest_terminal jobs of
      None \<Rightarrow> ok ()
    | Some job \<Rightarrow>
        if job_succeeded job
        then if success_recorded backup job then ok ()
             else pbind now (\<lambda>t. backup_update_status_completed ns (name_any (kbr_metadata backup)) g
               (history_entry_of job t))
        else if failure_recorded backup job then ok ()
             else ebind (current_backup_status ns (name_any (kbr_metadata backup))) (\<lambda>status.
                  pbind (error_conditions_io REASON_BACKUP_FAILED (failure_message job)) (\<lambda>cs.
                  backup_patch_status ns (name_any (kbr_metadata backup))
                    (status\<lparr>bs_conditions := cs, bs_observed_generation := Some g\<rparr>))))"
    by (cases a) (auto simp: news_def outcome_recorded_def split: option.splits if_splits)
qed simp

text \<open>The status a report of \<open>job\<close> produces records \<open>job\<close>.\<close>

definition with_status :: "KafkaBackup \<Rightarrow> KafkaBackupStatus \<Rightarrow> KafkaBackup" where
  "with_status backup s = backup\<lparr>kbr_status := Some s\<rparr>"

lemma establish_completed:
  "only (patches_establish (\<lambda>s. success_recorded (with_status backup s) job) s0)
     (backup_update_status_completed ns name g (history_entry_of job t))"
  unfolding backup_update_status_completed_def
  by (auto intro!: only_ebind only_pbind only_establish_patch establish_reads
      simp: success_recorded_def with_status_def merge_backup_status_def backup_status_patch_def
        merge_last_backup_def last_backup_of_def history_entry_of_def)

lemma establish_failed:
  "only (patches_establish (\<lambda>s. failure_recorded (with_status backup s) job) s0)
     (ebind (current_backup_status ns name) (\<lambda>status.
        pbind (error_conditions_io REASON_BACKUP_FAILED (failure_message job)) (\<lambda>cs.
        backup_patch_status ns name
          (status\<lparr>bs_conditions := cs, bs_observed_generation := Some g\<rparr>))))"
  unfolding error_conditions_io_def pbind_assoc
  by (auto intro!: only_ebind only_pbind only_establish_patch establish_reads
      simp: failure_recorded_def with_status_def merge_simps error_conditions_def not_ready_def
        condition_consts)

section \<open>A schedule whose last Job failed\<close>

text \<open>
  The two reports that compete for the conditions of a scheduled backup exclude each other in
  every status either of them produces.
\<close>

lemma scheduled_forgets_failure:
  "only (patches_establish (\<lambda>s. \<not> failure_recorded (with_status backup s) job) s0)
     (update_status_scheduled ns name g cron)"
  unfolding update_status_scheduled_def Let_def ready_io_def
  by (auto intro!: only_ebind only_pmap_ret only_establish_patch establish_reads
      simp: failure_recorded_def with_status_def merge_simps ready_def condition_consts)

lemma failure_forgets_scheduled:
  "only (patches_establish (\<lambda>s. \<not> scheduled_current s cron g') s0)
     (ebind (current_backup_status ns name) (\<lambda>status.
        pbind (error_conditions_io REASON_BACKUP_FAILED (failure_message job)) (\<lambda>cs.
        backup_patch_status ns name
          (status\<lparr>bs_conditions := cs, bs_observed_generation := Some g\<rparr>))))"
  unfolding error_conditions_io_def pbind_assoc
  by (auto intro!: only_ebind only_pbind only_establish_patch establish_reads
      simp: scheduled_current_def merge_simps error_conditions_def not_ready_def
        condition_consts)

end
