(* ===== verification/Execution.thy ===== *)
theory Execution
  imports Effects
begin

text \<open>
  Symbolic execution of a program against a world: trace, outcome and final state of each
  construct in terms of its parts. The bundle \<open>exec\<close> computes outcomes and states of whole
  reconciliations when the answers are known.
\<close>

section \<open>One construct\<close>

lemma state_cons:
  "state_of W (Clock k) s = state_of W (k (fst (w_clock W s))) (snd (w_clock W s))"
  "state_of W (GetEnv n f) s = state_of W (f (fst (w_env W n s))) (snd (w_env W n s))"
  "state_of W (Kube q g) s = state_of W (g (fst (w_kube W q s))) (snd (w_kube W q s))"
  "state_of W (Store x h) s = state_of W (h (fst (w_store W x s))) (snd (w_store W x s))"
  "state_of W (Ret v) s = s" "state_of W (Panic m) s = s"
  by (simp_all add: state_of_def split_beta Let_def)

lemma trace_pbind:
  "trace_of W (pbind m f) s = trace_of W m s @
     (case outcome_of W m s of
        Done x \<Rightarrow> trace_of W (f x) (state_of W m s)
      | Panicked e \<Rightarrow> [])"
  by (simp add: trace_of_def outcome_of_def state_of_def run_pbind split_beta Let_def
      split: outcome.split)

definition decoded :: "(KubeAnswer \<Rightarrow> 'a option) \<Rightarrow> KubeError + KubeAnswer \<Rightarrow> KubeError + 'a" where
  "decoded dec r = (case r of Inl e \<Rightarrow> Inl e
     | Inr a \<Rightarrow> (case dec a of None \<Rightarrow> Inl serde_error | Some x \<Rightarrow> Inr x))"

lemma trace_kube_call:
  "trace_of W (kube_call q dec) s = [EvKube q (fst (w_kube W q s))]"
  "outcome_of W (kube_call q dec) s = Done (decoded dec (fst (w_kube W q s)))"
  by (simp_all add: kube_call_def trace_of_def outcome_of_def decoded_def split_beta Let_def)

lemma trace_kube_io: "trace_of W (kube_io q dec) s = [EvKube q (fst (w_kube W q s))]"
  by (simp add: kube_io_def map_err_def pmap_def trace_pbind trace_kube_call)
     (simp add: trace_of_def)

section \<open>Outcomes and states\<close>

lemma exec_pbind:
  "state_of W (pbind m f) s = (case outcome_of W m s of
     Done x \<Rightarrow> state_of W (f x) (state_of W m s) | Panicked e \<Rightarrow> state_of W m s)"
  "outcome_of W (pbind m f) s = (case outcome_of W m s of
     Done x \<Rightarrow> outcome_of W (f x) (state_of W m s) | Panicked e \<Rightarrow> Panicked e)"
  by (simp_all add: trace_of_def outcome_of_def state_of_def run_pbind split_beta Let_def
      split: outcome.split)

lemma exec_ret: "outcome_of W (Ret x) s = Done x" "state_of W (Ret x) s = s"
  by (simp_all add: outcome_of_def state_of_def)

lemma exec_ebind:
  "state_of W (ebind m f) s = (case outcome_of W m s of
     Done (Inr x) \<Rightarrow> state_of W (f x) (state_of W m s) | _ \<Rightarrow> state_of W m s)"
  "outcome_of W (ebind m f) s = (case outcome_of W m s of
     Done (Inr x) \<Rightarrow> outcome_of W (f x) (state_of W m s)
   | Done (Inl e) \<Rightarrow> Done (Inl e) | Panicked e \<Rightarrow> Panicked e)"
  by (auto simp: ebind_def exec_pbind exec_ret split: outcome.split sum.split)

lemma exec_calls:
  "state_of W (kube_call q dec) s = snd (w_kube W q s)"
  "outcome_of W (kube_call q dec) s = Done (decoded dec (fst (w_kube W q s)))"
  "state_of W now s = snd (w_clock W s)"
  "outcome_of W now s = Done (fst (w_clock W s))"
  "state_of W (env_var n) s = snd (w_env W n s)"
  "outcome_of W (env_var n) s = Done (fst (w_env W n s))"
  by (simp_all add: kube_call_def now_def env_var_def outcome_of_def state_of_def decoded_def
      split_beta Let_def)

lemmas exec = exec_pbind exec_ebind exec_ret exec_calls pmap_def map_err_def kube_io_def

end
