(* ===== verification/Backup_Requests.thy ===== *)
theory Backup_Requests
  imports Backup_Outcomes Execution
begin

text \<open>
  The order of a backup reconciliation's requests: the finalizer before any other write, the
  ConfigMap before the Job, only Jobs of the builder; nothing but the pause report while paused;
  the fixed sequence of a cleanup; and deletions from the store that spare the active backups.
\<close>

section \<open>The finalizer comes first\<close>

fun sets_finalizer :: "event \<Rightarrow> bool" where
  "sets_finalizer (EvKube (KPatchBackup ns name pp (SetFinalizers fs)) r) \<longleftrightarrow> fs = [FINALIZER]"
| "sets_finalizer e = False"

fun finalizer_accepted :: "event \<Rightarrow> bool" where
  "finalizer_accepted (EvKube (KPatchBackup ns name pp (SetFinalizers fs)) (Inr a)) \<longleftrightarrow>
     fs = [FINALIZER]"
| "finalizer_accepted e = False"

definition in_service :: "ObjectMeta \<Rightarrow> bool" where
  "in_service meta \<longleftrightarrow> om_deletion_timestamp meta = None \<and> \<not> is_reconciliation_paused meta"

lemma guarded_finalizer:
  assumes "in_service (kbr_metadata backup)" "\<not> has_finalizer (kbr_metadata backup)"
  shows "guarded finalizer_accepted (\<lambda>e. is_write e \<and> \<not> sets_finalizer e)
    (reconcile_backup ext backup)"
proof (cases "om_namespace (kbr_metadata backup)")
  case None
  then show ?thesis by (simp add: reconcile_backup_def)
next
  case (Some ns)
  show ?thesis
    using assms
    unfolding reconcile_backup_cases [OF Some] in_service_def backup_add_finalizer_def
    by (auto intro!: guarded_kube_io_ebind)
qed

section \<open>The ConfigMap comes before the Job\<close>

fun config_map_accepted :: "string \<Rightarrow> string \<Rightarrow> event \<Rightarrow> bool" where
  "config_map_accepted ns name (EvKube (KApplyConfigMap ns' name' pp cm) (Inr a)) \<longleftrightarrow>
     ns' = ns \<and> name' = name \<and> om_name (cm_metadata cm) = Some name"
| "config_map_accepted ns name e = False"

lemma guarded_config_map_active:
  "guarded (config_map_accepted ns (name_any (kbr_metadata backup) @ ''-config'')) creates_job
     (reconcile_backup_active ext backup ns)"
  unfolding reconcile_backup_active_def Let_def
  apply (rule guarded_pbind [OF only_guarded [OF no_create_parts(16)]])
  apply (rule sum.split [THEN iffD2], intro conjI allI impI)
   apply (rule only_guarded [OF no_create_report])
  apply (rule guarded_pbind, rule only_guarded, rule no_create_parts)
  apply (rule guarded_ebind, rule only_guarded, rule no_create_parts)
  apply (rule guarded_ebind, rule only_guarded, rule only.simps(1) [THEN iffD2], rule TrueI)
  apply (simp only: backup_create_or_update_config_map_def)
  apply (rule guarded_kube_io_ebind)
   apply (simp_all add: owned_config_map_def)
  done

lemma guarded_config_map:
  "guarded (config_map_accepted (ns_of (kbr_metadata backup))
       (name_any (kbr_metadata backup) @ ''-config'')) creates_job
     (reconcile_backup ext backup)"
proof (cases "om_namespace (kbr_metadata backup)")
  case None
  then show ?thesis by (simp add: reconcile_backup_def)
next
  case (Some ns)
  show ?thesis
    unfolding reconcile_backup_cases [OF Some] ns_of_def Some unwrap_or.simps
    by (simp add: only_guarded no_create_parts guarded_config_map_active guarded_ebind)
qed

section \<open>Only Jobs of the builder\<close>

text \<open>A Job event is one of \<open>build_backup_job\<close> on this resource, named after the instant.\<close>

definition built_backup_job :: "Ext \<Rightarrow> KafkaBackup \<Rightarrow> Job \<Rightarrow> bool" where
  "built_backup_job ext backup job \<longleftrightarrow>
     (\<exists>cluster auth account t. job = build_backup_job ext backup
        (name_any (kbr_metadata backup) @ ''-'' @ x_job_stamp ext t)
        (name_any (kbr_metadata backup) @ ''-config'') cluster auth account)"

fun built_event :: "(Job \<Rightarrow> bool) \<Rightarrow> event \<Rightarrow> bool" where
  "built_event P (EvKube (KCreateJob ns job) r) = P job"
| "built_event P e = True"

lemma built_event_other [simp]: "\<not> creates_job e \<Longrightarrow> built_event P e"
  by (cases e rule: creates_job.cases) simp_all

lemma only_built: "only (\<lambda>e. \<not> creates_job e) p \<Longrightarrow> only (built_event P) p"
  by (erule only_mono) simp

lemmas built_parts = no_create_parts [THEN only_built]

lemma only_built_job_step:
  "only (built_event (built_backup_job ext backup)) (job_step ext backup ns g cluster auth account)"
proof -
  have "only (built_event (built_backup_job ext backup))
      (create_job ns (build_backup_job ext backup
        (name_any (kbr_metadata backup) @ ''-'' @ x_job_stamp ext t)
        (name_any (kbr_metadata backup) @ ''-config'') cluster auth account))" for t
    by (rule only_create_job) (auto simp: built_backup_job_def)
  then show ?thesis
    unfolding job_step_def Let_def
    by (auto intro!: only_ebind only_pbind only_now built_parts)
qed

lemma only_built_active:
  "only (built_event (built_backup_job ext backup)) (reconcile_backup_active ext backup ns)"
  unfolding reconcile_backup_active_def Let_def
  by (auto intro!: only_ebind only_pbind built_parts only_built_job_step split: sum.split)

lemma only_built_reconcile:
  "only (built_event (built_backup_job ext backup)) (reconcile_backup ext backup)"
proof (cases "om_namespace (kbr_metadata backup)")
  case None
  then show ?thesis by (simp add: reconcile_backup_def)
next
  case (Some ns)
  show ?thesis
    unfolding reconcile_backup_cases [OF Some]
    by (auto intro!: only_ebind built_parts only_built_active)
qed

section \<open>Paused\<close>

text \<open>While paused: the clock, and one status patch that changes only the conditions.\<close>

fun pause_report :: "KafkaBackup \<Rightarrow> event \<Rightarrow> bool" where
  "pause_report backup (EvClock t) = True"
| "pause_report backup (EvKube (KPatchBackupStatus ns name pp p) r) \<longleftrightarrow>
     ns = ns_of (kbr_metadata backup) \<and> name = name_any (kbr_metadata backup) \<and> pp = apply_params \<and>
     (let s = unwrap_or (kbr_status backup) default_backup_status;
          s' = merge_backup_status p s
      in paused_current s' (generation_of (kbr_metadata backup)) \<and>
         s' = s\<lparr>bs_conditions := bs_conditions s',
                bs_observed_generation := Some (generation_of (kbr_metadata backup))\<rparr>)"
| "pause_report backup e = False"

lemma opt_or_self [simp]: "opt_or x x = x"
  by (cases x) simp_all

lemma merge_own_last: "merge_last_backup (Some b) b = b"
  by (simp add: merge_last_backup_def)

lemma unwrap_own_history: "unwrap_or (vec_field h) h = h"
  by (simp add: vec_field_def)

lemma only_pause_report:
  assumes "om_namespace (kbr_metadata backup) = Some ns"
  shows "only (pause_report backup) (backup_update_status_reconciliation_paused ns backup)"
  unfolding backup_update_status_reconciliation_paused_def Let_def reconciliation_paused_io_def
    backup_patch_status_def send_backup_status_def
  using assms
  by (cases "bs_last_backup (unwrap_or (kbr_status backup) default_backup_status)";
      cases "bs_next_scheduled_backup (unwrap_or (kbr_status backup) default_backup_status)")
     (auto intro!: only_intro only_pmap_ret simp: ns_of_def Let_def paused_current_def
       merge_backup_status_def backup_status_patch_def merge_own_last unwrap_own_history
       is_condition_true_def reconciliation_paused_def vec_field_def)

lemma paused_quiet:
  assumes "paused_current (unwrap_or (kbr_status backup) default_backup_status)
      (generation_of (kbr_metadata backup))"
  shows "backup_update_status_reconciliation_paused ns backup = ok ()"
  using assms by (simp add: backup_update_status_reconciliation_paused_def Let_def paused_current_def)

section \<open>Cleanup\<close>

lemma outcome_for_ignore:
  assumes "\<And>x. ends (\<lambda>out. \<exists>y. out = Done y) (f x)"
  shows "outcome_of W (for_ignore xs f) s = Done ()"
proof -
  have "ends (\<lambda>out. out = Done ()) (for_ignore xs f)"
  proof (induction xs)
    case (Cons x xs)
    show ?case
      unfolding for_ignore.simps ends_pbind
      by (rule ends_mono [OF assms]) (auto simp: Cons)
  qed simp
  then show ?thesis by (rule ends_run)
qed

lemma delete_job_done: "ends (\<lambda>out. \<exists>y. out = Done y) (delete_job ns j)"
  by (simp add: delete_job_def kube_call_def)

definition job_deletion :: "string \<Rightarrow> Job \<Rightarrow> KubeReq" where
  "job_deletion ns job =
     KDeleteJob ns (unwrap_or (om_name (jb_metadata job)) []) cleanup_delete_params"

lemma requests_delete_jobs:
  "kube_requests (trace_of W (for_ignore js (delete_job ns)) s) = map (job_deletion ns) js"
proof (induction js arbitrary: s)
  case (Cons j js)
  then show ?case
    by (simp add: trace_pbind delete_job_def trace_kube_call job_deletion_def)
qed (simp add: trace_of_def)

text \<open>The Jobs an answered listing names.\<close>

fun answered_jobs :: "KubeError + KubeAnswer \<Rightarrow> Job list" where
  "answered_jobs (Inr (AJobs js)) = js"
| "answered_jobs r = []"

fun listed_jobs :: "event \<Rightarrow> Job list" where
  "listed_jobs (EvKube q r) = answered_jobs r"
| "listed_jobs e = []"

definition backup_cleanup_requests :: "string \<Rightarrow> string \<Rightarrow> Job list \<Rightarrow> KubeReq list" where
  "backup_cleanup_requests ns name js =
     KListJobs ns (backup_cleanup_selector name) # map (job_deletion ns) js
     @ [KDeleteCronJob ns (name @ ''-scheduled'') cleanup_delete_params,
        KDeleteConfigMap ns (name @ ''-config'') cleanup_delete_params,
        KPatchBackup ns name apply_params NullFinalizers]"

lemma decoded_jobs:
  "(case decoded as_jobs r of Inr js \<Rightarrow> for_ignore js f | Inl _ \<Rightarrow> Ret ()) =
     for_ignore (answered_jobs r) f"
  by (cases r rule: answered_jobs.cases) (simp_all add: decoded_def)

lemma trace_backup_cleanup:
  "kube_requests (trace_of W (backup_handle_cleanup backup ns) s) =
     backup_cleanup_requests ns (name_any (kbr_metadata backup))
       (listed_jobs (hd (trace_of W (backup_handle_cleanup backup ns) s)))"
  unfolding backup_handle_cleanup_def Let_def
  by (simp add: trace_pbind trace_kube_call trace_kube_io outcome_for_ignore delete_job_done
      decoded_jobs requests_delete_jobs backup_cleanup_requests_def backup_remove_finalizer_def)

section \<open>Deletions in the store\<close>

fun deletes_path :: "string \<Rightarrow> event \<Rightarrow> bool" where
  "deletes_path p (EvStore (SDelete h path) r) \<longleftrightarrow> path = p"
| "deletes_path p e = False"

lemma deletes_is_write: "deletes_path p e \<Longrightarrow> is_write e"
  by (cases "(p, e)" rule: deletes_path.cases) simp_all

lemma read_no_delete: "only (\<lambda>e. \<not> is_write e) m \<Longrightarrow> only (\<lambda>e. \<not> deletes_path p e) m"
  by (erule only_mono) (auto dest: deletes_is_write)

lemma no_delete_history: "only (\<lambda>e. \<not> deletes_path p e) (patch_backup_history ns name h)"
  by (auto simp: patch_backup_history_def send_backup_status_def intro!: only_intro)

lemma no_delete_prune:
  assumes "\<not> confined ext (normalize_optional_prefix (storage_prefix st)) ids p"
  shows "only (\<lambda>e. \<not> deletes_path p e) (prune_backup_ids ext ns st ids)"
proof (rule only_mono [OF only_prune_backup_ids])
  fix e
  assume "prune_event ext (normalize_optional_prefix (storage_prefix st)) ids e"
  then show "\<not> deletes_path p e"
    using assms by (cases "(p, e)" rule: deletes_path.cases) auto
qed

section \<open>An outcome, reported once\<close>

definition outcome_report :: "KafkaBackup \<Rightarrow> string \<Rightarrow> int \<Rightarrow> Job \<Rightarrow> unit io" where
  "outcome_report backup ns g job =
     (if job_succeeded job
      then if success_recorded backup job then ok ()
           else pbind now (\<lambda>t. backup_update_status_completed ns (name_any (kbr_metadata backup)) g
             (history_entry_of job t))
      else if failure_recorded backup job then ok ()
           else ebind (current_backup_status ns (name_any (kbr_metadata backup))) (\<lambda>status.
                pbind (error_conditions_io REASON_BACKUP_FAILED (failure_message job)) (\<lambda>cs.
                backup_patch_status ns (name_any (kbr_metadata backup))
                  (status\<lparr>bs_conditions := cs, bs_observed_generation := Some g\<rparr>))))"

lemma check_job_completion_report:
  "check_job_completion backup ns g =
     ebind (list_backup_jobs ns (name_any (kbr_metadata backup))) (\<lambda>jobs.
       case latest_terminal jobs of None \<Rightarrow> ok () | Some job \<Rightarrow> outcome_report backup ns g job)"
  unfolding check_job_completion_def outcome_report_def Let_def by (rule refl)

lemma outcome_report_recorded: "outcome_recorded backup job \<Longrightarrow> outcome_report backup ns g job = ok ()"
  by (auto simp: outcome_report_def outcome_recorded_def split: if_splits)

lemma outcome_report_establishes:
  "only (patches_establish (\<lambda>st. outcome_recorded (with_status backup st) job) s0)
     (outcome_report backup ns g job)"
proof (cases "job_succeeded job")
  case True
  then have r: "outcome_recorded b job = success_recorded b job" for b
    by (simp add: outcome_recorded_def)
  show ?thesis
    using establish_completed
    by (auto simp: r outcome_report_def True intro!: only_pbind only_now)
next
  case False
  then have r: "outcome_recorded b job = failure_recorded b job" for b
    by (simp add: outcome_recorded_def)
  show ?thesis
    using establish_failed by (auto simp: r outcome_report_def False)
qed

lemma once_outcome_report: "once status_write (outcome_report backup ns g job)"
  using bk_completed.single [of "(ns, _, g, _)"]
  by (auto simp: outcome_report_def backup_patch_status_def intro!: writer_intro)

lemma failed_report_forgets_scheduled:
  "\<not> job_succeeded job \<Longrightarrow>
   only (patches_establish (\<lambda>s. \<not> scheduled_current s cron g') s0) (outcome_report backup ns g job)"
  by (simp add: outcome_report_def failure_forgets_scheduled)

lemma trace_listing_ebind:
  "trace_of W (ebind (kube_io q as_jobs) f) s =
     EvKube q (fst (w_kube W q s)) #
     (case decoded as_jobs (fst (w_kube W q s)) of
        Inl e \<Rightarrow> [] | Inr js \<Rightarrow> trace_of W (f js) (snd (w_kube W q s)))"
  by (auto simp: kube_io_def kube_call_def map_err_def pmap_def ebind_def trace_cons decoded_def
      split: sum.split option.split) (simp_all add: trace_of_def)

lemma decoded_answered: "decoded as_jobs r = Inr js \<Longrightarrow> answered_jobs r = js"
  by (cases r rule: answered_jobs.cases) (simp_all add: decoded_def)

lemma decoded_unanswered: "decoded as_jobs r = Inl e \<Longrightarrow> answered_jobs r = []"
  by (cases r rule: answered_jobs.cases) (simp_all add: decoded_def)

text \<open>What holds of the report of the latest terminal Job holds of the whole check.\<close>

lemma check_trace_latest:
  assumes "\<And>job s. latest_terminal (listed_jobs (hd (trace_of W (check_job_completion backup ns g) s0))) = Some job \<Longrightarrow>
      P job (trace_of W (outcome_report backup ns g job) s)"
    and "\<And>job. P job []"
    and "\<And>job q r tr. \<not> status_write (EvKube q r) \<Longrightarrow> P job tr \<Longrightarrow> P job (EvKube q r # tr)"
  shows "case latest_terminal (listed_jobs (hd (trace_of W (check_job_completion backup ns g) s0))) of
      None \<Rightarrow> filter status_write (trace_of W (check_job_completion backup ns g) s0) = []
    | Some job \<Rightarrow> P job (trace_of W (check_job_completion backup ns g) s0)"
proof -
  let ?q = "KListJobs ns (backup_jobs_selector (name_any (kbr_metadata backup)))"
  let ?tr = "trace_of W (check_job_completion backup ns g) s0"
  have tr: "?tr = EvKube ?q (fst (w_kube W ?q s0)) #
      (case decoded as_jobs (fst (w_kube W ?q s0)) of Inl e \<Rightarrow> []
       | Inr js \<Rightarrow> trace_of W (case latest_terminal js of None \<Rightarrow> ok ()
           | Some job \<Rightarrow> outcome_report backup ns g job) (snd (w_kube W ?q s0)))"
    unfolding check_job_completion_report list_backup_jobs_def by (rule trace_listing_ebind)
  then have hd: "listed_jobs (hd ?tr) = answered_jobs (fst (w_kube W ?q s0))" by simp
  have nil: "trace_of W (ok ()) s = []" for s by (simp add: trace_of_def)
  show ?thesis
  proof (cases "decoded as_jobs (fst (w_kube W ?q s0))")
    case (Inl e)
    then have js: "listed_jobs (hd ?tr) = []" using hd by (simp add: decoded_unanswered)
    have none: "latest_terminal [] = None" by (simp add: latest_terminal_def)
    show ?thesis unfolding js none option.case using tr Inl by simp
  next
    case (Inr js)
    then have js: "listed_jobs (hd ?tr) = js" using hd decoded_answered by metis
    show ?thesis
    proof (cases "latest_terminal js")
      case None
      with tr Inr show ?thesis unfolding js None option.case by (simp add: None nil)
    next
      case (Some job)
      then have "P job (trace_of W (outcome_report backup ns g job) (snd (w_kube W ?q s0)))"
        by (intro assms(1)) (simp add: js)
      then have "P job (EvKube ?q (fst (w_kube W ?q s0)) #
          trace_of W (outcome_report backup ns g job) (snd (w_kube W ?q s0)))"
        by (intro assms(3)) simp_all
      with tr Inr Some show ?thesis unfolding js Some option.case by (simp add: Some)
    qed
  qed
qed

section \<open>The latest finished Job\<close>

text \<open>Did \<open>job\<close> start after \<open>other\<close>? A Job without a start time never does.\<close>

definition started_after :: "Job \<Rightarrow> Job \<Rightarrow> bool" where
  "started_after job other \<longleftrightarrow>
     (case job_start_time job of None \<Rightarrow> False
      | Some t \<Rightarrow> (case job_start_time other of None \<Rightarrow> True | Some t' \<Rightarrow> t' < t))"

text \<open>
  The latest finished Job of a list, with no reference to how it is found: no finished Job started
  after it, and of those that started when it did it is the last.
\<close>

definition latest_finished :: "Job list \<Rightarrow> Job \<Rightarrow> bool" where
  "latest_finished jobs job \<longleftrightarrow> terminal_job job \<and>
     (\<exists>before after. jobs = before @ job # after \<and>
        list_all (\<lambda>j. terminal_job j \<longrightarrow> \<not> started_after j job) before \<and>
        list_all (\<lambda>j. terminal_job j \<longrightarrow> started_after job j) after)"

lemma started_after_iff: "started_after job other \<longleftrightarrow> job_start_time other < job_start_time job"
  by (auto simp: started_after_def split: option.split)

lemma fold_max_split:
  fixes f :: "'a \<Rightarrow> 'k::linorder"
  shows "\<exists>before after. y # ys = before @ fold (\<lambda>y acc. if f acc \<le> f y then y else acc) ys y # after \<and>
    (\<forall>x \<in> set before. f x \<le> f (fold (\<lambda>y acc. if f acc \<le> f y then y else acc) ys y)) \<and>
    (\<forall>x \<in> set after. f x < f (fold (\<lambda>y acc. if f acc \<le> f y then y else acc) ys y))"
proof (induction ys rule: rev_induct)
  case Nil
  show ?case by (intro exI [of _ "[]"]) simp
next
  case (snoc a ys)
  define m where "m = fold (\<lambda>y acc. if f acc \<le> f y then y else acc) ys y"
  obtain b c where bc: "y # ys = b @ m # c" "\<forall>x \<in> set b. f x \<le> f m" "\<forall>x \<in> set c. f x < f m"
    using snoc unfolding m_def by blast
  have all: "\<forall>x \<in> set (y # ys). f x \<le> f m"
    unfolding bc(1) using bc(2,3) by (auto intro: less_imp_le)
  have last: "fold (\<lambda>y acc. if f acc \<le> f y then y else acc) (ys @ [a]) y = (if f m \<le> f a then a else m)"
    by (simp add: m_def)
  show ?case
  proof (cases "f m \<le> f a")
    case True
    with all have "\<forall>x \<in> set (y # ys). f x \<le> f a" by (blast intro: order_trans)
    with True show ?thesis unfolding last by (intro exI [of _ "y # ys"] exI [of _ "[]"]) simp
  next
    case False
    have "y # ys @ [a] = b @ m # c @ [a]" using bc(1) by (metis append_Cons append_assoc)
    with False bc(2,3) show ?thesis unfolding last
      by (intro exI [of _ b] exI [of _ "c @ [a]"]) simp
  qed
qed

lemma max_by_key_split:
  "max_by_key f xs = Some x \<Longrightarrow>
   \<exists>before after. xs = before @ x # after \<and> (\<forall>y \<in> set before. f y \<le> f x) \<and> (\<forall>y \<in> set after. f y < f x)"
  using fold_max_split [of "hd xs" "tl xs" f] by (cases xs) auto

lemma filter_split:
  "filter P xs = b @ x # c \<Longrightarrow> \<exists>before after. xs = before @ x # after \<and> filter P before = b \<and> filter P after = c"
proof (induction xs arbitrary: b)
  case (Cons a xs)
  show ?case
  proof (cases "P a \<and> b = []")
    case True
    with Cons.prems show ?thesis by (intro exI [of _ "[]"] exI [of _ xs]) simp
  next
    case False
    then obtain before after where "xs = before @ x # after"
      "filter P before = (if P a then tl b else b)" "filter P after = c"
      using Cons.IH [of "if P a then tl b else b"] Cons.prems by (cases b) (auto split: if_splits)
    with False Cons.prems show ?thesis
      by (intro exI [of _ "a # before"] exI [of _ after]) (cases b, auto split: if_splits)
  qed
qed simp

lemma latest_terminal_finished:
  assumes "latest_terminal jobs = Some job"
  shows "latest_finished jobs job"
proof -
  obtain b c where bc: "filter terminal_job jobs = b @ job # c" "\<forall>y \<in> set b. job_start_time y \<le> job_start_time job"
    "\<forall>y \<in> set c. job_start_time y < job_start_time job"
    using max_by_key_split [OF assms [unfolded latest_terminal_def]] by blast
  obtain before after where ba: "jobs = before @ job # after"
    "filter terminal_job before = b" "filter terminal_job after = c"
    using filter_split [OF bc(1)] by blast
  have "terminal_job job" using arg_cong [OF bc(1), of set] by auto
  moreover have "list_all (\<lambda>j. terminal_job j \<longrightarrow> \<not> started_after j job) before"
    using bc(2) by (auto simp: list_all_iff started_after_iff not_less simp flip: ba(2))
  moreover have "list_all (\<lambda>j. terminal_job j \<longrightarrow> started_after job j) after"
    using bc(3) by (auto simp: list_all_iff started_after_iff simp flip: ba(3))
  ultimately show ?thesis unfolding latest_finished_def using ba(1) by blast
qed

lemma latest_terminal_none: "latest_terminal jobs = None \<longleftrightarrow> list_all (\<lambda>j. \<not> terminal_job j) jobs"
  by (simp add: latest_terminal_def filter_empty_conv list_all_iff)

lemma silent_run: "only (\<lambda>e. \<not> P e) m \<Longrightarrow> filter P (trace_of W m s) = []"
  by (auto simp: filter_empty_conv dest: only_run)

text \<open>A report that succeeds has written the status, once.\<close>

lemma report_writes:
  assumes "\<not> outcome_recorded backup job" "outcome_of W (outcome_report backup ns g job) s = Done (Inr ())"
  shows "length (filter status_write (trace_of W (outcome_report backup ns g job) s)) = 1"
proof -
  have send: "length (filter status_write (trace_of W (backup_patch_status ns n st) s)) = 1" for n st s
    by (simp add: backup_patch_status_def send_backup_status_def trace_kube_io)
  show ?thesis
    using assms send
    by (auto simp: read_pieces [THEN silent_run] outcome_report_def outcome_recorded_def backup_update_status_completed_def trace_pbind
        exec ebind_def trace_of_def [of _ "Ret _"] split: if_splits outcome.splits sum.splits)

qed

text \<open>The check lists the Jobs, and reports the latest that finished.\<close>

lemma check_cases:
  fixes W s ns backup
  defines "q \<equiv> KListJobs ns (backup_jobs_selector (name_any (kbr_metadata backup)))"
  defines "r \<equiv> fst (w_kube W q s)" and "s' \<equiv> snd (w_kube W q s)"
  obtains (none) "latest_terminal (answered_jobs r) = None"
      "trace_of W (check_job_completion backup ns g) s = [EvKube q r]"
  | (some) job where "latest_terminal (answered_jobs r) = Some job"
      "trace_of W (check_job_completion backup ns g) s =
         EvKube q r # trace_of W (outcome_report backup ns g job) s'"
      "outcome_of W (check_job_completion backup ns g) s = outcome_of W (outcome_report backup ns g job) s'"
proof -
  have tr: "trace_of W (check_job_completion backup ns g) s = EvKube q r #
      (case decoded as_jobs r of Inl e \<Rightarrow> [] | Inr js \<Rightarrow> trace_of W (case latest_terminal js of
         None \<Rightarrow> ok () | Some job \<Rightarrow> outcome_report backup ns g job) s')"
    unfolding check_job_completion_report list_backup_jobs_def trace_listing_ebind q_def r_def s'_def
    by (rule refl)
  show thesis
  proof (cases "decoded as_jobs r")
    case (Inl e)
    then show ?thesis
      using tr by (intro none) (simp_all add: decoded_unanswered latest_terminal_def)
  next
    case (Inr js)
    then have js: "answered_jobs r = js" by (rule decoded_answered)
    show ?thesis
    proof (cases "latest_terminal js")
      case None
      then show ?thesis using tr Inr js by (intro none) (simp_all add: trace_of_def [of _ "Ret _"])
    next
      case (Some job)
      have "outcome_of W (check_job_completion backup ns g) s = outcome_of W (outcome_report backup ns g job) s'"
        using Inr Some unfolding r_def s'_def q_def
        by (simp add: check_job_completion_report list_backup_jobs_def exec)
      with tr Inr js Some show ?thesis by (intro some) simp_all
    qed
  qed
qed

end
