(* ===== verification/Restore_Protocol.thy ===== *)
theory Restore_Protocol
  imports Backup_Requests
begin

text \<open>
  What a reconciliation of a \<open>KafkaRestore\<close> may ask of the cluster, and in which order,
  whatever it answers: lemmas over the programs of \<open>Reconcile_Restore\<close>. The Job gate is the
  interface \<open>one_shot_gate\<close> of theory \<open>Job_State\<close>, which opens on an empty listing only.
\<close>

section \<open>No Job but in the start\<close>

lemma restore_no_create_pieces:
  "only (\<lambda>e. \<not> creates_job e) (restore_create_or_update_config_map ns n y b)"
  "only (\<lambda>e. \<not> creates_job e) (restore_add_finalizer ns n)"
  "only (\<lambda>e. \<not> creates_job e) (restore_update_status_running ns n g)"
  "only (\<lambda>e. \<not> creates_job e) (restore_update_status_error ns n g err)"
  "only (\<lambda>e. \<not> creates_job e) (restore_update_status_failed ns n g j)"
  "only (\<lambda>e. \<not> creates_job e) (restore_update_status_completed ns n g i)"
  "only (\<lambda>e. \<not> creates_job e) (restore_update_status_reconciliation_paused ns b)"
  "only (\<lambda>e. \<not> creates_job e) (get_source_backup ns n)"
  using rs_running.no_create [of "(ns, n, g)"] rs_error.no_create [of "(ns, n, g, err)"]
    rs_failed.no_create [of "(ns, n, g, j)"] rs_completed.no_create [of "(ns, n, g, i)"]
    rs_paused.no_create [of "(ns, b)"]
  by (simp_all add: restore_create_or_update_config_map_def restore_add_finalizer_def
      get_source_backup_def only_kube_io only_map_err only_kube_call)

lemma restore_no_create_cleanup:
  "only (\<lambda>e. \<not> creates_job e) (restore_handle_cleanup r ns)"
  unfolding restore_handle_cleanup_def Let_def restore_delete_job_def restore_remove_finalizer_def
  by (auto intro!: only_intro split: sum.split)

lemma restore_no_create_report:
  "only (\<lambda>e. \<not> creates_job e) (report_existing r ns g jobs st)"
  unfolding report_existing_def Let_def
  by (auto intro!: only_pbind only_now restore_no_create_pieces split: JobsState.split)

lemma restore_no_create_error:
  "only (\<lambda>e. \<not> creates_job e) (ebind (restore_update_status_error ns n g e) (\<lambda>_. throw e))"
  by (auto intro!: only_ebind restore_no_create_pieces)

lemmas restore_no_create_parts =
  restore_no_create_pieces restore_no_create_cleanup restore_no_create_report
  no_create_reads read_list_restore_jobs [THEN read_no_create]

section \<open>The gate\<close>

definition restore_admitting :: "KafkaRestore \<Rightarrow> string \<Rightarrow> event \<Rightarrow> bool" where
  "restore_admitting restore ns =
     listing ns (restore_jobs_selector (name_any (krr_metadata restore))) (\<lambda>js. js = [])"

lemma active_step:
  "(case classify_jobs jobs of
      NoJobs \<Rightarrow> start_restore ext restore ns g
    | state \<Rightarrow> report_existing restore ns g jobs state) =
   (if should_create_restore_job (classify_jobs jobs) then start_restore ext restore ns g
    else report_existing restore ns g jobs (classify_jobs jobs))"
  by (cases "classify_jobs jobs") simp_all

lemma guarded_reconcile_restore_active:
  "guarded (restore_admitting restore ns) creates_job (reconcile_restore_active ext restore ns)"
proof (cases "restore_done restore")
  case True
  then show ?thesis by (simp add: reconcile_restore_active_def)
next
  case False
  show ?thesis
    unfolding reconcile_restore_active_def Let_def if_not_P [OF False] active_step
      list_restore_jobs_def
  proof (rule guarded_kube_io_ebind)
    fix a jobs
    assume "as_jobs a = Some jobs" "\<not> restore_admitting restore ns
      (EvKube (KListJobs ns (restore_jobs_selector (name_any (krr_metadata restore)))) (Inr a))"
    then have "\<not> should_create_restore_job (classify_jobs jobs)"
      unfolding restore_gate.gate_iff by (cases a) (auto simp: restore_admitting_def)
    then show "guarded (restore_admitting restore ns) creates_job
      (if should_create_restore_job (classify_jobs jobs)
       then start_restore ext restore ns (generation_of (krr_metadata restore))
       else report_existing restore ns (generation_of (krr_metadata restore)) jobs
         (classify_jobs jobs))"
      by (simp add: only_guarded restore_no_create_parts)
  qed simp
qed

lemma reconcile_restore_cases:
  assumes "om_namespace (krr_metadata restore) = Some ns"
  shows "reconcile_restore ext restore =
    (if om_deletion_timestamp (krr_metadata restore) \<noteq> None then restore_handle_cleanup restore ns
     else if is_reconciliation_paused (krr_metadata restore)
     then restore_update_status_reconciliation_paused ns restore
     else if has_finalizer (krr_metadata restore) then reconcile_restore_active ext restore ns
     else ebind (restore_add_finalizer ns (name_any (krr_metadata restore)))
       (\<lambda>_. reconcile_restore_active ext restore ns))"
  using assms by (simp add: reconcile_restore_def Let_def)

lemma guarded_reconcile_restore:
  "guarded (restore_admitting restore (ns_of (krr_metadata restore))) creates_job
     (reconcile_restore ext restore)"
proof (cases "om_namespace (krr_metadata restore)")
  case None
  then show ?thesis by (simp add: reconcile_restore_def)
next
  case (Some ns)
  show ?thesis
    unfolding reconcile_restore_cases [OF Some] ns_of_def Some unwrap_or.simps
    by (simp add: only_guarded restore_no_create_parts guarded_reconcile_restore_active
        guarded_ebind)
qed

section \<open>At most one Job, after its ConfigMap, from the builder\<close>

lemma once_start_restore: "once creates_job (start_restore ext restore ns g)"
  unfolding start_restore_def Let_def
  apply (rule once_ebind_right)
   apply (rule once_pbind_right)
    apply (rule sum.split [THEN iffD2], intro conjI allI impI)
     apply (rule only_once, rule restore_no_create_error)
    apply (rule once_pbind_right)
     apply (rule once_ebind_right)
      apply (rule once_ebind_right)
       apply (rule once_ebind_right)
        apply (rule once_pbind_right)
         apply (rule once_pbind_right)
          apply (rule once_ebind_left [OF _ once_create_job])
          apply (rule restore_no_create_parts)
         apply (rule restore_no_create_parts)
        apply (rule only_now, simp)
       apply (rule restore_no_create_parts)
      apply simp
     apply (rule restore_no_create_parts)+
  done

lemma once_reconcile_restore: "once creates_job (reconcile_restore ext restore)"
proof -
  have active: "once creates_job (reconcile_restore_active ext restore ns)" for ns
    unfolding reconcile_restore_active_def Let_def active_step
    by (auto intro!: once_ebind_right once_start_restore restore_no_create_parts
        intro: only_once [OF restore_no_create_report])
  show ?thesis
  proof (cases "om_namespace (krr_metadata restore)")
    case None
    then show ?thesis by (simp add: reconcile_restore_def)
  next
    case (Some ns)
    show ?thesis
      unfolding reconcile_restore_cases [OF Some]
      by (simp add: only_once restore_no_create_parts active once_ebind_right)
  qed
qed

lemma guarded_restore_config_map:
  "guarded (config_map_accepted (ns_of (krr_metadata restore))
       (name_any (krr_metadata restore) @ ''-config'')) creates_job
     (reconcile_restore ext restore)"
proof -
  have start: "guarded (config_map_accepted ns (name_any (krr_metadata restore) @ ''-config''))
      creates_job (start_restore ext restore ns g)" for ns g
    unfolding start_restore_def Let_def
    apply (rule guarded_ebind, rule only_guarded, rule restore_no_create_parts)
    apply (rule guarded_pbind, rule only_guarded, rule no_create_parts)
    apply (rule sum.split [THEN iffD2], intro conjI allI impI)
     apply (rule only_guarded, rule restore_no_create_error)
    apply (rule guarded_pbind, rule only_guarded, rule no_create_parts)
    apply (rule guarded_ebind, rule only_guarded, rule no_create_parts)
    apply (rule guarded_ebind, rule only_guarded, rule only.simps(1) [THEN iffD2], rule TrueI)
    apply (simp only: restore_create_or_update_config_map_def)
    apply (rule guarded_kube_io_ebind)
     apply (simp_all add: owned_config_map_def)
    done
  have active: "guarded (config_map_accepted ns (name_any (krr_metadata restore) @ ''-config''))
      creates_job (reconcile_restore_active ext restore ns)" for ns
    unfolding reconcile_restore_active_def Let_def active_step
    by (simp add: guarded_ebind only_guarded restore_no_create_parts start)
  show ?thesis
  proof (cases "om_namespace (krr_metadata restore)")
    case None
    then show ?thesis by (simp add: reconcile_restore_def)
  next
    case (Some ns)
    show ?thesis
      unfolding reconcile_restore_cases [OF Some] ns_of_def Some unwrap_or.simps
      by (simp add: only_guarded restore_no_create_parts active guarded_ebind)
  qed
qed

definition built_restore_job :: "Ext \<Rightarrow> KafkaRestore \<Rightarrow> Job \<Rightarrow> bool" where
  "built_restore_job ext restore job \<longleftrightarrow>
     (\<exists>cluster auth source account t. job = build_restore_job ext restore
        (name_any (krr_metadata restore) @ ''-'' @ x_job_stamp ext t)
        (name_any (krr_metadata restore) @ ''-config'') cluster auth source account)"

lemmas restore_built_parts = restore_no_create_parts [THEN only_built]

lemma only_built_restore:
  "only (built_event (built_restore_job ext restore)) (reconcile_restore ext restore)"
proof -
  have create: "only (built_event (built_restore_job ext restore))
      (create_job ns (build_restore_job ext restore
        (name_any (krr_metadata restore) @ ''-'' @ x_job_stamp ext t)
        (name_any (krr_metadata restore) @ ''-config'') cluster auth source account))"
    for ns t cluster auth source account
    by (rule only_create_job) (simp add: built_restore_job_def, blast)
  have start: "only (built_event (built_restore_job ext restore)) (start_restore ext restore ns g)"
    for ns g
    unfolding start_restore_def Let_def
    by (auto intro!: only_ebind only_pbind only_now restore_built_parts create [simplified]
        split: sum.split)
  have active: "only (built_event (built_restore_job ext restore))
      (reconcile_restore_active ext restore ns)" for ns
    unfolding reconcile_restore_active_def Let_def active_step
    by (auto intro!: only_ebind start restore_built_parts)
  show ?thesis
  proof (cases "om_namespace (krr_metadata restore)")
    case None
    then show ?thesis by (simp add: reconcile_restore_def)
  next
    case (Some ns)
    show ?thesis
      unfolding reconcile_restore_cases [OF Some]
      by (auto intro!: only_ebind active restore_built_parts)
  qed
qed

section \<open>Finalizer, pause, cleanup\<close>

fun restore_sets_finalizer :: "event \<Rightarrow> bool" where
  "restore_sets_finalizer (EvKube (KPatchRestore ns name pp (SetFinalizers fs)) r) \<longleftrightarrow> fs = [FINALIZER]"
| "restore_sets_finalizer e = False"

fun restore_finalizer_accepted :: "event \<Rightarrow> bool" where
  "restore_finalizer_accepted (EvKube (KPatchRestore ns name pp (SetFinalizers fs)) (Inr a)) \<longleftrightarrow>
     fs = [FINALIZER]"
| "restore_finalizer_accepted e = False"

lemma guarded_restore_finalizer:
  assumes "in_service (krr_metadata restore)" "\<not> has_finalizer (krr_metadata restore)"
  shows "guarded restore_finalizer_accepted (\<lambda>e. is_write e \<and> \<not> restore_sets_finalizer e)
    (reconcile_restore ext restore)"
proof (cases "om_namespace (krr_metadata restore)")
  case None
  then show ?thesis by (simp add: reconcile_restore_def)
next
  case (Some ns)
  show ?thesis
    using assms
    unfolding reconcile_restore_cases [OF Some] in_service_def restore_add_finalizer_def
    by (auto intro!: guarded_kube_io_ebind)
qed

definition restore_paused_current :: "KafkaRestoreStatus \<Rightarrow> int \<Rightarrow> bool" where
  "restore_paused_current status generation \<longleftrightarrow>
     is_condition_true (rs_conditions status) CONDITION_TYPE_RECONCILIATION_PAUSED
     \<and> rs_observed_generation status = Some generation"

fun restore_pause_report :: "KafkaRestore \<Rightarrow> event \<Rightarrow> bool" where
  "restore_pause_report restore (EvClock t) = True"
| "restore_pause_report restore (EvKube (KPatchRestoreStatus ns name pp p) r) \<longleftrightarrow>
     ns = ns_of (krr_metadata restore) \<and> name = name_any (krr_metadata restore) \<and>
     (let s = unwrap_or (krr_status restore) default_restore_status;
          s' = merge_restore_status p s
      in restore_paused_current s' (generation_of (krr_metadata restore)) \<and>
         s' = s\<lparr>rs_conditions := rs_conditions s',
                rs_observed_generation := Some (generation_of (krr_metadata restore))\<rparr>)"
| "restore_pause_report restore e = False"

lemma merge_own_info: "merge_restore_info (Some i) i = i"
  by (simp add: merge_restore_info_def)

lemma only_restore_pause_report:
  assumes "om_namespace (krr_metadata restore) = Some ns"
  shows "only (restore_pause_report restore) (restore_update_status_reconciliation_paused ns restore)"
  unfolding restore_update_status_reconciliation_paused_def Let_def reconciliation_paused_io_def
    restore_patch_status_def
  using assms
  by (cases "rs_restore (unwrap_or (krr_status restore) default_restore_status)")
     (auto intro!: only_intro only_pmap_ret simp: ns_of_def Let_def restore_paused_current_def
       merge_restore_status_def restore_status_patch_def merge_own_info
       is_condition_true_def reconciliation_paused_def vec_field_def)

lemma restore_paused_quiet:
  assumes "restore_paused_current (unwrap_or (krr_status restore) default_restore_status)
      (generation_of (krr_metadata restore))"
  shows "restore_update_status_reconciliation_paused ns restore = ok ()"
  using assms
  by (simp add: restore_update_status_reconciliation_paused_def Let_def restore_paused_current_def)

definition restore_cleanup_requests :: "string \<Rightarrow> string \<Rightarrow> Job list \<Rightarrow> KubeReq list" where
  "restore_cleanup_requests ns name js =
     KListJobs ns (restore_cleanup_selector name) # map (job_deletion ns) js
     @ [KDeleteConfigMap ns (name @ ''-config'') cleanup_delete_params,
        KPatchRestore ns name apply_params NullFinalizers]"

lemma restore_delete_job_eq: "restore_delete_job = delete_job"
  by (intro ext) (simp add: restore_delete_job_def delete_job_def)

lemma trace_restore_cleanup:
  "kube_requests (trace_of W (restore_handle_cleanup restore ns) s) =
     restore_cleanup_requests ns (name_any (krr_metadata restore))
       (listed_jobs (hd (trace_of W (restore_handle_cleanup restore ns) s)))"
  unfolding restore_handle_cleanup_def Let_def
  by (simp add: trace_pbind trace_kube_call trace_kube_io outcome_for_ignore delete_job_done
      decoded_jobs requests_delete_jobs restore_cleanup_requests_def restore_remove_finalizer_def
      restore_delete_job_eq)

end
