(* ===== verification/One_Shot.thy ===== *)
theory One_Shot
  imports Restore_Protocol
begin

text \<open>
  Reconciliations of one resource, again and again, against a cluster that changes in between:
  a step relation over the state of the world, and the invariant that a one-shot resource gets
  at most one Job. The interface \<open>one_shot_controller\<close> is what the argument needs of a
  reconciler; restores, and backups that are neither scheduled nor triggered, provide it.
\<close>

section \<open>Worlds that keep their Jobs\<close>

text \<open>
  \<open>truthful W ns sel created\<close>: \<open>created\<close> counts the Jobs the world has accepted for the
  resource; only a creation can raise the count, by one; and once it is positive, a listing with
  the selector is not answered with the empty list (the Jobs stay and carry their labels).
\<close>

definition truthful :: "'w World \<Rightarrow> string \<Rightarrow> string \<Rightarrow> ('w \<Rightarrow> nat) \<Rightarrow> bool" where
  "truthful W ns sel created \<longleftrightarrow>
     (\<forall>s. created (snd (w_clock W s)) = created s) \<and>
     (\<forall>n s. created (snd (w_env W n s)) = created s) \<and>
     (\<forall>q s. created (snd (w_store W q s)) = created s) \<and>
     (\<forall>q s. \<not> creates_job (EvKube q (Inr AUnit)) \<longrightarrow> created (snd (w_kube W q s)) = created s) \<and>
     (\<forall>q s. created (snd (w_kube W q s)) \<le> Suc (created s)) \<and>
     (\<forall>s. fst (w_kube W (KListJobs ns sel) s) = Inr (AJobs []) \<longrightarrow> created s = 0)"

lemma creates_job_request: "creates_job (EvKube q r) \<longleftrightarrow> creates_job (EvKube q (Inr AUnit))"
  by (cases q) simp_all

lemma creates_job_others [simp]:
  "\<not> creates_job (EvClock t)" "\<not> creates_job (EvEnv n v)" "\<not> creates_job (EvStore x y)"
  by simp_all

lemma truthfulD:
  assumes "truthful W ns sel created"
  shows "created (snd (w_clock W s)) = created s"
    and "created (snd (w_env W n s)) = created s"
    and "created (snd (w_store W x s)) = created s"
    and "\<not> creates_job (EvKube q r) \<Longrightarrow> created (snd (w_kube W q s)) = created s"
    and "created (snd (w_kube W q s)) \<le> Suc (created s)"
    and "fst (w_kube W (KListJobs ns sel) s) = Inr (AJobs []) \<Longrightarrow> created s = 0"
  using assms creates_job_request [of q r] by (simp_all add: truthful_def)

lemma created_unchanged:
  assumes "truthful W ns sel created"
  shows "only (\<lambda>e. \<not> creates_job e) p \<Longrightarrow> created (state_of W p s) = created s"
proof (induction p arbitrary: s)
  case (Kube q g)
  then have "\<not> creates_job (EvKube q (fst (w_kube W q s)))" by simp
  with Kube show ?case by (simp add: state_cons truthfulD(4) [OF assms])
qed (simp_all add: state_cons truthfulD [OF assms])

lemma created_once:
  assumes "truthful W ns sel created"
  shows "once creates_job p \<Longrightarrow> created (state_of W p s) \<le> Suc (created s)"
proof (induction p arbitrary: s)
  case (Clock k)
  then show ?case
    using Clock.IH [of "k (fst (w_clock W s))" "snd (w_clock W s)"]
    by (simp add: state_cons truthfulD(1) [OF assms])
next
  case (GetEnv n k)
  then show ?case
    using GetEnv.IH [of "k (fst (w_env W n s))" "snd (w_env W n s)"]
    by (simp add: state_cons truthfulD(2) [OF assms])
next
  case (Kube q g)
  let ?r = "fst (w_kube W q s)" and ?s = "snd (w_kube W q s)"
  show ?case
  proof (cases "creates_job (EvKube q ?r)")
    case True
    then have "only (\<lambda>e. \<not> creates_job e) (g ?r)"
      using Kube.prems by (auto split: if_splits)
    then have "created (state_of W (g ?r) ?s) = created ?s"
      by (rule created_unchanged [OF assms])
    then show ?thesis using truthfulD(5) [OF assms, of q s] by (simp add: state_cons)
  next
    case False
    then have "once creates_job (g ?r)" using Kube.prems by (auto split: if_splits)
    then have "created (state_of W (g ?r) ?s) \<le> Suc (created ?s)" using Kube.IH by simp
    then show ?thesis using truthfulD(4) [OF assms False] by (simp add: state_cons)
  qed
next
  case (Store x h)
  then show ?case
    using Store.IH [of "h (fst (w_store W x s))" "snd (w_store W x s)"]
    by (simp add: state_cons truthfulD(3) [OF assms])
qed (simp_all add: state_cons)

lemma created_guarded:
  assumes "truthful W ns sel created"
  shows "guarded (listing ns sel (\<lambda>js. js = [])) creates_job p \<Longrightarrow> 0 < created s \<Longrightarrow>
    created (state_of W p s) = created s"
proof (induction p arbitrary: s)
  case (Clock k)
  then show ?case by (simp add: state_cons truthfulD(1) [OF assms])
next
  case (GetEnv n k)
  then show ?case by (simp add: state_cons truthfulD(2) [OF assms])
next
  case (Kube q g)
  let ?r = "fst (w_kube W q s)" and ?s = "snd (w_kube W q s)"
  have "\<not> listing ns sel (\<lambda>js. js = []) (EvKube q ?r)"
  proof
    assume l: "listing ns sel (\<lambda>js. js = []) (EvKube q ?r)"
    then have "q = KListJobs ns sel \<and> ?r = Inr (AJobs [])"
      by (cases q; cases ?r) (auto elim!: listing.elims)
    then have "created s = 0" using truthfulD(6) [OF assms] by auto
    with Kube.prems(2) show False by simp
  qed
  with Kube.prems(1) have "\<not> creates_job (EvKube q ?r)"
    and g: "guarded (listing ns sel (\<lambda>js. js = [])) creates_job (g ?r)" by auto
  then have s: "created ?s = created s" by (simp add: truthfulD(4) [OF assms])
  with Kube.IH [of "g ?r" ?s] g Kube.prems(2) show ?case by (simp add: state_cons)
next
  case (Store x h)
  then show ?case by (simp add: state_cons truthfulD(3) [OF assms])
qed (simp_all add: state_cons)

section \<open>Runs of a controller\<close>

text \<open>
  A step is a reconciliation of a current version of the resource, or any change of the world
  from outside that leaves the count of accepted Jobs alone (the Job controller, other clients).
\<close>

inductive ctl_step ::
  "'w World \<Rightarrow> ('r \<Rightarrow> unit io) \<Rightarrow> ('r \<Rightarrow> bool) \<Rightarrow> ('w \<Rightarrow> nat) \<Rightarrow> 'w \<Rightarrow> 'w \<Rightarrow> bool"
  for W reconcile current created
where
  Reconcile: "current r \<Longrightarrow> ctl_step W reconcile current created s (state_of W (reconcile r) s)"
| Outside: "created s' = created s \<Longrightarrow> ctl_step W reconcile current created s s'"

inductive_cases ctl_stepE: "ctl_step W reconcile current created s s'"

inductive_simps ctl_step_simp: "ctl_step W reconcile current created s s'"

abbreviation ctl_run ::
  "'w World \<Rightarrow> ('r \<Rightarrow> unit io) \<Rightarrow> ('r \<Rightarrow> bool) \<Rightarrow> ('w \<Rightarrow> nat) \<Rightarrow> 'w \<Rightarrow> 'w \<Rightarrow> bool" where
  "ctl_run W reconcile current created \<equiv> (ctl_step W reconcile current created)\<^sup>*\<^sup>*"

section \<open>The interface\<close>

locale one_shot_controller =
  fixes ns sel :: string
    and reconcile :: "'r \<Rightarrow> unit io"
    and current :: "'r \<Rightarrow> bool"
  assumes gated: "current r \<Longrightarrow> guarded (listing ns sel (\<lambda>js. js = [])) creates_job (reconcile r)"
    and single: "current r \<Longrightarrow> once creates_job (reconcile r)"
begin

lemma step_invariant:
  assumes "truthful W ns sel created" "ctl_step W reconcile current created s s'"
    and "created s \<le> 1"
  shows "created s' \<le> 1"
proof -
  from assms(2) consider (rec) r where "current r" "s' = state_of W (reconcile r) s"
    | (out) "created s' = created s"
    by (blast elim: ctl_stepE)
  then show ?thesis
  proof cases
    case rec
    show ?thesis
    proof (cases "created s = 0")
      case True
      then show ?thesis
        using created_once [OF assms(1) single [OF rec(1)], of s] rec(2) by simp
    next
      case False
      then show ?thesis
        using created_guarded [OF assms(1) gated [OF rec(1)], of s] rec(2) assms(3) by simp
    qed
  next
    case out
    with assms(3) show ?thesis by simp
  qed
qed

lemma run_invariant:
  assumes "truthful W ns sel created"
  shows "ctl_run W reconcile current created s s' \<Longrightarrow> created s = 0 \<Longrightarrow> created s' \<le> 1"
proof (induction rule: rtranclp_induct)
  case (step y z)
  then show ?case using step_invariant [OF assms, of y z] by simp
qed simp

end

section \<open>The two one-shot reconcilers\<close>

definition current_restore :: "string \<Rightarrow> string \<Rightarrow> KafkaRestore \<Rightarrow> bool" where
  "current_restore ns name r \<longleftrightarrow> ns_of (krr_metadata r) = ns \<and> name_any (krr_metadata r) = name"

definition current_one_shot :: "string \<Rightarrow> string \<Rightarrow> KafkaBackup \<Rightarrow> bool" where
  "current_one_shot ns name b \<longleftrightarrow>
     ns_of (kbr_metadata b) = ns \<and> name_any (kbr_metadata b) = name \<and>
     kb_schedule (kbr_spec b) = None \<and> \<not> triggered_now b"

interpretation restores: one_shot_controller ns "restore_jobs_selector name"
  "reconcile_restore ext" "current_restore ns name" for ns name ext
proof
  fix r
  assume "current_restore ns name r"
  then show "guarded (listing ns (restore_jobs_selector name) (\<lambda>js. js = [])) creates_job
      (reconcile_restore ext r)"
    using guarded_reconcile_restore [of r ext]
    by (auto simp: current_restore_def restore_admitting_def)
qed (rule once_reconcile_restore)

interpretation one_shot_backups: one_shot_controller ns "backup_jobs_selector name"
  "reconcile_backup ext" "current_one_shot ns name" for ns name ext
proof
  fix b
  assume c: "current_one_shot ns name b"
  have "backup_admitting b ns = listing ns (backup_jobs_selector name) (\<lambda>js. js = [])"
    using c backup_gate.gate_iff
    by (simp add: backup_admitting_def current_one_shot_def)
  then show "guarded (listing ns (backup_jobs_selector name) (\<lambda>js. js = [])) creates_job
      (reconcile_backup ext b)"
    using guarded_reconcile_backup [of b ext] c by (auto simp: current_one_shot_def)
qed (rule once_reconcile_backup)

end
