(* ===== verification/Samples.thy ===== *)
theory Samples
  imports One_Shot
begin

text \<open>
  Concrete inputs on which properties with hypotheses are applied: library parameters, a backup,
  a restore, and a small in-memory cluster whose state is the list of its Jobs. They are values
  for witnesses, not part of the model.
\<close>

section \<open>Library parameters\<close>

definition sample_ext :: Ext where
  "sample_ext =
     \<lparr>x_yaml = (\<lambda>y. Inr ''yaml''),
      x_rfc3339_millis = (\<lambda>s. Some 0),
      x_duration = (\<lambda>u n. Some n),
      x_time_sub = (\<lambda>t d. Some (t - d)),
      x_from_millis = (\<lambda>ms. Some (ms * 1000000)),
      x_job_stamp = (\<lambda>t. ''stamp''),
      x_manifest = (\<lambda>b. None),
      x_env_var = (\<lambda>j. None),
      x_affinity = (\<lambda>j. Some j),
      x_toleration = (\<lambda>j. Some j),
      x_pod_security = (\<lambda>j. Some j),
      x_pull_secret = (\<lambda>j. Some j),
      x_container_security = (\<lambda>j. Some j),
      x_path = (\<lambda>s. s)\<rparr>"

section \<open>Resources\<close>

definition sample_meta :: "string \<Rightarrow> ObjectMeta" where
  "sample_meta name = empty_meta\<lparr>om_name := Some name, om_namespace := Some ''ns''\<rparr>"

definition sample_cluster_ref :: StrimziClusterRef where
  "sample_cluster_ref =
     \<lparr>sc_name = ''kafka'', sc_namespace = None, sc_ca_secret = None, sc_listener = None\<rparr>"

definition sample_storage :: StorageSpec where
  "sample_storage =
     \<lparr>st_type = Filesystem, st_s3 = None, st_azure = None, st_gcs = None,
      st_filesystem = Some \<lparr>fs_path = ''/data''\<rparr>\<rparr>"

definition sample_backup_spec :: KafkaBackupSpec where
  "sample_backup_spec =
     \<lparr>kb_strimzi_cluster_ref = sample_cluster_ref, kb_authentication = None, kb_topics = None,
      kb_connection = None, kb_consumer_groups = None, kb_logging = None, kb_env = [],
      kb_storage = sample_storage, kb_backup = None, kb_metrics = None, kb_offset_storage = None,
      kb_schedule = None, kb_retention = None, kb_resources = None, kb_template = None,
      kb_image = None, kb_backoff_limit = None\<rparr>"

definition sample_backup :: KafkaBackup where
  "sample_backup =
     \<lparr>kbr_metadata = sample_meta ''bk'', kbr_spec = sample_backup_spec, kbr_status = None\<rparr>"

definition sample_restore_spec :: KafkaRestoreSpec where
  "sample_restore_spec =
     \<lparr>kr_strimzi_cluster_ref = sample_cluster_ref, kr_authentication = None,
      kr_backup_ref = \<lparr>br_name = ''bk'', br_backup_id = Some ''bk-1''\<rparr>,
      kr_topics = None, kr_point_in_time = None, kr_connection = None, kr_logging = None,
      kr_env = [], kr_topic_mapping = [], kr_consumer_groups = None, kr_restore = None,
      kr_metrics = None, kr_resources = None, kr_template = None, kr_image = None,
      kr_backoff_limit = None\<rparr>"

definition sample_restore :: KafkaRestore where
  "sample_restore =
     \<lparr>krr_metadata = sample_meta ''rs'', krr_spec = sample_restore_spec, krr_status = None\<rparr>"

section \<open>A cluster in memory\<close>

text \<open>The Strimzi resource it serves: one plain in-cluster listener without authentication.\<close>

definition sample_kafka :: DynamicObject where
  "sample_kafka =
     \<lparr>dy_metadata = sample_meta ''kafka'',
      dy_data = JObj [(''spec'', JObj [(''kafka'', JObj [(''listeners'',
        JArr [JObj [(''name'', JStr ''plain''), (''port'', JInt 9092), (''tls'', JBool False),
                    (''type'', JStr ''internal'')]])])])]\<rparr>"

fun job_kube :: "KubeReq \<Rightarrow> Job list \<Rightarrow> (KubeError + KubeAnswer) \<times> Job list" where
  "job_kube (KListJobs ns sel) js = (Inr (AJobs js), js)"
| "job_kube (KCreateJob ns job) js = (Inr AUnit, js @ [job])"
| "job_kube (KGetDynamic g v k ns n) js = (Inr (ADynamic sample_kafka), js)"
| "job_kube (KGetSecret ns n) js = (Inl (KApi 404 ''not found''), js)"
| "job_kube (KGetBackup ns n) js = (Inr (ABackup sample_backup), js)"
| "job_kube (KGetBackupStatus ns n) js = (Inr (ABackup sample_backup), js)"
| "job_kube q js = (Inr AUnit, js)"

definition job_world :: "Job list World" where
  "job_world =
     \<lparr>w_clock = (\<lambda>js. (0, js)), w_env = (\<lambda>n js. (None, js)), w_kube = job_kube,
      w_store = (\<lambda>q js. (Inl (SNotFound ''none''), js))\<rparr>"

lemma job_world_truthful: "truthful job_world ns sel length"
proof -
  have kube: "length (snd (job_kube q js)) =
      length js + (if creates_job (EvKube q (Inr AUnit)) then 1 else 0)" for q js
    by (cases q) simp_all
  show ?thesis by (simp add: truthful_def job_world_def kube)
qed

end
