(* ===== verification/Retention_Properties.thy ===== *)
theory Retention_Properties
  imports Samples
begin

text \<open>
  Properties of the retention component: which backups the policy selects, how durations are
  read, what the history keeps, and how keys and credentials of a store are handled.
\<close>

section \<open>The policy\<close>

definition over_limit :: "BackupHistoryEntry list \<Rightarrow> i32 option \<Rightarrow> BackupHistoryEntry list" where
  "over_limit history max_backups =
     (case max_backups of
        None \<Rightarrow> []
      | Some m \<Rightarrow> drop (i32_as_usize m) (sort_desc he_start_time history))"

definition too_old :: "Ext \<Rightarrow> timestamp \<Rightarrow> RetentionSpec \<Rightarrow> BackupHistoryEntry \<Rightarrow> bool" where
  "too_old X t retention e \<longleftrightarrow>
     (case age_cutoff X t retention of Value (Some c) \<Rightarrow> he_start_time e < c | _ \<Rightarrow> False)"

text \<open>C24.
  The retention policy selects, without repetition, exactly the ids of the entries beyond the
  newest \<open>maxBackups\<close> and of the entries that started before the age cutoff.
\<close>

theorem retention_selects_exactly:
  assumes "evaluate_retention X t history retention = Value ids"
  shows "distinct ids \<and>
    set ids = he_id ` (set (over_limit history (rt_max_backups retention)) \<union>
      {e \<in> set history. too_old X t retention e})"
proof (cases "history = []")
  case True
  then show ?thesis
    using assms by (auto simp: evaluate_retention_def over_limit_def sort_desc_def split: option.split)
next
  case False
  then obtain oc where oc: "age_cutoff X t retention = Value oc"
    and ids: "ids = (let hs = sort_desc he_start_time history;
        cs = prune_by_count hs (rt_max_backups retention)
      in case oc of None \<Rightarrow> cs | Some c \<Rightarrow> prune_by_age cs hs c)"
    using assms evaluate_retention_cutoff [OF False, of X t retention]
    by (auto simp: Let_def)
  show ?thesis
    by (cases oc; cases "rt_max_backups retention")
       (auto simp: ids Let_def oc over_limit_def too_old_def prune_set_simps
         distinct_prune_by_count distinct_prune_by_age)
qed

definition sample_entry :: "string \<Rightarrow> timestamp \<Rightarrow> BackupHistoryEntry" where
  "sample_entry i t =
     \<lparr>he_id = i, he_status = BkCompleted, he_start_time = t, he_completion_time = None,
      he_size_bytes = None, he_topics_backed_up = None, he_partitions_backed_up = None\<rparr>"

definition sample_retention :: RetentionSpec where
  "sample_retention =
     \<lparr>rt_max_backups = Some 1, rt_max_age = None, rt_prune_on_schedule = True\<rparr>"

lemma sample_retention_run:
  "evaluate_retention sample_ext 0 [sample_entry ''a'' 1, sample_entry ''b'' 2] sample_retention =
     Value [''a'']"
  by (simp add: evaluate_retention_def sample_retention_def sample_entry_def sort_desc_def
      prune_by_count_def i32_as_usize_nonneg)

theorem retention_selects_exactly_witness:
  "set [''a''] = he_id ` (set (over_limit [sample_entry ''a'' 1, sample_entry ''b'' 2] (Some 1)) \<union>
     {e \<in> set [sample_entry ''a'' 1, sample_entry ''b'' 2]. too_old sample_ext 0 sample_retention e})"
  using retention_selects_exactly [OF sample_retention_run]
  by (simp add: sample_retention_def)

text \<open>
  A non-negative \<open>maxBackups\<close> keeps that many of the newest entries. A negative one, which
  the cast to an unsigned size turns into a huge limit, prunes nothing.
\<close>

theorem count_rule_bounds:
  assumes "length hs < 2 ^ 63"
  shows "prune_by_count hs (Some m) =
    (if sint m < 0 then [] else push_new [] (map he_id (drop (nat (sint m)) hs)))"
proof (cases "sint m < 0")
  case True
  then have "length hs < i32_as_usize m"
    using i32_as_usize_neg [of m] assms by simp
  with True show ?thesis by (simp add: prune_by_count_def)
next
  case False
  then show ?thesis by (simp add: prune_by_count_def i32_as_usize_nonneg)
qed

theorem count_rule_bounds_witness:
  "prune_by_count [sample_entry ''b'' 2, sample_entry ''a'' 1] (Some 1) = [''a''] \<and>
   prune_by_count [sample_entry ''b'' 2, sample_entry ''a'' 1] (Some (- 1)) = []"
  using count_rule_bounds [of "[sample_entry ''b'' 2, sample_entry ''a'' 1]" 1]
    count_rule_bounds [of "[sample_entry ''b'' 2, sample_entry ''a'' 1]" "- 1"]
  by (simp add: sample_entry_def)

text \<open>
  A \<open>maxAge\<close> that parses to a negative duration puts the cutoff in the future: every entry
  that has started is selected, the newest included.
\<close>

theorem negative_age_prunes_all:
  assumes "evaluate_retention X t history retention = Value ids"
    and "rt_max_age retention = Some age" "parse_duration X age = Value (Some d)" "d < 0"
    and "x_time_sub X t d = Some (t - d)"
    and "list_all (\<lambda>e. he_start_time e \<le> t) history"
  shows "set ids = he_id ` set history"
proof (cases "history = []")
  case True
  then show ?thesis using assms(1) by (simp add: evaluate_retention_def)
next
  case False
  have "age_cutoff X t retention = Value (Some (t - d))"
    using assms(2,3,5) by (simp add: age_cutoff_def)
  then have "ids = prune_by_age (prune_by_count (sort_desc he_start_time history)
      (rt_max_backups retention)) (sort_desc he_start_time history) (t - d)"
    using assms(1) by (simp add: evaluate_retention_cutoff [OF False] Let_def)
  moreover have "{e \<in> set history. he_start_time e < t - d} = set history"
    using assms(4,6) by (auto simp: list_all_iff)
  moreover have "set (prune_by_count (sort_desc he_start_time history) (rt_max_backups retention))
      \<subseteq> he_id ` set history"
    by (auto simp: set_prune_by_count dest: in_set_dropD split: option.splits)
  ultimately show ?thesis by (auto simp: set_prune_by_age)
qed

lemma sample_negative_age: "parse_duration sample_ext ''-1d'' = Value (Some (- 1))"
proof -
  have "string_of_int (- 1) = ''-1''" by code_simp
  moreover have "x_duration sample_ext UDays n = Some n" for n by (simp add: sample_ext_def)
  ultimately show ?thesis
    using parse_duration_printed [of "- 1" "CHR ''d''" UDays sample_ext]
    by (simp add: duration_unit_def in_i64_def i64_min_def i64_max_def)
qed

lemma sample_time_sub: "x_time_sub sample_ext t d = Some (t - d)"
  by (simp add: sample_ext_def)

theorem negative_age_prunes_all_witness:
  "set [''a''] = he_id ` set [sample_entry ''a'' 1]"
proof (rule negative_age_prunes_all [where X = sample_ext and t = "5" and age = "''-1d''" and d = "- 1"
      and retention = "\<lparr>rt_max_backups = None, rt_max_age = Some ''-1d'', rt_prune_on_schedule = True\<rparr>"])
  show "evaluate_retention sample_ext 5 [sample_entry ''a'' 1]
      \<lparr>rt_max_backups = None, rt_max_age = Some ''-1d'', rt_prune_on_schedule = True\<rparr> = Value [''a'']"
    by (simp add: evaluate_retention_def sample_negative_age sort_desc_def prune_by_count_def
        prune_by_age_def sample_entry_def sample_time_sub)
qed (simp_all add: sample_negative_age sample_time_sub sample_entry_def)

section \<open>Durations\<close>

text \<open>
  A 64-bit number printed in decimal and followed by one of the letters s, m, h, d and w is read
  as that many of the unit.
\<close>

theorem parse_duration_round_trip:
  assumes "in_i64 v" "duration_unit [c] = Some u" "x_duration X u v = Some d"
  shows "parse_duration X (string_of_int v @ [c]) = Value (Some d)"
  using parse_duration_printed [OF assms(1,2), of X] assms(3) by simp

theorem parse_duration_round_trip_witness:
  "parse_duration sample_ext (string_of_int 30 @ ''d'') = Value (Some 30)"
  by (rule parse_duration_round_trip [where u = UDays])
     (simp_all add: in_i64_def i64_min_def i64_max_def duration_unit_def sample_ext_def)

text \<open>
  A \<open>maxAge\<close> whose trimmed text is longer than one byte and ends inside a multi-byte
  character makes the parser panic: it splits off the last byte, not the last character.
\<close>

theorem parse_duration_panics:
  assumes "trim s \<noteq> []" "is_cont (last (trim s))" "1 < length (trim s)"
  shows "parse_duration X s = Panics ''byte index is not a char boundary''"
  by (rule parse_duration_char_boundary [OF assms])

lemma trim_digit_accent: "trim [CHR ''1'', CHR 0xC3, CHR 0xA9] = [CHR ''1'', CHR 0xC3, CHR 0xA9]"
  by code_simp

theorem parse_duration_panics_witness:
  "parse_duration sample_ext [CHR ''1'', CHR 0xC3, CHR 0xA9] =
     Panics ''byte index is not a char boundary''"
  by (rule parse_duration_panics) (simp_all add: trim_digit_accent is_cont_def)

section \<open>The history\<close>

text \<open>C26.
  Merging discovered backups into a history with unique ids keeps the ids unique, orders the
  entries newest first, and adds exactly the discovered ids.
\<close>

theorem history_merge_invariant:
  assumes "unique_ids h"
  shows "unique_ids (merge_backup_history h ds) \<and> newest_first (merge_backup_history h ds) \<and>
    set (history_ids (merge_backup_history h ds)) = set (history_ids h) \<union> he_id ` set ds"
  using assms by (simp add: merge_unique merge_newest_first merge_ids)

theorem history_merge_invariant_witness:
  "set (history_ids (merge_backup_history [sample_entry ''a'' 1] [sample_entry ''b'' 2])) =
     {''a'', ''b''}"
  using history_merge_invariant [of "[sample_entry ''a'' 1]" "[sample_entry ''b'' 2]"]
  by (auto simp: unique_ids_def history_ids_def sample_entry_def)

text \<open>What an entry does to the abstract history, a map from ids to entries.\<close>

definition record_entry ::
  "BackupHistoryEntry \<Rightarrow> (string \<Rightarrow> BackupHistoryEntry option) \<Rightarrow> string \<Rightarrow> BackupHistoryEntry option" where
  "record_entry e m = m(he_id e \<mapsto>
     (case m (he_id e) of
        None \<Rightarrow> e
      | Some old \<Rightarrow> e\<lparr>he_completion_time := opt_or (he_completion_time e) (he_completion_time old)\<rparr>))"

lemma record_entry_map_upd: "history.map_upd = record_entry"
proof (intro ext)
  fix e m i
  have "combine_entry e (Some old) =
      e\<lparr>he_completion_time := opt_or (he_completion_time e) (he_completion_time old)\<rparr>" for old
    by (cases "he_completion_time e") (simp_all add: combine_entry_def keep_completion_def)
  moreover have "combine_entry e None = e" by (simp add: combine_entry_def)
  ultimately show "history.map_upd e m i = record_entry e m i"
    by (simp add: history.map_upd_def record_entry_def split: option.split)
qed

text \<open>C25.
  The status history refines a map from ids to entries: an upsert records one entry, a merge
  records the discovered ones in order, each keeping a completion time it does not bring, and
  dropping the pruned ids restricts the map. Order and duplicates never show.
\<close>

theorem history_refines_map:
  assumes "unique_ids h"
  shows "history_get (upsert_history_entry h e) = record_entry e (history_get h) \<and>
    history_get (merge_backup_history h ds) = fold record_entry ds (history_get h) \<and>
    history_get (filter (\<lambda>e. he_id e \<notin> set pruned) h) = history_get h |` (- set pruned)"
  using history.upd_refines [OF assms, of e] history.upd_all_refines [OF assms, of ds]
    merge_get [OF assms, of ds] retain_get
  by (auto simp: record_entry_map_upd)

theorem history_refines_map_witness:
  "history_get (merge_backup_history [(sample_entry ''a'' 1)\<lparr>he_completion_time := Some 9\<rparr>]
     [sample_entry ''b'' 3, sample_entry ''a'' 2]) ''a'' =
     Some ((sample_entry ''a'' 2)\<lparr>he_completion_time := Some 9\<rparr>)"
  using history_refines_map [of "[(sample_entry ''a'' 1)\<lparr>he_completion_time := Some 9\<rparr>]" undefined
      "[sample_entry ''b'' 3, sample_entry ''a'' 2]"]
  by (simp add: unique_ids_def history_ids_def record_entry_def history_get_def sample_entry_def)

text \<open>
  After an upsert the id of the new entry is found with the new entry, which keeps the completion
  time of the entry it replaces when it brings none; every other id is found as before.
\<close>

theorem history_upsert_lookup:
  assumes "unique_ids h"
  shows "history_get (upsert_history_entry h e) i =
    (if i \<noteq> he_id e then history_get h i
     else case history_get h i of
       None \<Rightarrow> Some e
     | Some old \<Rightarrow> Some (e\<lparr>he_completion_time := opt_or (he_completion_time e) (he_completion_time old)\<rparr>))"
proof -
  have "combine_entry e (Some old) =
      e\<lparr>he_completion_time := opt_or (he_completion_time e) (he_completion_time old)\<rparr>" for old
    by (cases "he_completion_time e") (simp_all add: combine_entry_def keep_completion_def)
  moreover have "combine_entry e None = e" by (simp add: combine_entry_def)
  ultimately show ?thesis
    using upsert_get [OF assms, of e i] by (auto split: option.split)
qed

theorem history_upsert_lookup_witness:
  "history_get (upsert_history_entry [(sample_entry ''a'' 1)\<lparr>he_completion_time := Some 9\<rparr>]
     (sample_entry ''a'' 2)) ''a'' = Some ((sample_entry ''a'' 2)\<lparr>he_completion_time := Some 9\<rparr>)"
  by (subst history_upsert_lookup)
     (simp_all add: unique_ids_def history_ids_def history_get_def sample_entry_def)

section \<open>Stored backups\<close>

definition entry_totals :: "StoredBackupManifest \<Rightarrow> BackupHistoryEntry outcome \<Rightarrow> bool" where
  "entry_totals m out =
     (case out of
        Panicked e \<Rightarrow> False
      | Done e \<Rightarrow>
          he_id e = sm_backup_id m \<and> he_status e = BkCompleted \<and>
          he_topics_backed_up e = Some (int (length (sm_topics m))) \<and>
          he_partitions_backed_up e = Some (int (length (stored_partitions m))) \<and>
          he_size_bytes e = Some (sum_list (map (uint \<circ> ss_compressed_size) (stored_segments m))))"

text \<open>
  The entry made of a stored manifest carries its id, its number of topics and partitions, and
  the exact total of the segment sizes as long as that fits a signed 64-bit integer.
\<close>

theorem manifest_entry_totals:
  assumes "length (sm_topics m) < 2 ^ 31" "length (stored_partitions m) < 2 ^ 31"
    and "sum_list (map (uint \<circ> ss_compressed_size) (stored_segments m)) < 2 ^ 63"
  shows "ends (entry_totals m) (manifest_to_history_entry ext m)"
proof -
  have parts: "sum_list (map (\<lambda>t. length (sto_partitions t)) (sm_topics m)) =
      length (stored_partitions m)"
    by (simp add: stored_partitions_def length_concat comp_def)
  have "uint (u64_sum (map ss_compressed_size (stored_segments m))) =
      sum_list (map (uint \<circ> ss_compressed_size) (stored_segments m))"
    using uint_sum_list_words [of "map ss_compressed_size (stored_segments m)"] assms(3)
    by (simp add: u64_sum_eq)
  then have size: "i64_try_from_u64 (u64_sum (map ss_compressed_size (stored_segments m))) =
      Some (sum_list (map (uint \<circ> ss_compressed_size) (stored_segments m)))"
    using assms(3) by (simp add: i64_try_from_u64_def i64_max_def)
  have n: "i32_try_from_usize k = Some (int k)" if "k < 2 ^ 31" for k
    using that by (simp add: i32_try_from_usize_def)
  show ?thesis
    using assms(1,2)
    by (cases "x_from_millis ext (sm_created_at m)")
       (simp_all add: manifest_to_history_entry_def now_def Let_def parts size n entry_totals_def)
qed

theorem manifest_entry_totals_witness:
  "ends (entry_totals \<lparr>sm_backup_id = ''a'', sm_created_at = 0, sm_topics =
      [\<lparr>sto_partitions = [\<lparr>sp_segments = [\<lparr>ss_compressed_size = 100\<rparr>, \<lparr>ss_compressed_size = 200\<rparr>]\<rparr>]\<rparr>]\<rparr>)
    (manifest_to_history_entry sample_ext \<lparr>sm_backup_id = ''a'', sm_created_at = 0, sm_topics =
      [\<lparr>sto_partitions = [\<lparr>sp_segments = [\<lparr>ss_compressed_size = 100\<rparr>, \<lparr>ss_compressed_size = 200\<rparr>]\<rparr>]\<rparr>]\<rparr>)"
  by (rule manifest_entry_totals) (simp_all add: stored_partitions_def stored_segments_def)

text \<open>
  Ownership of a stored backup is decided by a name prefix: every backup id of a resource called
  \<open>name-x\<close> also counts as a backup of the resource called \<open>name\<close>, whose retention may then
  prune it.
\<close>

theorem owner_prefix_overlap:
  assumes "backup_id_belongs_to_cr i (name @ ''-'' @ x)"
  shows "backup_id_belongs_to_cr i name"
  using assms by (auto simp: backup_id_belongs_to_cr_def starts_with_iff)

theorem owner_prefix_overlap_witness:
  "backup_id_belongs_to_cr ''daily-backup-1'' ''daily''"
  by (rule owner_prefix_overlap [where x = "''backup''"])
     (simp add: backup_id_belongs_to_cr_def starts_with_def)

text \<open>
  A key joined to the store's normalised prefix is found again by stripping the prefix.
\<close>

theorem key_prefix_round_trip:
  assumes "key \<noteq> []" "hd key \<noteq> CHR ''/''"
  shows "bos_strip_prefix (bos_new h prefix) (join_key (bos_prefix (bos_new h prefix)) key) = key"
  by (rule strip_join [OF assms])

theorem key_prefix_round_trip_witness:
  "bos_strip_prefix (bos_new 0 (Some ''/team/''))
     (join_key (bos_prefix (bos_new 0 (Some ''/team/''))) ''bk-1/manifest.json'') =
   ''bk-1/manifest.json''"
  by (rule key_prefix_round_trip) simp_all

section \<open>Credentials of a store\<close>

lemma split_on_pairs:
  "ws \<noteq> [] \<Longrightarrow> \<forall>w \<in> set ws. c \<notin> set w \<Longrightarrow> List.map_filter f (split_on c (join_with [c] ws)) = List.map_filter f ws"
  by (simp add: split_on_join)

definition sas_pair :: "string \<times> string \<Rightarrow> string" where
  "sas_pair kv = fst kv @ ''='' @ snd kv"

definition sas_pair_ok :: "string \<times> string \<Rightarrow> bool" where
  "sas_pair_ok kv \<longleftrightarrow> fst kv \<noteq> [] \<and> hd (fst kv) \<noteq> CHR ''?'' \<and>
     CHR ''='' \<notin> set (fst kv) \<and> CHR ''&'' \<notin> set (fst kv) \<and> CHR ''&'' \<notin> set (snd kv)"

lemma split_sas_pairs:
  "list_all sas_pair_ok kvs \<Longrightarrow> List.map_filter (split_once (CHR ''='')) (map sas_pair kvs) = kvs"
  by (induction kvs)
     (auto simp: List.map_filter_def sas_pair_def sas_pair_ok_def split_once_append)

lemma hd_join_with: "ws \<noteq> [] \<Longrightarrow> hd ws \<noteq> [] \<Longrightarrow> hd (join_with sep ws) = hd (hd ws)"
  by (cases ws rule: remdups_adj.cases) auto

text \<open>
  A SAS token written as the query string of its parameters, with the leading question mark, is
  split back into those parameters; values may contain the equals sign.
\<close>

theorem sas_token_round_trip:
  assumes "kvs \<noteq> []" "list_all sas_pair_ok kvs"
  shows "sas_token_pairs (''?'' @ join_with ''&'' (map sas_pair kvs)) = kvs"
proof -
  let ?q = "join_with ''&'' (map sas_pair kvs)"
  obtain k v rest where kvs: "kvs = (k, v) # rest" using assms(1) by (cases kvs) auto
  then have k: "k \<noteq> []" "hd k \<noteq> CHR ''?''" using assms(2) by (simp_all add: sas_pair_ok_def)
  have "hd ?q = hd (sas_pair (k, v))"
    using hd_join_with [of "map sas_pair kvs" "''&''"] k by (simp add: kvs sas_pair_def)
  with k have "hd ?q \<noteq> CHR ''?''" by (simp add: sas_pair_def)
  then have "trim_start_matches (CHR ''?'') ?q = ?q" by (intro trim_start_matches_id) simp
  then have "trim_start_matches (CHR ''?'') (''?'' @ ?q) = ?q"
    by (simp add: trim_start_matches_def)
  moreover have "\<forall>w \<in> set (map sas_pair kvs). CHR ''&'' \<notin> set w"
    using assms(2) by (auto simp: list_all_iff sas_pair_def sas_pair_ok_def)
  ultimately show ?thesis
    using assms split_on_join [of "map sas_pair kvs" "CHR ''&''"]
    by (simp add: sas_token_pairs_def split_sas_pairs)
qed

theorem sas_token_round_trip_witness:
  "sas_token_pairs (''?'' @ join_with ''&'' (map sas_pair [(''sv'', ''1''), (''sig'', ''a='')])) =
     [(''sv'', ''1''), (''sig'', ''a='')]"
  by (rule sas_token_round_trip) (simp_all add: sas_pair_ok_def)

text \<open>A value that trimming and unquoting leave alone, and a line break does not split.\<close>

definition plain_char :: "char \<Rightarrow> bool" where
  "plain_char c \<longleftrightarrow> (33 :: nat) \<le> of_char c \<and> (of_char c :: nat) < 127 \<and> c \<noteq> CHR 0x22 \<and> c \<noteq> CHR 0x27"

definition plain_value :: "string \<Rightarrow> bool" where
  "plain_value s \<longleftrightarrow> s \<noteq> [] \<and> list_all plain_char s"

lemma plain_not_ws: "plain_char c \<Longrightarrow> c \<notin> set ws_first_bytes \<and> \<not> ws_last_byte c"
  by (auto simp: plain_char_def ws_first_bytes_def ws_last_byte_def)

lemma plain_not_break: "plain_char c \<Longrightarrow> c \<noteq> CHR 0x0A \<and> c \<noteq> CHR 0x0D"
  unfolding plain_char_def by (intro conjI notI) simp_all

lemma plain_hd_last: "plain_value s \<Longrightarrow> plain_char (hd s) \<and> plain_char (last s)"
  by (simp add: plain_value_def list_all_iff)

lemma trim_plain: "plain_value s \<Longrightarrow> trim s = s"
  using plain_hd_last plain_not_ws by (intro trim_id) blast+

lemma trim_credential_plain:
  assumes "plain_value s"
  shows "trim_credential_value s = s"
proof -
  have "hd s \<noteq> CHR 0x22" "last s \<noteq> CHR 0x22" "hd s \<noteq> CHR 0x27" "last s \<noteq> CHR 0x27"
    using plain_hd_last [OF assms] by (auto simp: plain_char_def)
  then show ?thesis
    by (simp add: trim_credential_value_def trim_plain [OF assms] trim_matches_id)
qed

lemma aws_line_plain:
  assumes "plain_value k" "plain_value v" "CHR ''='' \<notin> set k" "hd k \<noteq> CHR ''#''" "hd k \<noteq> CHR ''[''"
  shows "aws_line (k @ ''='' @ v) c = aws_field k v c"
proof -
  have kne: "k \<noteq> []" using assms(1) by (simp add: plain_value_def)
  have line: "plain_value (k @ ''='' @ v)"
    using assms(1,2) by (auto simp: plain_value_def plain_char_def)
  have "\<not> starts_with (k @ ''='' @ v) ''#''" "\<not> starts_with (k @ ''='' @ v) ''[''"
    using assms(4,5) kne by (auto simp: starts_with_iff hd_append neq_Nil_conv)
  moreover have "split_once (CHR ''='') (k @ ''='' @ v) = Some (k, v)"
    using split_once_append [OF assms(3), of v] by simp
  ultimately show ?thesis
    using kne
    by (simp add: aws_line_def Let_def trim_plain [OF line] trim_plain [OF assms(1)]
        trim_credential_plain [OF assms(2)] del: append_Cons)
qed

lemma two_lines:
  assumes "split_on (CHR 0x0A) s = [a, b]" "last a \<noteq> CHR 0x0D" "last b \<noteq> CHR 0x0D" "a \<noteq> []" "b \<noteq> []"
  shows "str_lines s = [a, b]"
  using assms by (simp add: str_lines_def strip_cr_def)

definition aws_file :: "string \<Rightarrow> string \<Rightarrow> string" where
  "aws_file access secret =
     (''aws_access_key_id='' @ access) @ CHR 0x0A # (''aws_secret_access_key='' @ secret)"

text \<open>
  A shared-credentials file with an access key and a secret key in plain characters, equals signs
  included, is read back as those two keys.
\<close>

theorem aws_credentials_round_trip:
  assumes "plain_value access" "plain_value secret"
  shows "parse_aws_shared_credentials (aws_file access secret) =
    \<lparr>ac_access_key_id = Some access, ac_secret_access_key = Some secret, ac_session_token = None\<rparr>"
proof -
  let ?l1 = "''aws_access_key_id='' @ access" and ?l2 = "''aws_secret_access_key='' @ secret"
  have no: "CHR 0x0A \<notin> set access" "CHR 0x0A \<notin> set secret"
    using assms plain_not_break unfolding plain_value_def list_all_iff by blast+
  have last: "last access \<noteq> CHR 0x0D" "last secret \<noteq> CHR 0x0D" "access \<noteq> []" "secret \<noteq> []"
    using plain_hd_last [OF assms(1)] plain_hd_last [OF assms(2)] assms plain_not_break
    unfolding plain_value_def by blast+
  have split: "split_on (CHR 0x0A) (aws_file access secret) = [?l1, ?l2]"
    using split_on_append [of "CHR 0x0A" ?l1 ?l2] split_on_notin [of "CHR 0x0A" ?l2] no
    by (simp add: aws_file_def)
  have lines: "str_lines (aws_file access secret) = [?l1, ?l2]"
    by (rule two_lines [OF split]) (simp_all only: last last_appendR append_is_Nil_conv
        not_False_eq_True simp_thms)
  have p: "plain_value ''aws_access_key_id''" "plain_value ''aws_secret_access_key''"
    by (simp_all add: plain_value_def plain_char_def)
  have l1: "aws_line ?l1 c = aws_field ''aws_access_key_id'' access c" for c
    using aws_line_plain [OF p(1) assms(1), of c] by simp
  have l2: "aws_line ?l2 c = aws_field ''aws_secret_access_key'' secret c" for c
    using aws_line_plain [OF p(2) assms(2), of c] by simp
  show ?thesis
    unfolding parse_aws_shared_credentials_def lines
    by (simp only: fold.simps comp_apply id_apply l1 l2) (simp add: aws_field_def)
qed

theorem aws_credentials_round_trip_witness:
  "ac_secret_access_key (parse_aws_shared_credentials (aws_file ''AKIA'' ''s3cr=t'')) = Some ''s3cr=t''"
  by (subst aws_credentials_round_trip) (simp_all add: plain_value_def plain_char_def)

end
