(* ===== verification/Runs.thy ===== *)
theory Runs
  imports Samples
begin

text \<open>
  Whole reconciliations executed against the in-memory cluster of theory \<open>Samples\<close>: the
  reconcilers do create the Job they guard so carefully, with nothing in the way, and a second
  reconciliation finds it and creates no other.
\<close>

section \<open>The cluster\<close>

lemma job_world_sel:
  "w_kube job_world = job_kube" "w_clock job_world js = (0, js)" "w_env job_world n js = (None, js)"
  by (simp_all add: job_world_def)

section \<open>What both reconcilers find\<close>

definition found_cluster :: "string \<Rightarrow> ResolvedKafkaCluster" where
  "found_cluster ns =
     \<lparr>kcl_name = ''kafka'', kcl_namespace = ns,
      kcl_bootstrap_servers = ''kafka-kafka-bootstrap.'' @ ns @ ''.svc:'' @ string_of_int 9092,
      kcl_replicas = 3, kcl_tls_enabled = False, kcl_listener_name = ''plain''\<rparr>"

lemma sample_selection:
  "select_listener [JObj [(''name'', JStr ''plain''), (''port'', JInt 9092), (''tls'', JBool False),
     (''type'', JStr ''internal'')]] None None c =
     Inr \<lparr>sl_name = ''plain'', sl_port = 9092, sl_tls = False\<rparr>"
  by (simp add: select_listener_def auth_matches_def listener_auth_def to_selected_def
      listener_name_def listener_tls_def in_i64_def i64_min_def i64_max_def)

lemma sample_connection:
  "resolve_connection sample_kafka ns None None =
     Inr \<lparr>rc_bootstrap_servers = kcl_bootstrap_servers (found_cluster ns), rc_tls_enabled = False,
          rc_listener_name = ''plain''\<rparr>"
  by (simp add: sample_kafka_def resolve_connection_def Let_def spec_listeners_def spec_kafka_def
      sample_selection bootstrap_for_listener_def sample_meta_def name_any_def empty_meta_def
      found_cluster_def)

lemma sample_replicas: "extract_replicas sample_kafka = 3"
  by (simp add: extract_replicas_def sample_kafka_def spec_kafka_def i64_as_i32_def)

lemma exec_cluster:
  "outcome_of job_world (resolve_kafka_cluster sample_cluster_ref ns None) js =
     Done (Inr (found_cluster ns))"
  "state_of job_world (resolve_kafka_cluster sample_cluster_ref ns None) js = js"
  by (simp_all add: resolve_kafka_cluster_def sample_cluster_ref_def get_namespaced_resource_def
      get_at_version_def exec job_world_sel decoded_def Let_def sample_connection sample_replicas
      found_cluster_def)

lemma exec_ca:
  "outcome_of job_world (resolve_cluster_ca c None ns) js = Done (Inl (ESecretNotFound
     (cluster_ca_secret_name c) ns))"
  "state_of job_world (resolve_cluster_ca c None ns) js = js"
  by (simp_all add: resolve_cluster_ca_def ca_secret_ref_def exec job_world_sel decoded_def Let_def)

lemma exec_account:
  "state_of job_world job_service_account_name js = js"
  "outcome_of job_world job_service_account_name js = Done (account_of None)"
  by (simp_all add: job_service_account_name_def exec job_world_sel)

lemma exec_create:
  "state_of job_world (create_job ns job) js = js @ [job]"
  "outcome_of job_world (create_job ns job) js = Done (Inr ())"
  by (simp_all add: create_job_def exec job_world_sel decoded_def)

lemma exec_auth:
  "outcome_of W (resolve_auth None ns) s = Done (Inr RNone)" "state_of W (resolve_auth None ns) s = s"
  by (simp_all add: resolve_auth_def exec)

section \<open>A restore\<close>

lemma sample_restore_config:
  "build_restore_config_yaml sample_ext sample_restore sample_backup cluster auth = Inr ''yaml''"
  by (simp add: build_restore_config_yaml_def restore_config_map_def Let_def resolve_backup_id_def
      sample_restore_def sample_restore_spec_def sample_backup_def sample_backup_spec_def
      sample_storage_def build_storage_config_def build_filesystem_config_def sample_ext_def
      build_restore_options_def put_point_in_time_def put_restore_options_def
      put_consumer_groups_def)

lemma sample_restore_sel:
  "kr_strimzi_cluster_ref (krr_spec sample_restore) = sample_cluster_ref"
  "kr_authentication (krr_spec sample_restore) = None"
  "sc_ca_secret sample_cluster_ref = None"
  "krr_metadata sample_restore = sample_meta ''rs''"
  "krr_status sample_restore = None"
  by (simp_all add: sample_restore_def sample_restore_spec_def sample_cluster_ref_def)

lemma sample_meta_sel:
  "name_any (sample_meta n) = n" "om_namespace (sample_meta n) = Some ''ns''"
  "om_deletion_timestamp (sample_meta n) = None" "om_annotations (sample_meta n) = None"
  "om_finalizers (sample_meta n) = None" "generation_of (sample_meta n) = 0"
  "is_reconciliation_paused (sample_meta n) = False" "has_finalizer (sample_meta n) = False"
  by (simp_all add: sample_meta_def empty_meta_def name_any_def generation_of_def
      is_reconciliation_paused_def annotations_of_def has_finalizer_def bt_get_Nil)

definition created_restore_job :: Job where
  "created_restore_job =
     build_restore_job sample_ext sample_restore (''rs-'' @ x_job_stamp sample_ext 0) ''rs-config''
       (found_cluster ''ns'') RNone sample_backup (account_of None)"

lemma exec_restore_status:
  "state_of job_world (restore_update_status_running ns n g) js = js"
  "outcome_of job_world (restore_update_status_running ns n g) js = Done (Inr ())"
  by (simp_all add: restore_update_status_running_def not_ready_io_def restore_patch_status_def exec
      job_world_sel decoded_def)

lemma exec_start_restore:
  "state_of job_world (start_restore sample_ext sample_restore ''ns'' 0) js = js @ [created_restore_job]"
  "outcome_of job_world (start_restore sample_ext sample_restore ''ns'' 0) js = Done (Inr ())"
  by (simp_all add: start_restore_def Let_def get_source_backup_def
      restore_create_or_update_config_map_def exec exec_cluster exec_ca exec_account exec_create
      exec_auth exec_restore_status sample_restore_config sample_restore_sel sample_meta_sel
      job_world_sel decoded_def created_restore_job_def)

lemma restore_first_run:
  "state_of job_world (reconcile_restore sample_ext sample_restore) [] = [created_restore_job]"
  "outcome_of job_world (reconcile_restore sample_ext sample_restore) [] = Done (Inr ())"
  by (simp_all add: reconcile_restore_def reconcile_restore_active_def restore_done_def
      restore_add_finalizer_def list_restore_jobs_def Let_def exec exec_start_restore
      sample_restore_sel sample_meta_sel job_world_sel decoded_def classify_NoJobs [THEN iffD2])

section \<open>A one-shot backup\<close>

lemma sample_backup_config:
  "build_backup_config_yaml sample_ext sample_backup cluster auth = Inr ''yaml''"
  by (simp add: build_backup_config_yaml_def backup_config_map_def Let_def sample_backup_def
      sample_backup_spec_def sample_storage_def build_storage_config_def
      build_filesystem_config_def sample_ext_def)

lemma sample_backup_sel:
  "kb_strimzi_cluster_ref (kbr_spec sample_backup) = sample_cluster_ref"
  "kb_authentication (kbr_spec sample_backup) = None"
  "kbr_metadata sample_backup = sample_meta ''bk''"
  "kb_schedule (kbr_spec sample_backup) = None"
  "kb_retention (kbr_spec sample_backup) = None"
  "kbr_status sample_backup = None"
  by (simp_all add: sample_backup_def sample_backup_spec_def)

definition created_backup_job :: Job where
  "created_backup_job =
     build_backup_job sample_ext sample_backup (''bk-'' @ x_job_stamp sample_ext 0) ''bk-config''
       (found_cluster ''ns'') RNone (account_of None)"

lemma exec_backup_status:
  "state_of job_world (backup_update_status_running ns n g) js = js"
  "outcome_of job_world (backup_update_status_running ns n g) js = Done (Inr ())"
  by (simp_all add: backup_update_status_running_def current_backup_status_def not_ready_io_def
      backup_patch_status_def send_backup_status_def exec job_world_sel decoded_def)

lemma created_job_pending: "latest_terminal [created_backup_job] = None"
  by (simp add: latest_terminal_def created_backup_job_def terminal_job_def job_succeeded_def
      job_failed_def has_condition_def build_backup_job_def Let_def split_beta)

lemma backup_first_run:
  "state_of job_world (reconcile_backup sample_ext sample_backup) [] = [created_backup_job]"
  "outcome_of job_world (reconcile_backup sample_ext sample_backup) [] = Done (Inr ())"
  by (simp_all add: reconcile_backup_def reconcile_backup_active_def backup_add_finalizer_def
      backup_create_or_update_config_map_def schedule_step_def job_step_def triggered_now_def
      check_job_completion_def apply_retention_policy_def list_backup_jobs_def Let_def exec
      exec_cluster exec_ca exec_account exec_create exec_auth exec_backup_status
      sample_backup_config sample_backup_sel sample_restore_sel(3) sample_meta_sel job_world_sel
      decoded_def classify_NoJobs [THEN iffD2] created_backup_job_def
      created_job_pending [unfolded created_backup_job_def, simplified])

end
