(* ===== verification/Retention_Safety.thy ===== *)
theory Retention_Safety
  imports Backup_Requests Retention_Properties Runs
begin

text \<open>
  Retention never touches a run in progress: the objects of a backup that a listed Job is still
  writing are not deleted. The argument needs the identity of a backup's directory, which the path
  type of the object store decides (\<open>paths_apart\<close>), and ids that are the names of directories
  (\<open>segment_ids\<close>); with an id like \<open>bk-1/\<close>, which a manifest may contain, the test of the
  code compares \<open>bk-1/\<close> with the Job's name and deletes \<open>bk-1\<close> all the same.
\<close>

section \<open>Sequences, by their events\<close>

lemma trace_ebind:
  "trace_of W (ebind m f) s = trace_of W m s @
     (case outcome_of W m s of Done (Inr x) \<Rightarrow> trace_of W (f x) (state_of W m s) | _ \<Rightarrow> [])"
  by (auto simp: ebind_def trace_pbind trace_of_def [of _ "Ret _"] split: outcome.split sum.split)

lemma in_trace_ebind:
  assumes "e \<in> set (trace_of W (ebind m f) s)"
  obtains (first) "e \<in> set (trace_of W m s)"
    | (later) x where "outcome_of W m s = Done (Inr x)" "e \<in> set (trace_of W (f x) (state_of W m s))"
proof (cases "e \<in> set (trace_of W m s)")
  case False
  show ?thesis
  proof (cases "outcome_of W m s")
    case (Done r)
    then show ?thesis using assms False later by (cases r) (auto simp: trace_ebind)
  qed (use assms False in \<open>simp add: trace_ebind\<close>)
qed (rule first)

text \<open>An event the first part cannot make is made by the rest, after the first has succeeded.\<close>

lemma in_trace_later:
  assumes "e \<in> set (trace_of W (ebind m f) s)" "only (\<lambda>e. \<not> P e) m" "P e"
  obtains x where "outcome_of W m s = Done (Inr x)" "e \<in> set (trace_of W (f x) (state_of W m s))"
  using assms only_run [OF assms(2)] by (metis in_trace_ebind)

lemma both_later:
  assumes "e \<in> set (trace_of W (ebind m f) s)" "e' \<in> set (trace_of W (ebind m f) s)"
    and "only (\<lambda>e. \<not> P e) m" "P e" "only (\<lambda>e. \<not> Q e) m" "Q e'"
  obtains x where "outcome_of W m s = Done (Inr x)" "e \<in> set (trace_of W (f x) (state_of W m s))"
    "e' \<in> set (trace_of W (f x) (state_of W m s))"
  using in_trace_later [OF assms(1,3,4)] in_trace_later [OF assms(2,5,6)]
  by (metis outcome.inject(1) sum.inject(2))

section \<open>Directories of the store\<close>

definition segment :: "string \<Rightarrow> bool" where
  "segment n \<longleftrightarrow> n \<noteq> [] \<and> CHR ''/'' \<notin> set n"

definition in_directory :: "Ext \<Rightarrow> string option \<Rightarrow> string \<Rightarrow> string \<Rightarrow> bool" where
  "in_directory ext prefix n path \<longleftrightarrow>
     (\<exists>k. starts_with k (n @ ''/'') \<and> path = x_path ext (join_key prefix k))"

text \<open>What the path type documents: different segments name different directories.\<close>

definition paths_apart :: "Ext \<Rightarrow> string option \<Rightarrow> bool" where
  "paths_apart ext prefix \<longleftrightarrow>
     (\<forall>i j p. segment i \<longrightarrow> segment j \<longrightarrow> in_directory ext prefix i p \<longrightarrow> in_directory ext prefix j p \<longrightarrow> i = j)"

lemma segment_prune_prefix: "segment i \<Longrightarrow> prune_prefix i = i @ ''/''"
proof -
  assume "segment i"
  then have "i \<noteq> []" "last i \<noteq> CHR ''/''" by (auto simp: segment_def) (metis last_in_set)
  then show ?thesis by (simp add: prune_prefix_def trim_end_matches_id)
qed

lemma confined_directory:
  "confined ext prefix ids p \<Longrightarrow> \<forall>i \<in> set ids. segment i \<Longrightarrow> \<exists>i \<in> set ids. in_directory ext prefix i p"
  by (auto simp: confined_def in_directory_def segment_prune_prefix)

section \<open>The ids retention decides about\<close>

text \<open>
  The ids of the history the status is read with, and of the manifests in the store, are segments.
\<close>

definition segment_ids :: "Ext \<Rightarrow> 'w World \<Rightarrow> string \<Rightarrow> string \<Rightarrow> bool" where
  "segment_ids ext W ns name \<longleftrightarrow>
     (\<forall>s b. fst (w_kube W (KGetBackupStatus ns name) s) = Inr (ABackup b) \<longrightarrow>
        (\<forall>e \<in> set (bs_backup_history (unwrap_or (kbr_status b) default_backup_status)). segment (he_id e))) \<and>
     (\<forall>q s bytes m. fst (w_store W q s) = Inr (BBytes bytes) \<longrightarrow> x_manifest ext bytes = Some m \<longrightarrow>
        segment (sm_backup_id m))"

definition segment_history :: "BackupHistoryEntry list \<Rightarrow> bool" where
  "segment_history h \<longleftrightarrow> (\<forall>e \<in> set h. segment (he_id e))"

lemma status_segments:
  assumes "segment_ids ext W ns name" "outcome_of W (current_backup_status ns name) s = Done (Inr st)"
  shows "segment_history (bs_backup_history st)"
  using assms
  by (auto simp: current_backup_status_def segment_ids_def segment_history_def exec decoded_def
      split: outcome.splits sum.splits option.splits KubeAnswer.splits elim!: as_backup.elims)

lemma exec_store:
  "outcome_of W (store_call q dec) s = Done (case fst (w_store W q s) of Inl e \<Rightarrow> Inl e
     | Inr a \<Rightarrow> (case dec a of None \<Rightarrow> Inl (SOther ''unexpected answer'') | Some x \<Rightarrow> Inr x))"
  "state_of W (store_call q dec) s = snd (w_store W q s)"
  by (simp_all add: store_call_def outcome_of_def state_of_def split_beta Let_def)

lemma for_fold_outcome:
  assumes "\<And>x h h' s. P h \<Longrightarrow> outcome_of W (f x h) s = Done (Inr h') \<Longrightarrow> P h'"
  shows "P h \<Longrightarrow> outcome_of W (for_fold xs h f) s = Done (Inr h') \<Longrightarrow> P h'"
proof (induction xs arbitrary: h s)
  case (Cons x xs)
  from Cons.prems(2) obtain h1 where "outcome_of W (f x h) s = Done (Inr h1)"
    and "outcome_of W (for_fold xs h1 f) (state_of W (f x h) s) = Done (Inr h')"
    by (auto simp: exec split: outcome.splits sum.splits)
  with Cons.IH assms [OF Cons.prems(1)] show ?case by blast
qed (simp add: exec)

lemma entry_id:
  "outcome_of W (manifest_to_history_entry ext m) s = Done e \<Longrightarrow> he_id e = sm_backup_id m"
  by (auto simp: manifest_to_history_entry_def Let_def exec split: option.splits)

lemma discovered_segment:
  assumes "segment_ids ext W ns name" "segment_history h"
    and "outcome_of W (discover_one ext store owner key h) s = Done (Inr h')"
  shows "segment_history h'"
proof -
  have new: "segment (he_id e)"
    if "fst (w_store W q s0) = Inr (BBytes bytes)" "x_manifest ext bytes = Some m"
      "outcome_of W (manifest_to_history_entry ext m) s1 = Done e" for q s0 bytes m s1 e
    using assms(1) that entry_id by (fastforce simp: segment_ids_def)
  show ?thesis
    using assms(2,3)
    by (auto simp: discover_one_def Let_def exec bos_get_def exec_store segment_history_def
        split: if_splits sum.splits option.splits outcome.splits elim!: as_bytes.elims dest: new)
qed

lemma discovered_segments:
  assumes "segment_ids ext W ns name"
    and "outcome_of W (discover_backup_history ext ns' storage owner) s = Done (Inr h)"
  shows "segment_history h"
proof -
  obtain keys store s' where "outcome_of W (for_fold (filter (\<lambda>k. ends_with k manifest_suffix) keys) []
      (discover_one ext store owner)) s' = Done (Inr h)"
    using assms(2) by (auto simp: discover_backup_history_def exec split: outcome.splits sum.splits)
  from for_fold_outcome [OF discovered_segment [OF assms(1)] _ this] show ?thesis
    by (simp add: segment_history_def)
qed

section \<open>The listing, and what is deleted after it\<close>

definition deletes_in :: "Ext \<Rightarrow> string option \<Rightarrow> string \<Rightarrow> event \<Rightarrow> bool" where
  "deletes_in ext prefix n e \<longleftrightarrow> (\<exists>p. deletes_path p e \<and> in_directory ext prefix n p)"

fun lists_job_objects :: "event \<Rightarrow> bool" where
  "lists_job_objects (EvKube (KListJobs ns sel) r) \<longleftrightarrow> True"
| "lists_job_objects e \<longleftrightarrow> False"

text \<open>The Jobs a listing is answered with.\<close>

definition shown_jobs :: "event \<Rightarrow> Job list" where
  "shown_jobs e = (if lists_job_objects e then listed_jobs e else [])"

text \<open>A Job at least one of whose pods runs.\<close>

definition job_running :: "Job \<Rightarrow> bool" where
  "job_running job \<longleftrightarrow>
     (case jb_status job of None \<Rightarrow> False
      | Some st \<Rightarrow> (case jst_active st of None \<Rightarrow> False | Some n \<Rightarrow> 0 < n))"

lemma evaluated_from_history:
  assumes "evaluate_retention X t history retention = Value ids"
  shows "set ids \<subseteq> he_id ` set history"
proof (cases "history = []")
  case True
  then show ?thesis using assms by (simp add: evaluate_retention_def)
next
  case False
  then show ?thesis
    using assms evaluate_retention_cutoff [OF False, of X t retention]
    by (cases "age_cutoff X t retention")
       (auto simp: Let_def prune_set_simps sort_desc_def dest!: in_set_dropD split: option.splits)
qed

lemma lift_checked_done: "outcome_of W (lift_checked c) s = Done (Inr x) \<Longrightarrow> c = Value x"
  by (cases c) (simp_all add: outcome_of_def)

lemma evaluated_segments:
  assumes "segment_history h" "outcome_of W (evaluate_retention_io ext h retention) s = Done (Inr ids)"
  shows "\<forall>i \<in> set ids. segment i"
proof -
  have eval: "\<forall>i \<in> set ids. segment i" if "evaluate_retention ext t h retention = Value ids" for t
    using evaluated_from_history [OF that] assms(1) by (auto simp: segment_history_def)
  show ?thesis
    using assms(2) eval
    by (auto simp: evaluate_retention_io_def exec         split: option.splits checked.splits if_splits dest!: lift_checked_done)
qed

text \<open>Only the listing of the resource's Jobs answers with Jobs.\<close>

lemma no_listing:
  "only (\<lambda>e. \<not> lists_job_objects e) (current_backup_status ns name)"
  "only (\<lambda>e. \<not> lists_job_objects e) (discover_backup_history ext ns storage owner)"
  "only (\<lambda>e. \<not> lists_job_objects e) (evaluate_retention_io ext h retention)"
  "only (\<lambda>e. \<not> lists_job_objects e) (prune_backup_ids ext ns storage ids)"
  "only (\<lambda>e. \<not> lists_job_objects e) (patch_backup_history ns name h)"
  by (auto simp: current_backup_status_def discover_backup_history_def discover_one_def Let_def
      evaluate_retention_io_def prune_backup_ids_def prune_one_def patch_backup_history_def
      send_backup_status_def intro!: only_intro split: option.split sum.split checked.split)

lemma active_ids_run:
  assumes "outcome_of W (active_backup_ids ns name b) s = Done (Inr active)"
  obtains js where "active = active_ids_of js name b"
    "trace_of W (active_backup_ids ns name b) s =
       [EvKube (KListJobs ns (backup_jobs_selector name)) (Inr (AJobs js))]"
proof -
  let ?r = "fst (w_kube W (KListJobs ns (backup_jobs_selector name)) s)"
  have tr: "trace_of W (active_backup_ids ns name b) s = [EvKube (KListJobs ns (backup_jobs_selector name)) ?r]"
    unfolding active_backup_ids_def list_backup_jobs_def trace_listing_ebind
    by (simp add: trace_of_def [of _ "Ret _"] split: sum.split)
  obtain js where "?r = Inr (AJobs js)" "active = active_ids_of js name b"
    using assms
    by (auto simp: active_backup_ids_def list_backup_jobs_def exec decoded_def
        split: sum.splits option.splits elim!: as_jobs.elims)
  then show thesis using tr that by simp
qed

definition backup_store_prefix :: "KafkaBackup \<Rightarrow> string option" where
  "backup_store_prefix backup = normalize_optional_prefix (storage_prefix (kb_storage (kbr_spec backup)))"

text \<open>The directories a running Job writes: its own, and with offset storage that of the backup.\<close>

definition writes_directory :: "KafkaBackup \<Rightarrow> Job \<Rightarrow> string \<Rightarrow> bool" where
  "writes_directory backup job d \<longleftrightarrow> job_running job \<and> segment d \<and>
     (om_name (jb_metadata job) = Some d \<or>
      kb_offset_storage (kbr_spec backup) \<noteq> None \<and> d = name_any (kbr_metadata backup))"

lemma running_directory_active:
  assumes "job \<in> set jobs" "writes_directory backup job d"
  shows "d \<in> set (active_ids_of jobs (name_any (kbr_metadata backup)) backup)"
  using assms
  by (auto simp: writes_directory_def active_ids_of_def job_running_def is_some_iff
      split: option.splits intro!: bexI [of _ job])

lemma pruned_directories:
  assumes "paths_apart ext (normalize_optional_prefix (storage_prefix storage))" "\<forall>i \<in> set ids. segment i"
    and "e \<in> set (trace_of W (prune_backup_ids ext ns storage ids) s)"
    and "deletes_in ext (normalize_optional_prefix (storage_prefix storage)) d e" "segment d"
  shows "d \<in> set ids"
proof -
  obtain p where p: "deletes_path p e" "in_directory ext (normalize_optional_prefix (storage_prefix storage)) d p"
    using assms(4) by (auto simp: deletes_in_def)
  have "prune_event ext (normalize_optional_prefix (storage_prefix storage)) ids e"
    using only_run [OF only_prune_backup_ids assms(3)] .
  with p(1) have "confined ext (normalize_optional_prefix (storage_prefix storage)) ids p"
    by (cases "(p, e)" rule: deletes_path.cases) auto
  from confined_directory [OF this assms(2)] obtain i where
    "i \<in> set ids" "in_directory ext (normalize_optional_prefix (storage_prefix storage)) i p" by blast
  with p(2) assms(1,2,5) show ?thesis unfolding paths_apart_def by metis
qed

text \<open>The end of \<open>apply_retention_policy\<close>, when it is known what to prune.\<close>

definition retention_end ::
  "Ext \<Rightarrow> string \<Rightarrow> KafkaBackup \<Rightarrow> BackupHistoryEntry list \<Rightarrow> string list \<Rightarrow> unit io" where
  "retention_end ext ns backup history to_prune =
     (if to_prune = [] then patch_backup_history ns (name_any (kbr_metadata backup)) history
      else ebind (prune_backup_ids ext ns (kb_storage (kbr_spec backup)) to_prune) (\<lambda>pruned.
           patch_backup_history ns (name_any (kbr_metadata backup))
             (filter (\<lambda>e. he_id e \<notin> set pruned) history)))"

lemma no_listing_end: "only (\<lambda>e. \<not> lists_job_objects e) (retention_end ext ns backup h ids)"
  by (auto simp: retention_end_def intro!: only_intro no_listing)

lemma retention_end_directories:
  assumes "paths_apart ext (backup_store_prefix backup)" "\<forall>i \<in> set ids. segment i"
    and "e \<in> set (trace_of W (retention_end ext ns backup h ids) s)"
    and "deletes_in ext (backup_store_prefix backup) d e" "segment d"
  shows "d \<in> set ids"
proof -
  obtain p where p: "deletes_path p e" using assms(4) by (auto simp: deletes_in_def)
  have no: "e \<notin> set (trace_of W (patch_backup_history ns n h') s')" for n h' s'
    proof
    assume "e \<in> set (trace_of W (patch_backup_history ns n h') s')"
    from only_run [OF no_delete_history [of p] this] p show False by simp
  qed
  have "e \<in> set (trace_of W (prune_backup_ids ext ns (kb_storage (kbr_spec backup)) ids) s)"
    using assms(3) no by (auto simp: retention_end_def split: if_splits elim!: in_trace_ebind)
  from pruned_directories [OF assms(1) [unfolded backup_store_prefix_def] assms(2) this
      assms(4) [unfolded backup_store_prefix_def] assms(5)]
  show ?thesis .
qed

lemma merged_segments:
  "segment_history h \<Longrightarrow> segment_history ds \<Longrightarrow> segment_history (merge_backup_history h ds)"
proof -
  have one: "segment_history (upsert_history_entry h e)" if "segment_history h" "segment (he_id e)" for h e
  proof -
    have "he_id ` set (upsert_first h e) \<subseteq> insert (he_id e) (he_id ` set h)"
      by (induction h e rule: upsert_first.induct) (auto simp: keep_completion_def)
    with that show ?thesis
      by (fastforce simp: upsert_history_entry_def sort_desc_def segment_history_def)
  qed
  assume "segment_history h" "segment_history ds"
  then have "segment_history (fold (\<lambda>e h. upsert_history_entry h e) ds h)"
  proof (induction ds arbitrary: h)
    case (Cons a ds)
    then have "segment (he_id a)" "segment_history ds" by (simp_all add: segment_history_def)
    with Cons.IH [OF one [OF Cons.prems(1)]] show ?case by simp
  qed simp
  then show ?thesis
    by (simp add: merge_backup_history_def sort_desc_def segment_history_def)
qed

lemma retention_spares:
  assumes apart: "paths_apart ext (backup_store_prefix backup)"
    and ids: "segment_ids ext W ns (name_any (kbr_metadata backup))"
    and e: "e \<in> set (trace_of W (apply_retention_policy ext backup ns) s)" "job \<in> set (shown_jobs e)"
    and d: "writes_directory backup job d"
    and del: "e' \<in> set (trace_of W (apply_retention_policy ext backup ns) s)"
      "deletes_in ext (backup_store_prefix backup) d e'"
  shows False
proof -
  let ?name = "name_any (kbr_metadata backup)" and ?st = "kb_storage (kbr_spec backup)"
  have w: "is_write e'" using del(2) by (auto simp: deletes_in_def dest: deletes_is_write)
  have l: "lists_job_objects e" using e(2) by (auto simp: shown_jobs_def split: if_splits)
  obtain retention where r: "kb_retention (kbr_spec backup) = Some retention" "retention_due backup retention"
    using e(1) by (auto simp: apply_retention_policy_def trace_of_def split: option.splits if_splits)
  let ?job = "\<lambda>e. lists_job_objects e" and ?del = "\<lambda>e. is_write e"
  have tr: "trace_of W (apply_retention_policy ext backup ns) s =
      trace_of W (ebind (current_backup_status ns ?name) (\<lambda>status.
        ebind (discover_backup_history ext ns ?st ?name) (\<lambda>discovered.
        ebind (active_backup_ids ns ?name backup) (\<lambda>active.
        ebind (evaluate_retention_io ext
          (merge_backup_history (bs_backup_history status) discovered) retention) (\<lambda>evaluated.
        retention_end ext ns backup
          (merge_backup_history (bs_backup_history status) discovered)
          (filter (\<lambda>i. i \<notin> set active) evaluated)))))) s"
    by (simp add: apply_retention_policy_def Let_def r retention_end_def)
  obtain st s1 where st: "outcome_of W (current_backup_status ns ?name) s = Done (Inr st)"
    and e1: "e \<in> set (trace_of W (ebind (discover_backup_history ext ns ?st ?name) (\<lambda>discovered.
        ebind (active_backup_ids ns ?name backup) (\<lambda>active.
        ebind (evaluate_retention_io ext
          (merge_backup_history (bs_backup_history st) discovered) retention) (\<lambda>evaluated.
        retention_end ext ns backup
          (merge_backup_history (bs_backup_history st) discovered)
          (filter (\<lambda>i. i \<notin> set active) evaluated))))) s1)"
    and d1: "e' \<in> set (trace_of W (ebind (discover_backup_history ext ns ?st ?name) (\<lambda>discovered.
        ebind (active_backup_ids ns ?name backup) (\<lambda>active.
        ebind (evaluate_retention_io ext
          (merge_backup_history (bs_backup_history st) discovered) retention) (\<lambda>evaluated.
        retention_end ext ns backup
          (merge_backup_history (bs_backup_history st) discovered)
          (filter (\<lambda>i. i \<notin> set active) evaluated))))) s1)"
    using both_later [OF e(1) [unfolded tr] del(1) [unfolded tr] no_listing(1) l read_resolution(5) w]
    by blast
  obtain ds s2 where ds: "outcome_of W (discover_backup_history ext ns ?st ?name) s1 = Done (Inr ds)"
    and e2: "e \<in> set (trace_of W (ebind (active_backup_ids ns ?name backup) (\<lambda>active.
        ebind (evaluate_retention_io ext
          (merge_backup_history (bs_backup_history st) ds) retention) (\<lambda>evaluated.
        retention_end ext ns backup
          (merge_backup_history (bs_backup_history st) ds)
          (filter (\<lambda>i. i \<notin> set active) evaluated)))) s2)"
    and d2: "e' \<in> set (trace_of W (ebind (active_backup_ids ns ?name backup) (\<lambda>active.
        ebind (evaluate_retention_io ext
          (merge_backup_history (bs_backup_history st) ds) retention) (\<lambda>evaluated.
        retention_end ext ns backup
          (merge_backup_history (bs_backup_history st) ds)
          (filter (\<lambda>i. i \<notin> set active) evaluated)))) s2)"
    using both_later [OF e1 d1 no_listing(2) l read_discover w] by blast
  obtain active s3 where active: "outcome_of W (active_backup_ids ns ?name backup) s2 = Done (Inr active)"
    and d3: "e' \<in> set (trace_of W (ebind (evaluate_retention_io ext
          (merge_backup_history (bs_backup_history st) ds) retention) (\<lambda>evaluated.
        retention_end ext ns backup
          (merge_backup_history (bs_backup_history st) ds)
          (filter (\<lambda>i. i \<notin> set active) evaluated))) s3)"
    using in_trace_later [OF d2 read_resolution(6) w] by blast
  have d_active: "d \<in> set active"
    using e2
  proof (cases rule: in_trace_ebind)
    case first
    with active e(2) d show ?thesis
      by (auto elim!: active_ids_run simp: shown_jobs_def running_directory_active)
  next
    case (later x)
    then show ?thesis
      using l only_run [OF only_ebind [OF no_listing(3) no_listing_end]] by fastforce
  qed
  obtain ids' s4 where ids': "outcome_of W (evaluate_retention_io ext
        (merge_backup_history (bs_backup_history st) ds) retention) s3 = Done (Inr ids')"
    and d4: "e' \<in> set (trace_of W (retention_end ext ns backup
          (merge_backup_history (bs_backup_history st) ds)
          (filter (\<lambda>i. i \<notin> set active) ids')) s4)"
    using in_trace_later [OF d3 read_resolution(7) w] by blast
  have "segment_history (merge_backup_history (bs_backup_history st) ds)"
    using status_segments [OF ids st] discovered_segments [OF ids ds]
    by (rule merged_segments)
  from evaluated_segments [OF this ids']
  have "\<forall>i \<in> set (filter (\<lambda>i. i \<notin> set active) ids'). segment i" by simp
  from retention_end_directories [OF apart this d4 del(2)] d
  have "d \<in> set (filter (\<lambda>i. i \<notin> set active) ids')" by (simp add: writes_directory_def)
  with d_active show False by simp
qed

section \<open>The property\<close>

text \<open>C14.
  When the retention policy is applied, no object is deleted from a directory that a running Job
  writes: a Job of the resource that the listing of this application shows with a running pod, be it
  the directory of its own name or, with offset storage, the one named after the backup. The path
  type must keep directories apart, and the ids of the status history and of the manifests must be
  names of directories.
\<close>

theorem retention_spares_running:
  assumes "paths_apart ext (backup_store_prefix backup)"
    and "segment_ids ext W ns (name_any (kbr_metadata backup))"
    and "e \<in> set (trace_of W (apply_retention_policy ext backup ns) s)" "job \<in> set (shown_jobs e)"
    and "writes_directory backup job d"
  shows "list_all (\<lambda>e'. \<not> deletes_in ext (backup_store_prefix backup) d e')
    (trace_of W (apply_retention_policy ext backup ns) s)"
  using retention_spares [OF assms] by (auto simp: list_all_iff)

text \<open>A store with two backups, the newer of which is still running; the policy keeps none.\<close>

definition kept_none :: KafkaBackup where
  "kept_none = sample_backup\<lparr>kbr_spec := sample_backup_spec
     \<lparr>kb_schedule := Some \<lparr>sd_cron = ''0 2 * * *'', sd_timezone = None, sd_suspend = False\<rparr>,
      kb_retention := Some \<lparr>rt_max_backups = Some 0, rt_max_age = None, rt_prune_on_schedule = True\<rparr>\<rparr>\<rparr>"

definition two_backups :: KafkaBackup where
  "two_backups = sample_backup\<lparr>kbr_status := Some (default_backup_status
     \<lparr>bs_backup_history := [sample_entry ''bk-2'' 2, sample_entry ''bk-1'' 1]\<rparr>)\<rparr>"

definition running_job :: Job where
  "running_job = \<lparr>jb_metadata = empty_meta\<lparr>om_name := Some ''bk-2''\<rparr>, jb_spec = None,
     jb_status = Some \<lparr>jst_active = Some 1, jst_succeeded = None, jst_failed = None,
       jst_start_time = None, jst_completion_time = None, jst_conditions = None\<rparr>\<rparr>"

fun running_kube :: "KubeReq \<Rightarrow> string list \<Rightarrow> (KubeError + KubeAnswer) \<times> string list" where
  "running_kube (KListJobs ns sel) d = (Inr (AJobs [running_job]), d)"
| "running_kube (KGetBackupStatus ns n) d = (Inr (ABackup two_backups), d)"
| "running_kube q d = (Inr AUnit, d)"

text \<open>The state is what has been deleted.\<close>

fun two_store :: "StoreReq \<Rightarrow> string list \<Rightarrow> (StoreError + StoreAnswer) \<times> string list" where
  "two_store (SBuild b) d = (Inr (BHandle 0), d)"
| "two_store (SList h p) d = (Inr (BItems [Inr ''bk-1/a'', Inr ''bk-2/b'']), d)"
| "two_store (SDelete h p) d = (Inr BUnit, d @ [p])"
| "two_store q d = (Inl (SNotFound ''none''), d)"

definition running_world :: "string list World" where
  "running_world = \<lparr>w_clock = (\<lambda>u. (0, u)), w_env = (\<lambda>n u. (None, u)), w_kube = running_kube,
     w_store = two_store\<rparr>"

lemma kept_none_sel:
  "kbr_metadata kept_none = sample_meta ''bk''" "kb_storage (kbr_spec kept_none) = sample_storage"
  "kb_offset_storage (kbr_spec kept_none) = None"
  "kb_retention (kbr_spec kept_none) =
     Some \<lparr>rt_max_backups = Some 0, rt_max_age = None, rt_prune_on_schedule = True\<rparr>"
  "retention_due kept_none r = rt_prune_on_schedule r"
  by (simp_all add: kept_none_def sample_backup_def sample_backup_spec_def retention_due_def)

lemma running_sel:
  "w_kube running_world = running_kube" "w_clock running_world u = (0, u)"
  "w_env running_world n u = (None, u)" "w_store running_world = two_store"
  by (simp_all add: running_world_def)

lemma running_active: "active_ids_of [running_job] n kept_none = [''bk-2'']"
  by (simp add: active_ids_of_def running_job_def kept_none_sel)

lemma running_evaluated:
  "evaluate_retention_io sample_ext (merge_backup_history [sample_entry ''bk-2'' 2, sample_entry ''bk-1'' 1] [])
     \<lparr>rt_max_backups = Some 0, rt_max_age = None, rt_prune_on_schedule = True\<rparr> = ok [''bk-2'', ''bk-1'']"
proof -
  have "evaluate_retention sample_ext 0
      (merge_backup_history [sample_entry ''bk-2'' 2, sample_entry ''bk-1'' 1] [])
      \<lparr>rt_max_backups = Some 0, rt_max_age = None, rt_prune_on_schedule = True\<rparr> = Value [''bk-2'', ''bk-1'']"
    by code_simp
  moreover have "merge_backup_history [sample_entry ''bk-2'' 2, sample_entry ''bk-1'' 1] [] \<noteq> []"
    by (simp add: merge_backup_history_def sort_desc_def)
  ultimately show ?thesis by (simp add: evaluate_retention_io_def)
qed

lemma running_keys:
  "bos_strip_prefix (bos_new 0 None) ''bk-1/a'' = ''bk-1/a''"
  "bos_strip_prefix (bos_new 0 None) ''bk-2/b'' = ''bk-2/b''"
  "sort [''bk-1/a'', ''bk-2/b''] = [''bk-1/a'', ''bk-2/b'']"
  "ends_with ''bk-1/a'' manifest_suffix = False" "ends_with ''bk-2/b'' manifest_suffix = False"
  "starts_with ''bk-1/a'' (prune_prefix ''bk-1'') = True"
  "starts_with ''bk-2/b'' (prune_prefix ''bk-1'') = False"
  "full_path sample_ext (bos_new 0 None) ''bk-1/a'' = ''bk-1/a''"
  by code_simp+

lemmas running_policy = apply_retention_policy_def kept_none_sel Let_def exec sample_meta_sel running_sel
  current_backup_status_def decoded_def two_backups_def discover_backup_history_def
  build_store_def sample_storage_def build_filesystem_store_def build_call_def exec_store bos_list_def
  active_backup_ids_def list_backup_jobs_def running_active running_evaluated prune_backup_ids_def
  prune_one_def running_keys bos_delete_def patch_backup_history_def send_backup_status_def

text \<open>The older backup is deleted.\<close>

lemma running_run:
  "state_of running_world (apply_retention_policy sample_ext kept_none ''ns'') [] = [''bk-1/a'']"
  by (simp add: running_policy)

lemma running_listed:
  "EvKube (KListJobs ''ns'' (backup_jobs_selector ''bk'')) (Inr (AJobs [running_job]))
     \<in> set (trace_of running_world (apply_retention_policy sample_ext kept_none ''ns'') [])"
proof -
  have jobs: "trace_of running_world (active_backup_ids ''ns'' ''bk'' kept_none) [] =
      [EvKube (KListJobs ''ns'' (backup_jobs_selector ''bk'')) (Inr (AJobs [running_job]))]"
    by (simp add: active_backup_ids_def list_backup_jobs_def trace_listing_ebind running_sel
        decoded_def trace_of_def [of _ "Ret _"])
  have discovered: "outcome_of running_world (discover_backup_history sample_ext ''ns'' sample_storage ''bk'') [] = Done (Inr [])"
    "state_of running_world (discover_backup_history sample_ext ''ns'' sample_storage ''bk'') [] = []"
    by (simp_all add: running_policy)
  show ?thesis
    by (simp add: apply_retention_policy_def kept_none_sel Let_def sample_meta_sel exec running_sel
        current_backup_status_def decoded_def two_backups_def trace_ebind jobs discovered)
qed

lemma sample_directories:
  assumes "segment i" "in_directory sample_ext None i p"
  shows "takeWhile (\<lambda>c. c \<noteq> CHR ''/'') p = i"
proof -
  obtain rest where "p = i @ CHR ''/'' # rest"
  proof -
    obtain k where k: "starts_with k (i @ ''/'')" "p = join_key None k"
      using assms(2) by (auto simp: in_directory_def sample_ext_def)
    then obtain rest where r: "k = i @ CHR ''/'' # rest" by (auto simp: starts_with_iff)
    obtain c cs where "i = c # cs" "c \<noteq> CHR ''/''" using assms(1) by (cases i) (auto simp: segment_def)
    with r k(2) have "p = i @ CHR ''/'' # rest" by (simp add: join_key_def trim_start_matches_def)
    then show thesis by (rule that)
  qed
  then show ?thesis using assms(1) by (auto simp: segment_def takeWhile_append)
qed

theorem retention_spares_running_witness:
  "state_of running_world (apply_retention_policy sample_ext kept_none ''ns'') [] = [''bk-1/a''] \<and>
   list_all (\<lambda>e'. \<not> deletes_in sample_ext (backup_store_prefix kept_none) ''bk-2'' e')
     (trace_of running_world (apply_retention_policy sample_ext kept_none ''ns'') [])"
proof -
  have prefix: "backup_store_prefix kept_none = None"
    by (simp add: backup_store_prefix_def kept_none_sel sample_storage_def storage_prefix_def
        normalize_optional_prefix_def)
  have "paths_apart sample_ext (backup_store_prefix kept_none)"
    unfolding paths_apart_def prefix using sample_directories by metis
  moreover have "segment_ids sample_ext running_world ''ns'' (name_any (kbr_metadata kept_none))"
    by (simp add: segment_ids_def running_sel two_backups_def sample_ext_def sample_entry_def segment_def)
  moreover have "writes_directory kept_none running_job ''bk-2''"
    by (simp add: writes_directory_def job_running_def running_job_def segment_def)
  ultimately show ?thesis
    using retention_spares_running [OF _ _ running_listed, where job = running_job and d = "''bk-2''"]
      running_run
    by (simp add: shown_jobs_def)
qed

end
