(* ===== verification/Progress.thy ===== *)
theory Progress
  imports Runs
begin

text \<open>
  Progress: when the cluster answers, a fresh resource does get its Job in one reconciliation.
  The gates of \<open>Backup_Protocol\<close> and \<open>Restore_Protocol\<close> bound the Jobs from above; the
  lemmas here bound them from below, in any world whose answers are the ones named.
\<close>

section \<open>Counting creations along a program\<close>

definition jobs_created :: "'w World \<Rightarrow> 'a prog \<Rightarrow> 'w \<Rightarrow> nat" where
  "jobs_created W p s = length (filter creates_job (trace_of W p s))"

lemma jobs_created_pbind:
  "jobs_created W (pbind m f) s = jobs_created W m s +
     (case outcome_of W m s of
        Done x \<Rightarrow> jobs_created W (f x) (state_of W m s) | Panicked e \<Rightarrow> 0)"
  by (simp add: jobs_created_def trace_pbind split: outcome.split)

lemma jobs_created_ebind:
  "jobs_created W (ebind m f) s = jobs_created W m s +
     (case outcome_of W m s of
        Done (Inr x) \<Rightarrow> jobs_created W (f x) (state_of W m s) | _ \<Rightarrow> 0)"
  by (auto simp: ebind_def jobs_created_pbind split: outcome.split sum.split)
     (simp_all add: jobs_created_def trace_of_def)

lemma jobs_created_none: "only (\<lambda>e. \<not> creates_job e) p \<Longrightarrow> jobs_created W p s = 0"
  by (simp add: jobs_created_def only_filter)

lemma jobs_created_create: "jobs_created W (create_job ns job) s = 1"
  by (simp add: create_job_def map_err_def pmap_def jobs_created_def trace_pbind trace_kube_call)
     (simp add: trace_of_def)

section \<open>Answers\<close>

text \<open>
  The states before the creation: \<open>stable W I\<close> says that no request but a Job creation leads
  out of \<open>I\<close>; the answers below are needed in the states of \<open>I\<close> only.
\<close>

definition stable :: "'w World \<Rightarrow> ('w \<Rightarrow> bool) \<Rightarrow> bool" where
  "stable W I \<longleftrightarrow>
     (\<forall>s. I s \<longrightarrow> I (snd (w_clock W s)) \<and> (\<forall>n. I (snd (w_env W n s))) \<and>
        (\<forall>x. I (snd (w_store W x s))) \<and>
        (\<forall>q. \<not> creates_job (EvKube q (Inr AUnit)) \<longrightarrow> I (snd (w_kube W q s))))"

lemma stableD:
  assumes "stable W I" "I s"
  shows "I (snd (w_clock W s))" "I (snd (w_env W n s))" "I (snd (w_store W x s))"
    and "\<not> creates_job (EvKube q r) \<Longrightarrow> I (snd (w_kube W q s))"
  using assms creates_job_request [of q r] by (auto simp: stable_def)

lemma stable_state:
  assumes "stable W I"
  shows "only (\<lambda>e. \<not> creates_job e) p \<Longrightarrow> I s \<Longrightarrow> I (state_of W p s)"
proof (induction p arbitrary: s)
  case (Kube q g)
  then have "\<not> creates_job (EvKube q (fst (w_kube W q s)))" by simp
  from stableD(4) [OF assms Kube.prems(2) this] Kube show ?case by (simp add: state_cons)
qed (simp_all add: state_cons stableD [OF assms])

definition accepts :: "'w World \<Rightarrow> ('w \<Rightarrow> bool) \<Rightarrow> KubeReq \<Rightarrow> bool" where
  "accepts W I q \<longleftrightarrow> (\<forall>s. I s \<longrightarrow> (\<exists>a. fst (w_kube W q s) = Inr a))"

lemma outcome_kube_io:
  "fst (w_kube W q s) = Inr a \<Longrightarrow> dec a = Some x \<Longrightarrow> outcome_of W (kube_io q dec) s = Done (Inr x)"
  by (simp add: exec decoded_def)

lemma outcome_kube_io_unit:
  "accepts W I q \<Longrightarrow> I s \<Longrightarrow> outcome_of W (kube_io q as_unit) s = Done (Inr ())"
  unfolding accepts_def by (metis outcome_kube_io as_unit.simps)

lemma no_panic_pbind:
  "ends (\<lambda>out. \<exists>y. out = Done y) m \<Longrightarrow> (\<And>x. ends (\<lambda>out. \<exists>y. out = Done y) (f x)) \<Longrightarrow>
   ends (\<lambda>out. \<exists>y. out = Done y) (pbind m f)"
  unfolding ends_pbind by (erule ends_mono) auto

lemma no_panic_ebind:
  "ends (\<lambda>out. \<exists>y. out = Done y) m \<Longrightarrow> (\<And>x. ends (\<lambda>out. \<exists>y. out = Done y) (f x)) \<Longrightarrow>
   ends (\<lambda>out. \<exists>y. out = Done y) (ebind m f)"
  unfolding ebind_def by (rule no_panic_pbind) (auto split: sum.split)

lemma no_panic_ca: "ends (\<lambda>out. \<exists>y. out = Done y) (resolve_cluster_ca c ov ns)"
  unfolding resolve_cluster_ca_def Let_def split_beta
  by (auto intro!: no_panic_ebind no_panic_pbind simp: map_err_def pmap_def kube_call_def)

lemma ca_done: "\<exists>y. outcome_of W (resolve_cluster_ca c ov ns) s = Done y"
  using ends_run [OF no_panic_ca] .

section \<open>A fresh restore\<close>

text \<open>What the cluster has to answer for a restore to start.\<close>

definition restore_ready ::
  "'w World \<Rightarrow> ('w \<Rightarrow> bool) \<Rightarrow> Ext \<Rightarrow> KafkaRestore \<Rightarrow> string \<Rightarrow> bool" where
  "restore_ready W I ext restore ns \<longleftrightarrow>
     (let spec = krr_spec restore; name = name_any (krr_metadata restore) in
      accepts W I (KPatchRestore ns name apply_params (SetFinalizers [FINALIZER])) \<and>
      (\<forall>s. I s \<longrightarrow> fst (w_kube W (KListJobs ns (restore_jobs_selector name)) s) = Inr (AJobs [])) \<and>
      (\<forall>cm. accepts W I (KApplyConfigMap ns (name @ ''-config'') apply_params cm)) \<and>
      (\<exists>source cluster auth yaml.
         (\<forall>s. I s \<longrightarrow> fst (w_kube W (KGetBackup ns (br_name (kr_backup_ref spec))) s) = Inr (ABackup source)) \<and>
         (\<forall>s. I s \<longrightarrow> outcome_of W (resolve_kafka_cluster (kr_strimzi_cluster_ref spec) ns
            (map_option au_type (kr_authentication spec))) s = Done (Inr cluster)) \<and>
         (\<forall>s. I s \<longrightarrow> outcome_of W (resolve_auth (kr_authentication spec) ns) s = Done (Inr auth)) \<and>
         build_restore_config_yaml ext restore source cluster auth = Inr yaml))"

lemma restore_starts:
  assumes "stable W I" "restore_ready W I ext restore ns" "I s"
  shows "jobs_created W (start_restore ext restore ns g) s = 1"
proof -
  let ?name = "name_any (krr_metadata restore)"
  obtain source cluster auth yaml where a:
    "\<And>s. I s \<Longrightarrow> fst (w_kube W (KGetBackup ns (br_name (kr_backup_ref (krr_spec restore)))) s) = Inr (ABackup source)"
    "\<And>s. I s \<Longrightarrow> outcome_of W (resolve_kafka_cluster (kr_strimzi_cluster_ref (krr_spec restore)) ns
       (map_option au_type (kr_authentication (krr_spec restore)))) s = Done (Inr cluster)"
    "\<And>s. I s \<Longrightarrow> outcome_of W (resolve_auth (kr_authentication (krr_spec restore)) ns) s = Done (Inr auth)"
    "build_restore_config_yaml ext restore source cluster auth = Inr yaml"
    and cm: "\<And>cm. accepts W I (KApplyConfigMap ns (?name @ ''-config'') apply_params cm)"
    using assms(2) unfolding restore_ready_def Let_def by blast
  have src: "outcome_of W (get_source_backup ns (br_name (kr_backup_ref (krr_spec restore)))) s = Done (Inr source)" if "I s" for s
    by (simp add: get_source_backup_def exec decoded_def a(1) that)
  have cmap: "outcome_of W (restore_create_or_update_config_map ns (?name @ ''-config'') yaml restore) s = Done (Inr ())" if "I s" for s
    by (simp add: restore_create_or_update_config_map_def outcome_kube_io_unit [where I = I] that cm)
  obtain y where ca: "outcome_of W (resolve_cluster_ca (kcl_name cluster)
      (sc_ca_secret (kr_strimzi_cluster_ref (krr_spec restore))) ns) s' = Done (y s')" for s'
    using ca_done by metis
  have acc: "outcome_of W job_service_account_name s =
      Done (account_of (fst (w_env W JOB_SERVICE_ACCOUNT_ENV s)))" for s
    by (simp add: job_service_account_name_def pmap_def exec_pbind exec_ret exec_calls)
  show ?thesis
    unfolding start_restore_def Let_def
    using assms(3)
    by (simp add: jobs_created_ebind jobs_created_pbind src a ca cmap acc exec_ret exec_calls
        stable_state [OF assms(1)] stableD [OF assms(1)] jobs_created_create jobs_created_none restore_no_create_parts only_now
        split: outcome.split sum.split)
qed

lemma restore_progress:
  assumes "om_namespace (krr_metadata restore) = Some ns" "in_service (krr_metadata restore)"
    and "\<not> restore_done restore" "stable W I" "restore_ready W I ext restore ns" "I s"
  shows "jobs_created W (reconcile_restore ext restore) s = 1"
proof -
  let ?name = "name_any (krr_metadata restore)"
  have l: "fst (w_kube W (KListJobs ns (restore_jobs_selector ?name)) s) = Inr (AJobs [])" if "I s" for s
    using assms(5) that by (simp add: restore_ready_def Let_def)
  have f: "outcome_of W (restore_add_finalizer ns ?name) s = Done (Inr ())" if "I s" for s
    using assms(5) by (simp add: restore_ready_def Let_def restore_add_finalizer_def outcome_kube_io_unit [where I = I] that)
  have active: "jobs_created W (reconcile_restore_active ext restore ns) s = 1" if "I s" for s
    using assms(3) l that
    by (simp add: reconcile_restore_active_def Let_def jobs_created_ebind list_restore_jobs_def
        outcome_kube_io classify_NoJobs [THEN iffD2] restore_starts [OF assms(4,5)]
        jobs_created_none only_kube_io stable_state [OF assms(4)])
  show ?thesis
    using assms(2,6) f
    by (simp add: reconcile_restore_cases [OF assms(1)] in_service_def active stable_state [OF assms(4)] jobs_created_ebind
        jobs_created_none restore_no_create_parts)
qed

section \<open>A fresh one-shot backup\<close>

definition backup_ready :: "'w World \<Rightarrow> ('w \<Rightarrow> bool) \<Rightarrow> Ext \<Rightarrow> KafkaBackup \<Rightarrow> string \<Rightarrow> bool" where
  "backup_ready W I ext backup ns \<longleftrightarrow>
     (let spec = kbr_spec backup; name = name_any (kbr_metadata backup) in
      accepts W I (KPatchBackup ns name apply_params (SetFinalizers [FINALIZER])) \<and>
      (\<forall>s. I s \<longrightarrow> fst (w_kube W (KListJobs ns (backup_jobs_selector name)) s) = Inr (AJobs [])) \<and>
      (\<forall>cm. accepts W I (KApplyConfigMap ns (name @ ''-config'') apply_params cm)) \<and>
      (\<exists>cluster auth yaml.
         (\<forall>s. I s \<longrightarrow> outcome_of W (resolve_kafka_cluster (kb_strimzi_cluster_ref spec) ns
            (map_option au_type (kb_authentication spec))) s = Done (Inr cluster)) \<and>
         (\<forall>s. I s \<longrightarrow> outcome_of W (resolve_auth (kb_authentication spec) ns) s = Done (Inr auth)) \<and>
         build_backup_config_yaml ext backup cluster auth = Inr yaml))"

lemma backup_job_starts:
  assumes "kb_schedule (kbr_spec backup) = None"
    and "\<And>s. I s \<Longrightarrow> fst (w_kube W (KListJobs ns (backup_jobs_selector (name_any (kbr_metadata backup)))) s)
           = Inr (AJobs [])"
    and "I s"
  shows "jobs_created W (job_step ext backup ns g cluster auth account) s = 1"
  using assms
  by (simp add: job_step_def Let_def jobs_created_ebind jobs_created_pbind list_backup_jobs_def
      outcome_kube_io classify_NoJobs [THEN iffD2] jobs_created_create jobs_created_none
      only_kube_io only_now no_create_parts exec_calls split: outcome.split sum.split)

lemma backup_progress:
  assumes "om_namespace (kbr_metadata backup) = Some ns" "in_service (kbr_metadata backup)"
    and "kb_schedule (kbr_spec backup) = None" "stable W I" "backup_ready W I ext backup ns" "I s"
  shows "jobs_created W (reconcile_backup ext backup) s = 1"
proof -
  let ?name = "name_any (kbr_metadata backup)"
  obtain cluster auth yaml where a:
    "\<And>s. I s \<Longrightarrow> outcome_of W (resolve_kafka_cluster (kb_strimzi_cluster_ref (kbr_spec backup)) ns
       (map_option au_type (kb_authentication (kbr_spec backup)))) s = Done (Inr cluster)"
    "\<And>s. I s \<Longrightarrow> outcome_of W (resolve_auth (kb_authentication (kbr_spec backup)) ns) s = Done (Inr auth)"
    "build_backup_config_yaml ext backup cluster auth = Inr yaml"
    and cm: "\<And>cm. accepts W I (KApplyConfigMap ns (?name @ ''-config'') apply_params cm)"
    and l: "\<And>s. I s \<Longrightarrow> fst (w_kube W (KListJobs ns (backup_jobs_selector ?name)) s) = Inr (AJobs [])"
    and f: "accepts W I (KPatchBackup ns ?name apply_params (SetFinalizers [FINALIZER]))"
    using assms(5) unfolding backup_ready_def Let_def by blast
  have cmap: "outcome_of W (backup_create_or_update_config_map ns (?name @ ''-config'') yaml backup) s = Done (Inr ())" if "I s" for s
    by (simp add: backup_create_or_update_config_map_def outcome_kube_io_unit [where I = I] that cm)
  have fin: "outcome_of W (backup_add_finalizer ns ?name) s = Done (Inr ())" if "I s" for s
    by (simp add: backup_add_finalizer_def outcome_kube_io_unit [where I = I] that f)
  obtain y where ca: "outcome_of W (resolve_cluster_ca (kcl_name cluster)
      (sc_ca_secret (kb_strimzi_cluster_ref (kbr_spec backup))) ns) s' = Done (y s')" for s'
    using ca_done by metis
  have acc: "outcome_of W job_service_account_name s =
      Done (account_of (fst (w_env W JOB_SERVICE_ACCOUNT_ENV s)))" for s
    by (simp add: job_service_account_name_def pmap_def exec_pbind exec_ret exec_calls)
  have sched: "outcome_of W (schedule_step ext backup ns g cluster auth account) s = Done (Inr ())"
    for g account s
    using assms(3) by (simp add: schedule_step_def exec_ret)
  have active: "jobs_created W (reconcile_backup_active ext backup ns) s = 1" if "I s" for s
    unfolding reconcile_backup_active_def Let_def using that
    by (simp add: stable_state [OF assms(4)] jobs_created_ebind jobs_created_pbind a ca cmap acc sched exec_ret
        backup_job_starts [OF assms(3) l] jobs_created_none no_create_parts
        split: outcome.split sum.split)
  show ?thesis
    using assms(2,6)
    by (simp add: reconcile_backup_cases [OF assms(1)] in_service_def stable_state [OF assms(4)] active jobs_created_ebind fin
        jobs_created_none no_create_parts)
qed

section \<open>The in-memory cluster is ready\<close>

lemma job_world_stable: "stable job_world (\<lambda>js. js = [])"
proof -
  have "snd (job_kube q []) = []" if "\<not> creates_job (EvKube q (Inr AUnit))" for q
    using that by (cases q) simp_all
  then show ?thesis by (simp add: stable_def job_world_def)
qed

lemma job_world_ready:
  "restore_ready job_world (\<lambda>js. js = []) sample_ext sample_restore ''ns''"
  "backup_ready job_world (\<lambda>js. js = []) sample_ext sample_backup ''ns''"
  unfolding restore_ready_def backup_ready_def Let_def accepts_def
  by (auto simp: job_world_sel sample_restore_sel sample_backup_sel exec_cluster exec_auth
      sample_restore_config sample_backup_config)

end
