(* ===== verification/Settling.thy ===== *)
theory Settling
  imports Progress "HOL-Library.While_Combinator"
begin

text \<open>
  Termination of the control loop of a restore: while its Jobs stay as they are, reconciling the
  resource again and again, each time on what the previous reconciliation stored, comes to a
  state in which a reconciliation writes nothing.
\<close>

section \<open>A server that stores the restore\<close>

text \<open>
  \<open>get\<close> reads the stored resource from the state of the world. Patches of it are accepted and
  merged; listings of its Jobs answer \<open>jobs\<close>; neither they nor the clock change it.
\<close>

definition serves_restore ::
  "'w World \<Rightarrow> ('w \<Rightarrow> KafkaRestore) \<Rightarrow> string \<Rightarrow> string \<Rightarrow> Job list \<Rightarrow> bool" where
  "serves_restore W get ns name jobs \<longleftrightarrow>
     (\<forall>s. get (snd (w_clock W s)) = get s) \<and>
     (\<forall>s. fst (w_kube W (KListJobs ns (restore_jobs_selector name)) s) = Inr (AJobs jobs) \<and>
          get (snd (w_kube W (KListJobs ns (restore_jobs_selector name)) s)) = get s) \<and>
     (\<forall>s fs. (\<exists>a. fst (w_kube W (KPatchRestore ns name apply_params (SetFinalizers fs)) s) = Inr a) \<and>
          get (snd (w_kube W (KPatchRestore ns name apply_params (SetFinalizers fs)) s)) =
            (get s)\<lparr>krr_metadata := (krr_metadata (get s))\<lparr>om_finalizers := Some fs\<rparr>\<rparr>) \<and>
     (\<forall>s p. (\<exists>a. fst (w_kube W (KPatchRestoreStatus ns name apply_params p) s) = Inr a) \<and>
          get (snd (w_kube W (KPatchRestoreStatus ns name apply_params p) s)) =
            (get s)\<lparr>krr_status := Some (merge_restore_status p
              (unwrap_or (krr_status (get s)) default_restore_status))\<rparr>)"

lemma servesD:
  assumes "serves_restore W get ns name jobs"
  shows "get (snd (w_clock W s)) = get s"
    and "fst (w_kube W (KListJobs ns (restore_jobs_selector name)) s) = Inr (AJobs jobs)"
    and "get (snd (w_kube W (KListJobs ns (restore_jobs_selector name)) s)) = get s"
    and "\<exists>a. fst (w_kube W (KPatchRestore ns name apply_params (SetFinalizers fs)) s) = Inr a"
    and "get (snd (w_kube W (KPatchRestore ns name apply_params (SetFinalizers fs)) s)) =
      (get s)\<lparr>krr_metadata := (krr_metadata (get s))\<lparr>om_finalizers := Some fs\<rparr>\<rparr>"
    and "\<exists>a. fst (w_kube W (KPatchRestoreStatus ns name apply_params p) s) = Inr a"
    and "get (snd (w_kube W (KPatchRestoreStatus ns name apply_params p) s)) =
      (get s)\<lparr>krr_status := Some (merge_restore_status p
        (unwrap_or (krr_status (get s)) default_restore_status))\<rparr>"
  using assms by (simp_all add: serves_restore_def)

section \<open>What a settled restore shows\<close>

definition restore_complete :: "KafkaRestoreStatus option \<Rightarrow> bool" where
  "restore_complete status =
     is_some_and status (\<lambda>st. is_condition_true (rs_conditions st) CONDITION_TYPE_RESTORE_COMPLETE)"

definition restore_reported :: "KafkaRestoreStatus option \<Rightarrow> Job list \<Rightarrow> bool" where
  "restore_reported status jobs \<longleftrightarrow>
     restore_complete status \<or>
     (case classify_jobs jobs of
        JFailed jname \<Rightarrow> has_condition_reason status CONDITION_TYPE_ERROR REASON_RESTORE_FAILED
      | InProgress \<Rightarrow> has_condition_reason status CONDITION_TYPE_READY REASON_RESTORE_RUNNING
      | _ \<Rightarrow> False)"

lemma restore_done_status: "restore_done r = restore_complete (krr_status r)"
  by (simp add: restore_done_def restore_complete_def)

definition writes_in :: "'w World \<Rightarrow> 'a prog \<Rightarrow> 'w \<Rightarrow> event list" where
  "writes_in W p s = writes_of (trace_of W p s)"

lemma writes_in_pbind:
  "writes_in W (pbind m f) s = writes_in W m s @
     (case outcome_of W m s of Done x \<Rightarrow> writes_in W (f x) (state_of W m s) | Panicked e \<Rightarrow> [])"
  by (simp add: writes_in_def writes_of_def trace_pbind split: outcome.split)

lemma writes_in_ebind:
  "writes_in W (ebind m f) s = writes_in W m s @
     (case outcome_of W m s of Done (Inr x) \<Rightarrow> writes_in W (f x) (state_of W m s) | _ \<Rightarrow> [])"
  by (auto simp: ebind_def writes_in_pbind split: outcome.split sum.split)
     (simp_all add: writes_in_def writes_of_def trace_of_def)

lemma writes_in_reads: "only (\<lambda>e. \<not> is_write e) p \<Longrightarrow> writes_in W p s = []"
  by (simp add: writes_in_def writes_of_def only_filter)

lemma writes_in_io:
  "writes_in W (kube_io q dec) s = (if kube_write q then [EvKube q (fst (w_kube W q s))] else [])"
  by (simp add: writes_in_def writes_of_def trace_kube_io)

lemma state_kube_io: "state_of W (kube_io q dec) s = snd (w_kube W q s)"
  by (simp add: kube_io_def map_err_def pmap_def exec_pbind exec_calls exec_ret)

lemma now_effect:
  "state_of W now s = snd (w_clock W s)" "outcome_of W now s = Done (fst (w_clock W s))"
  "writes_in W now s = []"
  by (simp_all add: exec_calls writes_in_reads only_now)

lemma patch_effect:
  assumes "serves_restore W get ns name jobs"
  shows "writes_in W (restore_patch_status ns name st) s \<noteq> []"
    and "outcome_of W (restore_patch_status ns name st) s = Done (Inr ())"
    and "get (state_of W (restore_patch_status ns name st) s) =
      (get s)\<lparr>krr_status := Some (merge_restore_status (restore_status_patch st)
        (unwrap_or (krr_status (get s)) default_restore_status))\<rparr>"
proof -
  obtain a where "fst (w_kube W (KPatchRestoreStatus ns name apply_params (restore_status_patch st)) s) = Inr a"
    using servesD(6) [OF assms] by blast
  then show "outcome_of W (restore_patch_status ns name st) s = Done (Inr ())"
    by (simp add: restore_patch_status_def outcome_kube_io)
qed (simp_all add: restore_patch_status_def writes_in_io state_kube_io servesD(7) [OF assms])

section \<open>One report\<close>

lemmas report_effects =
  exec_pbind exec_ebind exec_ret exec_calls writes_in_pbind pmap_def now_effect condition_io_defs

lemma merged_conditions:
  "rs_conditions st \<noteq> [] \<Longrightarrow>
   rs_conditions (merge_restore_status (restore_status_patch st) old) = rs_conditions st"
  by (rule merge_restore_conditions)

lemma report_settles:
  assumes "serves_restore W get ns name jobs" "name_any (krr_metadata r) = name"
    and "jobs \<noteq> []" "\<not> restore_reported (krr_status r) jobs"
  shows "writes_in W (report_existing r ns g jobs (classify_jobs jobs)) s \<noteq> []"
    and "\<exists>st. get (state_of W (report_existing r ns g jobs (classify_jobs jobs)) s) =
           (get s)\<lparr>krr_status := st\<rparr> \<and> restore_reported st jobs"
proof -
  note serve = patch_effect [OF assms(1)] servesD(1) [OF assms(1)]
  note defs = report_existing_def Let_def assms(2)
    restore_update_status_completed_def restore_update_status_failed_def restore_update_status_running_def
  have jobs: "classify_jobs jobs \<noteq> NoJobs" using assms(3) by (simp add: classify_NoJobs)
  show "writes_in W (report_existing r ns g jobs (classify_jobs jobs)) s \<noteq> []"
    using assms(4) jobs
    by (cases "classify_jobs jobs")
       (simp_all add: defs restore_reported_def report_effects serve)
  show "\<exists>st. get (state_of W (report_existing r ns g jobs (classify_jobs jobs)) s) =
      (get s)\<lparr>krr_status := st\<rparr> \<and> restore_reported st jobs"
  proof (cases "classify_jobs jobs")
    case (Succeeded j)
    show ?thesis
      unfolding Succeeded
      by (simp add: defs report_effects serve, rule exI, rule conjI, rule refl)
         (simp add: restore_reported_def restore_complete_def is_condition_true_def
          merged_conditions ready_def new_condition_def condition_consts find_condition_def)
  next
    case (JFailed j)
    with assms(4) have new: "\<not> has_condition_reason (krr_status r) CONDITION_TYPE_ERROR REASON_RESTORE_FAILED"
      by (simp add: restore_reported_def)
    show ?thesis
      unfolding JFailed
      by (simp add: defs report_effects serve new, intro exI conjI, rule refl)
         (simp add: restore_reported_def JFailed has_condition_reason_def merged_conditions
          error_conditions_def not_ready_def new_condition_def condition_consts find_condition_def)
  next
    case InProgress
    with assms(4) have new: "\<not> has_condition_reason (krr_status r) CONDITION_TYPE_READY REASON_RESTORE_RUNNING"
      by (simp add: restore_reported_def)
    show ?thesis
      unfolding InProgress
      by (simp add: defs report_effects serve new, intro exI conjI, rule refl)
         (simp add: restore_reported_def InProgress has_condition_reason_def merged_conditions
          not_ready_def new_condition_def condition_consts find_condition_def)
  qed (use jobs in simp)
qed

lemma report_quiet:
  assumes "restore_reported (krr_status r) jobs" "\<not> restore_done r"
  shows "report_existing r ns g jobs (classify_jobs jobs) = ok ()"
  using assms
  by (cases "classify_jobs jobs")
     (simp_all add: report_existing_def Let_def restore_reported_def restore_done_status)

section \<open>One reconciliation\<close>

definition restore_round :: "'w World \<Rightarrow> Ext \<Rightarrow> ('w \<Rightarrow> KafkaRestore) \<Rightarrow> 'w \<Rightarrow> 'w" where
  "restore_round W ext get s = state_of W (reconcile_restore ext (get s)) s"

definition round_writes :: "'w World \<Rightarrow> Ext \<Rightarrow> ('w \<Rightarrow> KafkaRestore) \<Rightarrow> 'w \<Rightarrow> bool" where
  "round_writes W ext get s \<longleftrightarrow> writes_in W (reconcile_restore ext (get s)) s \<noteq> []"

definition settled :: "KafkaRestore \<Rightarrow> Job list \<Rightarrow> bool" where
  "settled r jobs \<longleftrightarrow> has_finalizer (krr_metadata r) \<and> restore_reported (krr_status r) jobs"

text \<open>A stored resource the reconciler works on, under a fixed name.\<close>

definition working :: "KafkaRestore \<Rightarrow> string \<Rightarrow> string \<Rightarrow> bool" where
  "working r ns name \<longleftrightarrow>
     om_namespace (krr_metadata r) = Some ns \<and> name_any (krr_metadata r) = name \<and>
     in_service (krr_metadata r)"

lemma working_finalizers:
  "working r ns name \<Longrightarrow>
   working (r\<lparr>krr_metadata := (krr_metadata r)\<lparr>om_finalizers := fs\<rparr>\<rparr>) ns name"
  by (simp add: working_def in_service_def name_any_def is_reconciliation_paused_def annotations_of_def)

lemma working_status: "working r ns name \<Longrightarrow> working (r\<lparr>krr_status := st\<rparr>) ns name"
  by (simp add: working_def)

lemma list_effect:
  assumes "serves_restore W get ns name jobs"
  shows "writes_in W (list_restore_jobs ns name) s = []"
    and "outcome_of W (list_restore_jobs ns name) s = Done (Inr jobs)"
    and "get (state_of W (list_restore_jobs ns name) s) = get s"
  by (simp_all add: list_restore_jobs_def writes_in_io state_kube_io outcome_kube_io
      servesD [OF assms])

lemma active_report:
  "jobs \<noteq> [] \<Longrightarrow> (case classify_jobs jobs of NoJobs \<Rightarrow> p | state \<Rightarrow> report_existing r ns g jobs state) =
     report_existing r ns g jobs (classify_jobs jobs)"
  by (cases "classify_jobs jobs") (simp_all add: classify_NoJobs)

lemma active_effect:
  assumes "serves_restore W get ns name jobs" "jobs \<noteq> []" "name_any (krr_metadata r) = name"
    and "krr_status r = krr_status (get s)"
  shows "writes_in W (reconcile_restore_active ext r ns) s \<noteq> [] \<longleftrightarrow>
      \<not> restore_reported (krr_status r) jobs"
    and "\<exists>st. get (state_of W (reconcile_restore_active ext r ns) s) = (get s)\<lparr>krr_status := st\<rparr> \<and>
      restore_reported st jobs"
proof -
  let ?s = "state_of W (list_restore_jobs ns name) s"
  let ?g = "generation_of (krr_metadata r)"
  note l = list_effect [OF assms(1)]
  note self = KafkaRestore.surjective [of "get s"]
  have active: "reconcile_restore_active ext r ns =
      (if restore_done r then ok ()
       else ebind (list_restore_jobs ns name) (\<lambda>jobs. case classify_jobs jobs of
              NoJobs \<Rightarrow> start_restore ext r ns ?g
            | state \<Rightarrow> report_existing r ns ?g jobs state))"
    by (simp add: reconcile_restore_active_def Let_def assms(3))
  have listed: "writes_in W (reconcile_restore_active ext r ns) s =
        writes_in W (report_existing r ns ?g jobs (classify_jobs jobs)) ?s"
      "state_of W (reconcile_restore_active ext r ns) s =
        state_of W (report_existing r ns ?g jobs (classify_jobs jobs)) ?s" if "\<not> restore_done r"
    using that by (simp_all add: active writes_in_ebind exec_ebind l active_report [OF assms(2)])
  consider (fin) "restore_done r" | (quiet) "restore_reported (krr_status r) jobs" "\<not> restore_done r"
    | (news) "\<not> restore_reported (krr_status r) jobs" "\<not> restore_done r"
    by (auto simp: restore_reported_def restore_done_status)
  then have "(writes_in W (reconcile_restore_active ext r ns) s \<noteq> [] \<longleftrightarrow>
      \<not> restore_reported (krr_status r) jobs) \<and>
    (\<exists>st. get (state_of W (reconcile_restore_active ext r ns) s) = (get s)\<lparr>krr_status := st\<rparr> \<and>
      restore_reported st jobs)"
  proof cases
    case fin
    then have rep: "restore_reported (krr_status r) jobs"
      by (simp add: restore_reported_def restore_done_status)
    with fin show ?thesis
      using assms(4)
      by (simp add: active writes_in_reads exec_ret) (rule exI [of _ "krr_status (get s)"], simp)
  next
    case quiet
    with listed show ?thesis
      using assms(4)
      by (simp add: report_quiet writes_in_reads exec_ret l) (rule exI [of _ "krr_status (get s)"], simp)
  next
    case news
    have "\<exists>st. get (state_of W (report_existing r ns ?g jobs (classify_jobs jobs)) ?s) =
        (get s)\<lparr>krr_status := st\<rparr> \<and> restore_reported st jobs"
      using report_settles(2) [OF assms(1,3,2) news(1), where g = ?g and s = ?s] by (simp only: l(3))
    then show ?thesis
      using news report_settles(1) [OF assms(1,3,2) news(1)] listed by simp
  qed
  then show "writes_in W (reconcile_restore_active ext r ns) s \<noteq> [] \<longleftrightarrow>
      \<not> restore_reported (krr_status r) jobs"
    and "\<exists>st. get (state_of W (reconcile_restore_active ext r ns) s) = (get s)\<lparr>krr_status := st\<rparr> \<and>
      restore_reported st jobs" by blast+
qed

lemma round_effect:
  assumes "serves_restore W get ns name jobs" "jobs \<noteq> []" "working (get s) ns name"
  shows "round_writes W ext get s \<longleftrightarrow> \<not> settled (get s) jobs"
    and "settled (get (restore_round W ext get s)) jobs"
    and "working (get (restore_round W ext get s)) ns name"
proof -
  have w: "om_namespace (krr_metadata (get s)) = Some ns" "name_any (krr_metadata (get s)) = name"
    "om_deletion_timestamp (krr_metadata (get s)) = None" "\<not> is_reconciliation_paused (krr_metadata (get s))"
    using assms(3) by (auto simp: working_def in_service_def)
  note cases = reconcile_restore_cases [OF w(1), of ext]
  have "(round_writes W ext get s \<longleftrightarrow> \<not> settled (get s) jobs) \<and>
      settled (get (restore_round W ext get s)) jobs \<and> working (get (restore_round W ext get s)) ns name"
  proof (cases "has_finalizer (krr_metadata (get s))")
    case True
    with w have eq: "reconcile_restore ext (get s) = reconcile_restore_active ext (get s) ns"
      by (simp add: cases)
    obtain st where "get (restore_round W ext get s) = (get s)\<lparr>krr_status := st\<rparr>"
      "restore_reported st jobs"
      using active_effect(2) [OF assms(1,2) w(2) refl] by (auto simp: restore_round_def eq)
    then show ?thesis
      using True active_effect(1) [OF assms(1,2) w(2) refl] assms(3)
      by (simp add: round_writes_def eq settled_def working_status)
  next
    case False
    let ?q = "KPatchRestore ns name apply_params (SetFinalizers [FINALIZER])"
    let ?s = "snd (w_kube W ?q s)"
    have eq: "reconcile_restore ext (get s) =
        ebind (kube_io ?q as_unit) (\<lambda>_. reconcile_restore_active ext (get s) ns)"
      using False w by (simp add: cases restore_add_finalizer_def)
    have gs: "get ?s = (get s)\<lparr>krr_metadata := (krr_metadata (get s))\<lparr>om_finalizers := Some [FINALIZER]\<rparr>\<rparr>"
      by (rule servesD(5) [OF assms(1)])
    then have st: "krr_status (get s) = krr_status (get ?s)" by simp
    obtain a where a: "fst (w_kube W ?q s) = Inr a" using servesD(4) [OF assms(1)] by blast
    have "round_writes W ext get s"
      by (simp add: round_writes_def eq writes_in_ebind writes_in_io)
    moreover have "restore_round W ext get s = state_of W (reconcile_restore_active ext (get s) ns) ?s"
      by (simp add: restore_round_def eq exec_ebind outcome_kube_io [OF a] state_kube_io)
    moreover obtain st where "get (state_of W (reconcile_restore_active ext (get s) ns) ?s) =
        (get ?s)\<lparr>krr_status := st\<rparr>" "restore_reported st jobs"
      using active_effect(2) [OF assms(1,2) w(2) st] by blast
    ultimately show ?thesis
      using False working_status [OF working_finalizers [OF assms(3), of "Some [FINALIZER]"], of st]
      by (simp add: gs settled_def has_finalizer_def)
  qed
  then show "round_writes W ext get s \<longleftrightarrow> \<not> settled (get s) jobs"
    and "settled (get (restore_round W ext get s)) jobs"
    and "working (get (restore_round W ext get s)) ns name" by blast+
qed

section \<open>The loop\<close>

lemma loop_settles:
  assumes "serves_restore W get ns name jobs" "jobs \<noteq> []" "working (get s) ns name"
  shows "\<exists>s'. while_option (round_writes W ext get) (restore_round W ext get) s = Some s' \<and>
    s' \<in> {s, restore_round W ext get s} \<and> settled (get s') jobs"
proof -
  note here = round_effect [OF assms, of ext]
  have "\<not> round_writes W ext get (restore_round W ext get s)"
    using round_effect(1) [OF assms(1,2) here(3)] here(2) by simp
  then show ?thesis
    using here(1,2) by (simp add: while_option_unfold)
qed

text \<open>C13.
  The control loop of a restore in service terminates: with Jobs that stay as they are, reconciling
  again and again ends after at most one reconciliation that writes, in a state where the resource
  has the finalizer and reports its Jobs, and where a further reconciliation writes nothing.
\<close>

theorem restore_settles:
  assumes "serves_restore W get ns name jobs" "jobs \<noteq> []" "working (get s) ns name"
  shows "\<exists>s'. while_option (round_writes W ext get) (restore_round W ext get) s = Some s' \<and>
    s' \<in> {s, restore_round W ext get s} \<and> settled (get s') jobs"
  by (rule loop_settles [OF assms])

text \<open>A world that is one stored restore.\<close>

fun store_kube :: "Job list \<Rightarrow> KubeReq \<Rightarrow> KafkaRestore \<Rightarrow> (KubeError + KubeAnswer) \<times> KafkaRestore" where
  "store_kube jobs (KListJobs ns sel) r = (Inr (AJobs jobs), r)"
| "store_kube jobs (KPatchRestore ns n pp (SetFinalizers fs)) r =
     (Inr AUnit, r\<lparr>krr_metadata := (krr_metadata r)\<lparr>om_finalizers := Some fs\<rparr>\<rparr>)"
| "store_kube jobs (KPatchRestoreStatus ns n pp p) r =
     (Inr AUnit, r\<lparr>krr_status := Some (merge_restore_status p
        (unwrap_or (krr_status r) default_restore_status))\<rparr>)"
| "store_kube jobs q r = (Inr AUnit, r)"

definition store_world :: "Job list \<Rightarrow> KafkaRestore World" where
  "store_world jobs =
     \<lparr>w_clock = (\<lambda>r. (0, r)), w_env = (\<lambda>n r. (None, r)), w_kube = store_kube jobs,
      w_store = (\<lambda>q r. (Inl (SNotFound ''none''), r))\<rparr>"

lemma store_world_serves: "serves_restore (store_world jobs) id ns name jobs"
  by (simp add: serves_restore_def store_world_def)

theorem restore_settles_witness:
  "\<exists>r. while_option (round_writes (store_world [created_restore_job]) sample_ext id)
      (restore_round (store_world [created_restore_job]) sample_ext id) sample_restore = Some r \<and>
     settled r [created_restore_job]"
proof -
  have "working (id sample_restore) ''ns'' ''rs''"
    by (simp add: working_def in_service_def sample_restore_sel sample_meta_sel)
  from restore_settles [OF store_world_serves _ this, of "[created_restore_job]" sample_ext]
  obtain r where "while_option (round_writes (store_world [created_restore_job]) sample_ext id)
      (restore_round (store_world [created_restore_job]) sample_ext id) sample_restore = Some r"
    "settled (id r) [created_restore_job]" by blast
  then show ?thesis unfolding id_apply by blast
qed

end
