(* ===== verification/Write_Order.thy ===== *)
theory Write_Order
  imports Restore_Protocol
begin

text \<open>
  The abstract specification of a reconciliation: a protocol, that is a regular expression over
  the kinds of writes, chosen by the resource alone. The reconcilers refine it: whatever the
  cluster and the store answer, the writes of an execution form a word of the protocol.
\<close>

section \<open>Protocols\<close>

datatype Write =
    AddFinalizer | RemoveFinalizer | RemoveTrigger | WriteStatus | ApplyConfigMap | ApplyCronJob
  | CreateJob | DeleteJob | DeleteCronJob | DeleteConfigMap | DeleteObject | OtherWrite

datatype proto =
    Skip
  | Do Write
  | Opt proto
  | Seq proto proto
  | Or proto proto
  | Many Write

definition conc :: "'a list set \<Rightarrow> 'a list set \<Rightarrow> 'a list set" where
  "conc A B = {xs @ ys | xs ys. xs \<in> A \<and> ys \<in> B}"

primrec lang :: "proto \<Rightarrow> Write list set" where
  "lang Skip = {[]}"
| "lang (Do w) = {[w]}"
| "lang (Opt p) = insert [] (lang p)"
| "lang (Seq p q) = conc (lang p) (lang q)"
| "lang (Or p q) = lang p \<union> lang q"
| "lang (Many w) = {ws. \<forall>v \<in> set ws. v = w}"

text \<open>The most writes of a kind a word can have, when the kind is not repeated.\<close>

primrec most :: "(Write \<Rightarrow> bool) \<Rightarrow> proto \<Rightarrow> nat" where
  "most P Skip = 0"
| "most P (Do w) = (if P w then 1 else 0)"
| "most P (Opt p) = most P p"
| "most P (Seq p q) = most P p + most P q"
| "most P (Or p q) = max (most P p) (most P q)"
| "most P (Many w) = 0"

primrec repeats :: "(Write \<Rightarrow> bool) \<Rightarrow> proto \<Rightarrow> bool" where
  "repeats P Skip = False"
| "repeats P (Do w) = False"
| "repeats P (Opt p) = repeats P p"
| "repeats P (Seq p q) = (repeats P p \<or> repeats P q)"
| "repeats P (Or p q) = (repeats P p \<or> repeats P q)"
| "repeats P (Many w) = P w"

lemma concI: "xs \<in> A \<Longrightarrow> ys \<in> B \<Longrightarrow> xs @ ys \<in> conc A B"
  by (auto simp: conc_def)

lemma conc_ConsI: "ws \<in> conc {vs. w # vs \<in> A} B \<Longrightarrow> w # ws \<in> conc A B"
  unfolding conc_def by clarsimp (metis append_Cons)

lemma conc_leftI: "xs \<in> A \<Longrightarrow> [] \<in> B \<Longrightarrow> xs \<in> conc A B"
  using concI [of xs A "[]" B] by simp

lemma conc_rightI: "[] \<in> A \<Longrightarrow> ys \<in> B \<Longrightarrow> ys \<in> conc A B"
  using concI [of "[]" A ys B] by simp

lemma conc_mono: "A \<subseteq> A' \<Longrightarrow> B \<subseteq> B' \<Longrightarrow> conc A B \<subseteq> conc A' B'"
  by (auto simp: conc_def)

lemma Nil_conc [simp]: "[] \<in> conc A B \<longleftrightarrow> [] \<in> A \<and> [] \<in> B"
  by (auto simp: conc_def)

lemma lang_most:
  "ws \<in> lang p \<Longrightarrow> \<not> repeats P p \<Longrightarrow> length (filter P ws) \<le> most P p"
  by (induction p arbitrary: ws) (fastforce simp: conc_def filter_empty_conv intro: add_mono)+

section \<open>The writes of a program\<close>

fun write_kind :: "event \<Rightarrow> Write option" where
  "write_kind (EvKube (KPatchBackup ns n pp (SetFinalizers fs)) r) = Some AddFinalizer"
| "write_kind (EvKube (KPatchBackup ns n pp NullFinalizers) r) = Some RemoveFinalizer"
| "write_kind (EvKube (KPatchBackup ns n pp (NullAnnotation a)) r) = Some RemoveTrigger"
| "write_kind (EvKube (KPatchRestore ns n pp (SetFinalizers fs)) r) = Some AddFinalizer"
| "write_kind (EvKube (KPatchRestore ns n pp NullFinalizers) r) = Some RemoveFinalizer"
| "write_kind (EvKube (KPatchBackupStatus ns n pp p) r) = Some WriteStatus"
| "write_kind (EvKube (KPatchRestoreStatus ns n pp p') r) = Some WriteStatus"
| "write_kind (EvKube (KApplyConfigMap ns n pp cm) r) = Some ApplyConfigMap"
| "write_kind (EvKube (KApplyCronJob ns n pp cj) r) = Some ApplyCronJob"
| "write_kind (EvKube (KCreateJob ns job) r) = Some CreateJob"
| "write_kind (EvKube (KDeleteJob ns n dp) r) = Some DeleteJob"
| "write_kind (EvKube (KDeleteCronJob ns n dp) r) = Some DeleteCronJob"
| "write_kind (EvKube (KDeleteConfigMap ns n dp) r) = Some DeleteConfigMap"
| "write_kind (EvStore (SDelete h path) x) = Some DeleteObject"
| "write_kind e = (if is_write e then Some OtherWrite else None)"

definition write_kinds :: "event list \<Rightarrow> Write list" where
  "write_kinds tr = List.map_filter write_kind tr"

lemma write_kind_None: "write_kind e = None \<longleftrightarrow> \<not> is_write e"
  by (cases e rule: write_kind.cases) simp_all

lemma write_kinds_length: "length (write_kinds tr) = length (writes_of tr)"
  by (induction tr) (auto simp: write_kinds_def writes_of_def map_filter_def write_kind_None
      split: option.splits)

text \<open>The words that remain after an event.\<close>

definition after :: "event \<Rightarrow> Write list set \<Rightarrow> Write list set" where
  "after e L = (case write_kind e of None \<Rightarrow> L | Some w \<Rightarrow> {ws. w # ws \<in> L})"

text \<open>\<open>emits L p\<close>: the writes of every execution of \<open>p\<close> form a word of \<open>L\<close>.\<close>

primrec emits :: "'a prog \<Rightarrow> Write list set \<Rightarrow> bool" where
  "emits (Ret x) = (\<lambda>L. [] \<in> L)"
| "emits (Panic m) = (\<lambda>L. [] \<in> L)"
| "emits (Clock k) = (\<lambda>L. \<forall>t. emits (k t) (after (EvClock t) L))"
| "emits (GetEnv n k) = (\<lambda>L. \<forall>v. emits (k v) (after (EvEnv n v) L))"
| "emits (Kube q k) = (\<lambda>L. \<forall>r. emits (k r) (after (EvKube q r) L))"
| "emits (Store q k) = (\<lambda>L. \<forall>r. emits (k r) (after (EvStore q r) L))"

lemma after_Cons: "ws \<in> after e L \<Longrightarrow> write_kinds [e] @ ws \<in> L"
  by (simp add: after_def write_kinds_def map_filter_simps split: option.splits)

lemma write_kinds_Cons: "write_kinds (e # tr) = write_kinds [e] @ write_kinds tr"
  by (simp add: write_kinds_def map_filter_simps split: option.split)

lemma emits_run: "emits p L \<Longrightarrow> write_kinds (trace_of W p s) \<in> L"
proof (induction p arbitrary: L s)
  case (Clock k)
  then show ?case by (simp add: trace_cons) (metis UNIV_I after_Cons range_eqI write_kinds_Cons)
next
  case (GetEnv n k)
  then show ?case by (simp add: trace_cons) (metis UNIV_I after_Cons range_eqI write_kinds_Cons)
next
  case (Kube q k)
  then show ?case by (simp add: trace_cons) (metis UNIV_I after_Cons range_eqI write_kinds_Cons)
next
  case (Store q k)
  then show ?case by (simp add: trace_cons) (metis UNIV_I after_Cons range_eqI write_kinds_Cons)
qed (simp_all add: trace_of_def write_kinds_def map_filter_simps)

lemma after_mono: "L \<subseteq> L' \<Longrightarrow> after e L \<subseteq> after e L'"
  by (auto simp: after_def split: option.split)

lemma emits_mono: "emits p L \<Longrightarrow> L \<subseteq> L' \<Longrightarrow> emits p L'"
proof (induction p arbitrary: L L')
  case (Clock k)
  then show ?case by (simp) (meson after_mono rangeI)
next
  case (GetEnv n k)
  then show ?case by (simp) (meson after_mono rangeI)
next
  case (Kube q k)
  then show ?case by (simp) (meson after_mono rangeI)
next
  case (Store q k)
  then show ?case by (simp) (meson after_mono rangeI)
qed auto

lemma after_conc: "conc (after e A) B \<subseteq> after e (conc A B)"
  by (auto simp: after_def intro: conc_ConsI split: option.split)

lemma emits_pbind:
  assumes "\<And>x. emits (f x) B" "[] \<in> B"
  shows "emits m A \<Longrightarrow> emits (pbind m f) (conc A B)"
proof (induction m arbitrary: A)
  case (Ret x)
  then have "B \<subseteq> conc A B" by (auto intro: conc_rightI)
  then show ?case using assms(1) [THEN emits_mono] by simp
next
  case (Panic e)
  then show ?case using assms(2) by simp
qed (auto intro: emits_mono [OF _ after_conc])

text \<open>When the first part cannot panic, the second always runs.\<close>

lemma emits_pbind_total:
  assumes "\<And>x. emits (f x) B"
  shows "emits m A \<Longrightarrow> ends (\<lambda>out. \<exists>y. out = Done y) m \<Longrightarrow> emits (pbind m f) (conc A B)"
proof (induction m arbitrary: A)
  case (Ret x)
  then have "B \<subseteq> conc A B" by (auto intro: conc_rightI)
  then show ?case using assms(1) [THEN emits_mono] by simp
qed (auto intro: emits_mono [OF _ after_conc])

lemma emits_ebind:
  assumes "emits m A" "\<And>x. emits (f x) B" "[] \<in> B"
  shows "emits (ebind m f) (conc A B)"
  unfolding ebind_def using assms by (intro emits_pbind) (auto split: sum.split)

lemma emits_reads: "only (\<lambda>e. \<not> is_write e) p \<Longrightarrow> [] \<in> L \<Longrightarrow> emits p L"
  by (induction p arbitrary: L) (auto simp: after_def write_kind_None [THEN iffD2])

lemma emits_pbind_Ret: "emits m L \<Longrightarrow> emits (pbind m (\<lambda>x. Ret (g x))) L"
  by (induction m arbitrary: L) auto

lemma emits_map_err: "emits m L \<Longrightarrow> emits (map_err f m) L"
  by (simp add: map_err_def pmap_def emits_pbind_Ret)

lemma emits_kube_call:
  "(\<And>r. write_kind (EvKube q r) = Some w) \<Longrightarrow> emits (kube_call q dec) (lang (Do w))"
  by (simp add: kube_call_def after_def)

lemma emits_kube_io:
  "(\<And>r. write_kind (EvKube q r) = Some w) \<Longrightarrow> emits (kube_io q dec) (lang (Do w))"
  unfolding kube_io_def by (intro emits_map_err emits_kube_call)

lemma emits_status_writer:
  assumes "only (\<lambda>e. \<not> workload_write e) p" "once status_write p"
  shows "emits p (lang (Opt (Do WriteStatus)))"
  using assms
proof (induction p)
  case (Kube q k)
  show ?case
    unfolding emits.simps
  proof
    fix r
    show "emits (k r) (after (EvKube q r) (lang (Opt (Do WriteStatus))))"
    proof (cases "status_write (EvKube q r)")
      case True
      then have "write_kind (EvKube q r) = Some WriteStatus"
        by (cases "EvKube q r" rule: status_write.cases) auto
      moreover have "only (\<lambda>e. \<not> is_write e) (k r)"
      proof -
        have "only (\<lambda>e. \<not> workload_write e \<and> \<not> status_write e) (k r)"
          using Kube.prems True by (auto simp: only_conj)
        then show ?thesis by (rule only_mono) (auto simp: workload_write_def)
      qed
      ultimately show ?thesis by (simp add: after_def emits_reads)
    next
      case False
      then have "\<not> is_write (EvKube q r)" using Kube.prems by (auto simp: workload_write_def)
      then have "after (EvKube q r) L = L" for L by (simp add: after_def write_kind_None [THEN iffD2])
      moreover have "emits (k r) (lang (Opt (Do WriteStatus)))"
        using Kube.prems False by (intro Kube.IH) auto
      ultimately show ?thesis by simp
    qed
  qed
next
  case (Store q k)
  have "\<not> is_write (EvStore q r)" for r using Store.prems by (auto simp: workload_write_def)
  then have "after (EvStore q r) L = L" for r L by (simp add: after_def write_kind_None [THEN iffD2])
  with Store show ?case by auto
qed (auto simp: after_def)

text \<open>A program that writes one kind only, any number of times.\<close>

lemma emits_many: "only (\<lambda>e. write_kind e \<in> {None, Some w}) p \<Longrightarrow> emits p (lang (Many w))"
proof -
  have step: "write_kind e \<in> {None, Some w} \<Longrightarrow> lang (Many w) \<subseteq> after e (lang (Many w))" for e
    by (auto simp: after_def)
  show "only (\<lambda>e. write_kind e \<in> {None, Some w}) p \<Longrightarrow> emits p (lang (Many w))"
  proof (induction p)
    case (Clock k)
    then have "emits (k t) (lang (Many w))" for t by auto
    then show ?case by (simp add: after_def)
  next
    case (GetEnv n k)
    then have "emits (k v) (lang (Many w))" for v by auto
    then show ?case by (simp add: after_def)
  next
    case (Kube q k)
    then have "emits (k r) (lang (Many w))" "write_kind (EvKube q r) \<in> {None, Some w}" for r by auto
    then have "emits (k r) (after (EvKube q r) (lang (Many w)))" for r by (rule emits_mono [OF _ step])
    then show ?case by simp
  next
    case (Store q k)
    then have "emits (k r) (lang (Many w))" "write_kind (EvStore q r) \<in> {None, Some w}" for r by auto
    then have "emits (k r) (after (EvStore q r) (lang (Many w)))" for r by (rule emits_mono [OF _ step])
    then show ?case by simp
  qed simp_all
qed

text \<open>From here on a language is its protocol: only the empty word is looked at.\<close>

lemma lang_Nil [simp]:
  "[] \<in> lang Skip" "[] \<notin> lang (Do w)" "[] \<in> lang (Opt p)"
  "[] \<in> lang (Seq p q) \<longleftrightarrow> [] \<in> lang p \<and> [] \<in> lang q"
  "[] \<in> lang (Or p q) \<longleftrightarrow> [] \<in> lang p \<or> [] \<in> lang q" "[] \<in> lang (Many w)"
  by simp_all

lemma lang_Skip_Seq: "lang (Seq p Skip) = lang p" "lang (Seq Skip p) = lang p"
  by (simp_all add: conc_def)

declare lang.simps [simp del]

lemma emits_Opt: "emits p (lang a) \<Longrightarrow> emits p (lang (Opt a))"
  by (rule emits_mono) (auto simp: lang.simps)

lemma emits_Or:
  "emits p (lang (Opt a)) \<Longrightarrow> emits p (lang (Opt (Or a b)))"
  "emits p (lang (Opt b)) \<Longrightarrow> emits p (lang (Opt (Or a b)))"
  by (erule emits_mono, auto simp: lang.simps)+

lemma emits_seq:
  "emits m (lang a) \<Longrightarrow> (\<And>x. emits (f x) (lang b)) \<Longrightarrow> [] \<in> lang b \<Longrightarrow>
   emits (ebind m f) (lang (Seq a b))"
  by (simp add: emits_ebind lang.simps)

text \<open>A part that reads, and may end the program, adds nothing to the protocol of the rest.\<close>

lemma emits_read_ebind:
  assumes "only (\<lambda>e. \<not> is_write e) m" "\<And>x. emits (f x) L" "[] \<in> L"
  shows "emits (ebind m f) L"
  using emits_ebind [OF emits_reads [OF assms(1), of "{[]}"] assms(2,3)] by (simp add: conc_def)

lemma emits_read_pbind:
  assumes "only (\<lambda>e. \<not> is_write e) m" "\<And>x. emits (f x) L" "[] \<in> L"
  shows "emits (pbind m f) L"
  using emits_pbind [OF assms(2,3) emits_reads [OF assms(1), of "{[]}"]] by (simp add: conc_def)

lemma read_Ret: "only (\<lambda>e. \<not> is_write e) (Ret x)"
  by simp

lemma read_now: "only (\<lambda>e. \<not> is_write e) now"
  by (simp add: now_def)

lemma ends_for_ignore:
  assumes "\<And>x. ends (\<lambda>out. \<exists>y. out = Done y) (f x)"
  shows "ends (\<lambda>out. \<exists>y. out = Done y) (for_ignore xs f)"
proof (induction xs)
  case (Cons x xs)
  then show ?case
    unfolding for_ignore.simps ends_pbind by (intro ends_mono [OF assms]) auto
qed simp

section \<open>The protocols\<close>

text \<open>
  A deleted backup: its Jobs, its CronJob and its ConfigMap are deleted before the finalizer goes.
  A paused one: at most a status. Else the finalizer, if it is missing; then either the report of
  an unresolvable cluster, or the ConfigMap, the CronJob of a schedule with its report, the Job
  of an unscheduled or triggered backup with its report, the removal of the trigger, the report
  of an outcome, and, when retention is due, deletions in the store followed by the new history.
  A refused request ends the reconciliation early.
\<close>

definition schedule_protocol :: "KafkaBackup \<Rightarrow> proto" where
  "schedule_protocol backup =
     (if kb_schedule (kbr_spec backup) = None then Skip
      else Opt (Seq (Do ApplyCronJob) (Opt (Do WriteStatus))))"

definition job_protocol :: "KafkaBackup \<Rightarrow> proto" where
  "job_protocol backup =
     (if kb_schedule (kbr_spec backup) = None \<or> triggered_now backup
      then Seq (Opt (Seq (Do CreateJob) (Opt (Do WriteStatus))))
        (if triggered_now backup then Opt (Do RemoveTrigger) else Skip)
      else Skip)"

definition retention_protocol :: "KafkaBackup \<Rightarrow> proto" where
  "retention_protocol backup =
     (if is_some_and (kb_retention (kbr_spec backup)) (retention_due backup)
      then Seq (Many DeleteObject) (Opt (Do WriteStatus))
      else Skip)"

definition active_protocol :: "KafkaBackup \<Rightarrow> proto" where
  "active_protocol backup =
     Opt (Or (Do WriteStatus)
       (Seq (Do ApplyConfigMap) (Seq (schedule_protocol backup) (Seq (job_protocol backup)
         (Seq (Opt (Do WriteStatus)) (retention_protocol backup))))))"

definition backup_protocol :: "KafkaBackup \<Rightarrow> proto" where
  "backup_protocol backup =
     (let meta = kbr_metadata backup in
      if om_namespace meta = None then Skip
      else if om_deletion_timestamp meta \<noteq> None
      then Seq (Many DeleteJob) (Seq (Do DeleteCronJob) (Seq (Do DeleteConfigMap) (Do RemoveFinalizer)))
      else if is_reconciliation_paused meta then Opt (Do WriteStatus)
      else Seq (if has_finalizer meta then Skip else Do AddFinalizer) (active_protocol backup))"

text \<open>
  A restore that is done writes nothing; else it reports on its Job or on its unresolvable
  cluster, or starts: ConfigMap, Job, report.
\<close>

definition restore_protocol :: "KafkaRestore \<Rightarrow> proto" where
  "restore_protocol restore =
     (let meta = krr_metadata restore in
      if om_namespace meta = None then Skip
      else if om_deletion_timestamp meta \<noteq> None
      then Seq (Many DeleteJob) (Seq (Do DeleteConfigMap) (Do RemoveFinalizer))
      else if is_reconciliation_paused meta then Opt (Do WriteStatus)
      else Seq (if has_finalizer meta then Skip else Do AddFinalizer)
        (if restore_done restore then Skip
         else Opt (Or (Do WriteStatus)
           (Seq (Do ApplyConfigMap) (Opt (Seq (Do CreateJob) (Opt (Do WriteStatus))))))))"

section \<open>The backup reconciler refines its protocol\<close>

lemma emits_backup_status:
  "emits (backup_update_status_running ns n g) (lang (Opt (Do WriteStatus)))"
  "emits (backup_update_status_reconciliation_paused ns b) (lang (Opt (Do WriteStatus)))"
  "emits (update_status_scheduled ns n g c) (lang (Opt (Do WriteStatus)))"
  "emits (update_status_suspended ns n g) (lang (Opt (Do WriteStatus)))"
  "emits (backup_update_status_error ns n g err) (lang (Opt (Do WriteStatus)))"
  "emits (patch_backup_history ns n h) (lang (Opt (Do WriteStatus)))"
  "emits (check_job_completion b ns g) (lang (Opt (Do WriteStatus)))"
  using emits_status_writer [OF bk_running.quiet bk_running.single, of "(ns, n, g)"]
    emits_status_writer [OF bk_paused.quiet bk_paused.single, of "(ns, b)"]
    emits_status_writer [OF bk_scheduled.quiet bk_scheduled.single, of "(ns, n, g, c)"]
    emits_status_writer [OF bk_suspended.quiet bk_suspended.single, of "(ns, n, g)"]
    emits_status_writer [OF bk_error.quiet bk_error.single, of "(ns, n, g, err)"]
    emits_status_writer [OF bk_history.quiet bk_history.single, of "(ns, n, h)"]
    emits_status_writer [OF bk_outcome.quiet bk_outcome.single, of "(b, ns, g)"]
  by (simp_all only: prod.case)

lemma emits_error_report:
  "emits (ebind (backup_update_status_error ns n g e) (\<lambda>_. throw e)) (lang (Opt (Do WriteStatus)))"
  using emits_seq [OF emits_backup_status(5), of "\<lambda>_. throw e" Skip] by (simp add: lang_Skip_Seq)

lemma emits_schedule:
  "emits (schedule_step ext b ns g cluster auth account) (lang (schedule_protocol b))"
proof (cases "kb_schedule (kbr_spec b)")
  case None
  then show ?thesis by (simp add: schedule_step_def schedule_protocol_def)
next
  case (Some sd)
  have build: "only (\<lambda>e. \<not> is_write e) (lift_checked c)" for c :: "CronJob checked"
    by (cases c) simp_all
  have report: "emits (if sd_suspend sd then update_status_suspended ns m g
      else update_status_scheduled ns m g (sd_cron sd)) (lang (Opt (Do WriteStatus)))" for m
    by (simp add: emits_backup_status)
  have step: "emits (ebind (apply_cronjob ns n cj) (\<lambda>_. if sd_suspend sd then update_status_suspended ns m g
      else update_status_scheduled ns m g (sd_cron sd)))
    (lang (Opt (Seq (Do ApplyCronJob) (Opt (Do WriteStatus)))))" for n m cj
    unfolding apply_cronjob_def
    by (rule emits_Opt, rule emits_seq, rule emits_kube_io, simp, rule report, simp)
  show ?thesis
    unfolding schedule_step_def schedule_protocol_def Some option.case Let_def if_not_P [OF option.distinct(2)]
    by (intro emits_read_ebind build step) simp
qed

lemma emits_job_step: "emits (job_step ext b ns g cluster auth account) (lang (job_protocol b))"
proof -
  have create: "emits (pbind now (\<lambda>t. ebind (create_job ns (job t)) (\<lambda>_. backup_update_status_running ns n g)))
      (lang (Opt (Seq (Do CreateJob) (Opt (Do WriteStatus)))))" for job n
    unfolding create_job_def
    by (rule emits_read_pbind, rule read_now, rule emits_Opt, rule emits_seq, rule emits_map_err,
        rule emits_kube_call, simp, rule emits_backup_status) simp_all
  have gate: "emits (if c then pbind now (\<lambda>t. ebind (create_job ns (job t)) (\<lambda>_. backup_update_status_running ns n g))
      else ok ()) (lang (Opt (Seq (Do CreateJob) (Opt (Do WriteStatus)))))" for c job n
    using create by simp
  have trigger: "emits (if tr then remove_trigger_annotation ns n else ok ())
      (lang (if tr then Opt (Do RemoveTrigger) else Skip))" for tr n
    by (auto simp: remove_trigger_annotation_def intro!: emits_Opt emits_kube_io)
  show ?thesis
  proof (cases "kb_schedule (kbr_spec b) = None \<or> triggered_now b")
    case True
    show ?thesis
      unfolding job_step_def job_protocol_def Let_def if_P [OF True]
      by (rule emits_read_ebind, rule read_list_backup_jobs, rule emits_seq, rule gate, rule trigger)
         simp_all
  qed (auto simp: job_step_def job_protocol_def Let_def)
qed


lemma emits_prune: "emits (prune_backup_ids ext ns st ids) (lang (Many DeleteObject))"
proof (rule emits_many, rule only_mono [OF only_prune_backup_ids])
  fix e
  assume "prune_event ext (normalize_optional_prefix (storage_prefix st)) ids e"
  then show "write_kind e \<in> {None, Some DeleteObject}"
    by (cases e rule: write_kind.cases) simp_all
qed

lemma emits_retention: "emits (apply_retention_policy ext b ns) (lang (retention_protocol b))"
proof (cases "kb_retention (kbr_spec b)")
  case None
  then show ?thesis by (simp add: apply_retention_policy_def retention_protocol_def)
next
  case (Some r)
  have history: "emits (patch_backup_history ns n h) (lang (Seq (Many DeleteObject) (Opt (Do WriteStatus))))" for n h
    by (rule emits_mono [OF emits_backup_status(6)]) (auto simp: lang.simps intro: conc_rightI)
  show ?thesis
  proof (cases "retention_due b r")
    case False
    then show ?thesis using Some by (simp add: apply_retention_policy_def retention_protocol_def)
  next
    case True
    have due: "retention_protocol b = Seq (Many DeleteObject) (Opt (Do WriteStatus))"
      using Some True by (simp add: retention_protocol_def)
    have prune: "emits (if to = [] then patch_backup_history ns n h
        else ebind (prune_backup_ids ext ns st to) (\<lambda>pruned. patch_backup_history ns n (h' pruned)))
      (lang (Seq (Many DeleteObject) (Opt (Do WriteStatus))))" for to n h st h'
      using history emits_seq [OF emits_prune emits_backup_status(6)] by simp
    show ?thesis
      unfolding apply_retention_policy_def Some option.case if_not_P [OF not_not [THEN iffD2, OF True]]
        Let_def due
      by (intro emits_read_ebind read_parts prune) simp_all
  qed
qed

lemma emits_active: "emits (reconcile_backup_active ext b ns) (lang (active_protocol b))"
proof -
  have cm: "emits (backup_create_or_update_config_map ns n y b) (lang (Do ApplyConfigMap))" for n y
    unfolding backup_create_or_update_config_map_def by (rule emits_kube_io) simp
  have schedule_Nil: "[] \<in> lang (schedule_protocol b)" "[] \<in> lang (job_protocol b)"
    "[] \<in> lang (retention_protocol b)"
    by (simp_all add: schedule_protocol_def job_protocol_def retention_protocol_def)
  show ?thesis
    unfolding reconcile_backup_active_def active_protocol_def Let_def
    apply (rule emits_read_pbind, rule read_parts)
     apply (rule sum.split [THEN iffD2], intro conjI allI impI)
      apply (rule emits_Or(1), rule emits_error_report)
     apply (rule emits_Or(2))
     apply (rule emits_read_pbind, rule read_parts)
      apply (rule emits_read_ebind, rule read_parts)
       apply (rule emits_read_ebind, rule read_Ret)
        apply (rule emits_Opt, rule emits_seq, rule cm)
         apply (rule emits_read_pbind, rule read_parts)
          apply (rule emits_seq, rule emits_schedule)
           apply (rule emits_seq, rule emits_job_step)
            apply (rule emits_seq, rule emits_backup_status, rule emits_retention)
            apply (simp_all add: schedule_Nil)
    done
qed

lemma emits_cleanup:
  "emits (backup_handle_cleanup b ns)
     (lang (Seq (Many DeleteJob) (Seq (Do DeleteCronJob) (Seq (Do DeleteConfigMap) (Do RemoveFinalizer)))))"
  "emits (restore_handle_cleanup r ns) (lang (Seq (Many DeleteJob) (Seq (Do DeleteConfigMap) (Do RemoveFinalizer))))"
proof -
  have jobs: "emits (pbind (kube_call (KListJobs ns sel) as_jobs) (\<lambda>x.
      pbind (case x of Inr js \<Rightarrow> for_ignore js (delete_job ns) | Inl e \<Rightarrow> Ret ()) f))
    (lang (Seq (Many DeleteJob) p))" if "\<And>u. emits (f u) (lang p)" for sel f p
  proof -
    have loop: "only (\<lambda>e. write_kind e \<in> {None, Some DeleteJob})
        (case x of Inr js \<Rightarrow> for_ignore js (delete_job ns) | Inl e \<Rightarrow> Ret ())" for x :: "KubeError + Job list"
      by (auto simp: delete_job_def intro!: only_intro split: sum.split)
    have total: "ends (\<lambda>out. \<exists>y. out = Done y)
        (case x of Inr js \<Rightarrow> for_ignore js (delete_job ns) | Inl e \<Rightarrow> Ret ())" for x :: "KubeError + Job list"
      using ends_for_ignore [of "delete_job ns", OF delete_job_done] by (cases x) simp_all
    have "emits (pbind (case x of Inr js \<Rightarrow> for_ignore js (delete_job ns) | Inl e \<Rightarrow> Ret ()) f)
        (lang (Seq (Many DeleteJob) p))" for x :: "KubeError + Job list"
      using emits_pbind_total [OF that emits_many [OF loop] total] by (simp add: lang.simps(4))
    then show ?thesis by (simp add: kube_call_def after_def)
  qed
  have call: "emits (pbind (kube_call q as_unit) f) (lang (Seq (Do w) p))"
    if "\<And>u. emits (f u) (lang p)" "\<And>r. write_kind (EvKube q r) = Some w" for q w f p
    using that by (simp add: kube_call_def after_def lang.simps conc_def)
  have fin: "emits (backup_remove_finalizer ns n) (lang (Do RemoveFinalizer))"
    "emits (restore_remove_finalizer ns n) (lang (Do RemoveFinalizer))" for n
    by (auto simp: backup_remove_finalizer_def restore_remove_finalizer_def intro!: emits_kube_io)
  show "emits (backup_handle_cleanup b ns)
     (lang (Seq (Many DeleteJob) (Seq (Do DeleteCronJob) (Seq (Do DeleteConfigMap) (Do RemoveFinalizer)))))"
    unfolding backup_handle_cleanup_def Let_def by (intro jobs call fin) simp_all
  show "emits (restore_handle_cleanup r ns) (lang (Seq (Many DeleteJob) (Seq (Do DeleteConfigMap) (Do RemoveFinalizer))))"
    unfolding restore_handle_cleanup_def Let_def restore_delete_job_eq by (intro jobs call fin) simp_all
qed

lemma emits_reconcile_backup: "emits (reconcile_backup ext b) (lang (backup_protocol b))"
proof (cases "om_namespace (kbr_metadata b)")
  case None
  then show ?thesis by (simp add: reconcile_backup_def backup_protocol_def)
next
  case (Some ns)
  have fin: "emits (if has_finalizer m then ok () else backup_add_finalizer ns n)
      (lang (if has_finalizer m then Skip else Do AddFinalizer))" for m n
    by (auto simp: backup_add_finalizer_def intro!: emits_kube_io)
  have act: "[] \<in> lang (active_protocol b)" by (simp add: active_protocol_def)
  have main: "emits (ebind (if has_finalizer m then ok () else backup_add_finalizer ns n)
      (\<lambda>_. reconcile_backup_active ext b ns))
    (lang (Seq (if has_finalizer m then Skip else Do AddFinalizer) (active_protocol b)))" for m n
    by (rule emits_seq [OF fin emits_active act])
  have eq: "backup_protocol b =
    (if om_deletion_timestamp (kbr_metadata b) \<noteq> None
     then Seq (Many DeleteJob) (Seq (Do DeleteCronJob) (Seq (Do DeleteConfigMap) (Do RemoveFinalizer)))
     else if is_reconciliation_paused (kbr_metadata b) then Opt (Do WriteStatus)
     else Seq (if has_finalizer (kbr_metadata b) then Skip else Do AddFinalizer) (active_protocol b))"
    using Some by (simp add: backup_protocol_def Let_def)
  show ?thesis
    unfolding eq reconcile_backup_def Let_def Some ok_or.simps ebind_ok
    using main emits_cleanup(1) emits_backup_status(2)
    by presburger
qed

section \<open>The restore reconciler refines its protocol\<close>

lemma emits_restore_status:
  "emits (restore_update_status_running ns n g) (lang (Opt (Do WriteStatus)))"
  "emits (restore_update_status_reconciliation_paused ns r) (lang (Opt (Do WriteStatus)))"
  "emits (restore_update_status_completed ns n g i) (lang (Opt (Do WriteStatus)))"
  "emits (restore_update_status_failed ns n g j) (lang (Opt (Do WriteStatus)))"
  "emits (restore_update_status_error ns n g err) (lang (Opt (Do WriteStatus)))"
  using emits_status_writer [OF rs_running.quiet rs_running.single, of "(ns, n, g)"]
    emits_status_writer [OF rs_paused.quiet rs_paused.single, of "(ns, r)"]
    emits_status_writer [OF rs_completed.quiet rs_completed.single, of "(ns, n, g, i)"]
    emits_status_writer [OF rs_failed.quiet rs_failed.single, of "(ns, n, g, j)"]
    emits_status_writer [OF rs_error.quiet rs_error.single, of "(ns, n, g, err)"]
  by (simp_all only: prod.case)

lemma emits_restore_error:
  "emits (ebind (restore_update_status_error ns n g e) (\<lambda>_. throw e)) (lang (Opt (Do WriteStatus)))"
  using emits_seq [OF emits_restore_status(5), of "\<lambda>_. throw e" Skip] by (simp add: lang_Skip_Seq)

lemma read_source: "only (\<lambda>e. \<not> is_write e) (get_source_backup ns n)"
  by (auto simp: get_source_backup_def intro!: only_intro)

definition start_protocol :: proto where
  "start_protocol = Opt (Or (Do WriteStatus)
     (Seq (Do ApplyConfigMap) (Opt (Seq (Do CreateJob) (Opt (Do WriteStatus))))))"

lemma emits_start: "emits (start_restore ext r ns g) (lang start_protocol)"
proof -
  have cm: "emits (restore_create_or_update_config_map ns n y r) (lang (Do ApplyConfigMap))" for n y
    unfolding restore_create_or_update_config_map_def by (rule emits_kube_io) simp
  have create: "emits (create_job ns job) (lang (Do CreateJob))" for job
    unfolding create_job_def by (rule emits_map_err, rule emits_kube_call) simp
  show ?thesis
    unfolding start_restore_def start_protocol_def Let_def
    apply (rule emits_read_ebind, rule read_source)
     apply (rule emits_read_pbind, rule read_parts)
      apply (rule sum.split [THEN iffD2], intro conjI allI impI)
       apply (rule emits_Or(1), rule emits_restore_error)
      apply (rule emits_Or(2))
      apply (rule emits_read_pbind, rule read_parts)
       apply (rule emits_read_ebind, rule read_parts)
        apply (rule emits_read_ebind, rule read_Ret)
         apply (rule emits_Opt, rule emits_seq, rule cm)
          apply (rule emits_read_pbind, rule read_now)
           apply (rule emits_read_pbind, rule read_parts)
            apply (rule emits_Opt, rule emits_seq, rule create, rule emits_restore_status)
            apply simp_all
    done
qed

lemma emits_report: "emits (report_existing r ns g jobs st) (lang (Opt (Do WriteStatus)))"
  by (cases st) (auto simp: report_existing_def Let_def emits_restore_status
      intro!: emits_read_pbind read_now)

lemma emits_restore_active:
  "emits (reconcile_restore_active ext r ns) (lang (if restore_done r then Skip else start_protocol))"
proof -
  have report: "emits (report_existing r ns g jobs st) (lang start_protocol)" for g jobs st
    unfolding start_protocol_def by (rule emits_Or(1), rule emits_report)
  have "emits (ebind (list_restore_jobs ns n) (\<lambda>jobs. case classify_jobs jobs of
      NoJobs \<Rightarrow> start_restore ext r ns g | state \<Rightarrow> report_existing r ns g jobs state))
    (lang start_protocol)" for n g
    unfolding active_step
    by (intro emits_read_ebind read_list_restore_jobs)
       (simp_all add: emits_start report, simp add: start_protocol_def)
  then show ?thesis by (simp add: reconcile_restore_active_def Let_def)
qed

lemma emits_reconcile_restore: "emits (reconcile_restore ext r) (lang (restore_protocol r))"
proof (cases "om_namespace (krr_metadata r)")
  case None
  then show ?thesis by (simp add: reconcile_restore_def restore_protocol_def)
next
  case (Some ns)
  have fin: "emits (if has_finalizer m then ok () else restore_add_finalizer ns n)
      (lang (if has_finalizer m then Skip else Do AddFinalizer))" for m n
    by (auto simp: restore_add_finalizer_def intro!: emits_kube_io)
  have act: "[] \<in> lang (if restore_done r then Skip else start_protocol)"
    by (simp add: start_protocol_def)
  have eq: "restore_protocol r =
    (if om_deletion_timestamp (krr_metadata r) \<noteq> None
     then Seq (Many DeleteJob) (Seq (Do DeleteConfigMap) (Do RemoveFinalizer))
     else if is_reconciliation_paused (krr_metadata r) then Opt (Do WriteStatus)
     else Seq (if has_finalizer (krr_metadata r) then Skip else Do AddFinalizer)
       (if restore_done r then Skip else start_protocol))"
    using Some by (simp add: restore_protocol_def start_protocol_def Let_def)
  have main: "emits (ebind (if has_finalizer m then ok () else restore_add_finalizer ns n)
      (\<lambda>_. reconcile_restore_active ext r ns))
    (lang (Seq (if has_finalizer m then Skip else Do AddFinalizer)
      (if restore_done r then Skip else start_protocol)))" for m n
    by (rule emits_seq [OF fin emits_restore_active act])
  show ?thesis
    unfolding eq reconcile_restore_def Let_def Some ok_or.simps ebind_ok
    using main emits_cleanup(2) emits_restore_status(2)
    by presburger
qed

end
