(* ===== verification/Interleaving.thy ===== *)
theory Interleaving
  imports One_Shot Samples
begin

text \<open>
  Reconciliations interleaved with the rest of the cluster, request by request. Between two
  requests of a reconciliation anything may happen that does not create a Job for its resource,
  reconciliations of other resources included, and a reconciliation may stop at any request, as
  it does when the process is killed or its future is dropped; the next one starts afresh. The
  runtime never reconciles one resource twice at a time. The invariant of theory \<open>One_Shot\<close>
  is proved again for these finer runs, of which the uninterrupted ones are a special case.
\<close>

section \<open>One request at a time\<close>

fun request_step :: "'w World \<Rightarrow> 'a prog \<Rightarrow> 'w \<Rightarrow> ('a prog \<times> 'w) option" where
  "request_step W (Ret v) s = None"
| "request_step W (Panic m) s = None"
| "request_step W (Clock k) s = Some (k (fst (w_clock W s)), snd (w_clock W s))"
| "request_step W (GetEnv n k) s = Some (k (fst (w_env W n s)), snd (w_env W n s))"
| "request_step W (Kube q g) s = Some (g (fst (w_kube W q s)), snd (w_kube W q s))"
| "request_step W (Store x h) s = Some (h (fst (w_store W x s)), snd (w_store W x s))"

lemma request_step_state: "request_step W p s = Some (p', s') \<Longrightarrow> state_of W p' s' = state_of W p s"
  by (cases p) (auto simp: state_cons)

lemma request_step_end: "request_step W p s = None \<Longrightarrow> state_of W p s = s"
  by (cases p) (simp_all add: state_cons)

text \<open>What of a reconciliation has run, if one is running, and the state of the world.\<close>

type_synonym 'w config = "unit io option \<times> 'w"

inductive il_step ::
  "'w World \<Rightarrow> ('r \<Rightarrow> unit io) \<Rightarrow> ('r \<Rightarrow> bool) \<Rightarrow> ('w \<Rightarrow> nat) \<Rightarrow> 'w config \<Rightarrow> 'w config \<Rightarrow> bool"
  for W reconcile current created
where
  Start: "current r \<Longrightarrow> il_step W reconcile current created (None, s) (Some (reconcile r), s)"
| Request: "request_step W p s = Some (p', s') \<Longrightarrow>
    il_step W reconcile current created (Some p, s) (Some p', s')"
| Stop: "il_step W reconcile current created (Some p, s) (None, s)"
| Outside: "created s' = created s \<Longrightarrow> il_step W reconcile current created (c, s) (c, s')"

inductive_cases il_stepE: "il_step W reconcile current created (c, s) (c', s')"

abbreviation il_run ::
  "'w World \<Rightarrow> ('r \<Rightarrow> unit io) \<Rightarrow> ('r \<Rightarrow> bool) \<Rightarrow> ('w \<Rightarrow> nat) \<Rightarrow> 'w config \<Rightarrow> 'w config \<Rightarrow> bool" where
  "il_run W reconcile current created \<equiv> (il_step W reconcile current created)\<^sup>*\<^sup>*"

section \<open>Uninterrupted runs\<close>

lemma il_request:
  "request_step W p s = Some (p', s') \<Longrightarrow> \<exists>p''. il_run W reconcile current created (Some p', s') (Some p'', t) \<Longrightarrow>
   \<exists>p''. il_run W reconcile current created (Some p, s) (Some p'', t)"
  by (blast intro: converse_rtranclp_into_rtranclp il_step.Request)

lemma il_run_program: "\<exists>p'. il_run W reconcile current created (Some p, s) (Some p', state_of W p s)"
proof (induction p arbitrary: s)
  case (Clock k)
  show ?case unfolding state_cons by (rule il_request [OF request_step.simps(3) Clock [OF rangeI]])
next
  case (GetEnv n k)
  show ?case unfolding state_cons by (rule il_request [OF request_step.simps(4) GetEnv [OF rangeI]])
next
  case (Kube q g)
  show ?case unfolding state_cons by (rule il_request [OF request_step.simps(5) Kube [OF rangeI]])
next
  case (Store x h)
  show ?case unfolding state_cons by (rule il_request [OF request_step.simps(6) Store [OF rangeI]])
qed (auto simp: state_cons)

lemma il_run_reconcile:
  assumes "current r"
  shows "il_run W reconcile current created (None, s) (None, state_of W (reconcile r) s)"
proof -
  obtain p' where "il_run W reconcile current created (Some (reconcile r), s)
      (Some p', state_of W (reconcile r) s)"
    using il_run_program [of W reconcile current created "reconcile r" s] by blast
  moreover have "il_step W reconcile current created (None, s) (Some (reconcile r), s)"
    using assms by (rule il_step.Start)
  ultimately show ?thesis
    by (meson converse_rtranclp_into_rtranclp rtranclp.rtrancl_into_rtrancl il_step.Stop)
qed

lemma ctl_run_interleaves:
  "ctl_run W reconcile current created s s' \<Longrightarrow> il_run W reconcile current created (None, s) (None, s')"
proof (induction rule: rtranclp_induct)
  case (step y z)
  from step.hyps(2) have "il_run W reconcile current created (None, y) (None, z)"
    by (cases rule: ctl_step.cases) (auto intro: il_run_reconcile il_step.Outside)
  with step.IH show ?case by simp
qed simp

section \<open>The invariant\<close>

context one_shot_controller
begin

definition one_job_inv :: "('w \<Rightarrow> nat) \<Rightarrow> 'w config \<Rightarrow> bool" where
  "one_job_inv created cs \<longleftrightarrow> created (snd cs) \<le> 1 \<and>
     (\<forall>p. fst cs = Some p \<longrightarrow>
        (if created (snd cs) = 0 then once creates_job p
         else guarded (listing ns sel (\<lambda>js. js = [])) creates_job p))"

lemma inv_start: "current r \<Longrightarrow> one_job_inv created (None, s) \<Longrightarrow> one_job_inv created (Some (reconcile r), s)"
  using single gated by (simp add: one_job_inv_def)

lemma inv_request:
  assumes W: "truthful W ns sel created"
    and inv: "one_job_inv created (Some p, s)" and step: "request_step W p s = Some (p', s')"
  shows "one_job_inv created (Some p', s')"
  using inv step
proof (cases p)
  case (Kube q g)
  let ?r = "fst (w_kube W q s)"
  have p': "p' = g ?r" "s' = snd (w_kube W q s)" using step Kube by auto
  show ?thesis
  proof (cases "created s = 0")
    case True
    with inv Kube have o: "if creates_job (EvKube q ?r) then only (\<lambda>e. \<not> creates_job e) p' else once creates_job p'"
      by (auto simp: one_job_inv_def p')
    show ?thesis
    proof (cases "creates_job (EvKube q ?r)")
      case True
      with o truthfulD(5) [OF W, of q s] \<open>created s = 0\<close> show ?thesis
        by (simp add: one_job_inv_def p'(2) only_once only_guarded)
    next
      case False
      with o truthfulD(4) [OF W False] \<open>created s = 0\<close> show ?thesis
        by (simp add: one_job_inv_def p'(2))
    qed
  next
    case False
    then have "\<not> listing ns sel (\<lambda>js. js = []) (EvKube q ?r)"
      using truthfulD(6) [OF W, of s] by (cases q; cases ?r) (auto elim!: listing.elims)
    with inv Kube False have "\<not> creates_job (EvKube q ?r)"
      "guarded (listing ns sel (\<lambda>js. js = [])) creates_job p'"
      by (auto simp: one_job_inv_def p')
    with inv False truthfulD(4) [OF W, of q ?r s] show ?thesis
      by (simp add: one_job_inv_def p'(2))
  qed
qed (auto simp: one_job_inv_def truthfulD [OF W] split: if_splits)

lemma inv_step:
  assumes "truthful W ns sel created"
  shows "il_step W reconcile current created cs cs' \<Longrightarrow> one_job_inv created cs \<Longrightarrow> one_job_inv created cs'"
proof (induction rule: il_step.induct)
  case (Request p s p' s')
  then show ?case using inv_request [OF assms] by blast
next
  case (Start r s)
  then show ?case by (rule inv_start)
qed (auto simp: one_job_inv_def)

lemma interleaved_at_most_one:
  assumes "truthful W ns sel created"
    and "il_run W reconcile current created (None, s) (c, s')" "created s = 0"
  shows "created s' \<le> 1"
proof -
  have "one_job_inv created (None, s)" using assms(3) by (simp add: one_job_inv_def)
  with assms(2) have "one_job_inv created (c, s')"
    by (induction rule: rtranclp_induct) (blast intro: inv_step [OF assms(1)])+
  then show ?thesis by (simp add: one_job_inv_def)
qed

end

section \<open>A reconciliation that is cut off\<close>

text \<open>The state when a program has made its first \<open>n\<close> requests.\<close>

fun cut_off :: "'w World \<Rightarrow> nat \<Rightarrow> 'a prog \<Rightarrow> 'w \<Rightarrow> 'w" where
  "cut_off W 0 p s = s"
| "cut_off W (Suc n) p s =
     (case request_step W p s of None \<Rightarrow> s | Some (p', s') \<Rightarrow> cut_off W n p' s')"

lemma il_run_cut_off:
  "il_run W reconcile current created (Some p, s) (None, cut_off W n p s)"
proof (induction n arbitrary: p s)
  case 0
  show ?case by (auto intro: il_step.Stop)
next
  case (Suc n)
  show ?case
  proof (cases "request_step W p s")
    case None
    then show ?thesis by (auto intro: il_step.Stop)
  next
    case (Some ps)
    obtain p' s' where ps: "ps = (p', s')" by (cases ps)
    have "il_step W reconcile current created (Some p, s) (Some p', s')"
      using Some ps by (simp add: il_step.Request)
    with Suc.IH [of p' s'] Some ps show ?thesis
      by (simp add: converse_rtranclp_into_rtranclp)
  qed
qed

lemma il_run_cut_and_again:
  assumes "current r"
  shows "il_run W reconcile current created (None, s)
    (None, state_of W (reconcile r) (cut_off W n (reconcile r) s))"
proof -
  have "il_step W reconcile current created (None, s) (Some (reconcile r), s)"
    using assms by (rule il_step.Start)
  from converse_rtranclp_into_rtranclp [OF this il_run_cut_off [of W reconcile current created _ s n]]
    il_run_reconcile [where current = current, OF assms]
  show ?thesis by (meson rtranclp_trans)
qed

end
