(* ===== verification/Replicas.thy ===== *)
theory Replicas
  imports Interleaving Runs
begin

text \<open>
  Several replicas of the operator. The chart offers a number of replicas and an election of a
  leader, but \<open>src/src/main.rs\<close> elects none: every replica runs its controllers. Here each
  replica has a reconciliation of the same resource in progress, their requests interleave in any
  order, and replicas stop and start again. A one-shot resource then gets at most one Job for each
  replica, and that many it can get.
\<close>

section \<open>Reconciliations side by side\<close>

text \<open>What each replica has running, and the state of the world.\<close>

type_synonym 'w replicas = "unit io option list \<times> 'w"

inductive rep_step ::
  "'w World \<Rightarrow> ('r \<Rightarrow> unit io) \<Rightarrow> ('r \<Rightarrow> bool) \<Rightarrow> ('w \<Rightarrow> nat) \<Rightarrow> 'w replicas \<Rightarrow> 'w replicas \<Rightarrow> bool"
  for W reconcile current created
where
  Replica: "i < length cs \<Longrightarrow> il_step W reconcile current created (cs ! i, s) (c, s') \<Longrightarrow>
    rep_step W reconcile current created (cs, s) (cs[i := c], s')"

abbreviation rep_run ::
  "'w World \<Rightarrow> ('r \<Rightarrow> unit io) \<Rightarrow> ('r \<Rightarrow> bool) \<Rightarrow> ('w \<Rightarrow> nat) \<Rightarrow> 'w replicas \<Rightarrow> 'w replicas \<Rightarrow> bool" where
  "rep_run W reconcile current created \<equiv> (rep_step W reconcile current created)\<^sup>*\<^sup>*"

lemma rep_run_replica:
  assumes "i < length cs" "il_run W reconcile current created (cs ! i, s) (c, s')"
  shows "rep_run W reconcile current created (cs, s) (cs[i := c], s')"
  using assms(2)
proof (induction rule: rtranclp_induct2)
  case (step c1 s1 c s')
  have "rep_step W reconcile current created (cs[i := c1], s1) ((cs[i := c1])[i := c], s')"
    using step.hyps(2) assms(1) by (intro rep_step.Replica) simp_all
  with step.IH show ?case by (simp add: rtranclp.rtrancl_into_rtrancl)
qed simp

lemma rep_run_next:
  assumes "il_run W reconcile current created (c, s) (c', s')"
    and "rep_run W reconcile current created (ds @ c' # es, s') rs"
  shows "rep_run W reconcile current created (ds @ c # es, s) rs"
proof -
  have "rep_run W reconcile current created (ds @ c # es, s) (ds @ c' # es, s')"
    using rep_run_replica [of "length ds" "ds @ c # es" W reconcile current created s c' s'] assms(1)
    by simp
  then show ?thesis using assms(2) by (rule rtranclp_trans)
qed

section \<open>At most one Job for each replica\<close>

text \<open>
  A replica is pending when it may still create a Job although there is one: it looked before the
  first was created.
\<close>

context one_shot_controller
begin

definition admitted_only :: "unit io \<Rightarrow> bool" where
  "admitted_only p \<longleftrightarrow> guarded (listing ns sel (\<lambda>js. js = [])) creates_job p"

definition pending :: "unit io option \<Rightarrow> bool" where
  "pending c = (case c of None \<Rightarrow> False | Some p \<Rightarrow> \<not> admitted_only p)"

definition single_shot :: "unit io option \<Rightarrow> bool" where
  "single_shot c = (case c of None \<Rightarrow> True | Some p \<Rightarrow> once creates_job p)"

definition pending_count :: "unit io option list \<Rightarrow> nat" where
  "pending_count cs = length (filter pending cs)"

definition replicas_inv :: "('w \<Rightarrow> nat) \<Rightarrow> 'w replicas \<Rightarrow> bool" where
  "replicas_inv created rs \<longleftrightarrow>
     list_all single_shot (fst rs) \<and>
     (0 < created (snd rs) \<longrightarrow> created (snd rs) + pending_count (fst rs) \<le> length (fst rs))"

lemma pending_count_update:
  assumes "i < length cs"
  shows "pending_count (cs[i := c]) + of_bool (pending (cs ! i)) =
    pending_count cs + of_bool (pending c)"
proof -
  have cs: "cs = take i cs @ cs ! i # drop (Suc i) cs" using assms by (rule id_take_nth_drop)
  have "pending_count (cs[i := c]) = pending_count (take i cs @ c # drop (Suc i) cs)"
    using assms by (simp add: upd_conv_take_nth_drop)
  moreover have "pending_count cs = pending_count (take i cs @ cs ! i # drop (Suc i) cs)"
    using cs by simp
  ultimately show ?thesis by (simp add: pending_count_def)
qed

lemma pending_count_less:
  "i < length cs \<Longrightarrow> \<not> pending (cs ! i) \<Longrightarrow> pending_count cs < length cs"
  unfolding pending_count_def by (rule length_filter_less [OF nth_mem])

text \<open>
  One step of one replica: it creates a Job only by ending to be pending, and while there is a Job
  none becomes pending.
\<close>

definition replica_moves :: "nat \<Rightarrow> unit io option \<Rightarrow> nat \<Rightarrow> unit io option \<Rightarrow> bool" where
  "replica_moves n c n' c' \<longleftrightarrow> single_shot c' \<and>
     (n' = 0 \<or> 0 < n \<and> n' \<le> n \<and> (pending c' \<longrightarrow> pending c) \<or>
      n' = Suc n \<and> \<not> pending c' \<and> (0 < n \<longrightarrow> pending c))"

lemma request_moves:
  assumes W: "truthful W ns sel created"
    and ok: "single_shot (Some p)" and step: "request_step W p s = Some (p', s')"
  shows "replica_moves (created s) (Some p) (created s') (Some p')"
proof (cases p)
  case (Kube q g)
  let ?r = "fst (w_kube W q s)"
  have p': "p' = g ?r" "s' = snd (w_kube W q s)" using step Kube by auto
  show ?thesis
  proof (cases "creates_job (EvKube q ?r)")
    case True
    with ok Kube have "only (\<lambda>e. \<not> creates_job e) p'" by (simp add: single_shot_def p')
    then have "single_shot (Some p')" "\<not> pending (Some p')"
      by (simp_all add: only_once only_guarded pending_def admitted_only_def single_shot_def)
    moreover have "created s' \<le> Suc (created s)"
      using truthfulD(5) [OF W] by (simp add: p')
    moreover have "0 < created s \<Longrightarrow> pending (Some p)"
      using True truthfulD(6) [OF W, of s] Kube
      by (cases q) (auto simp: pending_def admitted_only_def elim!: listing.elims)
    ultimately show ?thesis by (auto simp: replica_moves_def)
  next
    case False
    have "created s' = created s" using truthfulD(4) [OF W False] by (simp add: p')
    moreover have "single_shot (Some p')" using ok False Kube by (simp add: single_shot_def p')
    moreover have "pending (Some p)" if "0 < created s" "pending (Some p')"
    proof -
      have "\<not> listing ns sel (\<lambda>js. js = []) (EvKube q ?r)"
        using truthfulD(6) [OF W, of s] that by (cases q; cases ?r) (auto elim!: listing.elims)
      with that Kube show ?thesis by (auto simp: pending_def admitted_only_def p')
    qed
    ultimately show ?thesis by (auto simp: replica_moves_def)
  qed
qed (use ok step in \<open>auto simp: replica_moves_def single_shot_def pending_def admitted_only_def
  truthfulD [OF W]\<close>)

lemma il_step_moves:
  assumes W: "truthful W ns sel created" and ok: "single_shot c"
    and step: "il_step W reconcile current created (c, s) (c', s')"
  shows "replica_moves (created s) c (created s') c'"
  using step
proof (cases rule: il_step.cases)
  case (Start r)
  then have "single_shot c'" "\<not> pending c'"
    using single [of r] gated [of r] by (simp_all add: single_shot_def pending_def admitted_only_def)
  then show ?thesis using Start by (auto simp: replica_moves_def)
next
  case (Request p p')
  then show ?thesis using request_moves [OF W] ok by blast
qed (use ok in \<open>auto simp: replica_moves_def single_shot_def pending_def\<close>)

lemma replicas_step:
  assumes W: "truthful W ns sel created"
    and inv: "replicas_inv created (cs, s)"
    and step: "rep_step W reconcile current created (cs, s) (cs', s')"
  shows "replicas_inv created (cs', s') \<and> length cs' = length cs"
  using step
proof (cases rule: rep_step.cases)
  case (Replica i c)
  have "single_shot (cs ! i)"
    using inv Replica by (simp add: replicas_inv_def list_all_length)
  from il_step_moves [OF W this Replica(3)]
  have m: "replica_moves (created s) (cs ! i) (created s') c" .
  moreover have "list_all single_shot cs'"
    using inv m Replica by (auto simp: replicas_inv_def replica_moves_def list_all_length nth_list_update)
  moreover have "\<not> pending c \<Longrightarrow> pending_count (cs[i := c]) < length cs"
    using pending_count_less [of i "cs[i := c]"] Replica by simp
  moreover note pending_count_update [of i cs c]
  ultimately show ?thesis
    using inv Replica by (auto simp: replicas_inv_def replica_moves_def of_bool_def split: if_splits)
qed

lemma replicas_bound:
  assumes W: "truthful W ns sel created"
    and run: "rep_run W reconcile current created (replicate k None, s) (cs, s')"
    and none: "created s = 0"
  shows "created s' \<le> k"
proof -
  have "replicas_inv created (replicate k None, s)"
    using none by (simp add: replicas_inv_def single_shot_def list_all_length)
  with run have "replicas_inv created (cs, s') \<and> length cs = k"
  proof (induction rule: rtranclp_induct2)
    case (step cs1 s1 cs s')
    then show ?case using replicas_step [OF W] by blast
  qed simp
  then show ?thesis by (cases "created s' = 0") (auto simp: replicas_inv_def)
qed

end

section \<open>And that many it can get\<close>

text \<open>
  The in-memory cluster again, with a clock that moves on at every reading and a server that
  refuses a Job whose name is taken. Jobs are named after the instant of their creation.
\<close>

definition clocked_ext :: Ext where
  "clocked_ext = sample_ext\<lparr>x_job_stamp := (\<lambda>t. string_of_nat (nat t))\<rparr>"

definition job_names :: "Job list \<Rightarrow> string option set" where
  "job_names js = set (map (om_name \<circ> jb_metadata) js)"

fun name_taken :: "KubeReq \<Rightarrow> Job list \<Rightarrow> bool" where
  "name_taken (KCreateJob ns job) js \<longleftrightarrow> om_name (jb_metadata job) \<in> job_names js"
| "name_taken q js \<longleftrightarrow> False"

definition clocked_kube ::
  "KubeReq \<Rightarrow> nat \<times> Job list \<Rightarrow> (KubeError + KubeAnswer) \<times> nat \<times> Job list" where
  "clocked_kube q s =
     (if name_taken q (snd s) then (Inl (KApi 409 ''already exists''), s)
      else (fst (job_kube q (snd s)), fst s, snd (job_kube q (snd s))))"

definition clocked_world :: "(nat \<times> Job list) World" where
  "clocked_world =
     \<lparr>w_clock = (\<lambda>s. (int (fst s), Suc (fst s), snd s)), w_env = (\<lambda>n s. (None, s)),
      w_kube = clocked_kube, w_store = (\<lambda>q s. (Inl (SNotFound ''none''), s))\<rparr>"

lemma clocked_sel:
  "w_clock clocked_world s = (int (fst s), Suc (fst s), snd s)" "w_env clocked_world n s = (None, s)"
  "w_kube clocked_world q s =
     (if name_taken q (snd s) then (Inl (KApi 409 ''already exists''), s)
      else (fst (job_kube q (snd s)), fst s, snd (job_kube q (snd s))))"
  by (simp_all add: clocked_world_def clocked_kube_def)

definition job_count :: "nat \<times> Job list \<Rightarrow> nat" where
  "job_count s = length (snd s)"

lemma clocked_truthful: "truthful clocked_world ns sel job_count"
proof -
  have kube: "length (snd (job_kube q js)) =
      length js + (if creates_job (EvKube q (Inr AUnit)) then 1 else 0)" for q js
    by (cases q) simp_all
  show ?thesis by (simp add: truthful_def job_count_def clocked_sel kube) (simp add: clocked_world_def)
qed

definition clocked_job :: "nat \<Rightarrow> Job" where
  "clocked_job n =
     build_restore_job clocked_ext sample_restore (''rs-'' @ string_of_nat n) ''rs-config''
       (found_cluster ''ns'') RNone sample_backup (account_of None)"

lemma clocked_job_name: "om_name (jb_metadata (clocked_job n)) = Some (''rs-'' @ string_of_nat n)"
  by (simp add: clocked_job_def build_restore_job_def Let_def split: prod.split)

lemma clocked_stamp: "x_job_stamp clocked_ext (int n) = string_of_nat n"
  by (simp add: clocked_ext_def)

lemma clocked_parts:
  "outcome_of clocked_world (resolve_kafka_cluster sample_cluster_ref ns None) s =
     Done (Inr (found_cluster ns))"
  "state_of clocked_world (resolve_kafka_cluster sample_cluster_ref ns None) s = s"
  "outcome_of clocked_world (resolve_cluster_ca c None ns) s =
     Done (Inl (ESecretNotFound (cluster_ca_secret_name c) ns))"
  "state_of clocked_world (resolve_cluster_ca c None ns) s = s"
  "state_of clocked_world job_service_account_name s = s"
  "outcome_of clocked_world job_service_account_name s = Done (account_of None)"
  by (simp_all add: resolve_kafka_cluster_def sample_cluster_ref_def get_namespaced_resource_def
      get_at_version_def resolve_cluster_ca_def ca_secret_ref_def job_service_account_name_def exec
      clocked_sel decoded_def Let_def sample_connection sample_replicas found_cluster_def)

lemma clocked_config:
  "build_restore_config_yaml clocked_ext sample_restore sample_backup cluster auth = Inr ''yaml''"
  by (simp add: build_restore_config_yaml_def restore_config_map_def Let_def resolve_backup_id_def
      sample_restore_def sample_restore_spec_def sample_backup_def sample_backup_spec_def
      sample_storage_def build_storage_config_def build_filesystem_config_def clocked_ext_def
      sample_ext_def build_restore_options_def put_point_in_time_def put_restore_options_def
      put_consumer_groups_def)

text \<open>
  Two requests take the restore past its gate: the finalizer and the listing of its Jobs. A replica
  that stands there creates its Job whatever the others have done since.
\<close>

definition gate_passed :: "unit io" where
  "gate_passed = start_restore clocked_ext sample_restore ''ns'' 0"

lemma gate_passed_state:
  assumes "Some (''rs-'' @ string_of_nat n) \<notin> job_names js"
  shows "state_of clocked_world gate_passed (n, js) = (Suc (Suc n), js @ [clocked_job n])"
  using assms clocked_job_name [of n]
  by (simp add: gate_passed_def start_restore_def Let_def get_source_backup_def
      restore_create_or_update_config_map_def exec clocked_parts exec_auth clocked_config
      restore_update_status_running_def not_ready_io_def restore_patch_status_def
      sample_restore_sel sample_meta_sel clocked_sel decoded_def create_job_def clocked_job_def
      clocked_stamp)

lemma restore_passes_gate:
  "il_run clocked_world (reconcile_restore clocked_ext) (current_restore ''ns'' ''rs'') created
     (None, (n, [])) (Some gate_passed, (n, []))"
proof -
  have current: "current_restore ''ns'' ''rs'' sample_restore"
    by (simp add: current_restore_def ns_of_def sample_restore_sel sample_meta_sel)
  let ?p = "reconcile_restore clocked_ext sample_restore" and ?s = "(n, [])"
  obtain p where p: "request_step clocked_world ?p ?s = Some (p, ?s)"
      "request_step clocked_world p ?s = Some (gate_passed, ?s)"
    by (simp add: reconcile_restore_def reconcile_restore_active_def restore_done_def gate_passed_def
      restore_add_finalizer_def list_restore_jobs_def Let_def kube_io_def kube_call_def ebind_def
      map_err_def pmap_def
      sample_restore_sel sample_meta_sel clocked_sel decoded_def classify_NoJobs [THEN iffD2])
  let ?step = "il_step clocked_world (reconcile_restore clocked_ext) (current_restore ''ns'' ''rs'') created"
  have start: "?step (None, ?s) (Some ?p, ?s)"
    using current by (rule il_step.Start)
  note step = il_step.Request [where reconcile = "reconcile_restore clocked_ext"
      and current = "current_restore ''ns'' ''rs''" and created = created]
  show ?thesis
    by (rule converse_rtranclp_into_rtranclp [where r = ?step, OF start]
        converse_rtranclp_into_rtranclp [where r = ?step, OF step [OF p(1)]] r_into_rtranclp
        step [OF p(2)])+
qed

text \<open>No Job has the name of an instant yet to come.\<close>

definition unborn :: "nat \<Rightarrow> Job list \<Rightarrow> bool" where
  "unborn n js \<longleftrightarrow> (\<forall>m\<ge>n. Some (''rs-'' @ string_of_nat m) \<notin> job_names js)"

lemma unborn_next: "unborn n js \<Longrightarrow> unborn (Suc (Suc n)) (js @ [clocked_job n])"
  using digits_val_string_of_nat
  by (auto simp: unborn_def job_names_def clocked_job_name) (metis Suc_n_not_le_n Suc_leD option.inject)

abbreviation restore_replicas where
  "restore_replicas \<equiv> rep_run clocked_world (reconcile_restore clocked_ext)
     (current_restore ''ns'' ''rs'') job_count"

lemma replicas_pass_gate:
  "restore_replicas (ds @ replicate k None, (n, [])) (ds @ replicate k (Some gate_passed), (n, []))"
proof (induction k arbitrary: ds)
  case (Suc k)
  show ?case
    using Suc [of "ds @ [Some gate_passed]"] by (simp add: rep_run_next [OF restore_passes_gate])
qed simp

lemma replicas_create:
  "unborn n js \<Longrightarrow> \<exists>cs m js'. length js' = length js + k \<and>
     restore_replicas (ds @ replicate k (Some gate_passed), (n, js)) (cs, (m, js'))"
proof (induction k arbitrary: ds n js)
  case (Suc k)
  let ?s = "(Suc (Suc n), js @ [clocked_job n])"
  have "state_of clocked_world gate_passed (n, js) = ?s"
    using Suc.prems by (intro gate_passed_state) (simp add: unborn_def)
  then obtain p where "il_run clocked_world (reconcile_restore clocked_ext)
      (current_restore ''ns'' ''rs'') job_count (Some gate_passed, (n, js)) (Some p, ?s)"
    using il_run_program [of clocked_world "reconcile_restore clocked_ext"
        "current_restore ''ns'' ''rs''" job_count gate_passed "(n, js)"] by auto
  note first = rep_run_next [OF this]
  obtain cs m js' where rest: "length js' = Suc (length js) + k"
      "restore_replicas ((ds @ [Some p]) @ replicate k (Some gate_passed), ?s) (cs, (m, js'))"
    using Suc.IH [OF unborn_next [OF Suc.prems], of "ds @ [Some p]"]
    unfolding length_append list.size by auto
  have "restore_replicas (ds @ Some gate_passed # replicate k (Some gate_passed), (n, js)) (cs, (m, js'))"
    by (rule first) (use rest(2) in simp)
  with rest(1) show ?case
    by (intro exI [of _ cs] exI [of _ m] exI [of _ js']) simp
qed auto

lemma replicas_all_create:
  "\<exists>cs m js. restore_replicas (replicate k None, (0, [])) (cs, (m, js)) \<and> length js = k"
proof -
  have "unborn 0 []" by (simp add: unborn_def job_names_def)
  from replicas_create [OF this, of k "[]"] replicas_pass_gate [of "[]" k 0] show ?thesis
    by (auto intro: rtranclp_trans)
qed

end
