(* ===== verification/Metrics.thy ===== *)
theory Metrics
  imports Complex_Main Reconcile_Common "HOL-Library.AList"
begin

text \<open>
  The operator's metrics (\<open>src/src/metrics/prometheus.rs\<close>): the thirteen vectors and their
  registry, the recording operations, and the text of \<open>/metrics\<close>. A vector is its options and
  the children it has, by label values. What the \<open>prometheus\<close> crate decides itself is the
  parameter \<open>Prometheus\<close>: which options it accepts, whether a registration clashes, which
  families it gathers and how it writes them. Its documented behaviour is \<open>documented\<close>. Every
  \<open>expect\<close> and \<open>unwrap\<close> of the source is a \<open>checked\<close> value, and so is
  \<open>with\_label\_values\<close>, which panics on a wrong number of labels.
\<close>

section \<open>Vectors\<close>

datatype MetricKind = IntGauge | IntCounter | Gauge | Histogram

text \<open>Options of a vector with its label names; the buckets of a histogram, else none.\<close>

record Opts =
  op_kind :: MetricKind
  op_name :: string
  op_help :: string
  op_labels :: "string list"
  op_buckets :: "rat list"

text \<open>A child's value: a gauge, a counter, or the observations of a histogram, newest first.\<close>

datatype Sample = SGauge int | SCounter u64 | SHistogram "int list"

record 'v Vec =
  vc_opts :: Opts
  vc_children :: "(string list \<times> 'v) list"

record Family =
  fam_opts :: Opts
  fam_series :: "(string list \<times> Sample) list"

record Prometheus =
  pm_create :: "Opts \<Rightarrow> bool"
  pm_register :: "Opts list \<Rightarrow> Opts \<Rightarrow> bool"
  pm_gather :: "Family list \<Rightarrow> Family list"
  pm_encode :: "Family list \<Rightarrow> string option"

definition child :: "'v \<Rightarrow> string list \<Rightarrow> 'v Vec \<Rightarrow> 'v" where
  "child init ls v = (case map_of (vc_children v) ls of None \<Rightarrow> init | Some x \<Rightarrow> x)"

text \<open>\<open>v.with_label_values(ls)\<close> followed by an operation on the child.\<close>

definition with_label_values :: "'v \<Rightarrow> string list \<Rightarrow> ('v \<Rightarrow> 'v) \<Rightarrow> 'v Vec \<Rightarrow> 'v Vec checked" where
  "with_label_values init ls f v =
     (if length ls = length (op_labels (vc_opts v))
      then Value (v\<lparr>vc_children := AList.update ls (f (child init ls v)) (vc_children v)\<rparr>)
      else Panics ''inconsistent label cardinality'')"

definition inc_by :: "string list \<Rightarrow> u64 \<Rightarrow> u64 Vec \<Rightarrow> u64 Vec checked" where
  "inc_by ls n = with_label_values 0 ls (\<lambda>c. c + n)"

definition observe :: "string list \<Rightarrow> int \<Rightarrow> int list Vec \<Rightarrow> int list Vec checked" where
  "observe ls x = with_label_values [] ls (\<lambda>h. x # h)"

definition set_gauge :: "string list \<Rightarrow> int \<Rightarrow> int Vec \<Rightarrow> int Vec checked" where
  "set_gauge ls x = with_label_values 0 ls (\<lambda>g. x)"

lemma with_label_values_fits:
  "length ls = length (op_labels (vc_opts v)) \<Longrightarrow>
   \<exists>v'. with_label_values init ls f v = Value v' \<and> vc_opts v' = vc_opts v \<and>
        (\<forall>d ls'. child d ls' v' = (if ls' = ls then f (child init ls v) else child d ls' v)) \<and>
        fst ` set (vc_children v') = insert ls (fst ` set (vc_children v))"
  by (auto simp: with_label_values_def child_def update_conv' dom_update)

section \<open>The options\<close>

definition operator_build_info_opts :: Opts where
  "operator_build_info_opts =
     \<lparr>op_kind = IntGauge, op_name = ''strimzi_backup_operator_build_info'',
      op_help = ''Build information for the Strimzi backup operator'',
      op_labels = [''version''], op_buckets = []\<rparr>"

definition operator_reconciliations_total_opts :: Opts where
  "operator_reconciliations_total_opts =
     \<lparr>op_kind = IntCounter, op_name = ''strimzi_backup_operator_reconciliations_total'',
      op_help = ''Total custom resource reconciliations handled by the operator'',
      op_labels = [''controller'', ''result''], op_buckets = []\<rparr>"

definition operator_reconciliation_duration_seconds_opts :: Opts where
  "operator_reconciliation_duration_seconds_opts =
     \<lparr>op_kind = Histogram, op_name = ''strimzi_backup_operator_reconciliation_duration_seconds'',
      op_help = ''Duration of custom resource reconciliations'',
      op_labels = [''controller'', ''result''],
      op_buckets = [1/100, 1/20, 1/10, 1/4, 1/2, 1, 5/2, 5, 10, 30]\<rparr>"

definition long_buckets :: "rat list" where
  "long_buckets = [10, 30, 60, 120, 300, 600, 1200, 1800, 3600]"

definition backup_records_total_opts :: Opts where
  "backup_records_total_opts =
     \<lparr>op_kind = IntCounter, op_name = ''strimzi_backup_records_total'',
      op_help = ''Total number of records backed up'',
      op_labels = [''backup_name'', ''cluster''], op_buckets = []\<rparr>"

definition backup_bytes_total_opts :: Opts where
  "backup_bytes_total_opts =
     \<lparr>op_kind = IntCounter, op_name = ''strimzi_backup_bytes_total'',
      op_help = ''Total number of bytes backed up'',
      op_labels = [''backup_name'', ''cluster''], op_buckets = []\<rparr>"

definition backup_duration_seconds_opts :: Opts where
  "backup_duration_seconds_opts =
     \<lparr>op_kind = Histogram, op_name = ''strimzi_backup_duration_seconds'',
      op_help = ''Duration of backup operations in seconds'',
      op_labels = [''backup_name'', ''cluster''], op_buckets = long_buckets\<rparr>"

definition backup_last_success_timestamp_opts :: Opts where
  "backup_last_success_timestamp_opts =
     \<lparr>op_kind = Gauge, op_name = ''strimzi_backup_last_success_timestamp'',
      op_help = ''Timestamp of last successful backup (unix epoch)'',
      op_labels = [''backup_name'', ''cluster''], op_buckets = []\<rparr>"

definition backup_last_failure_timestamp_opts :: Opts where
  "backup_last_failure_timestamp_opts =
     \<lparr>op_kind = Gauge, op_name = ''strimzi_backup_last_failure_timestamp'',
      op_help = ''Timestamp of last failed backup (unix epoch)'',
      op_labels = [''backup_name'', ''cluster''], op_buckets = []\<rparr>"

definition restore_records_total_opts :: Opts where
  "restore_records_total_opts =
     \<lparr>op_kind = IntCounter, op_name = ''strimzi_restore_records_total'',
      op_help = ''Total number of records restored'',
      op_labels = [''restore_name'', ''cluster''], op_buckets = []\<rparr>"

definition restore_bytes_total_opts :: Opts where
  "restore_bytes_total_opts =
     \<lparr>op_kind = IntCounter, op_name = ''strimzi_restore_bytes_total'',
      op_help = ''Total number of bytes restored'',
      op_labels = [''restore_name'', ''cluster''], op_buckets = []\<rparr>"

definition restore_duration_seconds_opts :: Opts where
  "restore_duration_seconds_opts =
     \<lparr>op_kind = Histogram, op_name = ''strimzi_restore_duration_seconds'',
      op_help = ''Duration of restore operations in seconds'',
      op_labels = [''restore_name'', ''cluster''], op_buckets = long_buckets\<rparr>"

definition backup_storage_bytes_opts :: Opts where
  "backup_storage_bytes_opts =
     \<lparr>op_kind = Gauge, op_name = ''strimzi_backup_storage_bytes'',
      op_help = ''Total storage used by backups in bytes'',
      op_labels = [''backup_name'', ''cluster''], op_buckets = []\<rparr>"

definition backup_lag_seconds_opts :: Opts where
  "backup_lag_seconds_opts =
     \<lparr>op_kind = Gauge, op_name = ''strimzi_backup_lag_seconds'',
      op_help = ''Time since last successful backup in seconds'',
      op_labels = [''backup_name'', ''cluster''], op_buckets = []\<rparr>"

text \<open>All of them, in the order of their registration.\<close>

definition all_opts :: "Opts list" where
  "all_opts =
     [operator_build_info_opts, operator_reconciliations_total_opts,
      operator_reconciliation_duration_seconds_opts, backup_records_total_opts,
      backup_bytes_total_opts, backup_duration_seconds_opts, backup_last_success_timestamp_opts,
      backup_last_failure_timestamp_opts, restore_records_total_opts, restore_bytes_total_opts,
      restore_duration_seconds_opts, backup_storage_bytes_opts, backup_lag_seconds_opts]"

lemmas opts_defs =
  operator_build_info_opts_def operator_reconciliations_total_opts_def
  operator_reconciliation_duration_seconds_opts_def backup_records_total_opts_def
  backup_bytes_total_opts_def backup_duration_seconds_opts_def
  backup_last_success_timestamp_opts_def backup_last_failure_timestamp_opts_def
  restore_records_total_opts_def restore_bytes_total_opts_def restore_duration_seconds_opts_def
  backup_storage_bytes_opts_def backup_lag_seconds_opts_def long_buckets_def

section \<open>The state\<close>

record MetricsState =
  registry :: "Opts list"
  operator_build_info :: "int Vec"
  operator_reconciliations_total :: "u64 Vec"
  operator_reconciliation_duration_seconds :: "int list Vec"
  backup_records_total :: "u64 Vec"
  backup_bytes_total :: "u64 Vec"
  backup_duration_seconds :: "int list Vec"
  backup_last_success_timestamp :: "int Vec"
  backup_last_failure_timestamp :: "int Vec"
  restore_records_total :: "u64 Vec"
  restore_bytes_total :: "u64 Vec"
  restore_duration_seconds :: "int list Vec"
  backup_storage_bytes :: "int Vec"
  backup_lag_seconds :: "int Vec"

text \<open>\<open>Vec::new(..).expect("metric creation")\<close> and its registration.\<close>

definition register_vec :: "Prometheus \<Rightarrow> Opts \<Rightarrow> Opts list \<Rightarrow> Opts list checked" where
  "register_vec P opts reg =
     (if \<not> pm_create P opts then Panics ''metric creation''
      else if \<not> pm_register P reg opts then Panics ''metric registration''
      else Value (reg @ [opts]))"

primrec register_all :: "Prometheus \<Rightarrow> Opts list \<Rightarrow> Opts list \<Rightarrow> Opts list checked" where
  "register_all P [] reg = Value reg"
| "register_all P (opts # rest) reg =
     checked_bind (register_vec P opts reg) (register_all P rest)"

definition new_vec :: "Opts \<Rightarrow> 'v Vec" where
  "new_vec opts = \<lparr>vc_opts = opts, vc_children = []\<rparr>"

text \<open>The first vector gets its only child before the second is made.\<close>

definition MetricsState_new :: "Prometheus \<Rightarrow> string \<Rightarrow> MetricsState checked" where
  "MetricsState_new P version =
     checked_bind (register_vec P operator_build_info_opts []) (\<lambda>reg.
     checked_bind (set_gauge [version] 1 (new_vec operator_build_info_opts)) (\<lambda>build_info.
     checked_bind (register_all P (tl all_opts) reg) (\<lambda>reg.
     Value \<lparr>registry = reg, operator_build_info = build_info,
       operator_reconciliations_total = new_vec operator_reconciliations_total_opts,
       operator_reconciliation_duration_seconds =
         new_vec operator_reconciliation_duration_seconds_opts,
       backup_records_total = new_vec backup_records_total_opts,
       backup_bytes_total = new_vec backup_bytes_total_opts,
       backup_duration_seconds = new_vec backup_duration_seconds_opts,
       backup_last_success_timestamp = new_vec backup_last_success_timestamp_opts,
       backup_last_failure_timestamp = new_vec backup_last_failure_timestamp_opts,
       restore_records_total = new_vec restore_records_total_opts,
       restore_bytes_total = new_vec restore_bytes_total_opts,
       restore_duration_seconds = new_vec restore_duration_seconds_opts,
       backup_storage_bytes = new_vec backup_storage_bytes_opts,
       backup_lag_seconds = new_vec backup_lag_seconds_opts\<rparr>)))"

section \<open>Recording\<close>

text \<open>Durations and instants are in nanoseconds; the gauges hold whole seconds.\<close>

definition record_reconciliation :: "string \<Rightarrow> bool \<Rightarrow> int \<Rightarrow> MetricsState \<Rightarrow> MetricsState checked" where
  "record_reconciliation controller succeeded duration m =
     (let result = (if succeeded then ''success'' else ''error'');
          labels = [controller, result] in
      checked_bind (inc_by labels 1 (operator_reconciliations_total m)) (\<lambda>c.
      checked_bind (observe labels duration (operator_reconciliation_duration_seconds m)) (\<lambda>h.
      Value (m\<lparr>operator_reconciliations_total := c,
               operator_reconciliation_duration_seconds := h\<rparr>))))"

definition record_backup_success ::
  "string \<Rightarrow> string \<Rightarrow> u64 \<Rightarrow> u64 \<Rightarrow> int \<Rightarrow> timestamp \<Rightarrow> MetricsState \<Rightarrow> MetricsState checked" where
  "record_backup_success backup_name cluster records bytes duration t m =
     (let labels = [backup_name, cluster] in
      checked_bind (inc_by labels records (backup_records_total m)) (\<lambda>r.
      checked_bind (inc_by labels bytes (backup_bytes_total m)) (\<lambda>b.
      checked_bind (observe labels duration (backup_duration_seconds m)) (\<lambda>h.
      checked_bind (set_gauge labels (t div 1000000000) (backup_last_success_timestamp m)) (\<lambda>s.
      checked_bind (set_gauge labels 0 (backup_lag_seconds m)) (\<lambda>l.
      Value (m\<lparr>backup_records_total := r, backup_bytes_total := b, backup_duration_seconds := h,
               backup_last_success_timestamp := s, backup_lag_seconds := l\<rparr>)))))))"

definition record_backup_failure ::
  "string \<Rightarrow> string \<Rightarrow> timestamp \<Rightarrow> MetricsState \<Rightarrow> MetricsState checked" where
  "record_backup_failure backup_name cluster t m =
     checked_bind (set_gauge [backup_name, cluster] (t div 1000000000)
       (backup_last_failure_timestamp m)) (\<lambda>f.
     Value (m\<lparr>backup_last_failure_timestamp := f\<rparr>))"

definition record_restore_success ::
  "string \<Rightarrow> string \<Rightarrow> u64 \<Rightarrow> u64 \<Rightarrow> int \<Rightarrow> MetricsState \<Rightarrow> MetricsState checked" where
  "record_restore_success restore_name cluster records bytes duration m =
     (let labels = [restore_name, cluster] in
      checked_bind (inc_by labels records (restore_records_total m)) (\<lambda>r.
      checked_bind (inc_by labels bytes (restore_bytes_total m)) (\<lambda>b.
      checked_bind (observe labels duration (restore_duration_seconds m)) (\<lambda>h.
      Value (m\<lparr>restore_records_total := r, restore_bytes_total := b,
               restore_duration_seconds := h\<rparr>)))))"

section \<open>Gathering\<close>

definition family :: "('v \<Rightarrow> Sample) \<Rightarrow> 'v Vec \<Rightarrow> Family" where
  "family f v = \<lparr>fam_opts = vc_opts v, fam_series = map (map_prod id f) (vc_children v)\<rparr>"

text \<open>The collectors of the registry share the children of the state's vectors.\<close>

definition families :: "MetricsState \<Rightarrow> Family list" where
  "families m =
     filter (\<lambda>f. fam_opts f \<in> set (registry m))
       [family SGauge (operator_build_info m),
        family SCounter (operator_reconciliations_total m),
        family SHistogram (operator_reconciliation_duration_seconds m),
        family SCounter (backup_records_total m),
        family SCounter (backup_bytes_total m),
        family SHistogram (backup_duration_seconds m),
        family SGauge (backup_last_success_timestamp m),
        family SGauge (backup_last_failure_timestamp m),
        family SCounter (restore_records_total m),
        family SCounter (restore_bytes_total m),
        family SHistogram (restore_duration_seconds m),
        family SGauge (backup_storage_bytes m),
        family SGauge (backup_lag_seconds m)]"

definition gather :: "Prometheus \<Rightarrow> MetricsState \<Rightarrow> string checked" where
  "gather P m = expect ''called Result::unwrap() on an Err value'' (pm_encode P (pm_gather P (families m)))"

section \<open>The documented behaviour of the crate\<close>

text \<open>
  Names of metrics match \<open>[a-zA-Z_:][a-zA-Z0-9_:]*\<close>, names of labels the same without the
  colon; a help text is not empty; label names do not repeat; buckets increase strictly, and a
  histogram has no label \<open>le\<close>.
\<close>

definition name_start :: "char list" where
  "name_start = ''abcdefghijklmnopqrstuvwxyzABCDEFGHIJKLMNOPQRSTUVWXYZ_:''"

definition valid_metric_name :: "string \<Rightarrow> bool" where
  "valid_metric_name n \<longleftrightarrow>
     (case n of [] \<Rightarrow> False
      | c # cs \<Rightarrow> c \<in> set name_start \<and> list_all (\<lambda>d. d \<in> set (name_start @ ''0123456789'')) cs)"

definition valid_label_name :: "string \<Rightarrow> bool" where
  "valid_label_name n \<longleftrightarrow> valid_metric_name n \<and> CHR '':'' \<notin> set n"

definition valid_opts :: "Opts \<Rightarrow> bool" where
  "valid_opts o1 \<longleftrightarrow>
     valid_metric_name (op_name o1) \<and> op_help o1 \<noteq> [] \<and>
     list_all valid_label_name (op_labels o1) \<and> distinct (op_labels o1) \<and>
     sorted_wrt (<) (op_buckets o1) \<and>
     (op_kind o1 = Histogram \<longrightarrow> ''le'' \<notin> set (op_labels o1))"

text \<open>
  Valid options are accepted and a new name is registered; gathering families of different names
  drops those without children and keeps the others; the encoder fails only on a family without children, and writes
  something for every other.
\<close>

definition documented :: "Prometheus \<Rightarrow> bool" where
  "documented P \<longleftrightarrow>
     (\<forall>o1. valid_opts o1 \<longrightarrow> pm_create P o1) \<and>
     (\<forall>reg o1. op_name o1 \<notin> op_name ` set reg \<longrightarrow> pm_register P reg o1) \<and>
     (\<forall>fs. distinct (map (op_name \<circ> fam_opts) fs) \<longrightarrow>
        set (pm_gather P fs) = {f \<in> set fs. fam_series f \<noteq> []}) \<and>
     (\<forall>fs. (\<forall>f \<in> set fs. fam_series f \<noteq> []) \<longrightarrow>
        (\<exists>t. pm_encode P fs = Some t \<and> (fs \<noteq> [] \<longrightarrow> t \<noteq> [])))"

section \<open>Typing\<close>

text \<open>
  A vector is well typed when it has the options it was declared with and every child has one
  value for each of its label names; a state, when all its vectors are, all are registered, and
  the build information is there.
\<close>

definition vec_ok :: "Opts \<Rightarrow> 'v Vec \<Rightarrow> bool" where
  "vec_ok opts v \<longleftrightarrow>
     vc_opts v = opts \<and> list_all (\<lambda>ls. length ls = length (op_labels opts)) (map fst (vc_children v))"

definition metrics_ok :: "MetricsState \<Rightarrow> bool" where
  "metrics_ok m \<longleftrightarrow>
     registry m = all_opts \<and> vc_children (operator_build_info m) \<noteq> [] \<and>
     vec_ok operator_build_info_opts (operator_build_info m) \<and>
     vec_ok operator_reconciliations_total_opts (operator_reconciliations_total m) \<and>
     vec_ok operator_reconciliation_duration_seconds_opts (operator_reconciliation_duration_seconds m) \<and>
     vec_ok backup_records_total_opts (backup_records_total m) \<and>
     vec_ok backup_bytes_total_opts (backup_bytes_total m) \<and>
     vec_ok backup_duration_seconds_opts (backup_duration_seconds m) \<and>
     vec_ok backup_last_success_timestamp_opts (backup_last_success_timestamp m) \<and>
     vec_ok backup_last_failure_timestamp_opts (backup_last_failure_timestamp m) \<and>
     vec_ok restore_records_total_opts (restore_records_total m) \<and>
     vec_ok restore_bytes_total_opts (restore_bytes_total m) \<and>
     vec_ok restore_duration_seconds_opts (restore_duration_seconds m) \<and>
     vec_ok backup_storage_bytes_opts (backup_storage_bytes m) \<and>
     vec_ok backup_lag_seconds_opts (backup_lag_seconds m)"

lemma new_vec_ok [simp]: "vec_ok opts (new_vec opts)"
  by (simp add: vec_ok_def new_vec_def)

lemma vec_ok_update:
  assumes "vec_ok opts v" "length ls = length (op_labels opts)"
  shows "\<exists>v'. with_label_values init ls f v = Value v' \<and> vec_ok opts v' \<and>
    (\<forall>d ls'. child d ls' v' = (if ls' = ls then f (child init ls v) else child d ls' v)) \<and>
    vc_children v' \<noteq> []"
proof -
  from assms have len: "length ls = length (op_labels (vc_opts v))" by (simp add: vec_ok_def)
  from with_label_values_fits [OF this, of init f] obtain v' where v':
    "with_label_values init ls f v = Value v'" "vc_opts v' = vc_opts v"
    "\<forall>d ls'. child d ls' v' = (if ls' = ls then f (child init ls v) else child d ls' v)"
    "fst ` set (vc_children v') = insert ls (fst ` set (vc_children v))" by blast
  moreover have "vec_ok opts v'"
    using assms v'(2,4) by (simp add: vec_ok_def list_all_iff)
  moreover have "vc_children v' \<noteq> []" using v'(4) by auto
  ultimately show ?thesis by blast
qed

lemmas metric_updates = inc_by_def observe_def set_gauge_def

lemma labels_lengths:
  "length (op_labels operator_build_info_opts) = 1"
  "length (op_labels operator_reconciliations_total_opts) = 2"
  "length (op_labels operator_reconciliation_duration_seconds_opts) = 2"
  "length (op_labels backup_records_total_opts) = 2"
  "length (op_labels backup_bytes_total_opts) = 2"
  "length (op_labels backup_duration_seconds_opts) = 2"
  "length (op_labels backup_last_success_timestamp_opts) = 2"
  "length (op_labels backup_last_failure_timestamp_opts) = 2"
  "length (op_labels restore_records_total_opts) = 2"
  "length (op_labels restore_bytes_total_opts) = 2"
  "length (op_labels restore_duration_seconds_opts) = 2"
  "length (op_labels backup_storage_bytes_opts) = 2"
  "length (op_labels backup_lag_seconds_opts) = 2"
  by (simp_all add: opts_defs)

lemma inc_by_ok:
  "vec_ok opts v \<Longrightarrow> length ls = length (op_labels opts) \<Longrightarrow>
   \<exists>v'. inc_by ls n v = Value v' \<and> vec_ok opts v' \<and>
     (\<forall>ls'. child 0 ls' v' = child 0 ls' v + (if ls' = ls then n else 0))"
  unfolding inc_by_def by (drule (1) vec_ok_update [of opts v ls 0 "\<lambda>c. c + n"]) fastforce

lemma observe_ok:
  "vec_ok opts v \<Longrightarrow> length ls = length (op_labels opts) \<Longrightarrow>
   \<exists>v'. observe ls x v = Value v' \<and> vec_ok opts v' \<and>
     (\<forall>ls'. child [] ls' v' = (if ls' = ls then x # child [] ls v else child [] ls' v))"
  unfolding observe_def by (drule (1) vec_ok_update [of opts v ls "[]" "\<lambda>h. x # h"]) fastforce

lemma set_gauge_ok:
  "vec_ok opts v \<Longrightarrow> length ls = length (op_labels opts) \<Longrightarrow>
   \<exists>v'. set_gauge ls x v = Value v' \<and> vec_ok opts v' \<and> vc_children v' \<noteq> [] \<and>
     (\<forall>d ls'. child d ls' v' = (if ls' = ls then x else child d ls' v))"
  unfolding set_gauge_def by (drule (1) vec_ok_update [of opts v ls 0 "\<lambda>g. x"]) fastforce

lemma record_reconciliation_ok:
  assumes "metrics_ok m"
  shows "\<exists>m'. record_reconciliation c b d m = Value m' \<and> metrics_ok m' \<and>
    (\<forall>ls. child 0 ls (operator_reconciliations_total m') =
      child 0 ls (operator_reconciliations_total m) +
      (if ls = [c, if b then ''success'' else ''error''] then 1 else 0))"
proof -
  let ?ls = "[c, if b then ''success'' else ''error'']"
  obtain v' where v': "inc_by ?ls 1 (operator_reconciliations_total m) = Value v'"
    "vec_ok operator_reconciliations_total_opts v'"
    "\<forall>ls. child 0 ls v' = child 0 ls (operator_reconciliations_total m) + (if ls = ?ls then 1 else 0)"
    using inc_by_ok [of operator_reconciliations_total_opts "operator_reconciliations_total m" ?ls 1]
      assms by (auto simp: metrics_ok_def labels_lengths)
  obtain h' where h': "observe ?ls d (operator_reconciliation_duration_seconds m) = Value h'"
    "vec_ok operator_reconciliation_duration_seconds_opts h'"
    using observe_ok [of operator_reconciliation_duration_seconds_opts
        "operator_reconciliation_duration_seconds m" ?ls d]
      assms by (auto simp: metrics_ok_def labels_lengths)
  show ?thesis
    using assms v' h' by (simp add: record_reconciliation_def Let_def metrics_ok_def)
qed

lemma record_backup_success_ok:
  assumes "metrics_ok m"
  shows "\<exists>m'. record_backup_success n c r b d t m = Value m' \<and> metrics_ok m'"
proof -
  have len: "length [n, c] = 2" by simp
  obtain v1 v2 v3 v4 v5 where
    "inc_by [n, c] r (backup_records_total m) = Value v1" "vec_ok backup_records_total_opts v1"
    "inc_by [n, c] b (backup_bytes_total m) = Value v2" "vec_ok backup_bytes_total_opts v2"
    "observe [n, c] d (backup_duration_seconds m) = Value v3" "vec_ok backup_duration_seconds_opts v3"
    "set_gauge [n, c] (t div 1000000000) (backup_last_success_timestamp m) = Value v4"
    "vec_ok backup_last_success_timestamp_opts v4"
    "set_gauge [n, c] 0 (backup_lag_seconds m) = Value v5" "vec_ok backup_lag_seconds_opts v5"
    using assms unfolding metrics_ok_def by (metis len labels_lengths inc_by_ok observe_ok set_gauge_ok)
  then show ?thesis
    using assms by (simp add: record_backup_success_def Let_def metrics_ok_def)
qed

lemma record_backup_failure_ok:
  assumes "metrics_ok m"
  shows "\<exists>m'. record_backup_failure n c t m = Value m' \<and> metrics_ok m'"
  using set_gauge_ok [of backup_last_failure_timestamp_opts "backup_last_failure_timestamp m" "[n, c]"
      "t div 1000000000"] assms
  by (auto simp: record_backup_failure_def metrics_ok_def labels_lengths)

lemma record_restore_success_ok:
  assumes "metrics_ok m"
  shows "\<exists>m'. record_restore_success n c r b d m = Value m' \<and> metrics_ok m'"
proof -
  have len: "length [n, c] = 2" by simp
  obtain v1 v2 v3 where
    "inc_by [n, c] r (restore_records_total m) = Value v1" "vec_ok restore_records_total_opts v1"
    "inc_by [n, c] b (restore_bytes_total m) = Value v2" "vec_ok restore_bytes_total_opts v2"
    "observe [n, c] d (restore_duration_seconds m) = Value v3" "vec_ok restore_duration_seconds_opts v3"
    using assms unfolding metrics_ok_def by (metis len labels_lengths inc_by_ok observe_ok)
  then show ?thesis
    using assms by (simp add: record_restore_success_def Let_def metrics_ok_def)
qed

section \<open>Starting\<close>

lemma all_opts_valid: "list_all valid_opts all_opts"
  by code_simp

lemma all_opts_distinct: "distinct (map op_name all_opts)"
  by code_simp

lemma register_all_ok:
  assumes "documented P" "list_all valid_opts rest" "distinct (map op_name (reg @ rest))"
  shows "register_all P rest reg = Value (reg @ rest)"
  using assms(2,3)
proof (induction rest arbitrary: reg)
  case (Cons o1 rest)
  then have "register_vec P o1 reg = Value (reg @ [o1])"
    using assms(1) by (auto simp: register_vec_def documented_def)
  moreover have "register_all P rest (reg @ [o1]) = Value ((reg @ [o1]) @ rest)"
    using Cons.prems by (intro Cons.IH) auto
  ultimately show ?case by simp
qed simp

lemma MetricsState_new_ok:
  assumes "documented P"
  shows "\<exists>m. MetricsState_new P version = Value m \<and> metrics_ok m \<and>
    child 0 [version] (operator_build_info m) = 1"
proof -
  have all: "register_all P all_opts [] = Value all_opts"
    using register_all_ok [OF assms all_opts_valid, of "[]"] all_opts_distinct by simp
  have hd_tl: "all_opts = operator_build_info_opts # tl all_opts" by (simp add: all_opts_def)
  from all have reg: "\<exists>reg. register_vec P operator_build_info_opts [] = Value reg \<and>
      register_all P (tl all_opts) reg = Value all_opts"
    by (subst (asm) hd_tl) simp
  obtain v where "set_gauge [version] 1 (new_vec operator_build_info_opts) = Value v"
    "vec_ok operator_build_info_opts v" "vc_children v \<noteq> []" "child 0 [version] v = 1"
    using set_gauge_ok [of operator_build_info_opts "new_vec operator_build_info_opts" "[version]" 1]
    by (auto simp: labels_lengths)
  with reg show ?thesis by (auto simp: MetricsState_new_def metrics_ok_def)
qed

section \<open>Running\<close>

text \<open>One recording, and the states a run of the operator can reach.\<close>

inductive metrics_step :: "MetricsState \<Rightarrow> MetricsState \<Rightarrow> bool" where
  Reconciliation: "record_reconciliation c b d m = Value m' \<Longrightarrow> metrics_step m m'"
| BackupSuccess: "record_backup_success n c r b d t m = Value m' \<Longrightarrow> metrics_step m m'"
| BackupFailure: "record_backup_failure n c t m = Value m' \<Longrightarrow> metrics_step m m'"
| RestoreSuccess: "record_restore_success n c r b d m = Value m' \<Longrightarrow> metrics_step m m'"

lemma metrics_step_ok: "metrics_step m m' \<Longrightarrow> metrics_ok m \<Longrightarrow> metrics_ok m'"
proof (induction rule: metrics_step.induct)
  case (Reconciliation c b d m m')
  then show ?case using record_reconciliation_ok [of m c b d] by auto
next
  case (BackupSuccess n c r b d t m m')
  then show ?case using record_backup_success_ok [of m n c r b d t] by auto
next
  case (BackupFailure n c t m m')
  then show ?case using record_backup_failure_ok [of m n c t] by auto
next
  case (RestoreSuccess n c r b d m m')
  then show ?case using record_restore_success_ok [of m n c r b d] by auto
qed

lemma metrics_run_ok: "metrics_step\<^sup>*\<^sup>* m m' \<Longrightarrow> metrics_ok m \<Longrightarrow> metrics_ok m'"
  by (induction rule: rtranclp_induct) (auto dest: metrics_step_ok)

lemma build_info_family:
  assumes "metrics_ok m"
  shows "\<exists>f \<in> set (families m). fam_series f \<noteq> []"
  using assms
  by (intro bexI [of _ "family SGauge (operator_build_info m)"])
     (simp_all add: families_def family_def metrics_ok_def vec_ok_def all_opts_def)

lemma families_distinct:
  assumes "metrics_ok m"
  shows "distinct (map (op_name \<circ> fam_opts) (families m))"
proof -
  have "map fam_opts (families m) = all_opts"
    using assms by (simp add: families_def family_def metrics_ok_def vec_ok_def all_opts_def)
  then show ?thesis using all_opts_distinct by (simp flip: map_map)
qed

lemma gather_ok:
  assumes "documented P" "metrics_ok m"
  shows "\<exists>t. gather P m = Value t \<and> t \<noteq> []"
proof -
  have g: "set (pm_gather P (families m)) = {f \<in> set (families m). fam_series f \<noteq> []}"
    using assms families_distinct by (simp add: documented_def)
  with build_info_family [OF assms(2)] have "pm_gather P (families m) \<noteq> []" by auto
  moreover have "\<exists>t. pm_encode P (pm_gather P (families m)) = Some t \<and>
      (pm_gather P (families m) \<noteq> [] \<longrightarrow> t \<noteq> [])"
    using assms(1) g by (simp add: documented_def)
  ultimately show ?thesis by (auto simp: gather_def)
qed

end
