(* ===== verification/Selectors.thy ===== *)
theory Selectors
  imports Job_Builders
begin

text \<open>
  Label selectors as the API server reads them, and when they select the objects the builders
  make: the operator's labels survive unless the template replaces them.
\<close>

section \<open>Selectors\<close>

text \<open>
  An equality-based label selector as the API server reads it: the pairs between the commas, all
  of which the labels must have.
\<close>

definition selector_pairs :: "string \<Rightarrow> (string \<times> string) option list" where
  "selector_pairs sel = map (split_once (CHR ''='')) (split_on (CHR '','') sel)"

definition selects :: "string \<Rightarrow> string btree \<Rightarrow> bool" where
  "selects sel labels =
     list_all (\<lambda>p. case p of Some (k, v) \<Rightarrow> bt_get labels k = Some v | None \<Rightarrow> False)
       (selector_pairs sel)"

text \<open>The keys the operator's own selectors use, and a template that leaves one alone.\<close>

definition keeps_label :: "CrdPodTemplate option \<Rightarrow> string \<Rightarrow> string \<Rightarrow> bool" where
  "keeps_label template k v \<longleftrightarrow> template_label template k \<in> {None, Some v}"

lemma keeps_label_iff: "opt_or (template_label t k) (Some v) = Some v \<longleftrightarrow> keeps_label t k v"
  by (cases "template_label t k") (auto simp: keeps_label_def)

lemma selects_pair:
  assumes "CHR '','' \<notin> set k1" "CHR '','' \<notin> set v1" "CHR '','' \<notin> set k2" "CHR '','' \<notin> set v2"
    and "CHR ''='' \<notin> set k1" "CHR ''='' \<notin> set k2"
  shows "selects ((k1 @ ''='' @ v1) @ '','' @ (k2 @ ''='' @ v2)) labels \<longleftrightarrow>
    bt_get labels k1 = Some v1 \<and> bt_get labels k2 = Some v2"
proof -
  have "split_on (CHR '','') ((k1 @ ''='' @ v1) @ '','' @ (k2 @ ''='' @ v2)) =
      [k1 @ ''='' @ v1, k2 @ ''='' @ v2]"
    using split_on_append [of "CHR '',''" "k1 @ ''='' @ v1"] split_on_notin [of "CHR '',''" "k2 @ ''='' @ v2"]
      assms(1-4) by simp
  then show ?thesis
    using split_once_append [OF assms(5)] split_once_append [OF assms(6)]
    by (simp add: selects_def selector_pairs_def)
qed

text \<open>The Job labels the selectors ask for, after the template has been merged.\<close>

definition job_visible :: "string \<Rightarrow> string \<Rightarrow> CrdPodTemplate option \<Rightarrow> bool" where
  "job_visible kind cr template \<longleftrightarrow>
     keeps_label template (''kafkabackup.com/'' @ kind) cr \<and>
     keeps_label template ''kafkabackup.com/type'' kind"

lemma selects_job:
  assumes "kind \<noteq> ''type''" "CHR '','' \<notin> set kind" "CHR ''='' \<notin> set kind" "CHR '','' \<notin> set cr"
  shows "selects ((''kafkabackup.com/'' @ kind) @ ''='' @ cr @ '','' @ ''kafkabackup.com/type'' @ ''='' @ kind)
      (merge_template_labels (build_labels cr cluster kind) template)
    \<longleftrightarrow> job_visible kind cr template"
proof -
  have k: "CHR '','' \<notin> set (''kafkabackup.com/'' @ kind)" "CHR '','' \<notin> set ''kafkabackup.com/type''"
    "CHR ''='' \<notin> set (''kafkabackup.com/'' @ kind)" "CHR ''='' \<notin> set ''kafkabackup.com/type''"
    using assms(2,3) by simp_all
  show ?thesis
    using selects_pair [OF k(1) assms(4) k(2) assms(2) k(3,4)]
    by (simp add: get_merge_template_labels get_build_labels [OF assms(1)] keeps_label_iff
        job_visible_def del: append_Cons append_Nil)
qed

lemma selects_single:
  assumes "CHR '','' \<notin> set k" "CHR '','' \<notin> set v" "CHR ''='' \<notin> set k"
  shows "selects (k @ ''='' @ v) labels \<longleftrightarrow> bt_get labels k = Some v"
proof -
  have "split_on (CHR '','') (k @ ''='' @ v) = [k @ ''='' @ v]"
    using split_on_notin [of "CHR '',''" "k @ ''='' @ v"] assms by simp
  then show ?thesis
    using split_once_append [OF assms(3)] by (simp add: selects_def selector_pairs_def)
qed

lemma selects_type:
  assumes "kind \<noteq> ''type''" "CHR '','' \<notin> set kind"
  shows "selects (''kafkabackup.com/type'' @ ''='' @ kind)
      (merge_template_labels (build_labels cr cluster kind) template)
    \<longleftrightarrow> keeps_label template ''kafkabackup.com/type'' kind"
proof -
  have k: "CHR '','' \<notin> set ''kafkabackup.com/type''" "CHR ''='' \<notin> set ''kafkabackup.com/type''"
    by simp_all
  show ?thesis
    using selects_single [OF k(1) assms(2) k(2)]
    by (simp add: get_merge_template_labels get_build_labels [OF assms(1)] keeps_label_iff
        del: append_Cons append_Nil)
qed

end
