(* ===== verification/Controllers.thy ===== *)
theory Controllers
  imports Metrics Execution Selectors Reconcile_Backup Reconcile_Restore
begin

text \<open>
  The controllers (\<open>src/src/controllers/backup.rs\<close> and \<open>restore.rs\<close>): the wrappers the
  controller runtime calls, their error policies, and what \<open>run\<close> asks the runtime to watch.
  The runtime itself (watches, work queue, requeueing) is outside; \<open>next_action\<close> is what it is
  documented to do with a result, \<open>watched_owners\<close> which resources it is documented to
  reconcile for an event of an owned object.
\<close>

section \<open>controllers/backup.rs and controllers/restore.rs\<close>

datatype Action = Requeue nat   \<comment> \<open>seconds\<close>

text \<open>Actions are ordered by how soon they run the resource again.\<close>

instantiation Action :: linorder
begin

fun less_eq_Action :: "Action \<Rightarrow> Action \<Rightarrow> bool" where
  "less_eq_Action (Requeue a) (Requeue b) \<longleftrightarrow> a \<le> b"

fun less_Action :: "Action \<Rightarrow> Action \<Rightarrow> bool" where
  "less_Action (Requeue a) (Requeue b) \<longleftrightarrow> a < b"

instance
proof
  fix x y z :: Action
  show "x < y \<longleftrightarrow> x \<le> y \<and> \<not> y \<le> x" by (cases x; cases y) auto
  show "x \<le> x" by (cases x) simp
  show "x \<le> y \<Longrightarrow> y \<le> z \<Longrightarrow> x \<le> z" by (cases x; cases y; cases z) simp
  show "x \<le> y \<Longrightarrow> y \<le> x \<Longrightarrow> x = y" by (cases x; cases y) simp
  show "x \<le> y \<or> y \<le> x" by (cases x; cases y) auto
qed

end

text \<open>\<open>Instant::now\<close> and \<open>elapsed\<close>, which never runs backwards.\<close>

definition elapsed :: "timestamp \<Rightarrow> timestamp \<Rightarrow> int" where
  "elapsed started t = max 0 (t - started)"

text \<open>A panic of a recording unwinds through the wrapper.\<close>

fun unwind :: "'a checked \<Rightarrow> 'a prog" where
  "unwind (Panics e) = Panic e"
| "unwind (Value x) = Ret x"

definition backup_reconcile ::
  "Ext \<Rightarrow> KafkaBackup \<Rightarrow> MetricsState \<Rightarrow> ((Error + Action) \<times> MetricsState) prog" where
  "backup_reconcile ext backup m =
     pbind now (\<lambda>started.
     pbind (reconcile_backup ext backup) (\<lambda>result.
     pbind now (\<lambda>t.
     pbind (unwind (record_reconciliation ''backup'' (is_ok result) (elapsed started t) m)) (\<lambda>m.
     Ret (case result of
            Inl e \<Rightarrow> (Inl e, m)
          | Inr _ \<Rightarrow> (Inr (Requeue 300), m))))))"

definition backup_error_policy :: "KafkaBackup \<Rightarrow> Error \<Rightarrow> Action" where
  "backup_error_policy backup error = Requeue 30"

definition restore_reconcile ::
  "Ext \<Rightarrow> KafkaRestore \<Rightarrow> MetricsState \<Rightarrow> ((Error + Action) \<times> MetricsState) prog" where
  "restore_reconcile ext restore m =
     pbind now (\<lambda>started.
     pbind (reconcile_restore ext restore) (\<lambda>result.
     pbind now (\<lambda>t.
     pbind (unwind (record_reconciliation ''restore'' (is_ok result) (elapsed started t) m)) (\<lambda>m.
     Ret (case result of
            Inl e \<Rightarrow> (Inl e, m)
          | Inr _ \<Rightarrow> (Inr (Requeue 300), m))))))"

definition restore_error_policy :: "KafkaRestore \<Rightarrow> Error \<Rightarrow> Action" where
  "restore_error_policy restore error = Requeue 30"

definition next_action :: "(Error \<Rightarrow> Action) \<Rightarrow> Error + Action \<Rightarrow> Action" where
  "next_action policy r = (case r of Inl e \<Rightarrow> policy e | Inr a \<Rightarrow> a)"

section \<open>What the wrappers return\<close>

definition reconciliations :: "MetricsState \<Rightarrow> string \<Rightarrow> string \<Rightarrow> u64" where
  "reconciliations m controller result = child 0 [controller, result] (operator_reconciliations_total m)"

text \<open>
  The reconciler's result, the counters of that result one higher, and the next action of a
  success.
\<close>

definition counted ::
  "string \<Rightarrow> MetricsState \<Rightarrow> Error + unit \<Rightarrow> (Error + Action) \<times> MetricsState \<Rightarrow> bool" where
  "counted controller m result rm \<longleftrightarrow>
     (case rm of (r, m') \<Rightarrow>
       metrics_ok m' \<and>
       r = (case result of Inl e \<Rightarrow> Inl e | Inr _ \<Rightarrow> Inr (Requeue 300)) \<and>
       (\<forall>c res. reconciliations m' c res = reconciliations m c res +
          (if c = controller \<and> res = (if is_ok result then ''success'' else ''error'')
           then 1 else 0)))"

definition wraps ::
  "string \<Rightarrow> MetricsState \<Rightarrow> (Error + unit) outcome \<Rightarrow> ((Error + Action) \<times> MetricsState) outcome \<Rightarrow> bool" where
  "wraps controller m inner out =
     (case inner of
        Panicked e \<Rightarrow> out = Panicked e
      | Done result \<Rightarrow> (\<exists>rm. out = Done rm \<and> counted controller m result rm))"

lemma outcome_now_pbind:
  "outcome_of W (pbind now f) s = outcome_of W (f (fst (w_clock W s))) (snd (w_clock W s))"
  by (simp add: exec_pbind exec_calls)

lemma wraps_wrapper:
  assumes "metrics_ok m"
  shows "wraps c m (outcome_of W p (snd (w_clock W s)))
    (outcome_of W (pbind now (\<lambda>started. pbind p (\<lambda>result. pbind now (\<lambda>t.
       pbind (unwind (record_reconciliation c (is_ok result) (elapsed started t) m)) (\<lambda>m.
       Ret (case result of Inl e \<Rightarrow> (Inl e, m) | Inr _ \<Rightarrow> (Inr (Requeue 300), m))))))) s)"
proof -
  have step: "\<exists>rm. outcome_of W (pbind (unwind (record_reconciliation c (is_ok result) d m)) (\<lambda>m.
       Ret (case result of Inl e \<Rightarrow> (Inl e, m) | Inr _ \<Rightarrow> (Inr (Requeue 300), m)))) s' = Done rm \<and>
     counted c m result rm" for result d s'
  proof -
    obtain m' where "record_reconciliation c (is_ok result) d m = Value m'" "metrics_ok m'"
      "\<forall>ls. child 0 ls (operator_reconciliations_total m') =
        child 0 ls (operator_reconciliations_total m) +
        (if ls = [c, if is_ok result then ''success'' else ''error''] then 1 else 0)"
      using record_reconciliation_ok [OF assms] by blast
    then show ?thesis
      by (auto simp: exec counted_def reconciliations_def split: sum.split)
  qed
  show ?thesis
    unfolding outcome_now_pbind exec_pbind(2) [of W p]
    by (simp add: wraps_def step outcome_now_pbind del: split_paired_Ex split: outcome.split)
qed

section \<open>What run watches\<close>

text \<open>
  The builder calls of \<open>run\<close>: the primary kind, the namespace it and the Jobs are watched in
  (\<open>Api::all\<close> is \<open>None\<close>), its list semantics, the label selector of the owned Jobs, and
  the end on a signal.
\<close>

datatype ListSemantic = MostRecent | AnySemantic

record ControllerConfig =
  cc_kind :: string
  cc_namespace :: "string option"
  cc_semantic :: ListSemantic
  cc_owned_labels :: string
  cc_shutdown_on_signal :: bool

definition backup_run :: ControllerConfig where
  "backup_run =
     \<lparr>cc_kind = ''KafkaBackup'', cc_namespace = None, cc_semantic = AnySemantic,
      cc_owned_labels = ''kafkabackup.com/type=backup'', cc_shutdown_on_signal = True\<rparr>"

definition restore_run :: ControllerConfig where
  "restore_run =
     \<lparr>cc_kind = ''KafkaRestore'', cc_namespace = None, cc_semantic = AnySemantic,
      cc_owned_labels = ''kafkabackup.com/type=restore'', cc_shutdown_on_signal = True\<rparr>"

text \<open>
  The runtime reconciles, for an event of a selected Job, the resources of its kind that the Job
  names as owners, in the Job's namespace.
\<close>

definition in_scope :: "string option \<Rightarrow> ObjectMeta \<Rightarrow> bool" where
  "in_scope scope meta \<longleftrightarrow> (case scope of None \<Rightarrow> True | Some ns \<Rightarrow> om_namespace meta = Some ns)"

definition watched_owners :: "ControllerConfig \<Rightarrow> ObjectMeta \<Rightarrow> (string \<times> string) list" where
  "watched_owners cc job_meta =
     (if in_scope (cc_namespace cc) job_meta \<and> selects (cc_owned_labels cc) (unwrap_or (om_labels job_meta) [])
      then map (\<lambda>ow. (unwrap_or (om_namespace job_meta) [], ow_name ow))
        (filter (\<lambda>ow. ow_api_version ow = ''kafkabackup.com/v1alpha1'' \<and> ow_kind ow = cc_kind cc)
          (unwrap_or (om_owner_references job_meta) []))
      else [])"

text \<open>
  A Job the CronJob controller makes has the labels of the CronJob's Job template and, as its only
  owner, the CronJob.
\<close>

definition spawned_by :: "CronJob \<Rightarrow> ObjectMeta \<Rightarrow> bool" where
  "spawned_by cj meta \<longleftrightarrow>
     om_labels meta = Some (cronjob_job_labels cj) \<and>
     (case om_owner_references meta of
        Some [ow] \<Rightarrow> ow_api_version ow = ''batch/v1'' \<and> ow_kind ow = ''CronJob''
      | _ \<Rightarrow> False)"

lemma watch_selectors:
  "cc_owned_labels backup_run = ''kafkabackup.com/type'' @ ''='' @ ''backup''"
  "cc_owned_labels restore_run = ''kafkabackup.com/type'' @ ''='' @ ''restore''"
  by (simp_all add: backup_run_def restore_run_def)

text \<open>Neither controller is confined to a namespace.\<close>

lemma watch_scopes [simp]:
  "in_scope (cc_namespace backup_run) meta" "in_scope (cc_namespace restore_run) meta"
  by (simp_all add: backup_run_def restore_run_def in_scope_def)

lemma built_job_meta:
  "om_namespace (jb_metadata (build_backup_job ext backup jname cmap cluster auth sa)) =
     Some (unwrap_or (om_namespace (kbr_metadata backup)) [])"
  "om_owner_references (jb_metadata (build_backup_job ext backup jname cmap cluster auth sa)) =
     Some [owner_reference ''KafkaBackup'' (name_any (kbr_metadata backup)) (kbr_metadata backup)]"
  "om_namespace (jb_metadata (build_restore_job ext restore jname cmap cluster auth source sa)) =
     Some (unwrap_or (om_namespace (krr_metadata restore)) [])"
  "om_owner_references (jb_metadata (build_restore_job ext restore jname cmap cluster auth source sa)) =
     Some [owner_reference ''KafkaRestore'' (name_any (krr_metadata restore)) (krr_metadata restore)]"
  by (simp_all add: build_backup_job_def build_restore_job_def Let_def split: prod.split)

lemma watched_built_jobs:
  "watched_owners backup_run (jb_metadata (build_backup_job ext backup jname cmap cluster auth sa)) =
     (if keeps_label (kb_template (kbr_spec backup)) ''kafkabackup.com/type'' ''backup''
      then [(unwrap_or (om_namespace (kbr_metadata backup)) [], name_any (kbr_metadata backup))] else [])"
  "watched_owners restore_run (jb_metadata (build_restore_job ext restore jname cmap cluster auth source sa)) =
     (if keeps_label (kr_template (krr_spec restore)) ''kafkabackup.com/type'' ''restore''
      then [(unwrap_or (om_namespace (krr_metadata restore)) [], name_any (krr_metadata restore))] else [])"
  using selects_type [of "''backup''" "name_any (kbr_metadata backup)" "kcl_name cluster" "kb_template (kbr_spec backup)"]
    selects_type [of "''restore''" "name_any (krr_metadata restore)" "kcl_name cluster" "kr_template (krr_spec restore)"]
  by (simp_all add: watched_owners_def watch_selectors built_job_meta owner_reference_def
      build_job_labels [unfolded job_labels_def] del: append_Cons append_Nil)
     (simp_all add: backup_run_def restore_run_def)

lemma watched_other_kind:
  "watched_owners restore_run (jb_metadata (build_backup_job ext backup jname cmap cluster auth sa)) = []"
  "watched_owners backup_run (jb_metadata (build_restore_job ext restore jname cmap cluster auth source sa)) = []"
  by (simp_all add: watched_owners_def built_job_meta owner_reference_def)
     (simp_all add: backup_run_def restore_run_def)

lemma watched_spawned: "spawned_by cj meta \<Longrightarrow> watched_owners cc meta = []"
  by (auto simp: spawned_by_def watched_owners_def split: option.splits list.splits)

end
