(* ===== verification/Operator.thy ===== *)
theory Operator
  imports Controllers
begin

text \<open>
  The process (\<open>src/src/main.rs\<close>): start-up, the three tasks \<open>main\<close> joins, and the routes of
  the health and metrics server. What changes a task is an event: the listener that is bound or
  cannot be, the server's result, a reconciler's outcome, a signal of the operating system or a
  handler for it that cannot be installed. The controllers and the server are documented to end
  gracefully when they are told to; the server may also fail. All three run inside the future
  \<open>main\<close> waits for, and the controller runtime passes a reconciler's panic on, so a panic of one
  of them ends the process. The future the server waits for to shut down may panic too; whether the
  server library passes that panic on or takes it for the end of the wait is left open, as a part
  of the event. Panics inside the libraries are not modelled.
\<close>

section \<open>Tasks\<close>

text \<open>\<open>Stopping\<close>: the server takes no new connection and lets the open ones end.\<close>

datatype ServerTask = Binding | Serving | Stopping | ServerEnded

datatype ControllerTask = BackupController | RestoreController

record Tasks =
  tk_backup :: bool
  tk_restore :: bool
  tk_server :: ServerTask
  tk_signalled :: bool
  tk_metrics :: MetricsState

section \<open>Routes\<close>

record Response =
  re_headers :: "(string \<times> string) list"
  re_body :: string

definition healthz :: Response where
  "healthz = \<lparr>re_headers = [], re_body = ''ok''\<rparr>"

datatype Answer =
    NoAnswer            \<comment> \<open>the port takes no connection\<close>
  | NotFound            \<comment> \<open>the router's own answer to an unknown path\<close>
  | Answered Response

text \<open>What a new connection gets: only a server that is serving takes it.\<close>

definition serve :: "Prometheus \<Rightarrow> Tasks \<Rightarrow> string \<Rightarrow> Answer checked" where
  "serve P t path =
     (if tk_server t \<noteq> Serving then Value NoAnswer
      else if path = ''/healthz'' then Value (Answered healthz)
      else if path = ''/readyz'' then Value (Answered healthz)
      else if path = ''/metrics'' then
        checked_bind (gather P (tk_metrics t)) (\<lambda>text.
          Value (Answered \<lparr>re_headers = [(''content-type'', ''text/plain; version=0.0.4; charset=utf-8'')],
                       re_body = text\<rparr>))
      else Value NotFound)"

section \<open>The process\<close>

datatype Process =
    Starting
  | Operating Tasks
  | Exited "string option"   \<comment> \<open>the error \<open>main\<close> returns, if any\<close>
  | Aborted string           \<comment> \<open>a panic\<close>

text \<open>
  What the operating system brings to \<open>shutdown_signal\<close>: a signal, or the error of installing
  one of its two handlers, which it expects to succeed. \<open>None\<close>: it goes on waiting.
\<close>

datatype Signal =
    CtrlC
  | SigTerm
  | OtherSignal
  | CtrlCUnavailable string
  | SigTermUnavailable string

fun shutdown_signal :: "Signal \<Rightarrow> unit checked option" where
  "shutdown_signal CtrlC = Some (Value ())"
| "shutdown_signal SigTerm = Some (Value ())"
| "shutdown_signal OtherSignal = None"
| "shutdown_signal (CtrlCUnavailable err) = Some (Panics (''Failed to install Ctrl+C handler: '' @ err))"
| "shutdown_signal (SigTermUnavailable err) = Some (Panics (''Failed to install signal handler: '' @ err))"

definition shuts_down :: "Signal \<Rightarrow> bool" where
  "shuts_down sig \<longleftrightarrow> shutdown_signal sig = Some (Value ())"

datatype OpEvent =
    Connect "string option"             \<comment> \<open>the client, or the error of reading its configuration\<close>
  | Bind "string option"
  | ServeEnd "string option"
  | Reconciled ControllerTask "(Error + unit) outcome" int   \<comment> \<open>with its duration\<close>
  | ControllerEnd ControllerTask
  | SignalReceived Signal
  | HandlerFails Signal bool            \<comment> \<open>and whether the server library passes the panic on\<close>

definition start :: "Prometheus \<Rightarrow> string \<Rightarrow> string option \<Rightarrow> Process" where
  "start P version err =
     (case err of
        Some e \<Rightarrow> Exited (Some e)
      | None \<Rightarrow>
          (case MetricsState_new P version of
             Panics e \<Rightarrow> Aborted e
           | Value m \<Rightarrow> Operating \<lparr>tk_backup = True, tk_restore = True, tk_server = Binding,
               tk_signalled = False, tk_metrics = m\<rparr>))"

text \<open>\<open>join3\<close>: \<open>main\<close> returns when no task is left.\<close>

definition join3 :: "Tasks \<Rightarrow> Process" where
  "join3 t =
     (if \<not> tk_backup t \<and> \<not> tk_restore t \<and> tk_server t = ServerEnded then Exited None
      else Operating t)"

definition server_step :: "OpEvent \<Rightarrow> Tasks \<Rightarrow> Process option" where
  "server_step e t =
     (case (e, tk_server t) of
        (Bind None, Binding) \<Rightarrow> Some (Operating (t\<lparr>tk_server := Serving\<rparr>))
      | (Bind (Some err), Binding) \<Rightarrow> Some (Aborted err)
      | (ServeEnd None, Serving) \<Rightarrow>
          if tk_signalled t then Some (join3 (t\<lparr>tk_server := ServerEnded\<rparr>)) else None
      | (ServeEnd None, Stopping) \<Rightarrow> Some (join3 (t\<lparr>tk_server := ServerEnded\<rparr>))
      | (ServeEnd (Some err), Serving) \<Rightarrow> Some (join3 (t\<lparr>tk_server := ServerEnded\<rparr>))
      | (ServeEnd (Some err), Stopping) \<Rightarrow> Some (join3 (t\<lparr>tk_server := ServerEnded\<rparr>))
      | (HandlerFails sig passed_on, Serving) \<Rightarrow>
          (case shutdown_signal sig of
             Some (Panics err) \<Rightarrow>
               if passed_on then Some (Aborted err)
               else Some (Operating (t\<lparr>tk_server := Stopping\<rparr>))
           | _ \<Rightarrow> None)
      | _ \<Rightarrow> None)"

fun task_running :: "ControllerTask \<Rightarrow> Tasks \<Rightarrow> bool" where
  "task_running BackupController t = tk_backup t"
| "task_running RestoreController t = tk_restore t"

fun end_task :: "ControllerTask \<Rightarrow> Tasks \<Rightarrow> Tasks" where
  "end_task BackupController t = t\<lparr>tk_backup := False\<rparr>"
| "end_task RestoreController t = t\<lparr>tk_restore := False\<rparr>"

fun controller_name :: "ControllerTask \<Rightarrow> string" where
  "controller_name BackupController = ''backup''"
| "controller_name RestoreController = ''restore''"

text \<open>A signal reaches all three tasks; a server that is not serving yet does not wait for it.\<close>

definition told_to_end :: "Tasks \<Rightarrow> Tasks" where
  "told_to_end t = t\<lparr>tk_signalled := True,
     tk_server := if tk_server t = Serving then Stopping else tk_server t\<rparr>"

definition controller_step :: "OpEvent \<Rightarrow> Tasks \<Rightarrow> Process option" where
  "controller_step e t =
     (case e of
        Reconciled c out duration \<Rightarrow>
          if \<not> task_running c t then None
          else (case out of
                  Panicked err \<Rightarrow> Some (Aborted err)
                | Done result \<Rightarrow>
                    (case record_reconciliation (controller_name c) (is_ok result) duration
                            (tk_metrics t) of
                       Panics err \<Rightarrow> Some (Aborted err)
                     | Value m \<Rightarrow> Some (Operating (t\<lparr>tk_metrics := m\<rparr>))))
      | ControllerEnd c \<Rightarrow>
          if task_running c t \<and> tk_signalled t then Some (join3 (end_task c t)) else None
      | SignalReceived sig \<Rightarrow>
          Some (Operating (if shuts_down sig then told_to_end t else t))
      | _ \<Rightarrow> None)"

fun op_next :: "Prometheus \<Rightarrow> string \<Rightarrow> OpEvent \<Rightarrow> Process \<Rightarrow> Process option" where
  "op_next P version (Connect err) Starting = Some (start P version err)"
| "op_next P version e (Operating t) =
     (case server_step e t of Some p \<Rightarrow> Some p | None \<Rightarrow> controller_step e t)"
| "op_next P version e p = None"

inductive op_reach :: "Prometheus \<Rightarrow> string \<Rightarrow> OpEvent list \<Rightarrow> Process \<Rightarrow> bool"
  for P version where
  Init: "op_reach P version [] Starting"
| Event: "op_reach P version es p \<Longrightarrow> op_next P version e p = Some p' \<Longrightarrow>
    op_reach P version (es @ [e]) p'"

inductive_cases op_reachE: "op_reach P version es p"

section \<open>Invariants\<close>

text \<open>
  While the operator runs: its metrics are well typed, only the reconciliation vectors have
  children beside the build information, and a task that has ended had been told to, unless it
  was the server failing.
\<close>

definition idle_vec :: "'v Vec \<Rightarrow> bool" where
  "idle_vec v \<longleftrightarrow> vc_children v = []"

definition outcome_metrics_empty :: "MetricsState \<Rightarrow> bool" where
  "outcome_metrics_empty m \<longleftrightarrow>
     idle_vec (backup_records_total m) \<and> idle_vec (backup_bytes_total m) \<and>
     idle_vec (backup_duration_seconds m) \<and> idle_vec (backup_last_success_timestamp m) \<and>
     idle_vec (backup_last_failure_timestamp m) \<and> idle_vec (restore_records_total m) \<and>
     idle_vec (restore_bytes_total m) \<and> idle_vec (restore_duration_seconds m) \<and>
     idle_vec (backup_storage_bytes m) \<and> idle_vec (backup_lag_seconds m)"

fun process_ok :: "Process \<Rightarrow> bool" where
  "process_ok (Operating t) \<longleftrightarrow>
     metrics_ok (tk_metrics t) \<and> outcome_metrics_empty (tk_metrics t) \<and>
     (tk_signalled t \<or> tk_backup t \<and> tk_restore t)"
| "process_ok p \<longleftrightarrow> True"

lemma record_reconciliation_keeps_empty:
  "record_reconciliation c b d m = Value m' \<Longrightarrow> outcome_metrics_empty m \<Longrightarrow> outcome_metrics_empty m'"
  by (auto simp: record_reconciliation_def Let_def outcome_metrics_empty_def)

lemma MetricsState_new_empty: "MetricsState_new P v = Value m \<Longrightarrow> outcome_metrics_empty m"
  by (auto simp: MetricsState_new_def outcome_metrics_empty_def idle_vec_def new_vec_def)

lemma start_ok: "documented P \<Longrightarrow> process_ok (start P version err)"
  using MetricsState_new_ok [of P version]
  by (auto simp: start_def MetricsState_new_empty split: option.split)

lemma join3_ok: "process_ok (Operating t) \<Longrightarrow> process_ok (join3 t)"
  by (simp add: join3_def)

lemma server_step_ok: "server_step e t = Some p \<Longrightarrow> process_ok (Operating t) \<Longrightarrow> process_ok p"
  by (auto simp: server_step_def join3_def split: OpEvent.splits option.splits ServerTask.splits checked.splits if_splits)

lemma controller_step_ok: "controller_step e t = Some p \<Longrightarrow> process_ok (Operating t) \<Longrightarrow> process_ok p"
proof (cases e)
  case (Reconciled c out d)
  assume step: "controller_step e t = Some p" and ok: "process_ok (Operating t)"
  show ?thesis
  proof (cases out)
    case (Done result)
    obtain m where "record_reconciliation (controller_name c) (is_ok result) d (tk_metrics t) = Value m"
      "metrics_ok m" using record_reconciliation_ok ok by (metis process_ok.simps(1))
    with Done Reconciled step ok show ?thesis
      by (auto simp: controller_step_def record_reconciliation_keeps_empty split: if_splits)
  qed (use Reconciled step in \<open>auto simp: controller_step_def split: if_splits\<close>)
next
  case (ControllerEnd c)
  assume "controller_step e t = Some p" "process_ok (Operating t)"
  then show ?thesis
    using ControllerEnd by (cases c) (auto simp: controller_step_def join3_def split: if_splits)
qed (auto simp: controller_step_def told_to_end_def)

lemma op_next_ok:
  "documented P \<Longrightarrow> op_next P version e p = Some p' \<Longrightarrow> process_ok p \<Longrightarrow> process_ok p'"
  by (induction P version e p rule: op_next.induct)
     (auto simp: start_ok split: option.splits dest: server_step_ok controller_step_ok)

lemma op_reach_ok: "op_reach P version es p \<Longrightarrow> documented P \<Longrightarrow> process_ok p"
  by (induction rule: op_reach.induct) (auto intro: op_next_ok)

section \<open>How the process ends\<close>

text \<open>
  What makes the process panic: a port that cannot be bound, a handler that cannot be installed
  when the server library passes that panic on, and a reconciler.
\<close>

fun fatal :: "OpEvent \<Rightarrow> string \<Rightarrow> bool" where
  "fatal (Bind (Some err)) e \<longleftrightarrow> err = e"
| "fatal (Reconciled c (Panicked err) d) e \<longleftrightarrow> err = e"
| "fatal (HandlerFails sig True) e \<longleftrightarrow> shutdown_signal sig = Some (Panics e)"
| "fatal _ e \<longleftrightarrow> False"

lemma record_never_panics:
  "metrics_ok m \<Longrightarrow> record_reconciliation c b d m \<noteq> Panics e"
  using record_reconciliation_ok [of m c b d] by auto

lemma step_aborts:
  assumes "op_next P version ev p = Some (Aborted err)" "documented P" "process_ok p"
  shows "fatal ev err"
proof (cases p)
  case Starting
  then obtain c where "ev = Connect c" "start P version c = Aborted err"
    using assms(1) by (cases ev) auto
  then show ?thesis
    using MetricsState_new_ok [OF assms(2), of version] by (auto simp: start_def split: option.splits)
next
  case (Operating t)
  show ?thesis
  proof (cases "server_step ev t")
    case (Some q)
    then have "server_step ev t = Some (Aborted err)" using assms(1) Operating by simp
    then show ?thesis
      by (auto simp: server_step_def join3_def split: OpEvent.splits option.splits ServerTask.splits checked.splits if_splits)
  next
    case None
    then have "controller_step ev t = Some (Aborted err)" using assms(1) Operating by simp
    then show ?thesis
      using assms(3) Operating record_never_panics
      by (auto simp: controller_step_def join3_def
          split: OpEvent.splits outcome.splits checked.splits if_splits)
  qed
qed (use assms(1) in auto)

lemma fatal_aborts:
  assumes "op_next P version ev p = Some p'" "fatal ev err"
  shows "p' = Aborted err"
proof -
  obtain t where "p = Operating t" using assms by (cases p; cases ev) auto
  with assms show ?thesis
    by (cases "(ev, err)" rule: fatal.cases)
       (auto simp: server_step_def controller_step_def split: ServerTask.splits if_splits)
qed

lemma step_exits:
  assumes "op_next P version ev p = Some (Exited None)" "process_ok p"
  shows "\<exists>t. p = Operating t \<and> tk_signalled t"
proof (cases p)
  case (Operating t)
  show ?thesis
  proof (cases "tk_signalled t")
    case False
    then have "tk_backup t" "tk_restore t" using assms(2) Operating by auto
    with False assms(1) Operating show ?thesis
      by (auto simp: server_step_def controller_step_def join3_def told_to_end_def
          split: OpEvent.splits option.splits ServerTask.splits if_splits outcome.splits checked.splits)
  qed (use Operating in auto)
next
  case Starting
  then show ?thesis using assms(1)
    by (cases ev) (auto simp: start_def split: option.splits checked.splits)
qed (use assms(1) in auto)

lemma signalled_was_sent:
  "op_reach P version es p \<Longrightarrow> p = Operating t \<Longrightarrow> tk_signalled t \<Longrightarrow>
   \<exists>sig. SignalReceived sig \<in> set es \<and> shuts_down sig"
proof (induction arbitrary: t rule: op_reach.induct)
  case (Event es p e p')
  show ?case
  proof (cases p)
    case Starting
    then show ?thesis using Event.hyps(2) Event.prems
      by (cases e) (auto simp: start_def split: option.splits checked.splits)
  next
    case (Operating t0)
    show ?thesis
    proof (cases "tk_signalled t0")
      case True
      then show ?thesis using Event.IH [OF Operating] by auto
    next
      case False
      then show ?thesis using Event.hyps(2) Event.prems Operating
        by (auto simp: server_step_def controller_step_def join3_def told_to_end_def
            split: OpEvent.splits option.splits ServerTask.splits if_splits outcome.splits checked.splits)
    qed
  qed (use Event.hyps(2) in auto)
qed simp

section \<open>When the server answers\<close>

text \<open>
  Told by the events alone: the listener has been bound, and since then neither has the server
  ended, nor a signal reached it, nor the installation of a handler failed.
\<close>

fun stops_serving :: "OpEvent \<Rightarrow> bool" where
  "stops_serving (ServeEnd r) \<longleftrightarrow> True"
| "stops_serving (SignalReceived sig) \<longleftrightarrow> sig = CtrlC \<or> sig = SigTerm"
| "stops_serving (HandlerFails sig passed_on) \<longleftrightarrow> True"
| "stops_serving e \<longleftrightarrow> False"

definition listening :: "OpEvent list \<Rightarrow> bool" where
  "listening es \<longleftrightarrow> (\<exists>before after. es = before @ Bind None # after \<and> \<not> list_ex stops_serving after)"

lemma shuts_down_iff: "shuts_down sig \<longleftrightarrow> sig = CtrlC \<or> sig = SigTerm"
  by (cases sig) (simp_all add: shuts_down_def)

lemma listening_snoc:
  "listening (es @ [e]) \<longleftrightarrow> e = Bind None \<or> listening es \<and> \<not> stops_serving e"
proof
  assume "listening (es @ [e])"
  then obtain b a where ba: "es @ [e] = b @ Bind None # a" "\<not> list_ex stops_serving a"
    by (auto simp: listening_def)
  then show "e = Bind None \<or> listening es \<and> \<not> stops_serving e"
    by (cases a rule: rev_cases) (auto simp: listening_def list_ex_iff)
next
  assume "e = Bind None \<or> listening es \<and> \<not> stops_serving e"
  then show "listening (es @ [e])"
  proof
    assume "e = Bind None"
    then show ?thesis unfolding listening_def by (intro exI [of _ es] exI [of _ "[]"]) simp
  next
    assume "listening es \<and> \<not> stops_serving e"
    then obtain b a where "es = b @ Bind None # a" "\<not> list_ex stops_serving a" "\<not> stops_serving e"
      by (auto simp: listening_def)
    then show ?thesis unfolding listening_def by (intro exI [of _ b] exI [of _ "a @ [e]"]) simp
  qed
qed

lemma end_task_server [simp]: "tk_server (end_task c t) = tk_server t"
  by (cases c) simp_all

lemma never_starts_again: "op_next P version e p \<noteq> Some Starting"
  by (induction P version e p rule: op_next.induct)
     (auto simp: start_def server_step_def controller_step_def join3_def
       split: OpEvent.splits option.splits ServerTask.splits if_splits outcome.splits checked.splits)

lemma step_serving:
  "op_next P version e (Operating t) = Some (Operating t') \<Longrightarrow>
   tk_server t' = Serving \<longleftrightarrow> e = Bind None \<or> tk_server t = Serving \<and> \<not> stops_serving e"
  by (auto simp: server_step_def controller_step_def join3_def told_to_end_def shuts_down_iff
      split: OpEvent.splits option.splits ServerTask.splits if_splits outcome.splits checked.splits)

lemma serving_iff:
  "op_reach P version es p \<Longrightarrow> p = Operating t \<Longrightarrow> tk_server t = Serving \<longleftrightarrow> listening es"
proof (induction arbitrary: t rule: op_reach.induct)
  case (Event es p e p')
  show ?case
  proof (cases p)
    case Starting
    then have "es = []" using Event.hyps(1) never_starts_again by (auto elim: op_reachE)
    with Event Starting show ?thesis
      by (cases e) (auto simp: start_def listening_def Cons_eq_append_conv split: option.splits checked.splits)
  next
    case (Operating t0)
    then show ?thesis
      using step_serving Event.IH [OF Operating] Event.hyps(2) Event.prems by (simp add: listening_snoc) 
  qed (use Event.hyps(2) in auto)
qed simp

end
