(* ===== verification/Operator_Properties.thy ===== *)
theory Operator_Properties
  imports Operator Samples
begin

text \<open>
  Properties of the process as a whole: its metrics, its endpoints, how it ends, and which events
  of Jobs bring a resource back to its reconciler.
\<close>

section \<open>A metrics library\<close>

definition sample_prometheus :: Prometheus where
  "sample_prometheus =
     \<lparr>pm_create = valid_opts,
      pm_register = (\<lambda>reg o1. op_name o1 \<notin> set (map op_name reg)),
      pm_gather = filter (\<lambda>f. fam_series f \<noteq> []),
      pm_encode = (\<lambda>fs. if list_all (\<lambda>f. fam_series f \<noteq> []) fs
         then Some (concat (map (\<lambda>f. CHR ''#'' # op_name (fam_opts f)) fs)) else None)\<rparr>"

lemma sample_prometheus_documented: "documented sample_prometheus"
  by (auto simp: documented_def sample_prometheus_def list_all_iff neq_Nil_conv)

section \<open>Metrics\<close>

text \<open>C36.
  The metrics never panic: the thirteen vectors are accepted and registered without a clash, and
  every recording gives each vector it touches as many label values as the vector declares, so
  from well-typed metrics it returns well-typed metrics.
\<close>

theorem metrics_well_typed:
  assumes "documented P"
  shows "(\<exists>m. MetricsState_new P version = Value m \<and> metrics_ok m) \<and>
    (\<forall>m. metrics_ok m \<longrightarrow>
       (\<exists>m'. record_reconciliation controller succeeded duration m = Value m' \<and> metrics_ok m') \<and>
       (\<exists>m'. record_backup_success name cluster records bytes duration t m = Value m' \<and> metrics_ok m') \<and>
       (\<exists>m'. record_backup_failure name cluster t m = Value m' \<and> metrics_ok m') \<and>
       (\<exists>m'. record_restore_success name cluster records bytes duration m = Value m' \<and> metrics_ok m'))"
proof (intro conjI allI impI)
  show "\<exists>m. MetricsState_new P version = Value m \<and> metrics_ok m"
    using MetricsState_new_ok [OF assms] by blast
qed (metis record_reconciliation_ok record_backup_success_ok record_backup_failure_ok
    record_restore_success_ok)+

theorem metrics_well_typed_witness:
  "\<exists>m m'. MetricsState_new sample_prometheus ''0.1'' = Value m \<and>
     record_backup_failure ''bk'' ''kafka'' 0 m = Value m' \<and> metrics_ok m'"
  using metrics_well_typed [OF sample_prometheus_documented, of "''0.1''" _ _ _ "''bk''" "''kafka''" _ _ 0]
  by blast

text \<open>C37.
  While the operator runs, its endpoints answer exactly from the moment its port is bound until the
  server ends, a shutdown signal reaches it or a signal handler cannot be installed: then both
  probes answer, whatever the reconcilers do, \<open>/metrics\<close> is served with a text that is not empty,
  and any other path is not found; at all other times no connection is taken. The vectors of the
  backups' and restores' own results never have children, however many of them have finished.
\<close>

theorem endpoints_answer:
  assumes "documented P" "op_reach P version es (Operating t)"
  shows "(if listening es
     then (\<exists>r. serve P t ''/metrics'' = Value (Answered r) \<and> re_body r \<noteq> []) \<and>
       serve P t ''/healthz'' = Value (Answered healthz) \<and>
       serve P t ''/readyz'' = Value (Answered healthz) \<and>
       (\<forall>path. path \<notin> {''/metrics'', ''/healthz'', ''/readyz''} \<longrightarrow> serve P t path = Value NotFound)
     else (\<forall>path. serve P t path = Value NoAnswer)) \<and>
    outcome_metrics_empty (tk_metrics t)"
proof -
  from op_reach_ok [OF assms(2,1)]
  have ok: "metrics_ok (tk_metrics t)" "outcome_metrics_empty (tk_metrics t)" by simp_all
  obtain body where "gather P (tk_metrics t) = Value body" "body \<noteq> []"
    using gather_ok [OF assms(1) ok(1)] by blast
  with ok(2) serving_iff [OF assms(2) refl] show ?thesis by (simp add: serve_def)
qed

lemma sample_start:
  "\<exists>t. op_reach sample_prometheus v [Connect None] (Operating t) \<and> \<not> tk_signalled t \<and> tk_server t = Binding"
proof -
  obtain m where "MetricsState_new sample_prometheus v = Value m"
    using MetricsState_new_ok [OF sample_prometheus_documented] by blast
  then obtain t where "start sample_prometheus v None = Operating t" "\<not> tk_signalled t" "tk_server t = Binding"
    by (simp add: start_def)
  then show ?thesis
    using op_reach.Event [OF op_reach.Init, of sample_prometheus v "Connect None" "Operating t"] by auto
qed

lemma sample_bound:
  "\<exists>t. op_reach sample_prometheus v [Connect None, Bind None] (Operating t)"
proof -
  obtain t where t: "op_reach sample_prometheus v [Connect None] (Operating t)" "tk_server t = Binding"
    using sample_start by blast
  then have "op_next sample_prometheus v (Bind None) (Operating t) = Some (Operating (t\<lparr>tk_server := Serving\<rparr>))"
    by (simp add: server_step_def)
  from op_reach.Event [OF t(1) this] show ?thesis by auto
qed

lemma sample_listening: "listening [Connect None, Bind None]" "\<not> listening [Connect None]"
  using listening_snoc [of "[Connect None]" "Bind None"] listening_snoc [of "[]" "Connect None"]
  by (simp_all add: listening_def)

theorem endpoints_answer_witness:
  "(\<exists>t r. op_reach sample_prometheus ''0.1'' [Connect None, Bind None] (Operating t) \<and>
     serve sample_prometheus t ''/metrics'' = Value (Answered r) \<and> re_body r \<noteq> []) \<and>
   (\<exists>t. op_reach sample_prometheus ''0.1'' [Connect None] (Operating t) \<and>
     serve sample_prometheus t ''/readyz'' = Value NoAnswer)"
proof -
  obtain t t' where t: "op_reach sample_prometheus ''0.1'' [Connect None, Bind None] (Operating t)"
    "op_reach sample_prometheus ''0.1'' [Connect None] (Operating t')"
    using sample_bound sample_start by blast
  show ?thesis
    using endpoints_answer [OF sample_prometheus_documented t(1)]
      endpoints_answer [OF sample_prometheus_documented t(2)] t
    by (auto simp: sample_listening)
qed

section \<open>The end of the process\<close>

text \<open>C38.
  The process returns without error only after a shutdown signal has been received, and it panics
  exactly when its port cannot be bound, when a signal handler cannot be installed and the server
  library passes that panic on, or when a reconciler panics: a failing server, or any number of
  failing reconciliations, leaves it running.
\<close>

theorem operator_ends_on_signal:
  assumes "documented P" "op_reach P version es p" "op_next P version e p = Some p'"
  shows "(p' = Exited None \<longrightarrow>
      SignalReceived CtrlC \<in> set es \<or> SignalReceived SigTerm \<in> set es) \<and>
    (\<forall>err. p' = Aborted err \<longleftrightarrow> fatal e err)"
proof (intro conjI allI impI)
  note ok = op_reach_ok [OF assms(2,1)]
  show "SignalReceived CtrlC \<in> set es \<or> SignalReceived SigTerm \<in> set es" if "p' = Exited None"
  proof -
    from step_exits [OF assms(3) [unfolded that] ok]
    obtain t where "p = Operating t" "tk_signalled t" by blast
    from signalled_was_sent [OF assms(2) this] show ?thesis by (auto simp: shuts_down_iff)
  qed
  show "p' = Aborted err \<longleftrightarrow> fatal e err" for err
    using step_aborts [OF _ assms(1) ok] fatal_aborts assms(3) by blast
qed

theorem operator_ends_on_signal_witness:
  "\<exists>p. op_reach sample_prometheus ''0.1'' [Connect None] p \<and>
     (\<forall>e. op_next sample_prometheus ''0.1'' e p \<noteq> Some (Exited None))"
proof -
  obtain t where t: "op_reach sample_prometheus ''0.1'' [Connect None] (Operating t)"
    using sample_start by blast
  have "op_next sample_prometheus ''0.1'' e (Operating t) \<noteq> Some (Exited None)" for e
    using operator_ends_on_signal [OF sample_prometheus_documented t, of e "Exited None"] by auto
  with t show ?thesis by blast
qed

section \<open>Watched Jobs\<close>


definition scheduled_backup :: KafkaBackup where
  "scheduled_backup = sample_backup\<lparr>kbr_spec := sample_backup_spec\<lparr>kb_schedule :=
     Some \<lparr>sd_cron = ''0 2 * * *'', sd_timezone = None, sd_suspend = False\<rparr>\<rparr>\<rparr>"

definition spawned_meta :: "CronJob \<Rightarrow> ObjectMeta" where
  "spawned_meta cj = empty_meta
     \<lparr>om_name := Some ''bk-scheduled-1'', om_namespace := Some ''ns'',
      om_labels := Some (cronjob_job_labels cj),
      om_owner_references := Some [\<lparr>ow_api_version = ''batch/v1'', ow_kind = ''CronJob'',
        ow_name = ''bk-scheduled'', ow_uid = ''u1'', ow_controller = Some True,
        ow_block_owner_deletion = Some True\<rparr>]\<rparr>"

lemma spawned_meta_spawned: "spawned_by cj (spawned_meta cj)"
  by (simp add: spawned_by_def spawned_meta_def)

definition example_target :: ResolvedKafkaCluster where
  "example_target =
     \<lparr>kcl_name = ''kafka'', kcl_namespace = ''ns'', kcl_bootstrap_servers = ''b'', kcl_replicas = 3,
      kcl_tls_enabled = False, kcl_listener_name = ''plain''\<rparr>"


end
