(* ===== verification/Pod_Config.thy ===== *)
theory Pod_Config
  imports Job_Builders Config_Backup Config_Restore
begin

text \<open>
  The configuration file and the pod that reads it are built apart (\<open>adapters\<close> and
  \<open>jobs\<close>). Here they are put together: every credential the file refers to by an
  environment placeholder is an environment variable of the pod, and every certificate path is a
  file some mounted secret provides.
\<close>

section \<open>The files and variables of a pod\<close>

fun m_env :: "mounted \<Rightarrow> EnvVar list" where
  "m_env (vs, ms, env) = env"

fun m_volumes :: "mounted \<Rightarrow> Volume list" where
  "m_volumes (vs, ms, env) = vs"

fun m_mounts :: "mounted \<Rightarrow> VolumeMount list" where
  "m_mounts (vs, ms, env) = ms"

text \<open>
  A secret volume shows the listed items, or every key of the secret; \<open>keys\<close> gives the keys
  of a secret by its name.
\<close>

definition volume_files :: "(string \<Rightarrow> string list) \<Rightarrow> Volume \<Rightarrow> string list" where
  "volume_files keys v =
     (case vo_secret v of
        None \<Rightarrow> []
      | Some s \<Rightarrow>
          (case sv_items s of
             Some items \<Rightarrow> map kp_path items
           | None \<Rightarrow> keys (unwrap_or (sv_secret_name s) [])))"

fun mount_files :: "(string \<Rightarrow> string list) \<Rightarrow> Volume list \<Rightarrow> VolumeMount \<Rightarrow> string list" where
  "mount_files keys [] m = []"
| "mount_files keys (v # vs) m =
     (if vo_name v = vm_name m then map (\<lambda>f. vm_mount_path m @ ''/'' @ f) (volume_files keys v) else [])
     @ mount_files keys vs m"

definition pod_files :: "(string \<Rightarrow> string list) \<Rightarrow> mounted \<Rightarrow> string list" where
  "pod_files keys vme = concat (map (mount_files keys (m_volumes vme)) (m_mounts vme))"

section \<open>What the builder mounts\<close>

lemma m_push_volume [simp]:
  "m_volumes (push_volume v p acc) = m_volumes acc @ [v]"
  "m_mounts (push_volume v p acc) = m_mounts acc @ [read_only_mount (vo_name v) p]"
  "m_env (push_volume v p acc) = m_env acc"
  by (cases acc; simp)+

lemma m_push_env [simp]:
  "m_volumes (push_env e acc) = m_volumes acc"
  "m_mounts (push_env e acc) = m_mounts acc"
  "m_env (push_env e acc) = m_env acc @ [e]"
  by (cases acc; simp)+

lemma mount_files_append [simp]:
  "mount_files keys (vs @ ws) m = mount_files keys vs m @ mount_files keys ws m"
  by (induction vs) simp_all

text \<open>Files only accumulate.\<close>

lemma pod_files_push_volume:
  "set (pod_files keys (push_volume v p acc)) \<supseteq>
     set (pod_files keys acc) \<union> (\<lambda>f. p @ ''/'' @ f) ` set (volume_files keys v)"
  by (auto simp: pod_files_def read_only_mount_def)

lemma pod_files_push_env [simp]: "pod_files keys (push_env e acc) = pod_files keys acc"
  by (simp add: pod_files_def)

lemma pod_files_keep: "f \<in> set (pod_files keys acc) \<Longrightarrow> f \<in> set (pod_files keys (push_volume v p acc))"
  by (rule subsetD [OF pod_files_push_volume]) simp

lemma pod_files_new:
  "f \<in> set (volume_files keys v) \<Longrightarrow> p @ ''/'' @ f \<in> set (pod_files keys (push_volume v p acc))"
  by (rule subsetD [OF pod_files_push_volume]) simp

lemmas storage_push_defs =
  add_storage_credentials_def push_credentials_file_def push_secret_env_def
  add_credentials_file_volume_def

text \<open>The storage's credentials are volumes and variables pushed one after another.\<close>

lemma storage_pushes:
  assumes start: "R a b"
    and volume: "\<And>v p a b. R a b \<Longrightarrow> R (push_volume v p a) (push_volume v p b)"
    and env: "\<And>e a b. R a b \<Longrightarrow> R (push_env e a) (push_env e b)"
  shows "R (add_storage_credentials st a) (add_storage_credentials st b)"
proof -
  have secret: "R a b \<Longrightarrow> R (push_secret_env n s a) (push_secret_env n s b)" for n s a b
    by (simp add: push_secret_env_def env split: option.split)
  have creds: "R a b \<Longrightarrow> R (push_credentials_file n s a) (push_credentials_file n s b)" for n s a b
    by (simp add: push_credentials_file_def add_credentials_file_volume_def env volume
        split: option.split)
  show ?thesis
    by (simp add: add_storage_credentials_def start secret creds split: StorageType.split option.split)
qed

lemma storage_keeps_files:
  "f \<in> set (pod_files keys acc) \<Longrightarrow> f \<in> set (pod_files keys (add_storage_credentials st acc))"
  by (rule storage_pushes [where R = "\<lambda>a _. f \<in> set (pod_files keys a)" and b = acc])
     (simp_all add: pod_files_keep)

lemma user_keeps_files:
  "f \<in> set (pod_files keys acc) \<Longrightarrow> f \<in> set (pod_files keys (add_user_credentials auth acc))"
  by (auto simp: add_user_credentials_def pod_files_keep split: ResolvedAuth.split)

lemma volume_files_secret [simp]:
  "volume_files keys (secret_volume n s items) =
     (case items of Some is \<Rightarrow> map kp_path is | None \<Rightarrow> keys s)"
  by (simp add: volume_files_def secret_volume_def split: option.split)

lemma ca_file_mounted:
  assumes "tls_enabled \<or> is_tls_auth auth"
  shows "''/certs/cluster-ca/ca.crt'' \<in>
    set (pod_files keys (build_volumes_and_mounts cm cluster tls_enabled auth st ca))"
proof -
  obtain s k where ca: "ca_secret_ref cluster ca = (s, k)" by fastforce
  have "''/certs/cluster-ca'' @ ''/'' @ ''ca.crt'' \<in> set (pod_files keys (push_volume
      (secret_volume ''cluster-ca'' s (Some [\<lparr>kp_key = k, kp_path = ''ca.crt''\<rparr>])) ''/certs/cluster-ca''
      (push_volume (config_volume cm) ''/config'' ([], [], []))))"
    by (rule pod_files_new) simp
  then show ?thesis
    using assms unfolding build_volumes_and_mounts_def Let_def
    by (intro storage_keeps_files user_keeps_files) (simp add: ca)
qed

lemma user_file_mounted:
  assumes "f \<in> set (keys s)"
  shows "''/certs/user/'' @ f \<in>
    set (pod_files keys (build_volumes_and_mounts cm cluster tls_enabled (RTls s) st ca))"
proof -
  have "''/certs/user'' @ ''/'' @ f \<in> set (pod_files keys (add_user_credentials (RTls s) acc))" for acc
    unfolding add_user_credentials_def ResolvedAuth.case
    by (rule pod_files_new) (simp add: assms)
  then show ?thesis
    unfolding build_volumes_and_mounts_def Let_def
    by (intro storage_keeps_files) simp
qed

section \<open>Paths of the configuration\<close>

definition str_values :: "ymap \<Rightarrow> string list \<Rightarrow> string list" where
  "str_values m ks =
     List.map_filter (\<lambda>k. case gets m k of Some (YStr s) \<Rightarrow> Some s | _ \<Rightarrow> None) ks"

definition tls_paths :: "ymap \<Rightarrow> string list" where
  "tls_paths security =
     str_values security [''ssl_ca_location'', ''ssl_certificate_location'', ''ssl_key_location'']"

text \<open>A Strimzi user secret: the keys the configuration's fixed file names stand for.\<close>

definition user_cert_keys :: "(string \<Rightarrow> string list) \<Rightarrow> ResolvedAuth \<Rightarrow> bool" where
  "user_cert_keys keys auth =
     (case auth of RTls s \<Rightarrow> {''user.crt'', ''user.key''} \<subseteq> set (keys s) | _ \<Rightarrow> True)"

lemma tls_paths_simps:
  "tls_paths (build_security_config cluster auth) =
     (if kcl_tls_enabled cluster \<or> is_tls_auth auth then [''/certs/cluster-ca/ca.crt''] else [])
     @ (case auth of RTls _ \<Rightarrow> [''/certs/user/user.crt'', ''/certs/user/user.key''] | _ \<Rightarrow> [])"
  by (cases auth) (simp_all add: tls_paths_def str_values_def List.map_filter_def security_lookups)

lemma tls_paths_mounted:
  assumes "user_cert_keys keys auth"
  shows "set (tls_paths (build_security_config cluster auth)) \<subseteq>
    set (pod_files keys (build_volumes_and_mounts cm name (kcl_tls_enabled cluster) auth st ca))"
proof -
  have ca: "kcl_tls_enabled cluster \<or> is_tls_auth auth \<Longrightarrow> ''/certs/cluster-ca/ca.crt'' \<in>
      set (pod_files keys (build_volumes_and_mounts cm name (kcl_tls_enabled cluster) auth st ca))"
    by (rule ca_file_mounted)
  show ?thesis
  proof (cases auth)
    case (RTls s)
    with assms have "''user.crt'' \<in> set (keys s)" "''user.key'' \<in> set (keys s)"
      by (simp_all add: user_cert_keys_def)
    from user_file_mounted [where s = s and keys = keys, OF this(1)] user_file_mounted [where s = s and keys = keys, OF this(2)]
      ca RTls show ?thesis
      by (simp add: tls_paths_simps)
  qed (use ca in \<open>auto simp: tls_paths_simps split: if_splits\<close>)
qed

section \<open>Placeholders of the configuration\<close>

text \<open>The name in \<open>${NAME}\<close>, if the text has that form.\<close>

definition placeholder :: "string \<Rightarrow> string option" where
  "placeholder s =
     and_then (strip_prefix s ''${'') (\<lambda>r.
       if ends_with r ''}'' then Some (take (length r - 1) r) else None)"

definition credential_keys :: "string list" where
  "credential_keys = [''access_key'', ''secret_key'', ''account_key'', ''sas_token'', ''client_secret'']"

text \<open>What the credential keys of a storage section hold: placeholder names, or \<open>None\<close>.\<close>

definition credential_refs :: "ymap \<Rightarrow> string option list" where
  "credential_refs m = map placeholder (str_values m credential_keys)"

definition env_names :: "mounted \<Rightarrow> string list" where
  "env_names vme = map ev_name (m_env vme)"

lemma placeholder_consts:
  "placeholder ''${AWS_ACCESS_KEY_ID}'' = Some ''AWS_ACCESS_KEY_ID''"
  "placeholder ''${AWS_SECRET_ACCESS_KEY}'' = Some ''AWS_SECRET_ACCESS_KEY''"
  "placeholder ''${AZURE_STORAGE_KEY}'' = Some ''AZURE_STORAGE_KEY''"
  "placeholder ''${AZURE_STORAGE_SAS_TOKEN}'' = Some ''AZURE_STORAGE_SAS_TOKEN''"
  "placeholder ''${AZURE_CLIENT_SECRET}'' = Some ''AZURE_CLIENT_SECRET''"
  "placeholder ''${KAFKA_SASL_PASSWORD}'' = Some ''KAFKA_SASL_PASSWORD''"
  "placeholder ''${BACKUP_ID}'' = Some ''BACKUP_ID''"
  by (simp_all add: placeholder_def strip_prefix_def starts_with_def ends_with_def)

lemma ev_name_consts [simp]:
  "ev_name (secret_env_var n s k) = n" "ev_name (static_env_var n v) = n"
  "ev_name (job_name_env_var n) = n"
  by (simp_all add: secret_env_var_def static_env_var_def job_name_env_var_def)

lemma env_names_storage:
  "env_names (build_volumes_and_mounts cm name tls auth st ca) =
     (case auth of RScramSha512 _ _ _ \<Rightarrow> [''KAFKA_SASL_PASSWORD''] | _ \<Rightarrow> [])
     @ map ev_name (m_env (add_storage_credentials st ([], [], [])))"
proof -
  have st: "m_env (add_storage_credentials st acc) =
      m_env acc @ m_env (add_storage_credentials st ([], [], []))" for acc
    by (rule storage_pushes [where R = "\<lambda>a b. m_env a = m_env acc @ m_env b"]) simp_all
  show ?thesis
    unfolding build_volumes_and_mounts_def Let_def env_names_def
    by (subst st) (simp add: add_user_credentials_def split_beta split: ResolvedAuth.split)
qed

lemma s3_gets:
  assumes "build_s3_config st = Inr m" "st_s3 st = Some s3"
  shows "gets m ''access_key'' = (if is_some (s3_access_key_secret s3)
      then Some (YStr ''${AWS_ACCESS_KEY_ID}'') else None)"
    and "gets m ''secret_key'' = (if is_some (s3_secret_key_secret s3)
      then Some (YStr ''${AWS_SECRET_ACCESS_KEY}'') else None)"
    and "gets m ''account_key'' = None" "gets m ''sas_token'' = None"
      "gets m ''client_secret'' = None"
  using assms by (simp_all add: build_s3_config_def Let_def kv_simps, safe, simp_all add: kv_simps)

lemma s3_refs:
  assumes "build_s3_config st = Inr m" "st_type st = S3"
  shows "set (credential_refs m) \<subseteq>
    Some ` ev_name ` set (m_env (add_storage_credentials st ([], [], [])))"
proof -
  obtain s3 where s3: "st_s3 st = Some s3"
    using assms(1) by (auto simp: build_s3_config_def)
  have "credential_refs m =
      (if is_some (s3_access_key_secret s3) then [Some ''AWS_ACCESS_KEY_ID''] else [])
      @ (if is_some (s3_secret_key_secret s3) then [Some ''AWS_SECRET_ACCESS_KEY''] else [])"
    by (simp add: credential_refs_def credential_keys_def str_values_def List.map_filter_def
        s3_gets [OF assms(1) s3] placeholder_consts)
  moreover have "ev_name ` set (m_env (add_storage_credentials st ([], [], []))) \<supseteq>
      (if is_some (s3_access_key_secret s3) then {''AWS_ACCESS_KEY_ID''} else {})
      \<union> (if is_some (s3_secret_key_secret s3) then {''AWS_SECRET_ACCESS_KEY''} else {})"
    by (auto simp: storage_push_defs assms(2) s3 is_some_iff split: option.split)
  ultimately show ?thesis by (auto split: if_splits)
qed

lemma azure_gets:
  assumes "build_azure_config st = Inr m" "st_azure st = Some az"
  shows "gets m ''account_key'' =
      (if is_some (az_credentials_secret az) \<or> is_some (az_account_key_secret az)
       then Some (YStr ''${AZURE_STORAGE_KEY}'') else None)"
    and "gets m ''sas_token'' = (if is_some (az_sas_token_secret az)
      then Some (YStr ''${AZURE_STORAGE_SAS_TOKEN}'') else None)"
    and "gets m ''client_secret'' = (if is_some (az_client_secret_secret az)
      then Some (YStr ''${AZURE_CLIENT_SECRET}'') else None)"
    and "gets m ''access_key'' = None" "gets m ''secret_key'' = None"
  using assms by (simp_all add: build_azure_config_def Let_def kv_simps, safe, simp_all add: kv_simps)

lemma azure_refs:
  assumes "build_azure_config st = Inr m" "st_type st = Azure"
  shows "set (credential_refs m) \<subseteq>
    Some ` ev_name ` set (m_env (add_storage_credentials st ([], [], [])))"
proof -
  obtain az where az: "st_azure st = Some az"
    using assms(1) by (auto simp: build_azure_config_def)
  let ?k = "is_some (az_credentials_secret az) \<or> is_some (az_account_key_secret az)"
  have "credential_refs m =
      (if ?k then [Some ''AZURE_STORAGE_KEY''] else [])
      @ (if is_some (az_sas_token_secret az) then [Some ''AZURE_STORAGE_SAS_TOKEN''] else [])
      @ (if is_some (az_client_secret_secret az) then [Some ''AZURE_CLIENT_SECRET''] else [])"
    by (simp add: credential_refs_def credential_keys_def str_values_def List.map_filter_def
        azure_gets [OF assms(1) az] placeholder_consts)
  moreover have "ev_name ` set (m_env (add_storage_credentials st ([], [], []))) \<supseteq>
      (if ?k then {''AZURE_STORAGE_KEY''} else {})
      \<union> (if is_some (az_sas_token_secret az) then {''AZURE_STORAGE_SAS_TOKEN''} else {})
      \<union> (if is_some (az_client_secret_secret az) then {''AZURE_CLIENT_SECRET''} else {})"
    by (cases "az_account_key_secret az"; cases "az_credentials_secret az")
       (auto simp: storage_push_defs assms(2) az is_some_iff split: option.split)
  ultimately show ?thesis by (auto split: if_splits)
qed

lemma no_refs:
  "(\<And>k. k \<in> set credential_keys \<Longrightarrow> gets m k = None) \<Longrightarrow> credential_refs m = []"
  by (simp add: credential_refs_def str_values_def List.map_filter_def filter_empty_conv)

lemma gcs_gets:
  assumes "build_gcs_config st = Inr m"
    and "k \<notin> {''backend'', ''bucket'', ''prefix'', ''service_account_path''}"
  shows "gets m k = None"
proof -
  obtain gcs where "st_gcs st = Some gcs" using assms(1) by (auto simp: build_gcs_config_def)
  with assms show ?thesis
    by (cases "is_some (gc_credentials_secret gcs)")
       (simp_all add: build_gcs_config_def Let_def, safe, simp_all add: kv_simps)
qed

lemma filesystem_gets:
  assumes "build_filesystem_config st = Inr m" "k \<notin> {''backend'', ''path''}"
  shows "gets m k = None"
proof -
  obtain fs where "st_filesystem st = Some fs"
    using assms(1) by (auto simp: build_filesystem_config_def)
  with assms show ?thesis
    by (simp add: build_filesystem_config_def Let_def, safe, simp add: kv_simps)
qed

lemma storage_refs:
  assumes "build_storage_config st = Inr m"
  shows "set (credential_refs m) \<subseteq>
    Some ` ev_name ` set (m_env (add_storage_credentials st ([], [], [])))"
proof (cases "st_type st")
  case S3
  with assms show ?thesis by (intro s3_refs) (simp_all add: build_storage_config_def)
next
  case Azure
  with assms show ?thesis by (intro azure_refs) (simp_all add: build_storage_config_def)
next
  case Gcs
  with assms have "build_gcs_config st = Inr m" by (simp add: build_storage_config_def)
  then have "credential_refs m = []"
    by (intro no_refs) (rule gcs_gets, auto simp: credential_keys_def)
  then show ?thesis by simp
next
  case Filesystem
  with assms have "build_filesystem_config st = Inr m" by (simp add: build_storage_config_def)
  then have "credential_refs m = []"
    by (intro no_refs) (rule filesystem_gets, auto simp: credential_keys_def)
  then show ?thesis by simp
qed

section \<open>Volumes and mounts pair up\<close>

definition paired :: "mounted \<Rightarrow> bool" where
  "paired vme \<longleftrightarrow> map vm_name (m_mounts vme) = map vo_name (m_volumes vme)"

lemma paired_push [simp]: "paired (push_volume v p acc) = paired acc" "paired (push_env e acc) = paired acc"
  by (simp_all add: paired_def read_only_mount_def)

lemma paired_build: "paired (build_volumes_and_mounts cm name tls auth st ca)"
proof -
  have st: "paired acc \<Longrightarrow> paired (add_storage_credentials st acc)" for acc
    by (rule storage_pushes [where R = "\<lambda>a _. paired a" and b = acc]) simp_all
  have us: "paired acc \<Longrightarrow> paired (add_user_credentials auth acc)" for acc
    by (simp add: add_user_credentials_def split: ResolvedAuth.split)
  show ?thesis
    unfolding build_volumes_and_mounts_def Let_def split_beta
    by (intro st us) (simp add: paired_def read_only_mount_def)
qed

end
