(* ===== verification/Config_Properties.thy ===== *)
theory Config_Properties
  imports Pod_Config Selectors Samples
begin

text \<open>
  Properties of the configuration files and the objects that carry them: what a pod provides of
  what its configuration refers to, which specifications are accepted, which labels a Job ends
  up with, and which backup a restore names.
\<close>

section \<open>What the runner sees\<close>

text \<open>The volumes of a pod, and the mounts and variables of its first container.\<close>

definition runner_view :: "PodSpec \<Rightarrow> mounted" where
  "runner_view p =
     (unwrap_or (ps_volumes p) [], unwrap_or (ct_volume_mounts (hd (ps_containers p))) [],
      env_list (hd (ps_containers p)))"

lemma runner_view_hosts:
  assumes "pod_hosts p vme own"
  shows "\<exists>extra. runner_view p = (m_volumes vme, m_mounts vme, m_env vme @ own @ extra)"
  using assms by (cases vme) (auto simp: pod_hosts_def runner_view_def)

lemma pod_files_env: "pod_files keys (vs, ms, env) = pod_files keys (vs, ms, env')"
  by (simp add: pod_files_def)

lemma pod_files_hosts:
  assumes "pod_hosts p vme own"
  shows "pod_files keys (runner_view p) = pod_files keys vme"
  using runner_view_hosts [OF assms] by (cases vme) (auto simp: pod_files_def)

lemma env_names_hosts:
  assumes "pod_hosts p vme own"
  shows "set (env_names vme) \<union> set (map ev_name own) \<subseteq> set (env_names (runner_view p))"
  using runner_view_hosts [OF assms] by (cases vme) (auto simp: env_names_def)

text \<open>The pod of a backup run: the one-shot Job's, or the CronJob's.\<close>

definition backup_pod ::
  "Ext \<Rightarrow> KafkaBackup \<Rightarrow> ResolvedKafkaCluster \<Rightarrow> ResolvedAuth \<Rightarrow> PodSpec \<Rightarrow> bool" where
  "backup_pod ext backup cluster auth p \<longleftrightarrow>
     (\<exists>jname cmap sa. job_pod (build_backup_job ext backup jname cmap cluster auth sa) = Some p) \<or>
     (\<exists>cmap sa cj. build_backup_cronjob ext backup cmap cluster auth sa = Value cj \<and>
        cronjob_pod cj = Some p)"

definition restore_pod ::
  "Ext \<Rightarrow> KafkaRestore \<Rightarrow> KafkaBackup \<Rightarrow> ResolvedKafkaCluster \<Rightarrow> ResolvedAuth \<Rightarrow> PodSpec \<Rightarrow> bool"
where
  "restore_pod ext restore source cluster auth p \<longleftrightarrow>
     (\<exists>jname cmap sa. job_pod (build_restore_job ext restore jname cmap cluster auth source sa) = Some p)"

lemma backup_pod_hosts:
  assumes "backup_pod ext backup cluster auth p"
  shows "\<exists>cmap. pod_hosts p (build_volumes_and_mounts cmap (kcl_name cluster) (kcl_tls_enabled cluster)
    auth (kb_storage (kbr_spec backup)) (sc_ca_secret (kb_strimzi_cluster_ref (kbr_spec backup))))
    [job_name_env_var ''BACKUP_ID'']"
proof -
  consider (job) jname cmap sa where
      "job_pod (build_backup_job ext backup jname cmap cluster auth sa) = Some p"
    | (cronjob) cmap sa cj where
      "build_backup_cronjob ext backup cmap cluster auth sa = Value cj" "cronjob_pod cj = Some p"
    using assms unfolding backup_pod_def by blast
  then show ?thesis
  proof cases
    case job
    then show ?thesis
      using build_backup_job_pod [of ext backup jname cmap cluster auth sa] by auto
  next
    case cronjob
    then show ?thesis
      using build_backup_cronjob_pod [OF cronjob(1)] by auto
  qed
qed

lemma restore_pod_hosts:
  assumes "restore_pod ext restore source cluster auth p"
  shows "\<exists>cmap. pod_hosts p (build_volumes_and_mounts cmap (kcl_name cluster) (kcl_tls_enabled cluster)
    auth (kb_storage (kbr_spec source)) (sc_ca_secret (kr_strimzi_cluster_ref (krr_spec restore)))) []"
  using assms build_restore_job_pod unfolding restore_pod_def by (metis option.inject)

section \<open>Certificates\<close>

text \<open>The certificate paths of a configuration, read from its Kafka section.\<close>

definition config_security :: "string \<Rightarrow> ymap \<Rightarrow> ymap option" where
  "config_security side config =
     (case gets config side of
        Some (YMap kafka) \<Rightarrow>
          (case gets kafka ''security'' of Some (YMap security) \<Rightarrow> Some security | _ \<Rightarrow> None)
      | _ \<Rightarrow> None)"

lemma restore_config_map_sections:
  assumes "restore_config_map ext restore source cluster auth = Inr config"
  shows "gets config ''mode'' = Some (YStr ''restore'')"
    and "\<exists>i. resolve_backup_id restore source = Inr i \<and> gets config ''backup_id'' = Some (YStr i)"
    and "gets config ''target'' = Some (YMap (build_kafka_config cluster auth
           (kr_topics (krr_spec restore)) (kr_connection (krr_spec restore))))"
    and "\<exists>st. build_storage_config (kb_storage (kbr_spec source)) = Inr st \<and>
           gets config ''storage'' = Some (YMap st)"
  using assms
  by (auto simp: restore_config_map_def restore_kafka_config_eq Let_def kv_simps split: option.splits)

lemma config_security_backup:
  assumes "backup_config_map backup cluster auth = Inr config"
  shows "config_security ''source'' config = Some (build_security_config cluster auth)"
  by (simp add: config_security_def backup_config_map_sections [OF assms] gets_kafka_security)

lemma config_security_restore:
  assumes "restore_config_map ext restore source cluster auth = Inr config"
  shows "config_security ''target'' config = Some (build_security_config cluster auth)"
  by (simp add: config_security_def restore_config_map_sections [OF assms] gets_kafka_security)

text \<open>A configuration and the pod it is mounted in, for the same resources.\<close>

definition deployed ::
  "Ext \<Rightarrow> ResolvedKafkaCluster \<Rightarrow> ResolvedAuth \<Rightarrow> string \<Rightarrow> ymap \<Rightarrow> PodSpec \<Rightarrow> bool" where
  "deployed ext cluster auth side config p \<longleftrightarrow>
     (\<exists>backup. backup_config_map backup cluster auth = Inr config \<and> side = ''source'' \<and>
        backup_pod ext backup cluster auth p) \<or>
     (\<exists>restore source. restore_config_map ext restore source cluster auth = Inr config \<and>
        side = ''target'' \<and> restore_pod ext restore source cluster auth p)"

lemma deployedE:
  assumes "deployed ext cluster auth side config p"
  obtains storage st cmap ca own where
    "config_security side config = Some (build_security_config cluster auth)"
    "gets config ''storage'' = Some (YMap st)" "build_storage_config storage = Inr st"
    "pod_hosts p (build_volumes_and_mounts cmap (kcl_name cluster) (kcl_tls_enabled cluster) auth
       storage ca) own"
proof -
  from assms consider
    (b) backup where "backup_config_map backup cluster auth = Inr config" "side = ''source''"
      "backup_pod ext backup cluster auth p"
  | (r) restore source where "restore_config_map ext restore source cluster auth = Inr config"
      "side = ''target''" "restore_pod ext restore source cluster auth p"
    unfolding deployed_def by blast
  then show thesis
  proof cases
    case b
    then show thesis
      using that config_security_backup [OF b(1)] backup_config_map_sections(4) [OF b(1)]
        backup_pod_hosts [OF b(3)] by blast
  next
    case r
    then show thesis
      using that config_security_restore [OF r(1)] restore_config_map_sections(4) [OF r(1)]
        restore_pod_hosts [OF r(3)] by blast
  qed
qed

definition example_auth :: ResolvedAuth where
  "example_auth = RTls ''user''"

definition example_keys :: "string \<Rightarrow> string list" where
  "example_keys s = [''user.crt'', ''user.key'']"

definition example_cluster :: ResolvedKafkaCluster where
  "example_cluster =
     \<lparr>kcl_name = ''kafka'', kcl_namespace = ''ns'', kcl_bootstrap_servers = ''kafka:9093'',
      kcl_replicas = 3, kcl_tls_enabled = True, kcl_listener_name = ''tls''\<rparr>"

definition example_config :: "ResolvedAuth \<Rightarrow> ymap" where
  "example_config auth = (case backup_config_map sample_backup example_cluster auth of Inr c \<Rightarrow> c | Inl e \<Rightarrow> [])"

definition example_pod :: "ResolvedAuth \<Rightarrow> PodSpec" where
  "example_pod auth =
     the (job_pod (build_backup_job sample_ext sample_backup ''bk-1'' ''bk-config'' example_cluster auth None))"

lemma example_deployed: "deployed sample_ext example_cluster auth ''source'' (example_config auth) (example_pod auth)"
proof -
  have "is_ok (backup_config_map sample_backup example_cluster auth)"
    unfolding backup_config_map_ok
    by (simp add: encryption_requested_def sample_backup_def sample_backup_spec_def sample_storage_def
        storage_section_present_def)
  then obtain c where "backup_config_map sample_backup example_cluster auth = Inr c"
    by (auto simp: is_ok_iff)
  moreover have "job_pod (build_backup_job sample_ext sample_backup ''bk-1'' ''bk-config''
      example_cluster auth None) = Some (example_pod auth)"
    using build_backup_job_pod [of sample_ext sample_backup "''bk-1''" "''bk-config''" example_cluster auth None]
    by (auto simp: example_pod_def)
  ultimately show ?thesis
    unfolding deployed_def backup_pod_def example_config_def by (metis sum.simps(6))
qed

text \<open>C18.
  Every certificate path in the configuration of a backup or of a restore (the cluster CA, the
  client certificate and its key) is a file of a mounted secret in the pod that reads the
  configuration: the one-shot Job's, the CronJob's or the restore Job's. For the client
  certificate this needs the referenced secret to have the keys \<open>user.crt\<close> and
  \<open>user.key\<close>, the names Strimzi uses.
\<close>

theorem certificates_mounted:
  assumes "deployed ext cluster auth side config p" "user_cert_keys keys auth"
    and "config_security side config = Some security"
  shows "set (tls_paths security) \<subseteq> set (pod_files keys (runner_view p))"
  using assms(1)
proof (rule deployedE)
  fix storage st cmap ca own
  assume "config_security side config = Some (build_security_config cluster auth)"
    and h: "pod_hosts p (build_volumes_and_mounts cmap (kcl_name cluster) (kcl_tls_enabled cluster) auth
       storage ca) own"
  then have "security = build_security_config cluster auth" using assms(3) by simp
  then show ?thesis using tls_paths_mounted [OF assms(2)] by (simp only: pod_files_hosts [OF h])
qed

theorem certificates_mounted_witness:
  "{''/certs/cluster-ca/ca.crt'', ''/certs/user/user.crt'', ''/certs/user/user.key''} \<subseteq>
     set (pod_files example_keys (runner_view (example_pod example_auth)))"
proof -
  obtain security where s: "config_security ''source'' (example_config example_auth) = Some security"
    "security = build_security_config example_cluster example_auth"
    using example_deployed by (rule deployedE) blast
  have "set (tls_paths security) \<subseteq>
      set (pod_files example_keys (runner_view (example_pod example_auth)))"
    using example_deployed _ s(1)
    by (rule certificates_mounted) (simp add: user_cert_keys_def example_auth_def example_keys_def)
  then show ?thesis
    by (simp add: s(2) tls_paths_simps example_auth_def example_cluster_def)
qed

text \<open>The variables a configuration names, in its storage section and its SASL password.\<close>

definition config_refs :: "string \<Rightarrow> ymap \<Rightarrow> string option list" where
  "config_refs side config =
     (case gets config ''storage'' of Some (YMap st) \<Rightarrow> credential_refs st | _ \<Rightarrow> [])
     @ (case config_security side config of
          Some security \<Rightarrow> map placeholder (str_values security [''sasl_password'']) | None \<Rightarrow> [])"

lemma sasl_refs:
  "map placeholder (str_values (build_security_config cluster auth) [''sasl_password'']) =
     (case auth of RScramSha512 _ _ _ \<Rightarrow> [Some ''KAFKA_SASL_PASSWORD''] | _ \<Rightarrow> [])"
  by (cases auth)
     (simp_all add: str_values_def List.map_filter_def gets_sasl placeholder_consts)

lemma config_refs_defined:
  assumes "gets config ''storage'' = Some (YMap st)" "build_storage_config storage = Inr st"
    and "config_security side config = Some (build_security_config cluster auth)"
    and "pod_hosts p (build_volumes_and_mounts cmap name tls auth storage ca) own"
  shows "set (config_refs side config) \<subseteq> Some ` set (env_names (runner_view p))"
proof -
  have "set (config_refs side config) \<subseteq>
      Some ` set (env_names (build_volumes_and_mounts cmap name tls auth storage ca))"
    using storage_refs [OF assms(2)] assms(1,3)
    by (cases auth) (auto simp: config_refs_def sasl_refs env_names_storage)
  with env_names_hosts [OF assms(4)] show ?thesis by blast
qed

definition example_scram :: ResolvedAuth where
  "example_scram = RScramSha512 ''u'' ''user'' ''password''"

text \<open>C19.
  The credentials never appear in the configuration: it names environment variables, and every
  variable it names (the storage credentials and the SASL password) is defined in the container
  that reads it; a backup's own run id, \<open>BACKUP_ID\<close>, is too.
\<close>

theorem placeholders_resolved:
  assumes "deployed ext cluster auth side config p"
  shows "set (config_refs side config) \<subseteq> Some ` set (env_names (runner_view p)) \<and>
    (side = ''source'' \<longrightarrow> ''BACKUP_ID'' \<in> set (env_names (runner_view p)))"
proof (intro conjI impI)
  show "set (config_refs side config) \<subseteq> Some ` set (env_names (runner_view p))"
    using assms by (rule deployedE) (rule config_refs_defined)
  assume "side = ''source''"
  then obtain backup where "backup_pod ext backup cluster auth p"
    using assms by (auto simp: deployed_def)
  from backup_pod_hosts [OF this] env_names_hosts show "''BACKUP_ID'' \<in> set (env_names (runner_view p))"
    by fastforce
qed

theorem placeholders_resolved_witness:
  "{''KAFKA_SASL_PASSWORD'', ''BACKUP_ID''} \<subseteq>
     set (env_names (runner_view (example_pod example_scram)))"
proof -
  have "config_security ''source'' (example_config example_scram) =
      Some (build_security_config example_cluster example_scram)"
    using example_deployed by (rule deployedE) blast
  then have "Some ''KAFKA_SASL_PASSWORD'' \<in> set (config_refs ''source'' (example_config example_scram))"
    by (simp add: config_refs_def sasl_refs example_scram_def)
  with placeholders_resolved [OF example_deployed [of example_scram]] show ?thesis by auto
qed

section \<open>Labels\<close>

lemma backup_selector_text:
  "backup_jobs_selector n =
     (''kafkabackup.com/'' @ ''backup'') @ ''='' @ n @ '','' @ ''kafkabackup.com/type'' @ ''='' @ ''backup''"
  "restore_jobs_selector n =
     (''kafkabackup.com/'' @ ''restore'') @ ''='' @ n @ '','' @ ''kafkabackup.com/type'' @ ''='' @ ''restore''"
  by (simp_all add: backup_jobs_selector_def restore_jobs_selector_def)

text \<open>C27.
  The selector by which a reconciler looks for the Jobs of its resource selects the Jobs the
  operator builds for it, one-shot or from the CronJob, exactly when the pod template does not
  replace the two labels the selector names. A template that does makes the Jobs invisible to the
  reconciler that created them.
\<close>

theorem jobs_visible:
  assumes "CHR '','' \<notin> set (name_any (kbr_metadata backup))"
    and "CHR '','' \<notin> set (name_any (krr_metadata restore))"
  shows "(selects (backup_jobs_selector (name_any (kbr_metadata backup)))
            (job_labels (build_backup_job ext backup jname cmap cluster auth sa)) \<longleftrightarrow>
          job_visible ''backup'' (name_any (kbr_metadata backup)) (kb_template (kbr_spec backup))) \<and>
         (\<forall>cj. build_backup_cronjob ext backup cmap cluster auth sa = Value cj \<longrightarrow>
            (selects (backup_jobs_selector (name_any (kbr_metadata backup))) (cronjob_job_labels cj) \<longleftrightarrow>
             job_visible ''backup'' (name_any (kbr_metadata backup)) (kb_template (kbr_spec backup)))) \<and>
         (selects (restore_jobs_selector (name_any (krr_metadata restore)))
            (job_labels (build_restore_job ext restore jname cmap cluster auth source sa)) \<longleftrightarrow>
          job_visible ''restore'' (name_any (krr_metadata restore)) (kr_template (krr_spec restore)))"
  using selects_job [of "''backup''" "name_any (kbr_metadata backup)" "kcl_name cluster"]
    selects_job [of "''restore''" "name_any (krr_metadata restore)" "kcl_name cluster"] assms
  by (simp add: build_job_labels build_cronjob_labels backup_selector_text del: append_Cons append_Nil)

definition relabelled_backup :: KafkaBackup where
  "relabelled_backup = sample_backup\<lparr>kbr_spec := sample_backup_spec\<lparr>kb_template := Some
     \<lparr>pt_pod = Some \<lparr>po_metadata = Some \<lparr>pm_labels = [(''kafkabackup.com/backup'', ''other'')],
          pm_annotations = []\<rparr>,
        po_affinity = None, po_tolerations = [], po_security_context = None,
        po_image_pull_secrets = [], po_host_aliases = [], po_service_account_name = None\<rparr>,
      pt_container = None\<rparr>\<rparr>\<rparr>"

lemma name_any_bk: "name_any (sample_meta ''bk'') = ''bk''" "name_any (sample_meta ''rs'') = ''rs''"
  by (simp_all add: name_any_def sample_meta_def empty_meta_def)

theorem jobs_visible_witness:
  "selects (backup_jobs_selector ''bk'')
     (job_labels (build_backup_job sample_ext sample_backup ''bk-1'' ''bk-config'' example_cluster RNone None)) \<and>
   \<not> selects (backup_jobs_selector ''bk'')
     (job_labels (build_backup_job sample_ext relabelled_backup ''bk-1'' ''bk-config'' example_cluster RNone None))"
proof -
  note visible = jobs_visible [of _ sample_restore sample_ext "''bk-1''" "''bk-config''" example_cluster RNone None
      sample_backup]
  have "job_visible ''backup'' ''bk'' (kb_template (kbr_spec sample_backup))"
    by (simp add: job_visible_def keeps_label_def template_label_def template_metadata_def
        sample_backup_def sample_backup_spec_def)
  moreover have "\<not> job_visible ''backup'' ''bk'' (kb_template (kbr_spec relabelled_backup))"
    by (simp add: job_visible_def keeps_label_def template_label_def template_metadata_def
        relabelled_backup_def)
  moreover have "name_any (kbr_metadata sample_backup) = ''bk''" "name_any (kbr_metadata relabelled_backup) = ''bk''"
    "name_any (krr_metadata sample_restore) = ''rs''"
    by (simp_all add: sample_backup_def relabelled_backup_def sample_restore_def name_any_bk)
  ultimately show ?thesis
    using visible [of sample_backup] visible [of relabelled_backup] by simp
qed

section \<open>Which specifications are accepted\<close>

text \<open>
  The configuration of a backup can be built exactly when the section of the chosen storage type
  is there and no encryption is asked for; whatever else the specification says is accepted.
\<close>

theorem backup_config_accepted:
  "is_ok (backup_config_map backup cluster auth) =
     (storage_section_present (kb_storage (kbr_spec backup)) \<and> \<not> encryption_requested backup)"
  by (rule backup_config_map_ok)

text \<open>When a restore names its backup: explicitly, or through the source's last backup.\<close>

definition backup_named :: "KafkaRestore \<Rightarrow> KafkaBackup \<Rightarrow> bool" where
  "backup_named restore source \<longleftrightarrow>
     br_backup_id (kr_backup_ref (krr_spec restore)) \<noteq> None \<or>
     and_then (kbr_status source) bs_last_backup \<noteq> None"

lemma resolve_backup_id_ok: "is_ok (resolve_backup_id restore source) \<longleftrightarrow> backup_named restore source"
  by (cases "and_then (kbr_status source) bs_last_backup";
      cases "br_backup_id (kr_backup_ref (krr_spec restore))")
     (simp_all only: resolve_backup_id_def backup_named_def option.case option.map ok_or.simps
       is_ok.simps option.distinct not_False_eq_True simp_thms)


text \<open>
  The restore of the README's quick start, which asks for the consumer groups and names none, and
  two options of the product document, \<open>offsetFromEnd\<close> and \<open>existingTopicPolicy: fail\<close>,
  are rejected, whatever the rest of the resource says and whatever the libraries answer.
\<close>

definition quick_start_groups :: ConsumerGroupRestoreSpec where
  "quick_start_groups = \<lparr>cg_restore = True, cg_auto = None, cg_groups = [], cg_strategy = None,
     cg_offset_report = None, cg_mapping = []\<rparr>"

lemma rejected_options:
  "\<not> is_ok (build_restore_options ext restore) \<Longrightarrow> \<not> is_ok (restore_config_map ext restore source cluster auth)"
  by (cases "resolve_backup_id restore source"; cases "build_storage_config (kb_storage (kbr_spec source))";
      cases "build_restore_options ext restore")
     (simp_all add: restore_config_map_def Let_def)

theorem documented_restores_rejected:
  "\<not> is_ok (restore_config_map ext (restore\<lparr>krr_spec := (krr_spec restore)
      \<lparr>kr_consumer_groups := Some quick_start_groups\<rparr>\<rparr>) source cluster auth) \<and>
   \<not> is_ok (restore_config_map ext (restore\<lparr>krr_spec := (krr_spec restore)
      \<lparr>kr_point_in_time := Some (pitr\<lparr>pit_offset_from_end := Some d\<rparr>)\<rparr>\<rparr>) source cluster auth) \<and>
   \<not> is_ok (restore_config_map ext (restore\<lparr>krr_spec := (krr_spec restore)
      \<lparr>kr_restore := Some (opts\<lparr>ro_existing_topic_policy := Some EtFail\<rparr>)\<rparr>\<rparr>) source cluster auth)"
  by (intro conjI rejected_options)
     (simp_all add: build_restore_options_ok groups_valid_def quick_start_groups_def instants_valid_def
       policy_valid_def)

section \<open>Options that interact\<close>

definition overwriting_restore :: KafkaRestore where
  "overwriting_restore = sample_restore\<lparr>krr_spec := sample_restore_spec\<lparr>kr_restore := Some
     \<lparr>ro_topic_creation = None, ro_existing_topic_policy = Some EtOverwrite, ro_dry_run = None,
      ro_include_original_offset_header = None, ro_source_partitions = [],
      ro_partition_mapping = [], ro_parallelism = None, ro_rate_limit_records_per_sec = None,
      ro_rate_limit_bytes_per_sec = None, ro_produce_batch_size = None, ro_produce_acks = None,
      ro_produce_timeout_ms = None, ro_checkpoint_state = None, ro_checkpoint_interval_secs = None,
      ro_default_replication_factor = None, ro_repartitioning = [],
      ro_purge_topics = Some False\<rparr>\<rparr>\<rparr>"

text \<open>
  Whether a restore purges the topics it writes to: an explicit \<open>purgeTopics\<close> decides,
  true or false; without one, purging is on exactly for \<open>existingTopicPolicy: overwrite\<close>.
  So \<open>purgeTopics: false\<close> silently undoes the policy \<open>overwrite\<close>.
\<close>

theorem purge_topics_rule:
  assumes "build_restore_options ext restore = Inr config"
  shows "gets config ''purge_topics'' =
    (case and_then (kr_restore (krr_spec restore)) ro_purge_topics of
       Some b \<Rightarrow> Some (YBool b)
     | None \<Rightarrow>
         if and_then (kr_restore (krr_spec restore)) ro_existing_topic_policy = Some EtOverwrite
         then Some (YBool True) else None)"
  unfolding gets_restore_options_purge [OF assms]
  by (cases "and_then (kr_restore (krr_spec restore)) ro_purge_topics"; simp only:
      option.simps opt_or.simps map_option_case)

theorem purge_topics_rule_witness:
  "\<exists>config. build_restore_options sample_ext overwriting_restore = Inr config \<and>
     gets config ''purge_topics'' = Some (YBool False)"
proof -
  have "is_ok (build_restore_options sample_ext overwriting_restore)"
    unfolding build_restore_options_ok
    by (simp add: overwriting_restore_def sample_restore_spec_def instants_valid_def policy_valid_def
        groups_valid_def)
  then obtain config where c: "build_restore_options sample_ext overwriting_restore = Inr config"
    by (auto simp: is_ok_iff)
  from purge_topics_rule [OF c] c show ?thesis by (simp add: overwriting_restore_def)
qed

section \<open>The backup a restore names\<close>

text \<open>The status the operator leaves after it has recorded the success of \<open>job\<close>.\<close>

definition completed_backup :: "KafkaBackup \<Rightarrow> Job \<Rightarrow> timestamp \<Rightarrow> KafkaBackup" where
  "completed_backup backup job t =
     backup\<lparr>kbr_status := Some (default_backup_status
       \<lparr>bs_last_backup := Some (last_backup_of (history_entry_of job t))\<rparr>)\<rparr>"

text \<open>C32.
  The id under which a run stores its backup and the id a restore reads from
  \<open>status.lastBackup\<close>: the restore is given the name of the completed Job. An ordinary run
  stores under \<open>${BACKUP_ID}\<close>, which the pod sets to its Job's name, so the two agree; a
  one-shot run with offset storage stores under the name of the \<open>KafkaBackup\<close>, and as the
  Job's name extends that name, a restore without an explicit id asks for a backup that was never
  written under that id.
\<close>

theorem incremental_backup_id:
  assumes "br_backup_id (kr_backup_ref (krr_spec restore)) = None"
    and "om_name (kbr_metadata backup) = Some name"
    and "job = build_backup_job ext backup (name @ ''-'' @ stamp) cmap cluster auth sa"
  shows "resolve_backup_id restore (completed_backup backup job t) = Inr (name @ ''-'' @ stamp) \<and>
    config_backup_id backup = (if is_incremental_one_shot backup then name else ''${BACKUP_ID}'') \<and>
    name @ ''-'' @ stamp \<noteq> name"
proof -
  have "job_name job = name @ ''-'' @ stamp"
    unfolding assms(3) build_backup_job_def Let_def
    by (simp add: job_name_def split: prod.split)
  with assms(1,2) show ?thesis
    by (simp add: resolve_backup_id_def completed_backup_def last_backup_of_def history_entry_of_def
        config_backup_id_def)
qed

definition incremental_backup :: KafkaBackup where
  "incremental_backup = sample_backup\<lparr>kbr_spec := sample_backup_spec\<lparr>kb_offset_storage :=
     Some \<lparr>os_backend = None, os_db_path = None, os_s3_key = None, os_sync_interval_secs = None\<rparr>\<rparr>\<rparr>"

definition latest_restore :: KafkaRestore where
  "latest_restore = sample_restore\<lparr>krr_spec := sample_restore_spec\<lparr>kr_backup_ref :=
     \<lparr>br_name = ''bk'', br_backup_id = None\<rparr>\<rparr>\<rparr>"

theorem incremental_backup_id_witness:
  "resolve_backup_id latest_restore (completed_backup incremental_backup
     (build_backup_job sample_ext incremental_backup (''bk'' @ ''-'' @ ''0101'') ''c'' example_cluster RNone None) 0)
     = Inr (''bk'' @ ''-'' @ ''0101'') \<and> config_backup_id incremental_backup = ''bk''"
proof -
  have r: "br_backup_id (kr_backup_ref (krr_spec latest_restore)) = None"
    by (simp add: latest_restore_def)
  have b: "om_name (kbr_metadata incremental_backup) = Some ''bk''"
    by (simp add: incremental_backup_def sample_backup_def sample_meta_def)
  have i: "is_incremental_one_shot incremental_backup"
    by (simp add: is_incremental_one_shot_def incremental_backup_def sample_backup_spec_def)
  show ?thesis
    using incremental_backup_id [OF r b refl, of sample_ext "''0101''" "''c''" example_cluster RNone None 0] i
    by (simp del: append_Cons)
qed

section \<open>Two builders, one configuration\<close>

text \<open>
  The restore configuration's private copies of the connection, metrics and Kafka section builders
  produce the same YAML as the shared ones the backup configuration uses, for all inputs: a
  restore talks to its cluster the way a backup does.
\<close>

theorem kafka_sections_agree:
  "restore_kafka_config cluster auth topics connection =
     build_kafka_config cluster auth topics connection \<and>
   restore_connection_config conn = build_connection_config conn \<and>
   restore_metrics_options metrics = build_metrics_options metrics"
  by (simp add: restore_kafka_config_eq restore_connection_config_eq restore_metrics_options_eq)

definition example_scheduled :: KafkaBackup where
  "example_scheduled = sample_backup\<lparr>kbr_spec := sample_backup_spec\<lparr>kb_schedule :=
     Some \<lparr>sd_cron = ''0 2 * * *'', sd_timezone = None, sd_suspend = False\<rparr>\<rparr>\<rparr>"

text \<open>C29.
  A scheduled run is the same work as a one-shot run: the CronJob's Job template has the pod, the
  retries and the labels of the Job the reconciler would build itself from the same arguments, so
  what is shown of one holds of the other.
\<close>

theorem scheduled_runs_same_pod:
  assumes "build_backup_cronjob ext backup cmap cluster auth sa = Value cj"
  shows "cronjob_pod cj = job_pod (build_backup_job ext backup jname cmap cluster auth sa) \<and>
    cronjob_job_labels cj = job_labels (build_backup_job ext backup jname cmap cluster auth sa) \<and>
    and_then (cr_spec cj) (\<lambda>s. map_option js_backoff_limit (jt_spec (cj_job_template s))) =
      map_option js_backoff_limit (jb_spec (build_backup_job ext backup jname cmap cluster auth sa))"
proof -
  obtain vs ms env where v: "build_volumes_and_mounts cmap (kcl_name cluster)
      (kcl_tls_enabled cluster) auth (kb_storage (kbr_spec backup))
      (sc_ca_secret (kb_strimzi_cluster_ref (kbr_spec backup))) = (vs, ms, env)"
    using prod_cases3 by blast
  show ?thesis
    using assms build_cronjob_labels [OF assms]
    unfolding build_backup_cronjob_def build_backup_job_def Let_def v
    by (auto simp: cronjob_pod_def job_pod_def job_labels_def)
qed

theorem scheduled_runs_same_pod_witness:
  "\<exists>cj. build_backup_cronjob sample_ext (example_scheduled) ''bk-config'' example_cluster RNone None = Value cj \<and>
     cronjob_pod cj = job_pod (build_backup_job sample_ext example_scheduled ''bk-1'' ''bk-config'' example_cluster RNone None)"
proof -
  obtain cj where cj: "build_backup_cronjob sample_ext example_scheduled ''bk-config'' example_cluster RNone None = Value cj"
    by (auto simp: build_backup_cronjob_def example_scheduled_def Let_def split_beta)
  with scheduled_runs_same_pod [OF cj, of "''bk-1''"] show ?thesis by blast
qed

end
