(* ===== verification/Resource_Properties.thy ===== *)
theory Resource_Properties
  imports Runs
begin

text \<open>
  Properties of the parts that read Strimzi's resources and the Jobs of a resource: the choice of
  the listener, the version fallback, the status conditions and the gates on Job creation.
\<close>

section \<open>The listener\<close>

text \<open>C34.
  Without an override, the listener a connection uses is the best of those whose authentication
  is the one asked for: in-cluster before external, then encrypted before plaintext, then the
  earliest; and the error that none is compatible is reported only when there is none, naming what
  was asked for and every listener there is.
\<close>

theorem listener_choice:
  "(case select_listener ls desired None cluster of
      Inr s \<Rightarrow> \<exists>i < length ls. s = to_selected (ls ! i) \<and> auth_matches (ls ! i) desired \<and>
        (\<forall>j < length ls. auth_matches (ls ! j) desired \<longrightarrow> preferred (i, ls ! i) (j, ls ! j))
    | Inl e \<Rightarrow> (\<forall>l \<in> set ls. \<not> auth_matches l desired) \<and>
        e = ENoCompatibleListener cluster (desired_auth_label desired) (summarize_listeners ls))"
  using select_listener_auto [of ls desired cluster] select_listener_auto_error [of ls desired cluster]
  by (cases "select_listener ls desired None cluster") simp_all

definition external_listener :: json where
  "external_listener = JObj [(''name'', JStr ''ext''), (''port'', JInt 9094), (''tls'', JBool True),
     (''type'', JStr ''nodeport'')]"

definition internal_listener :: json where
  "internal_listener = JObj [(''name'', JStr ''plain''), (''port'', JInt 9092), (''tls'', JBool False),
     (''type'', JStr ''internal'')]"

lemma example_listeners:
  "is_in_cluster internal_listener" "\<not> is_in_cluster external_listener"
  "auth_matches internal_listener None"
  by (simp_all add: is_in_cluster_def internal_listener_def external_listener_def auth_matches_def
      listener_auth_def)

theorem listener_choice_witness:
  "select_listener [external_listener, internal_listener] None None ''k'' = Inr (to_selected internal_listener)"
proof -
  let ?ls = "[external_listener, internal_listener]"
  have in1: "?ls ! 1 = internal_listener" by simp
  note spec = listener_choice [of ?ls None "''k''"]
  show ?thesis
  proof (cases "select_listener ?ls None None ''k''")
    case (Inl e)
    from spec have "\<forall>l \<in> set ?ls. \<not> auth_matches l None" unfolding Inl sum.case by blast
    then show ?thesis using example_listeners(3) by simp
  next
    case (Inr s)
    with spec obtain i where i: "i < length ?ls" "s = to_selected (?ls ! i)"
      and best: "\<forall>j < length ?ls. auth_matches (?ls ! j) None \<longrightarrow> preferred (i, ?ls ! i) (j, ?ls ! j)"
      unfolding Inr sum.case by blast
    from best have "preferred (i, ?ls ! i) (1, internal_listener)"
      using example_listeners(3) in1 by (metis One_nat_def Suc_lessI length_Cons lessI list.size(3))
    then have "i \<noteq> 0"
      using example_listeners(1,2) by (intro notI) (simp add: preferred_def split: if_splits)
    with i(1) have "i = 1" by simp
    with i(2) Inr in1 show ?thesis by simp
  qed
qed

section \<open>The version fallback\<close>

definition dynamic_request :: "string \<Rightarrow> string \<Rightarrow> string \<Rightarrow> string \<Rightarrow> KubeReq" where
  "dynamic_request version kind ns name = KGetDynamic STRIMZI_GROUP version kind ns name"

definition answered_404 :: "KubeError + KubeAnswer \<Rightarrow> bool" where
  "answered_404 r = (\<exists>m. r = Inl (KApi 404 m))"

text \<open>
  A Strimzi resource is asked for at version \<open>v1\<close>, and at \<open>v1beta2\<close> exactly when the
  first answer is a 404; the result is the last answer. No other error triggers the second request.
\<close>

theorem legacy_version_fallback:
  "let (r1, s1) = w_kube W (dynamic_request ''v1'' kind ns name) s;
       (r2, s2) = w_kube W (dynamic_request ''v1beta2'' kind ns name) s1
   in trace_of W (get_namespaced_resource ns kind name) s =
        EvKube (dynamic_request ''v1'' kind ns name) r1
        # (if answered_404 r1 then [EvKube (dynamic_request ''v1beta2'' kind ns name) r2] else []) \<and>
      outcome_of W (get_namespaced_resource ns kind name) s =
        Done (decoded as_dynamic (if answered_404 r1 then r2 else r1))"
proof -
  obtain r1 s1 where 1: "w_kube W (dynamic_request ''v1'' kind ns name) s = (r1, s1)" by fastforce
  obtain r2 s2 where 2: "w_kube W (dynamic_request ''v1beta2'' kind ns name) s1 = (r2, s2)" by fastforce
  have e: "case decoded as_dynamic r1 of Inl e \<Rightarrow> is_not_found e = answered_404 r1
      | Inr x \<Rightarrow> \<not> answered_404 r1"
  proof (cases r1)
    case (Inl e)
    then show ?thesis by (cases e) (simp_all add: decoded_def answered_404_def)
  qed (auto simp: decoded_def answered_404_def serde_error_def split: option.split)
  show ?thesis
    using e 1 2
    unfolding get_namespaced_resource_def get_at_version_def PREFERRED_API_VERSION_def
      LEGACY_API_VERSION_def dynamic_request_def [symmetric]
    by (auto simp: trace_pbind exec trace_kube_call Let_def trace_of_def [of W "Ret _"]
        split: sum.splits)
qed

section \<open>Conditions\<close>

text \<open>
  Setting a condition replaces the condition of its type in place or appends it, so a list with
  one condition per type keeps that form and its other conditions; the transition time of an
  existing condition is kept exactly when its status does not change.
\<close>

lemma set_condition_spec:
  assumes "distinct (map cd_type cs)"
  shows "distinct (map cd_type (set_condition cs c)) \<and>
    (\<forall>ct. ct \<noteq> cd_type c \<longrightarrow> find_condition (set_condition cs c) ct = find_condition cs ct) \<and>
    find_condition (set_condition cs c) (cd_type c) =
      Some (case find_condition cs (cd_type c) of
          None \<Rightarrow> c
        | Some e \<Rightarrow> c\<lparr>cd_last_transition_time :=
            (if cd_status e = cd_status c then cd_last_transition_time e
             else cd_last_transition_time c)\<rparr>)"
proof (intro conjI allI impI)
  show "distinct (map cd_type (set_condition cs c))" by (rule set_condition_distinct [OF assms])
  show "find_condition (set_condition cs c) ct = find_condition cs ct" if "ct \<noteq> cd_type c" for ct
    by (rule find_set_condition_other [OF that])
  show "find_condition (set_condition cs c) (cd_type c) =
      Some (case find_condition cs (cd_type c) of
          None \<Rightarrow> c
        | Some e \<Rightarrow> c\<lparr>cd_last_transition_time :=
            (if cd_status e = cd_status c then cd_last_transition_time e
             else cd_last_transition_time c)\<rparr>)"
    unfolding find_set_condition_same
    by (auto split: option.split dest: find_condition_type)
qed

section \<open>The gates\<close>

text \<open>C30.
  When the gates open, for any list of Jobs: a restore and an untriggered backup get a Job only
  when there is none, whatever the state of an existing one; a manual trigger also opens the gate
  when some Job has succeeded or all have failed. As a succeeded Job outweighs a running one, a
  trigger starts a second Job beside a running one if an older Job has succeeded.
\<close>

theorem trigger_gate:
  "should_create_restore_job (classify_jobs jobs) = (jobs = []) \<and>
   should_create_backup_job (classify_jobs jobs) triggered =
     (jobs = [] \<or> triggered \<and> (list_ex job_succeeded jobs \<or> list_all job_failed jobs))"
proof -
  have "should_create_backup_job (classify_jobs jobs) True =
      (jobs = [] \<or> list_ex job_succeeded jobs \<or> list_all job_failed jobs)"
  proof (cases "classify_jobs jobs")
    case InProgress
    then show ?thesis
      using classify_InProgress [of jobs] by (auto simp: list_ex_iff list_all_iff)
  next
    case (Succeeded n)
    then show ?thesis using classify_name(1) [OF Succeeded] by (auto simp: list_ex_iff)
  next
    case (JFailed n)
    then show ?thesis using classify_Failed [of jobs] by (auto simp: list_all_iff)
  qed (use classify_NoJobs [of jobs] in simp)
  then show ?thesis
    using restore_gate.gate_iff [of jobs] backup_gate.gate_iff [of jobs] by (cases triggered) auto
qed

end
