(* ===== verification/Interference.thy ===== *)
theory Interference
  imports Retention_Safety Selectors Controllers
begin

text \<open>
  What resources do to each other: the writes a reconciliation is confined to, in the cluster and in
  the store, and the ConfigMaps as the server keeps them, on which reconciliations of different
  resources act. A reconciliation leaves alone what its writes do not name; those of a backup and of
  a restore overlap exactly in the ConfigMap of two resources of one name.
\<close>

section \<open>The writes of a resource\<close>

text \<open>
  Of a backup that is not being deleted: Jobs it owns, its one file applied to the ConfigMap named
  after it, the CronJob named after it, the resource itself, and deletions below the prefix its
  storage is configured with.
\<close>

fun backup_active_write :: "Ext \<Rightarrow> string \<Rightarrow> KafkaBackup \<Rightarrow> event \<Rightarrow> bool" where
  "backup_active_write ext ns b (EvKube (KCreateJob ns' job) r) \<longleftrightarrow> ns' = ns \<and>
     om_owner_references (jb_metadata job) =
       Some [owner_reference ''KafkaBackup'' (name_any (kbr_metadata b)) (kbr_metadata b)]"
| "backup_active_write ext ns b (EvKube (KApplyConfigMap ns' n pp cm) r) \<longleftrightarrow>
     ns' = ns \<and> n = name_any (kbr_metadata b) @ ''-config'' \<and> pp = apply_params \<and>
     (\<exists>y. cm_data cm = [(''backup.yaml'', y)])"
| "backup_active_write ext ns b (EvKube (KApplyCronJob ns' n pp cj) r) \<longleftrightarrow>
     ns' = ns \<and> n = name_any (kbr_metadata b) @ ''-scheduled''"
| "backup_active_write ext ns b (EvKube (KPatchBackup ns' n pp p) r) \<longleftrightarrow>
     ns' = ns \<and> n = name_any (kbr_metadata b)"
| "backup_active_write ext ns b (EvKube (KPatchBackupStatus ns' n pp p) r) \<longleftrightarrow>
     ns' = ns \<and> n = name_any (kbr_metadata b)"
| "backup_active_write ext ns b (EvStore (SDelete h path) r) \<longleftrightarrow>
     (\<exists>k. path = x_path ext (join_key (backup_store_prefix b) k))"
| "backup_active_write ext ns b e \<longleftrightarrow> \<not> is_write e"

fun restore_active_write :: "string \<Rightarrow> KafkaRestore \<Rightarrow> event \<Rightarrow> bool" where
  "restore_active_write ns r (EvKube (KCreateJob ns' job) a) \<longleftrightarrow> ns' = ns \<and>
     om_owner_references (jb_metadata job) =
       Some [owner_reference ''KafkaRestore'' (name_any (krr_metadata r)) (krr_metadata r)]"
| "restore_active_write ns r (EvKube (KApplyConfigMap ns' n pp cm) a) \<longleftrightarrow>
     ns' = ns \<and> n = name_any (krr_metadata r) @ ''-config'' \<and> pp = apply_params \<and>
     (\<exists>y. cm_data cm = [(''restore.yaml'', y)])"
| "restore_active_write ns r (EvKube (KPatchRestore ns' n pp p) a) \<longleftrightarrow>
     ns' = ns \<and> n = name_any (krr_metadata r)"
| "restore_active_write ns r (EvKube (KPatchRestoreStatus ns' n pp p) a) \<longleftrightarrow>
     ns' = ns \<and> n = name_any (krr_metadata r)"
| "restore_active_write ns r e \<longleftrightarrow> \<not> is_write e"

text \<open>
  Of a resource that is being deleted: deletions of Jobs in its namespace, of what is named after
  it, and the removal of its finalizers. Which Jobs, \<open>deletes_own_jobs\<close> says.
\<close>

fun backup_cleanup_write :: "string \<Rightarrow> string \<Rightarrow> event \<Rightarrow> bool" where
  "backup_cleanup_write ns name (EvKube (KDeleteJob ns' n dp) r) \<longleftrightarrow> ns' = ns"
| "backup_cleanup_write ns name (EvKube (KDeleteCronJob ns' n dp) r) \<longleftrightarrow> ns' = ns \<and> n = name @ ''-scheduled''"
| "backup_cleanup_write ns name (EvKube (KDeleteConfigMap ns' n dp) r) \<longleftrightarrow> ns' = ns \<and> n = name @ ''-config''"
| "backup_cleanup_write ns name (EvKube (KPatchBackup ns' n pp p) r) \<longleftrightarrow>
     ns' = ns \<and> n = name \<and> p = NullFinalizers"
| "backup_cleanup_write ns name e \<longleftrightarrow> \<not> is_write e"

fun restore_cleanup_write :: "string \<Rightarrow> string \<Rightarrow> event \<Rightarrow> bool" where
  "restore_cleanup_write ns name (EvKube (KDeleteJob ns' n dp) r) \<longleftrightarrow> ns' = ns"
| "restore_cleanup_write ns name (EvKube (KDeleteConfigMap ns' n dp) r) \<longleftrightarrow> ns' = ns \<and> n = name @ ''-config''"
| "restore_cleanup_write ns name (EvKube (KPatchRestore ns' n pp p) r) \<longleftrightarrow>
     ns' = ns \<and> n = name \<and> p = NullFinalizers"
| "restore_cleanup_write ns name e \<longleftrightarrow> \<not> is_write e"

definition backup_write :: "Ext \<Rightarrow> KafkaBackup \<Rightarrow> event \<Rightarrow> bool" where
  "backup_write ext b =
     (let meta = kbr_metadata b in
      if om_deletion_timestamp meta \<noteq> None then backup_cleanup_write (ns_of meta) (name_any meta)
      else backup_active_write ext (ns_of meta) b)"

definition restore_write :: "KafkaRestore \<Rightarrow> event \<Rightarrow> bool" where
  "restore_write r =
     (let meta = krr_metadata r in
      if om_deletion_timestamp meta \<noteq> None then restore_cleanup_write (ns_of meta) (name_any meta)
      else restore_active_write (ns_of meta) r)"

text \<open>The Jobs that are deleted, and what the operator knows of them.\<close>

fun deletes_job :: "string \<Rightarrow> string \<Rightarrow> event \<Rightarrow> bool" where
  "deletes_job ns n (EvKube (KDeleteJob ns' n' dp) r) \<longleftrightarrow> ns' = ns \<and> n' = n"
| "deletes_job ns n e \<longleftrightarrow> False"

text \<open>A listing of the namespace that shows a Job of that name with the resource's label.\<close>

definition shows_job :: "string \<Rightarrow> string \<Rightarrow> string \<Rightarrow> string \<Rightarrow> event \<Rightarrow> bool" where
  "shows_job key name ns n e \<longleftrightarrow> (\<exists>sel js job.
     e = EvKube (KListJobs ns sel) (Inr (AJobs js)) \<and> job \<in> set js \<and> job_name job = n \<and>
     bt_get (job_labels job) key = Some name \<and>
     bt_get (job_labels job) ''app.kubernetes.io/managed-by'' = Some ''kafka-backup-operator'')"

definition deletes_own_jobs :: "string \<Rightarrow> string \<Rightarrow> string \<Rightarrow> event list \<Rightarrow> bool" where
  "deletes_own_jobs key name ns tr \<longleftrightarrow>
     (\<forall>ns' n. preceded (\<lambda>e. ns' = ns \<and> shows_job key name ns n e) (deletes_job ns' n) tr)"

text \<open>
  What the API server documents of a listing with a label selector: it answers only with objects
  the selector selects.
\<close>

definition server_selects :: "'w World \<Rightarrow> bool" where
  "server_selects W \<longleftrightarrow> (\<forall>ns sel s js job.
     fst (w_kube W (KListJobs ns sel) s) = Inr (AJobs js) \<longrightarrow> job \<in> set js \<longrightarrow> selects sel (job_labels job))"

section \<open>The interface of a footprint\<close>

text \<open>
  A program confined to a set of events. What it grants its clients is a frame: what no event of
  the set changes is what it was.
\<close>

locale footprint =
  fixes p :: "'a prog" and own :: "event \<Rightarrow> bool"
  assumes confined: "only own p"
begin

lemma frame:
  assumes "\<And>e m. own e \<Longrightarrow> look (upd e m) = look m"
  shows "look (fold upd (trace_of W p s) m) = look m"
proof -
  have "look (fold upd es m) = look m" if "\<forall>e \<in> set es. own e" for es
    using that by (induction es arbitrary: m) (simp_all add: assms)
  then show ?thesis using only_run [OF confined] by metis
qed

lemma writes: "list_all own (trace_of W p s)"
  by (auto simp: list_all_iff dest: only_run [OF confined])

end

section \<open>The footprint of a backup\<close>

lemma read_backup_write: "\<not> is_write e \<Longrightarrow> backup_active_write ext ns b e"
  by (cases "(ext, ns, b, e)" rule: backup_active_write.cases) simp_all

lemma read_restore_write: "\<not> is_write e \<Longrightarrow> restore_active_write ns r e"
  by (cases "(ns, r, e)" rule: restore_active_write.cases) simp_all

lemmas backup_write_reads =
  read_resolution [THEN only_mono, OF read_backup_write] read_discover [THEN only_mono, OF read_backup_write]
  read_list_backup_jobs [THEN only_mono, OF read_backup_write]

lemma backup_write_conditions:
  "only (backup_active_write ext ns b) (ready_io x m)" "only (backup_active_write ext ns b) (not_ready_io x m)"
  "only (backup_active_write ext ns b) reconciliation_paused_io"
  "only (backup_active_write ext ns b) (error_conditions_io x m)"
  "only (backup_active_write ext ns b) (send_backup_status ns (name_any (kbr_metadata b)) bp)"
  by (auto simp: send_backup_status_def intro!: only_intro)

lemmas backup_write_intro = only_intro backup_write_reads backup_write_conditions

lemma backup_write_status:
  fixes b
  defines "name \<equiv> name_any (kbr_metadata b)"
  shows
    "only (backup_active_write ext ns b) (patch_backup_history ns name h)"
    "only (backup_active_write ext ns b) (backup_update_status_running ns name g)"
    "only (backup_active_write ext ns b) (backup_update_status_error ns name g err)"
    "only (backup_active_write ext ns b) (update_status_scheduled ns name g cron)"
    "only (backup_active_write ext ns b) (update_status_suspended ns name g)"
    "only (backup_active_write ext ns b) (backup_update_status_completed ns name g entry)"
    "only (backup_active_write ext ns b) (backup_patch_status ns name bp)"
  unfolding name_def by (auto simp: backup_status_defs Let_def intro!: backup_write_intro)

lemma backup_write_pieces:
  fixes b
  defines "name \<equiv> name_any (kbr_metadata b)"
  shows
    "only (backup_active_write ext ns b) (backup_create_or_update_config_map ns (name @ ''-config'') y b)"
    "only (backup_active_write ext ns b) (backup_add_finalizer ns name)"
    "only (backup_active_write ext ns b) (remove_trigger_annotation ns name)"
    "only (backup_active_write ext ns b) (apply_cronjob ns (name @ ''-scheduled'') cj)"
    "only (backup_active_write ext ns b) (create_job ns (build_backup_job ext' b jname cmap cluster auth sa))"
  unfolding name_def
  by (auto simp: backup_create_or_update_config_map_def owned_config_map_def backup_add_finalizer_def
      remove_trigger_annotation_def apply_cronjob_def built_job_meta intro!: only_intro)

lemma backup_write_prune:
  "only (backup_active_write ext ns b) (prune_backup_ids ext ns (kb_storage (kbr_spec b)) ids)"
proof (rule only_mono [OF only_prune_backup_ids])
  fix e
  assume "prune_event ext (normalize_optional_prefix (storage_prefix (kb_storage (kbr_spec b)))) ids e"
  then show "backup_active_write ext ns b e"
    by (cases "(ext, ns, b, e)" rule: backup_active_write.cases)
       (auto simp: backup_store_prefix_def confined_def)
qed

lemma backup_write_parts:
  "only (backup_active_write ext ns b) (check_job_completion b ns g)"
  "only (backup_active_write ext ns b) (backup_update_status_reconciliation_paused ns b)"
  "only (backup_active_write ext ns b) (apply_retention_policy ext b ns)"
  "only (backup_active_write ext ns b) (schedule_step ext b ns g cluster auth account)"
  "only (backup_active_write ext ns b) (job_step ext b ns g cluster auth account)"
  unfolding check_job_completion_def backup_update_status_reconciliation_paused_def
    apply_retention_policy_def schedule_step_def job_step_def Let_def
  by (auto intro!: backup_write_intro backup_write_status backup_write_pieces backup_write_prune
      split: option.split)

lemma backup_write_active: "only (backup_active_write ext ns b) (reconcile_backup_active ext b ns)"
  unfolding reconcile_backup_active_def Let_def
  by (auto intro!: backup_write_intro backup_write_status backup_write_pieces backup_write_parts
      split: sum.split)

lemma backup_write_cleanup:
  "only (backup_cleanup_write ns (name_any (kbr_metadata b))) (backup_handle_cleanup b ns)"
  unfolding backup_handle_cleanup_def delete_job_def backup_remove_finalizer_def Let_def
  by (auto intro!: only_intro split: sum.split)

interpretation backup_footprint: footprint "reconcile_backup ext b" "backup_write ext b"
proof
  show "only (backup_write ext b) (reconcile_backup ext b)"
  proof (cases "om_namespace (kbr_metadata b)")
    case None
    then show ?thesis by (simp add: reconcile_backup_def)
  next
    case (Some ns)
    show ?thesis
      unfolding reconcile_backup_cases [OF Some] backup_write_def Let_def ns_of_def Some unwrap_or.simps
      by (auto intro!: only_ebind backup_write_cleanup backup_write_parts backup_write_active
          backup_write_pieces)
  qed
qed

section \<open>The footprint of a restore\<close>

lemmas restore_write_reads =
  read_resolution [THEN only_mono, OF read_restore_write]
  read_list_restore_jobs [THEN only_mono, OF read_restore_write]

lemma restore_write_conditions:
  "only (restore_active_write ns r) (ready_io x m)" "only (restore_active_write ns r) (not_ready_io x m)"
  "only (restore_active_write ns r) reconciliation_paused_io"
  "only (restore_active_write ns r) (error_conditions_io x m)"
  "only (restore_active_write ns r) (restore_patch_status ns (name_any (krr_metadata r)) rst)"
  by (auto simp: restore_patch_status_def intro!: only_intro)

lemmas restore_write_intro = only_intro restore_write_reads restore_write_conditions

lemma restore_write_status:
  fixes r
  defines "name \<equiv> name_any (krr_metadata r)"
  shows
    "only (restore_active_write ns r) (restore_update_status_running ns name g)"
    "only (restore_active_write ns r) (restore_update_status_completed ns name g i)"
    "only (restore_active_write ns r) (restore_update_status_failed ns name g j)"
    "only (restore_active_write ns r) (restore_update_status_error ns name g err)"
    "only (restore_active_write ns r) (restore_update_status_reconciliation_paused ns r)"
  unfolding name_def
  by (auto simp: restore_status_defs Let_def intro!: restore_write_intro)

lemma restore_write_pieces:
  fixes r
  defines "name \<equiv> name_any (krr_metadata r)"
  shows
    "only (restore_active_write ns r) (restore_create_or_update_config_map ns (name @ ''-config'') y r)"
    "only (restore_active_write ns r) (restore_add_finalizer ns name)"
    "only (restore_active_write ns r) (get_source_backup ns n)"
    "only (restore_active_write ns r) (create_job ns (build_restore_job ext r jname cmap cluster auth source sa))"
  unfolding name_def
  by (auto simp: restore_create_or_update_config_map_def owned_config_map_def restore_add_finalizer_def
      get_source_backup_def built_job_meta intro!: only_intro)

lemma restore_write_active: "only (restore_active_write ns r) (reconcile_restore_active ext r ns)"
  unfolding reconcile_restore_active_def Let_def active_step start_restore_def report_existing_def
  by (auto intro!: restore_write_intro restore_write_status restore_write_pieces
      split: sum.split JobsState.split)

lemma restore_write_cleanup:
  "only (restore_cleanup_write ns (name_any (krr_metadata r))) (restore_handle_cleanup r ns)"
  unfolding restore_handle_cleanup_def restore_delete_job_def restore_remove_finalizer_def Let_def
  by (auto intro!: only_intro split: sum.split)

interpretation restore_footprint: footprint "reconcile_restore ext r" "restore_write r"
proof
  show "only (restore_write r) (reconcile_restore ext r)"
  proof (cases "om_namespace (krr_metadata r)")
    case None
    then show ?thesis by (simp add: reconcile_restore_def)
  next
    case (Some ns)
    show ?thesis
      unfolding reconcile_restore_cases [OF Some] restore_write_def Let_def ns_of_def Some unwrap_or.simps
      by (auto intro!: only_ebind restore_write_cleanup restore_write_status restore_write_active
          restore_write_pieces)
  qed
qed


section \<open>The Jobs a cleanup deletes\<close>

lemma world_answer: "EvKube q a \<in> set (trace_of W p s) \<Longrightarrow> \<exists>s'. a = fst (w_kube W q s')"
proof (induction p arbitrary: s)
  case (Clock f) from this(1) [OF rangeI] this(2) show ?case by (auto simp: trace_cons)
next
  case (GetEnv n f) from this(1) [OF rangeI] this(2) show ?case by (auto simp: trace_cons)
next
  case (Kube q' f) from this(1) [OF rangeI] this(2) show ?case by (auto simp: trace_cons)
next
  case (Store q' f) from this(1) [OF rangeI] this(2) show ?case by (auto simp: trace_cons)
qed (simp_all add: trace_of_def)

lemma preceded_weaken:
  "preceded G T tr \<Longrightarrow> (\<And>e. e \<in> set tr \<Longrightarrow> G e \<Longrightarrow> G' e) \<Longrightarrow> preceded G' T tr"
  by (induction tr) (auto split: if_splits)

lemma deletes_is_job_write: "deletes_job ns n e \<Longrightarrow> is_write e"
  by (cases "(ns, n, e)" rule: deletes_job.cases) simp_all

lemma active_deletes_none:
  "backup_active_write ext ns b e \<Longrightarrow> \<not> deletes_job ns' n e"
  "restore_active_write ns r e \<Longrightarrow> \<not> deletes_job ns' n e"
  by (cases "(ns', n, e)" rule: deletes_job.cases, auto)+

definition lists_named :: "string \<Rightarrow> string \<Rightarrow> string \<Rightarrow> string \<Rightarrow> event \<Rightarrow> bool" where
  "lists_named ns sel ns' n e \<longleftrightarrow> ns' = ns \<and> listing ns sel (\<lambda>js. n \<in> job_name ` set js) e"

text \<open>Both cleanups list with a selector, delete what it answers, and go on without Jobs.\<close>

lemma guarded_list_delete:
  assumes "\<And>x. only (\<lambda>e. \<not> deletes_job ns' n e) (f x)"
  shows "guarded (lists_named ns sel ns' n) (deletes_job ns' n)
    (pbind (kube_call (KListJobs ns sel) as_jobs) (\<lambda>r.
     pbind (case r of Inr js \<Rightarrow> for_ignore js (delete_job ns) | Inl e \<Rightarrow> Ret ()) f))"
proof -
  have quiet: "only (\<lambda>e. \<not> deletes_job ns' n e) (for_ignore js (delete_job ns))"
    if "\<not> (ns' = ns \<and> n \<in> job_name ` set js)" for js
    using that by (auto simp: delete_job_def job_name_def intro!: only_intro)
  show ?thesis
    unfolding kube_call_def
    by (auto simp: lists_named_def intro!: only_guarded only_pbind quiet assms
        split: sum.split option.split elim!: as_jobs.elims)
qed

lemma guarded_cleanup_jobs:
  "guarded (lists_named ns (backup_cleanup_selector (name_any (kbr_metadata b))) ns' n) (deletes_job ns' n)
     (backup_handle_cleanup b ns)"
  "guarded (lists_named ns (restore_cleanup_selector (name_any (krr_metadata r))) ns' n) (deletes_job ns' n)
     (restore_handle_cleanup r ns)"
  unfolding backup_handle_cleanup_def restore_handle_cleanup_def Let_def restore_delete_job_eq
  by (rule guarded_list_delete, auto simp: backup_remove_finalizer_def restore_remove_finalizer_def
      intro!: only_intro)+

lemma guarded_backup_jobs:
  "guarded (lists_named (ns_of (kbr_metadata b)) (backup_cleanup_selector (name_any (kbr_metadata b))) ns' n)
     (deletes_job ns' n) (reconcile_backup ext b)"
proof (cases "om_namespace (kbr_metadata b)")
  case None
  then show ?thesis by (simp add: reconcile_backup_def)
next
  case (Some ns)
  have ns: "ns_of (kbr_metadata b) = ns" by (simp add: ns_of_def Some)
  show ?thesis
  proof (cases "om_deletion_timestamp (kbr_metadata b) = None")
    case True
    then have "only (backup_active_write ext ns b) (reconcile_backup ext b)"
      using backup_footprint.confined [of ext b] by (simp add: backup_write_def ns)
    from only_mono [OF this active_deletes_none(1)] show ?thesis by (rule only_guarded)
  next
    case False
    then show ?thesis unfolding reconcile_backup_cases [OF Some] ns
      using guarded_cleanup_jobs(1) by simp
  qed
qed

lemma guarded_restore_jobs:
  "guarded (lists_named (ns_of (krr_metadata r)) (restore_cleanup_selector (name_any (krr_metadata r))) ns' n)
     (deletes_job ns' n) (reconcile_restore ext r)"
proof (cases "om_namespace (krr_metadata r)")
  case None
  then show ?thesis by (simp add: reconcile_restore_def)
next
  case (Some ns)
  have ns: "ns_of (krr_metadata r) = ns" by (simp add: ns_of_def Some)
  show ?thesis
  proof (cases "om_deletion_timestamp (krr_metadata r) = None")
    case True
    then have "only (restore_active_write ns r) (reconcile_restore ext r)"
      using restore_footprint.confined [of r ext] by (simp add: restore_write_def ns)
    from only_mono [OF this active_deletes_none(2)] show ?thesis by (rule only_guarded)
  next
    case False
    then show ?thesis unfolding reconcile_restore_cases [OF Some] ns
      using guarded_cleanup_jobs(2) by simp
  qed
qed

lemma selects_cleanup:
  assumes "CHR '','' \<notin> set name"
  shows "selects (backup_cleanup_selector name) labels \<longleftrightarrow>
      bt_get labels ''app.kubernetes.io/managed-by'' = Some ''kafka-backup-operator'' \<and>
      bt_get labels ''kafkabackup.com/backup'' = Some name"
    "selects (restore_cleanup_selector name) labels \<longleftrightarrow>
      bt_get labels ''app.kubernetes.io/managed-by'' = Some ''kafka-backup-operator'' \<and>
      bt_get labels ''kafkabackup.com/restore'' = Some name"
  using selects_pair [of "''app.kubernetes.io/managed-by''" "''kafka-backup-operator''"
      "''kafkabackup.com/backup''" name labels]
    selects_pair [of "''app.kubernetes.io/managed-by''" "''kafka-backup-operator''"
      "''kafkabackup.com/restore''" name labels] assms
  by (simp_all add: backup_cleanup_selector_def restore_cleanup_selector_def)

text \<open>With a server that selects, the Jobs listed are the resource's.\<close>

lemma preceded_own_jobs:
  assumes "server_selects W" "\<And>ns' n. guarded (lists_named ns sel ns' n) (deletes_job ns' n) p"
    and "\<And>labels. selects sel labels \<Longrightarrow> bt_get labels key = Some name \<and>
      bt_get labels ''app.kubernetes.io/managed-by'' = Some ''kafka-backup-operator''"
  shows "deletes_own_jobs key name ns (trace_of W p s)"
  unfolding deletes_own_jobs_def
proof (intro allI)
  fix ns' n
  show "preceded (\<lambda>e. ns' = ns \<and> shows_job key name ns n e) (deletes_job ns' n) (trace_of W p s)"
  proof (rule preceded_weaken [OF guarded_run [OF assms(2)]])
    fix e
    assume e: "e \<in> set (trace_of W p s)" "lists_named ns sel ns' n e"
    then obtain js job where l: "ns' = ns" "e = EvKube (KListJobs ns sel) (Inr (AJobs js))"
      "job \<in> set js" "job_name job = n"
      by (cases "(ns, sel, \<lambda>js. n \<in> job_name ` set js, e)" rule: listing.cases) (auto simp: lists_named_def)
    from world_answer [OF e(1) [unfolded l(2)]] obtain s' where
      "fst (w_kube W (KListJobs ns sel) s') = Inr (AJobs js)" by metis
    with assms(1) l(3) have "selects sel (job_labels job)" by (auto simp: server_selects_def)
    with assms(3) l show "ns' = ns \<and> shows_job key name ns n e" unfolding shows_job_def by blast
  qed
qed

section \<open>The properties\<close>

text \<open>C10.
  A reconciliation writes only what is its resource's. One that is not being deleted creates only
  Jobs that name it as owner, in its namespace, applies only the ConfigMap, with its one file, and
  (a backup) the CronJob named after it, patches only the resource itself, and deletes no object of
  the cluster; of the store, a backup deletes only below its configured prefix, a restore nothing.
  One that is being deleted deletes what is named after it and, given a server whose listings
  answer what the selector selects, only Jobs that a listing has just shown with the resource's own
  label.
\<close>

theorem writes_confined:
  assumes "server_selects W"
    and "CHR '','' \<notin> set (name_any (kbr_metadata backup))" "CHR '','' \<notin> set (name_any (krr_metadata restore))"
  shows "(let tr = trace_of W (reconcile_backup ext backup) s; meta = kbr_metadata backup in
      list_all (backup_write ext backup) tr \<and>
      deletes_own_jobs ''kafkabackup.com/backup'' (name_any meta) (ns_of meta) tr) \<and>
    (let tr = trace_of W (reconcile_restore ext restore) s; meta = krr_metadata restore in
      list_all (restore_write restore) tr \<and>
      deletes_own_jobs ''kafkabackup.com/restore'' (name_any meta) (ns_of meta) tr)"
  unfolding Let_def
  by (intro conjI backup_footprint.writes restore_footprint.writes
      preceded_own_jobs [OF assms(1) guarded_backup_jobs]
      preceded_own_jobs [OF assms(1) guarded_restore_jobs])
     (simp_all add: selects_cleanup assms(2,3))

text \<open>A cluster that selects, with a Job of the backup being deleted and a Job of another.\<close>

definition labelled_job :: "string \<Rightarrow> string \<Rightarrow> Job" where
  "labelled_job backup n = \<lparr>jb_metadata = empty_meta\<lparr>om_name := Some n, om_labels := Some
       [(''app.kubernetes.io/managed-by'', ''kafka-backup-operator''), (''kafkabackup.com/backup'', backup)]\<rparr>,
     jb_spec = None, jb_status = None\<rparr>"

fun selecting_kube :: "KubeReq \<Rightarrow> Job list \<Rightarrow> (KubeError + KubeAnswer) \<times> Job list" where
  "selecting_kube (KListJobs ns sel) js = (Inr (AJobs (filter (\<lambda>j. selects sel (job_labels j)) js)), js)"
| "selecting_kube (KDeleteJob ns n dp) js = (Inr AUnit, filter (\<lambda>j. job_name j \<noteq> n) js)"
| "selecting_kube q js = job_kube q js"

definition selecting_world :: "Job list World" where
  "selecting_world = job_world\<lparr>w_kube := selecting_kube\<rparr>"

lemma selecting_world_selects: "server_selects selecting_world"
  by (auto simp: server_selects_def selecting_world_def)

definition removed_backup :: KafkaBackup where
  "removed_backup = sample_backup\<lparr>kbr_metadata := (sample_meta ''bk'')\<lparr>om_deletion_timestamp := Some 7\<rparr>\<rparr>"

lemma removed_backup_sel:
  "om_namespace (kbr_metadata removed_backup) = Some ''ns''" "name_any (kbr_metadata removed_backup) = ''bk''"
  "om_deletion_timestamp (kbr_metadata removed_backup) = Some 7"
  by (simp_all add: removed_backup_def sample_meta_def name_any_def)

lemma listed_labelled:
  "selects (backup_cleanup_selector ''bk'') (job_labels (labelled_job ''bk'' n))"
  "\<not> selects (backup_cleanup_selector ''bk'') (job_labels (labelled_job ''bk-2'' n))"
  by (simp_all add: selects_cleanup labelled_job_def job_labels_def bt_get_def)

lemma labelled_job_name: "om_name (jb_metadata (labelled_job b n)) = Some n"
  by (simp add: labelled_job_def)

lemma removed_run:
  "state_of selecting_world (reconcile_backup sample_ext removed_backup)
     [labelled_job ''bk'' ''bk-1'', labelled_job ''bk-2'' ''bk-2-1''] = [labelled_job ''bk-2'' ''bk-2-1'']"
  by (simp add: reconcile_backup_cases [OF removed_backup_sel(1)] backup_handle_cleanup_def
      removed_backup_sel exec selecting_world_def listed_labelled decoded_def delete_job_def
      backup_remove_finalizer_def job_name_def labelled_job_name Let_def)

theorem writes_confined_witness:
  "let jobs = [labelled_job ''bk'' ''bk-1'', labelled_job ''bk-2'' ''bk-2-1''];
       run = reconcile_backup sample_ext removed_backup in
   state_of selecting_world run jobs = [labelled_job ''bk-2'' ''bk-2-1''] \<and>
   deletes_own_jobs ''kafkabackup.com/backup'' ''bk'' ''ns'' (trace_of selecting_world run jobs)"
  using writes_confined [OF selecting_world_selects, of removed_backup sample_restore sample_ext
      "[labelled_job ''bk'' ''bk-1'', labelled_job ''bk-2'' ''bk-2-1'']"] removed_run
  by (simp add: removed_backup_sel ns_of_def sample_restore_sel sample_meta_sel Let_def)

section \<open>ConfigMaps, as the server keeps them\<close>

text \<open>
  The ConfigMaps of a cluster are the server's: \<open>ms_update\<close> is what an event makes of them,
  \<open>ms_file\<close> the content of a file of the map with a namespace and a name, and
  \<open>ms_managers\<close> who manages that file (\<open>metadata.managedFields\<close>).
\<close>

record 'c map_server =
  ms_update :: "event \<Rightarrow> 'c \<Rightarrow> 'c"
  ms_file :: "'c \<Rightarrow> string \<times> string \<Rightarrow> string \<Rightarrow> string option"
  ms_managers :: "'c \<Rightarrow> string \<times> string \<Rightarrow> string \<Rightarrow> string set"

text \<open>The map an event changes, if it does: an accepted apply or deletion.\<close>

fun map_changed :: "event \<Rightarrow> (string \<times> string) option" where
  "map_changed (EvKube (KApplyConfigMap ns n pp cm) (Inr a)) = Some (ns, n)"
| "map_changed (EvKube (KDeleteConfigMap ns n dp) (Inr a)) = Some (ns, n)"
| "map_changed e = None"

text \<open>
  Server-side apply, as Kubernetes documents it: the manager of an apply that is accepted without
  force manages the files it sent, which have the content it sent; it gives up those it managed and
  no longer sends, and a file that had no other manager is removed. A deletion that is accepted
  removes the map (the operator's have no finalizers). No other event matters.
\<close>

definition server_side_apply :: "'c map_server \<Rightarrow> bool" where
  "server_side_apply S \<longleftrightarrow>
     (\<forall>e c k f. map_changed e \<noteq> Some k \<longrightarrow>
        ms_file S (ms_update S e c) k f = ms_file S c k f \<and>
        ms_managers S (ms_update S e c) k f = ms_managers S c k f) \<and>
     (\<forall>ns n pp cm a c f M. pp_field_manager pp = Some M \<longrightarrow> \<not> pp_force pp \<longrightarrow>
        (let c' = ms_update S (EvKube (KApplyConfigMap ns n pp cm) (Inr a)) c;
             old = ms_managers S c (ns, n) f
         in case bt_get (cm_data cm) f of
              Some y \<Rightarrow> ms_file S c' (ns, n) f = Some y \<and> ms_managers S c' (ns, n) f = insert M old
            | None \<Rightarrow> ms_file S c' (ns, n) f = (if old = {M} then None else ms_file S c (ns, n) f) \<and>
                ms_managers S c' (ns, n) f = old - {M})) \<and>
     (\<forall>ns n dp a c f. let c' = ms_update S (EvKube (KDeleteConfigMap ns n dp) (Inr a)) c in
        ms_file S c' (ns, n) f = None \<and> ms_managers S c' (ns, n) f = {})"

definition operator_manager :: string where "operator_manager = ''kafka-backup-operator''"

text \<open>
  \<open>keeps_file v e\<close>: the only change \<open>e\<close> makes to a ConfigMap is to apply the one file, when
  \<open>v\<close> is that file, and to delete it, when \<open>v\<close> is \<open>None\<close>.
\<close>

fun keeps_file :: "string option \<Rightarrow> event \<Rightarrow> bool" where
  "keeps_file v (EvKube (KApplyConfigMap ns n pp cm) r) \<longleftrightarrow>
     pp = apply_params \<and> (\<exists>file y. v = Some file \<and> cm_data cm = [(file, y)])"
| "keeps_file v (EvKube (KDeleteConfigMap ns n dp) r) \<longleftrightarrow> v = None"
| "keeps_file v e \<longleftrightarrow> True"

definition events_after :: "'c map_server \<Rightarrow> event list \<Rightarrow> 'c \<Rightarrow> 'c" where
  "events_after S es c = fold (ms_update S) es c"

lemma unchanged_map:
  assumes "server_side_apply S" "map_changed e \<noteq> Some k"
  shows "ms_file S (ms_update S e c) k f = ms_file S c k f"
    "ms_managers S (ms_update S e c) k f = ms_managers S c k f"
  using assms unfolding server_side_apply_def by blast+

lemma deleted_map:
  assumes "server_side_apply S" "keeps_file None e" "map_changed e = Some k"
  shows "ms_file S (ms_update S e c) k f = None"
  using assms
  by (cases e rule: map_changed.cases) (auto simp: server_side_apply_def Let_def)

lemma applied_map:
  assumes "server_side_apply S" "keeps_file (Some file) e" "map_changed e = Some k"
  shows "ms_file S (ms_update S e c) k file \<noteq> None"
    "f \<noteq> file \<Longrightarrow> ms_file S (ms_update S e c) k f =
      (if ms_managers S c k f = {operator_manager} then None else ms_file S c k f)"
    "f \<noteq> file \<Longrightarrow> ms_managers S (ms_update S e c) k f = ms_managers S c k f - {operator_manager}"
proof -
  obtain ns n cm a y where e: "e = EvKube (KApplyConfigMap ns n apply_params cm) (Inr a)" "k = (ns, n)"
    "cm_data cm = [(file, y)]"
    using assms(2,3) by (cases e rule: map_changed.cases) auto
  have p: "pp_field_manager apply_params = Some operator_manager" "\<not> pp_force apply_params"
    by (simp_all add: apply_params_def operator_manager_def)
  have law: "let c' = ms_update S e c; old = ms_managers S c k g
       in case bt_get (cm_data cm) g of
            Some y \<Rightarrow> ms_file S c' k g = Some y \<and> ms_managers S c' k g = insert operator_manager old
          | None \<Rightarrow> ms_file S c' k g = (if old = {operator_manager} then None else ms_file S c k g) \<and>
              ms_managers S c' k g = old - {operator_manager}" for g
    using assms(1) p unfolding server_side_apply_def e(1,2) by blast
  show "ms_file S (ms_update S e c) k file \<noteq> None"
    using law [of "file"] by (simp add: e(3) bt_get_def Let_def)
  show "f \<noteq> file \<Longrightarrow> ms_file S (ms_update S e c) k f =
      (if ms_managers S c k f = {operator_manager} then None else ms_file S c k f)"
    "f \<noteq> file \<Longrightarrow> ms_managers S (ms_update S e c) k f = ms_managers S c k f - {operator_manager}"
    using law [of f] by (simp_all add: e(3) bt_get_def Let_def)
qed

text \<open>A run of such events, one of which changes the map \<open>k\<close>.\<close>

definition changes_map :: "string \<times> string \<Rightarrow> event list \<Rightarrow> bool" where
  "changes_map k es \<longleftrightarrow> list_ex (\<lambda>e. map_changed e = Some k) es"

lemma run_deletes:
  assumes "server_side_apply S"
  shows "\<forall>e \<in> set es. keeps_file None e \<Longrightarrow> changes_map k es \<or> ms_file S c k f = None \<Longrightarrow>
    ms_file S (events_after S es c) k f = None"
  unfolding events_after_def changes_map_def
proof (induction es arbitrary: c)
  case (Cons e es)
  show ?case
  proof (cases "map_changed e = Some k")
    case True
    with Cons deleted_map [OF assms _ True] show ?thesis by simp
  next
    case False
    with Cons unchanged_map [OF assms False] show ?thesis by simp
  qed
qed simp

lemma run_keeps_own:
  assumes "server_side_apply S"
  shows "\<forall>e \<in> set es. keeps_file (Some file) e \<Longrightarrow> changes_map k es \<or> ms_file S c k file \<noteq> None \<Longrightarrow>
    ms_file S (events_after S es c) k file \<noteq> None"
  unfolding events_after_def changes_map_def
proof (induction es arbitrary: c)
  case (Cons e es)
  show ?case
  proof (cases "map_changed e = Some k")
    case True
    with Cons applied_map(1) [OF assms _ True] show ?thesis by simp
  next
    case False
    with Cons unchanged_map [OF assms False] show ?thesis by simp
  qed
qed simp

lemma run_drops_other:
  assumes "server_side_apply S" "f \<noteq> file"
  shows "\<forall>e \<in> set es. keeps_file (Some file) e \<Longrightarrow>
    ms_file S (events_after S es c) k f =
      (if changes_map k es \<and> ms_managers S c k f = {operator_manager} then None else ms_file S c k f)"
  unfolding events_after_def changes_map_def
proof (induction es arbitrary: c)
  case (Cons e es)
  show ?case
  proof (cases "map_changed e = Some k")
    case True
    with Cons applied_map(2,3) [OF assms(1) _ True assms(2)] show ?thesis by auto
  next
    case False
    with Cons unchanged_map [OF assms(1) False] show ?thesis by simp
  qed
qed simp

section \<open>What a reconciliation leaves in the ConfigMaps\<close>

definition kept_file :: "ObjectMeta \<Rightarrow> string \<Rightarrow> string option" where
  "kept_file meta file = (if om_deletion_timestamp meta \<noteq> None then None else Some file)"

definition map_key :: "ObjectMeta \<Rightarrow> string \<times> string" where
  "map_key meta = (ns_of meta, name_any meta @ ''-config'')"

lemma map_key_eq: "map_key m = map_key m' \<longleftrightarrow> ns_of m = ns_of m' \<and> name_any m = name_any m'"
  by (simp add: map_key_def)

text \<open>Both follow from the footprints.\<close>

lemma backup_keeps_file:
  "backup_write ext b e \<Longrightarrow> keeps_file (kept_file (kbr_metadata b) ''backup.yaml'') e"
  "backup_write ext b e \<Longrightarrow> map_changed e \<in> {None, Some (map_key (kbr_metadata b))}"
  by (cases "(kept_file (kbr_metadata b) ''backup.yaml'', e)" rule: keeps_file.cases;
      auto simp: backup_write_def kept_file_def Let_def split: if_splits)
     (cases e rule: map_changed.cases; auto simp: backup_write_def map_key_def Let_def split: if_splits)

lemma restore_keeps_file:
  "restore_write r e \<Longrightarrow> keeps_file (kept_file (krr_metadata r) ''restore.yaml'') e"
  "restore_write r e \<Longrightarrow> map_changed e \<in> {None, Some (map_key (krr_metadata r))}"
  by (cases "(kept_file (krr_metadata r) ''restore.yaml'', e)" rule: keeps_file.cases;
      auto simp: restore_write_def kept_file_def Let_def split: if_splits)
     (cases e rule: map_changed.cases; auto simp: restore_write_def map_key_def Let_def split: if_splits)

text \<open>What a run whose resource keeps the file \<open>v\<close> leaves of a map that held \<open>before\<close>.\<close>

definition left_files :: "string option \<Rightarrow> (string \<Rightarrow> string option) \<Rightarrow> (string \<Rightarrow> string set) \<Rightarrow>
    (string \<Rightarrow> string option) \<Rightarrow> bool" where
  "left_files v before managers after \<longleftrightarrow>
     (case v of
        None \<Rightarrow> \<forall>f. after f = None
      | Some file \<Rightarrow> after file \<noteq> None \<and>
          (\<forall>f. f = file \<or> after f = (if managers f = {operator_manager} then None else before f)))"

lemma run_leaves:
  assumes "server_side_apply S" "\<forall>e \<in> set es. keeps_file v e" "changes_map k es"
  shows "left_files v (ms_file S c k) (ms_managers S c k) (ms_file S (events_after S es c) k)"
proof (cases v)
  case None
  with run_deletes [OF assms(1)] assms(2,3) show ?thesis by (simp add: left_files_def)
next
  case (Some "file")
  note es = assms(2) [unfolded Some]
  show ?thesis
    unfolding left_files_def Some option.case
  proof (intro conjI allI)
    show "ms_file S (events_after S es c) k file \<noteq> None"
      using run_keeps_own [OF assms(1) es] assms(3) by blast
    fix f
    show "f = file \<or> ms_file S (events_after S es c) k f =
        (if ms_managers S c k f = {operator_manager} then None else ms_file S c k f)"
      using run_drops_other [OF assms(1) _ es, of f] assms(3) by (cases "f = file") simp_all
  qed
qed

lemma leaves_other_maps:
  assumes "server_side_apply S" "\<And>e. own e \<Longrightarrow> map_changed e \<noteq> Some k" "\<forall>e \<in> set es. own e"
  shows "ms_file S (events_after S es c) k = ms_file S c k"
  using assms(3) unfolding events_after_def
  by (induction es arbitrary: c) (auto simp: unchanged_map(1) [OF assms(1,2)])

text \<open>C11.
  A backup and a restore leave each other's ConfigMap alone unless they have the same name and
  namespace. If they have, they share one, and because both reconcilers apply it as the same field
  manager, on a server that applies the way Kubernetes documents it the restore's accepted apply
  removes \<open>backup.yaml\<close>, which the backup's Jobs read, unless somebody else manages that file
  too, and leaves its own \<open>restore.yaml\<close>; a restore being deleted leaves no file; and the other
  way round.
\<close>

theorem config_maps_shared:
  assumes "server_side_apply S"
    and "changes_map (map_key (kbr_metadata backup)) (trace_of W (reconcile_backup ext backup) s)"
    and "changes_map (map_key (krr_metadata restore)) (trace_of W' (reconcile_restore ext' restore) s')"
  shows "let bk = map_key (kbr_metadata backup); rs = map_key (krr_metadata restore);
           after_restore = ms_file S (events_after S (trace_of W' (reconcile_restore ext' restore) s') c);
           after_backup = ms_file S (events_after S (trace_of W (reconcile_backup ext backup) s) c')
     in if bk = rs
        then left_files (kept_file (krr_metadata restore) ''restore.yaml'') (ms_file S c bk)
               (ms_managers S c bk) (after_restore bk) \<and>
             left_files (kept_file (kbr_metadata backup) ''backup.yaml'') (ms_file S c' rs)
               (ms_managers S c' rs) (after_backup rs)
        else after_restore bk = ms_file S c bk \<and> after_backup rs = ms_file S c' rs"
proof -
  note b = backup_footprint.writes [unfolded list_all_iff, where ext = ext and b = backup and W = W and s = s]
    and r = restore_footprint.writes [unfolded list_all_iff, where ext = ext' and r = restore and W = W' and s = s']
  have kept: "\<forall>e \<in> set (trace_of W (reconcile_backup ext backup) s).
      keeps_file (kept_file (kbr_metadata backup) ''backup.yaml'') e"
    "\<forall>e \<in> set (trace_of W' (reconcile_restore ext' restore) s').
      keeps_file (kept_file (krr_metadata restore) ''restore.yaml'') e"
    using b r backup_keeps_file(1) restore_keeps_file(1) by blast+
  show ?thesis
  proof (cases "map_key (kbr_metadata backup) = map_key (krr_metadata restore)")
    case True
    then show ?thesis
      using run_leaves [OF assms(1) kept(1) assms(2), of c'] run_leaves [OF assms(1) kept(2) assms(3), of c]
      by (simp add: Let_def)
  next
    case False
    have "ms_file S (events_after S (trace_of W' (reconcile_restore ext' restore) s') c)
        (map_key (kbr_metadata backup)) = ms_file S c (map_key (kbr_metadata backup))"
      using False restore_keeps_file(2) by (intro leaves_other_maps [OF assms(1) _ r]) fastforce
    moreover have "ms_file S (events_after S (trace_of W (reconcile_backup ext backup) s) c')
        (map_key (krr_metadata restore)) = ms_file S c' (map_key (krr_metadata restore))"
      using False backup_keeps_file(2) by (intro leaves_other_maps [OF assms(1) _ b]) fastforce
    ultimately show ?thesis using False by (simp add: Let_def)
  qed
qed

text \<open>A reconciliation that got a Job has written its ConfigMap before.\<close>

lemma no_guard_no_creation:
  assumes "truthful W ns sel created"
  shows "guarded G creates_job p \<Longrightarrow> \<not> list_ex G (trace_of W p s) \<Longrightarrow>
    created (state_of W p s) = created s"
proof (induction p arbitrary: s)
  case (Kube q g)
  then have "\<not> creates_job (EvKube q (fst (w_kube W q s)))"
    by (auto simp: trace_cons split: if_splits)
  with Kube show ?case
    by (auto simp: trace_cons state_cons truthfulD(4) [OF assms] split: if_splits)
qed (auto simp: trace_cons state_cons truthfulD [OF assms] split: if_splits)

lemma accepted_changes_map: "config_map_accepted ns n e \<Longrightarrow> map_changed e = Some (ns, n)"
  by (cases "(ns, n, e)" rule: config_map_accepted.cases) simp_all

lemma created_after_map:
  assumes "guarded (config_map_accepted (ns_of meta) (name_any meta @ ''-config'')) creates_job p"
    and "length (state_of job_world p s) \<noteq> length s"
  shows "changes_map (map_key meta) (trace_of job_world p s)"
  using no_guard_no_creation [OF job_world_truthful assms(1)] assms(2)
  by (auto simp: changes_map_def map_key_def list_ex_iff dest: accepted_changes_map)

text \<open>A server that applies: of every file of every map, its content and its managers.\<close>

type_synonym sample_maps = "string \<times> string \<Rightarrow> string \<Rightarrow> string option \<times> string set"

fun sample_apply :: "event \<Rightarrow> sample_maps \<Rightarrow> sample_maps" where
  "sample_apply (EvKube (KApplyConfigMap ns n pp cm) (Inr a)) c = c((ns, n) := (\<lambda>f.
     let (y, old) = c (ns, n) f; M = unwrap_or (pp_field_manager pp) [] in
     case bt_get (cm_data cm) f of
       Some y' \<Rightarrow> (Some y', insert M old)
     | None \<Rightarrow> (if old = {M} then None else y, old - {M})))"
| "sample_apply (EvKube (KDeleteConfigMap ns n dp) (Inr a)) c = c((ns, n) := (\<lambda>f. (None, {})))"
| "sample_apply e c = c"

definition sample_maps :: "sample_maps map_server" where
  "sample_maps = \<lparr>ms_update = sample_apply, ms_file = (\<lambda>c k f. fst (c k f)),
     ms_managers = (\<lambda>c k f. snd (c k f))\<rparr>"

lemma sample_maps_apply: "server_side_apply sample_maps"
proof -
  have "sample_apply e c k = c k" if "map_changed e \<noteq> Some k" for e c k
    using that by (cases "(e, c)" rule: sample_apply.cases) auto
  then show ?thesis
    by (auto simp: server_side_apply_def sample_maps_def Let_def split: option.split prod.split)
qed

definition namesake :: KafkaRestore where
  "namesake = sample_restore\<lparr>krr_metadata := sample_meta ''bk''\<rparr>"

lemma namesake_sel:
  "krr_metadata namesake = sample_meta ''bk''" "krr_spec namesake = krr_spec sample_restore"
  "krr_status namesake = None"
  by (simp_all add: namesake_def sample_restore_sel)

lemma namesake_config:
  "build_restore_config_yaml ext namesake = build_restore_config_yaml ext sample_restore"
  by (intro ext) (simp add: build_restore_config_yaml_def restore_config_map_def resolve_backup_id_def
      build_restore_options_def Let_def
      namesake_sel)

lemma namesake_run: "length (state_of job_world (reconcile_restore sample_ext namesake) []) = 1"
  by (simp add: reconcile_restore_def reconcile_restore_active_def restore_done_def start_restore_def
      restore_add_finalizer_def list_restore_jobs_def get_source_backup_def Let_def exec exec_cluster
      restore_create_or_update_config_map_def exec_ca exec_account exec_create exec_auth
      exec_restore_status namesake_config sample_restore_config namesake_sel sample_restore_sel
      sample_meta_sel job_world_sel decoded_def classify_NoJobs [THEN iffD2])

lemma sample_backup_maps:
  "changes_map (map_key (kbr_metadata sample_backup)) (trace_of job_world (reconcile_backup sample_ext sample_backup) [])"
  "changes_map (map_key (krr_metadata namesake)) (trace_of job_world (reconcile_restore sample_ext namesake) [])"
  by (rule created_after_map [OF guarded_config_map], simp add: backup_first_run)
     (rule created_after_map [OF guarded_restore_config_map], simp add: namesake_run)

lemma sample_shared_key: "map_key (kbr_metadata sample_backup) = (''ns'', ''bk-config'')"
    "map_key (krr_metadata namesake) = (''ns'', ''bk-config'')"
  by (simp_all add: map_key_def sample_backup_sel namesake_sel ns_of_def sample_meta_sel)

text \<open>The map as the backup's apply leaves it: its file, managed by the operator alone.\<close>

definition applied_map_of_bk :: sample_maps where
  "applied_map_of_bk k f =
     (if k = (''ns'', ''bk-config'') \<and> f = ''backup.yaml'' then (Some ''yaml'', {operator_manager}) else (None, {}))"

theorem config_maps_shared_witness:
  "let after = events_after sample_maps
         (trace_of job_world (reconcile_restore sample_ext namesake) []) applied_map_of_bk
   in ms_file sample_maps applied_map_of_bk (''ns'', ''bk-config'') ''backup.yaml'' = Some ''yaml'' \<and>
      ms_file sample_maps after (''ns'', ''bk-config'') ''backup.yaml'' = None \<and>
      ms_file sample_maps after (''ns'', ''bk-config'') ''restore.yaml'' \<noteq> None"
proof -
  have "kept_file (krr_metadata namesake) ''restore.yaml'' = Some ''restore.yaml''"
    by (simp add: kept_file_def namesake_sel sample_meta_sel)
  moreover have "ms_managers sample_maps applied_map_of_bk (''ns'', ''bk-config'') ''backup.yaml'' = {operator_manager}"
    "ms_file sample_maps applied_map_of_bk (''ns'', ''bk-config'') ''backup.yaml'' = Some ''yaml''"
    by (simp_all add: sample_maps_def applied_map_of_bk_def)
  moreover have "left_files (kept_file (krr_metadata namesake) ''restore.yaml'')
      (ms_file sample_maps applied_map_of_bk (''ns'', ''bk-config''))
      (ms_managers sample_maps applied_map_of_bk (''ns'', ''bk-config''))
      (ms_file sample_maps (events_after sample_maps
         (trace_of job_world (reconcile_restore sample_ext namesake) []) applied_map_of_bk) (''ns'', ''bk-config''))"
    using config_maps_shared [OF sample_maps_apply sample_backup_maps, of applied_map_of_bk applied_map_of_bk]
    by (simp add: Let_def sample_shared_key)
  ultimately show ?thesis
    unfolding left_files_def by (auto simp: Let_def dest: spec [of _ "''backup.yaml''"])
qed

end
