(* ===== verification/Panic_Paths.thy ===== *)
theory Panic_Paths
  imports Operator_Properties Retention_Properties Runs
begin

text \<open>
  What an age of the retention policy does that is not an age: one that cannot be parsed is
  ignored; one whose last character has several bytes makes the parser panic, and with it every
  reconciliation that has a history to apply the policy to.
\<close>

section \<open>Successful runs of a sequence\<close>

lemma ebind_succeeds:
  assumes "outcome_of W (ebind m f) s = Done (Inr y)"
  obtains x s' where "outcome_of W m s = Done (Inr x)" "s' = state_of W m s"
    "outcome_of W (f x) s' = Done (Inr y)"
  using assms by (auto simp: exec_ebind split: outcome.splits sum.splits)

lemma pbind_succeeds:
  assumes "outcome_of W (pbind m f) s = Done y"
  obtains x s' where "outcome_of W m s = Done x" "outcome_of W (f x) s' = Done y"
  using assms by (auto simp: exec_pbind split: outcome.splits)

lemma throw_fails: "outcome_of W (ebind m (\<lambda>_. throw e)) s \<noteq> Done (Inr y)"
  by (auto simp: exec_ebind exec_ret split: outcome.splits sum.splits)

section \<open>Retention with an age that makes the parser panic\<close>

text \<open>
  The last character of the trimmed age has several bytes: its last byte is a continuation byte.
\<close>

definition multibyte_end :: "string \<Rightarrow> bool" where
  "multibyte_end age \<longleftrightarrow> 1 < length (trim age) \<and> is_cont (last (trim age))"

definition panicking_age :: "RetentionSpec \<Rightarrow> bool" where
  "panicking_age retention \<longleftrightarrow> is_some_and (rt_max_age retention) multibyte_end"

lemma panicking_parse: "multibyte_end age \<Longrightarrow> \<exists>m. parse_duration ext age = Panics m"
  using parse_duration_char_boundary [of age ext] by (cases "trim age = []") (auto simp: multibyte_end_def)

lemma evaluate_panics:
  assumes "panicking_age retention" "history \<noteq> []"
  shows "\<exists>m. evaluate_retention_io ext history retention = Panic m"
proof -
  obtain age where age: "rt_max_age retention = Some age" "multibyte_end age"
    using assms(1) by (cases "rt_max_age retention") (auto simp: panicking_age_def)
  moreover obtain m where "parse_duration ext age = Panics m" using panicking_parse [OF age(2)] by blast
  ultimately show ?thesis using assms(2) by (simp add: evaluate_retention_io_def evaluate_retention_def Let_def)
qed

lemma upsert_nonempty: "upsert_history_entry h e \<noteq> []"
proof -
  have "upsert_first h e \<noteq> []" by (cases h) simp_all
  then show ?thesis
    by (metis upsert_history_entry_def sort_desc_def set_sort set_empty)
qed

lemma merge_nonempty:
  assumes "h \<noteq> []"
  shows "merge_backup_history h ds \<noteq> []"
proof -
  have "fold (\<lambda>entry h. upsert_history_entry h entry) ds h \<noteq> []"
    using assms by (induction ds arbitrary: h) (simp_all add: upsert_nonempty)
  then show ?thesis by (metis merge_backup_history_def sort_desc_def set_sort set_empty)
qed

text \<open>A cluster in which the status of the resource has a history whenever it is read.\<close>

definition keeps_history :: "'w World \<Rightarrow> string \<Rightarrow> string \<Rightarrow> bool" where
  "keeps_history W ns name \<longleftrightarrow>
     (\<forall>s b. fst (w_kube W (KGetBackupStatus ns name) s) = Inr (ABackup b) \<longrightarrow>
        bs_backup_history (unwrap_or (kbr_status b) default_backup_status) \<noteq> [])"

lemma status_has_history:
  assumes "keeps_history W ns name" "outcome_of W (current_backup_status ns name) s = Done (Inr st)"
  shows "bs_backup_history st \<noteq> []"
  using assms
  by (auto simp: current_backup_status_def keeps_history_def exec decoded_def
      split: outcome.splits sum.splits option.splits KubeAnswer.splits elim!: as_backup.elims)

lemma retention_never_succeeds:
  assumes "kb_retention (kbr_spec backup) = Some retention" "retention_due backup retention"
    and "panicking_age retention" "keeps_history W ns (name_any (kbr_metadata backup))"
  shows "outcome_of W (apply_retention_policy ext backup ns) s \<noteq> Done (Inr ())"
proof
  have eval: "outcome_of W (evaluate_retention_io ext (merge_backup_history (bs_backup_history st) ds)
      retention) t \<noteq> Done (Inr ids)"
    if "outcome_of W (current_backup_status ns (name_any (kbr_metadata backup))) s' = Done (Inr st)"
    for st ds t s' ids
    using evaluate_panics [OF assms(3) merge_nonempty [OF status_has_history [OF assms(4) that]], of ext ds]
    by (auto simp: outcome_of_def)
  assume "outcome_of W (apply_retention_policy ext backup ns) s = Done (Inr ())"
  then show False
    unfolding apply_retention_policy_def Let_def
    by (simp add: assms(1,2))
       (elim ebind_succeeds, use eval in blast)
qed

lemma reconcile_never_succeeds:
  assumes "in_service (kbr_metadata backup)"
    and "kb_retention (kbr_spec backup) = Some retention" "retention_due backup retention"
    and "panicking_age retention"
    and "keeps_history W (ns_of (kbr_metadata backup)) (name_any (kbr_metadata backup))"
  shows "outcome_of W (reconcile_backup ext backup) s \<noteq> Done (Inr ())"
proof
  assume run: "outcome_of W (reconcile_backup ext backup) s = Done (Inr ())"
  obtain ns where ns: "om_namespace (kbr_metadata backup) = Some ns"
    using run by (cases "om_namespace (kbr_metadata backup)") (simp_all add: reconcile_backup_def exec)
  note never = retention_never_succeeds [OF assms(2-4), of W ns] 
  have active: "outcome_of W (reconcile_backup_active ext backup ns) t \<noteq> Done (Inr ())" for t
  proof
    assume "outcome_of W (reconcile_backup_active ext backup ns) t = Done (Inr ())"
    then show False
      unfolding reconcile_backup_active_def Let_def
      by (elim pbind_succeeds ebind_succeeds)
         (use never assms(5) in \<open>auto simp: ns ns_of_def throw_fails elim!: pbind_succeeds ebind_succeeds
           split: sum.splits\<close>)
  qed
  from run assms(1) active show False
    by (auto simp: reconcile_backup_cases [OF ns] in_service_def split: if_splits elim!: ebind_succeeds)
qed

section \<open>An age that cannot be parsed\<close>

definition without_age :: "KafkaBackup \<Rightarrow> RetentionSpec \<Rightarrow> KafkaBackup" where
  "without_age backup retention =
     backup\<lparr>kbr_spec := (kbr_spec backup)\<lparr>kb_retention := Some (retention\<lparr>rt_max_age := None\<rparr>)\<rparr>\<rparr>"

lemma without_age_sel:
  "kbr_metadata (without_age backup retention) = kbr_metadata backup"
  "kb_storage (kbr_spec (without_age backup retention)) = kb_storage (kbr_spec backup)"
  "kb_retention (kbr_spec (without_age backup retention)) = Some (retention\<lparr>rt_max_age := None\<rparr>)"
  "active_backup_ids ns n (without_age backup retention) = active_backup_ids ns n backup"
  "retention_due (without_age backup retention) (retention\<lparr>rt_max_age := None\<rparr>) = retention_due backup retention"
  by (simp_all add: without_age_def active_backup_ids_def active_ids_of_def retention_due_def)

lemma unparsed_evaluated:
  assumes "rt_max_age retention = Some age" "parse_duration ext age = Value None"
  shows "evaluate_retention_io ext history retention =
    evaluate_retention_io ext history (retention\<lparr>rt_max_age := None\<rparr>)"
  using assms by (auto simp: evaluate_retention_io_def evaluate_retention_def Let_def)

lemma unparsed_ignored:
  assumes "kb_retention (kbr_spec backup) = Some retention"
    and "rt_max_age retention = Some age" "parse_duration ext age = Value None"
  shows "apply_retention_policy ext backup ns = apply_retention_policy ext (without_age backup retention) ns"
  unfolding apply_retention_policy_def Let_def
  by (simp add: assms(1) without_age_sel unparsed_evaluated [OF assms(2,3)] cong: if_cong)

section \<open>The property\<close>

text \<open>C12.
  A maximal age whose last character has several bytes, a typing slip the schema admits, makes the
  parser panic: a backup whose schedule applies such a policy can never be reconciled successfully
  once its status has a history, whatever the cluster and the store answer. An age that merely
  cannot be parsed, such as \<open>invalid\<close>, is ignored: the policy is applied as if it had no age.
\<close>

theorem panicking_age_blocks:
  assumes "in_service (kbr_metadata backup)"
    and "kb_retention (kbr_spec backup) = Some retention" "retention_due backup retention"
    and "rt_max_age retention = Some age"
    and "keeps_history W (ns_of (kbr_metadata backup)) (name_any (kbr_metadata backup))"
  shows "(multibyte_end age \<longrightarrow> outcome_of W (reconcile_backup ext backup) s \<noteq> Done (Inr ())) \<and>
    (parse_duration ext age = Value None \<longrightarrow>
       apply_retention_policy ext backup ns = apply_retention_policy ext (without_age backup retention) ns)"
  using reconcile_never_succeeds [OF assms(1-3) _ assms(5)] unparsed_ignored [OF assms(2,4)]
  by (simp add: panicking_age_def assms(4))

text \<open>A cluster with a history and an empty store, and such a backup.\<close>

definition old_entry :: BackupHistoryEntry where
  "old_entry = \<lparr>he_id = ''bk-1'', he_status = BkCompleted, he_start_time = 0,
     he_completion_time = None, he_size_bytes = None, he_topics_backed_up = None,
     he_partitions_backed_up = None\<rparr>"

definition past_backup :: KafkaBackup where
  "past_backup = sample_backup\<lparr>kbr_status :=
     Some (default_backup_status\<lparr>bs_backup_history := [old_entry]\<rparr>)\<rparr>"

fun past_kube :: "KubeReq \<Rightarrow> unit \<Rightarrow> (KubeError + KubeAnswer) \<times> unit" where
  "past_kube (KListJobs ns sel) u = (Inr (AJobs []), u)"
| "past_kube (KGetDynamic g v k ns n) u = (Inr (ADynamic sample_kafka), u)"
| "past_kube (KGetSecret ns n) u = (Inl (KApi 404 ''not found''), u)"
| "past_kube (KGetBackupStatus ns n) u = (Inr (ABackup past_backup), u)"
| "past_kube q u = (Inr AUnit, u)"

fun empty_store :: "StoreReq \<Rightarrow> unit \<Rightarrow> (StoreError + StoreAnswer) \<times> unit" where
  "empty_store (SBuild b) u = (Inr (BHandle 0), u)"
| "empty_store (SList h p) u = (Inr (BItems []), u)"
| "empty_store q u = (Inl (SNotFound ''none''), u)"

definition past_world :: "unit World" where
  "past_world = \<lparr>w_clock = (\<lambda>u. (0, u)), w_env = (\<lambda>n u. (None, u)), w_kube = past_kube,
     w_store = empty_store\<rparr>"

definition mistyped_retention :: RetentionSpec where
  "mistyped_retention = \<lparr>rt_max_backups = None, rt_max_age = Some [CHR ''1'', CHR 0xC3, CHR 0xA9],
     rt_prune_on_schedule = True\<rparr>"

definition mistyped_backup :: KafkaBackup where
  "mistyped_backup = scheduled_backup
     \<lparr>kbr_spec := kbr_spec scheduled_backup\<lparr>kb_retention := Some mistyped_retention\<rparr>\<rparr>"

lemma mistyped_sel:
  "kbr_metadata mistyped_backup = sample_meta ''bk''" "kbr_status mistyped_backup = None"
  "kb_strimzi_cluster_ref (kbr_spec mistyped_backup) = sample_cluster_ref"
  "kb_authentication (kbr_spec mistyped_backup) = None"
  "kb_storage (kbr_spec mistyped_backup) = sample_storage"
  "kb_retention (kbr_spec mistyped_backup) = Some mistyped_retention"
  "kb_schedule (kbr_spec mistyped_backup) =
     Some \<lparr>sd_cron = ''0 2 * * *'', sd_timezone = None, sd_suspend = False\<rparr>"
  by (simp_all add: mistyped_backup_def scheduled_backup_def sample_backup_def sample_backup_spec_def)

lemma past_world_sel:
  "w_kube past_world = past_kube" "w_clock past_world u = (0, u)" "w_env past_world n u = (None, u)"
  "w_store past_world = empty_store"
  by (simp_all add: past_world_def)

lemma mistyped_config:
  "build_backup_config_yaml sample_ext mistyped_backup cluster auth = Inr ''yaml''"
  by (simp add: build_backup_config_yaml_def backup_config_map_def Let_def mistyped_backup_def
      scheduled_backup_def sample_backup_def sample_backup_spec_def sample_storage_def
      build_storage_config_def build_filesystem_config_def sample_ext_def)

lemma mistyped_age: "parse_duration sample_ext [CHR ''1'', CHR 0xC3, CHR 0xA9] =
    Panics ''byte index is not a char boundary''"
  by (rule parse_duration_char_boundary) (simp_all add: trim_digit_accent is_cont_def)

lemma mistyped_multibyte: "multibyte_end [CHR ''1'', CHR 0xC3, CHR 0xA9]"
  by (simp add: multibyte_end_def trim_digit_accent is_cont_def)

definition store_decoded :: "(StoreAnswer \<Rightarrow> 'a option) \<Rightarrow> StoreError + StoreAnswer \<Rightarrow> StoreError + 'a" where
  "store_decoded dec r = (case r of Inl e \<Rightarrow> Inl e
     | Inr a \<Rightarrow> (case dec a of None \<Rightarrow> Inl (SOther ''unexpected answer'') | Some x \<Rightarrow> Inr x))"

lemma exec_store_call:
  "outcome_of W (store_call q dec) s = Done (store_decoded dec (fst (w_store W q s)))"
  by (simp add: store_call_def store_decoded_def outcome_of_def split_beta Let_def)

lemma past_cluster:
  "outcome_of past_world (resolve_kafka_cluster sample_cluster_ref ns None) u =
     Done (Inr (found_cluster ns))"
  by (simp add: resolve_kafka_cluster_def sample_cluster_ref_def get_namespaced_resource_def
      get_at_version_def exec past_world_sel decoded_def Let_def sample_connection sample_replicas
      found_cluster_def)

lemma past_status:
  "outcome_of past_world (current_backup_status ns n) u =
     Done (Inr (default_backup_status\<lparr>bs_backup_history := [old_entry]\<rparr>))"
  by (simp add: current_backup_status_def exec past_world_sel decoded_def past_backup_def)

lemma past_schedule:
  "outcome_of past_world (schedule_step sample_ext mistyped_backup ns g cluster RNone account) u =
     Done (Inr ())"
proof -
  obtain cj where "build_backup_cronjob sample_ext mistyped_backup (''bk'' @ ''-config'') cluster RNone account = Value cj"
    by (auto simp: build_backup_cronjob_def mistyped_sel Let_def split_beta)
  then show ?thesis
    by (simp add: schedule_step_def mistyped_sel sample_meta_sel Let_def exec past_status
        update_status_scheduled_def apply_cronjob_def past_world_sel decoded_def ready_io_def
        backup_patch_status_def send_backup_status_def find_condition_def default_backup_status_def)
qed

lemma past_retention:
  "outcome_of past_world (apply_retention_policy sample_ext mistyped_backup ns) u =
     Panicked ''byte index is not a char boundary''"
proof -
  have "merge_backup_history [old_entry] [] = [old_entry]"
    by (simp add: merge_backup_history_def sort_desc_def)
  moreover have "evaluate_retention_io sample_ext [old_entry] mistyped_retention =
      Panic ''byte index is not a char boundary''"
    by (simp add: evaluate_retention_io_def mistyped_retention_def mistyped_age evaluate_retention_def Let_def)
  ultimately show ?thesis
    by (simp add: apply_retention_policy_def mistyped_sel retention_due_def Let_def exec past_status
        mistyped_retention_def discover_backup_history_def build_store_def sample_storage_def
        build_filesystem_store_def build_call_def exec_store_call store_decoded_def past_world_sel
        bos_list_def active_backup_ids_def list_backup_jobs_def decoded_def outcome_of_def [of _ "Panic _"])
qed

lemma mistyped_run:
  "outcome_of past_world (reconcile_backup sample_ext mistyped_backup) () =
     Panicked ''byte index is not a char boundary''"
  by (simp add: reconcile_backup_def reconcile_backup_active_def backup_add_finalizer_def
      backup_create_or_update_config_map_def job_step_def triggered_now_def
      check_job_completion_def list_backup_jobs_def Let_def exec past_cluster exec_auth
      resolve_cluster_ca_def ca_secret_ref_def job_service_account_name_def
      past_schedule past_retention mistyped_config mistyped_sel sample_restore_sel(3) sample_meta_sel
      past_world_sel decoded_def latest_terminal_def)

theorem panicking_age_blocks_witness:
  "outcome_of past_world (reconcile_backup sample_ext mistyped_backup) () \<noteq> Done (Inr ()) \<and>
   outcome_of past_world (reconcile_backup sample_ext mistyped_backup) () =
     Panicked ''byte index is not a char boundary''"
proof -
  have "in_service (kbr_metadata mistyped_backup)" "retention_due mistyped_backup mistyped_retention"
    by (simp_all add: in_service_def mistyped_sel sample_meta_sel retention_due_def mistyped_retention_def)
  moreover have "keeps_history past_world ns name" for ns name
    by (simp add: keeps_history_def past_world_sel past_backup_def)
  moreover have "rt_max_age mistyped_retention = Some [CHR ''1'', CHR 0xC3, CHR 0xA9]"
    by (simp add: mistyped_retention_def)
  ultimately have "outcome_of past_world (reconcile_backup sample_ext mistyped_backup) () \<noteq> Done (Inr ())"
    using panicking_age_blocks [of mistyped_backup mistyped_retention "[CHR ''1'', CHR 0xC3, CHR 0xA9]"
        past_world sample_ext "()"] mistyped_multibyte
    by (simp add: mistyped_sel)
  then show ?thesis by (simp add: mistyped_run)
qed

end
