(* ===== verification/Conformance.thy ===== *)
theory Conformance
  imports Samples
begin

text \<open>
  The repository's own unit tests, evaluated on the model: each lemma is one \<open>\#[test]\<close> of
  the named source file, under its name, with its fixtures and assertions. They check the
  definitions against what their authors expect of the code.
\<close>

section \<open>strimzi/kafka\_cr.rs\<close>

definition kafka_fixture :: "json \<Rightarrow> json option \<Rightarrow> DynamicObject" where
  "kafka_fixture listeners status =
     \<lparr>dy_metadata = empty_meta\<lparr>om_name := Some ''my-cluster''\<rparr>,
      dy_data = JObj ((''spec'', JObj [(''kafka'', JObj [(''listeners'', listeners)])])
        # (case status of
             None \<Rightarrow> [] | Some s \<Rightarrow> [(''status'', JObj [(''listeners'', s)])]))\<rparr>"

definition listener_json :: "string \<Rightarrow> int \<Rightarrow> string \<Rightarrow> bool \<Rightarrow> string option \<Rightarrow> json" where
  "listener_json name port type tls auth =
     JObj ([(''name'', JStr name), (''port'', JInt port), (''type'', JStr type), (''tls'', JBool tls)]
       @ (case auth of None \<Rightarrow> [] | Some a \<Rightarrow> [(''authentication'', JObj [(''type'', JStr a)])]))"

definition status_entry :: "string \<Rightarrow> string \<Rightarrow> json" where
  "status_entry name servers = JObj [(''name'', JStr name), (''bootstrapServers'', JStr servers)]"

definition dual_listener_spec :: json where
  "dual_listener_spec =
     JArr [listener_json ''plain'' 9092 ''internal'' False (Some ''scram-sha-512''),
           listener_json ''tls'' 9093 ''internal'' True (Some ''tls'')]"

definition dual_listener_status :: json where
  "dual_listener_status =
     JArr [status_entry ''plain'' ''my-cluster-kafka-bootstrap.kafka.svc:9092'',
           status_entry ''tls'' ''my-cluster-kafka-bootstrap.kafka.svc:9093'']"

definition connects_to :: "Error + ResolvedConnection \<Rightarrow> string \<Rightarrow> bool \<Rightarrow> string \<Rightarrow> bool" where
  "connects_to r name tls servers \<longleftrightarrow>
     r = Inr \<lparr>rc_bootstrap_servers = servers, rc_tls_enabled = tls, rc_listener_name = name\<rparr>"

definition selects_listener :: "Error + ResolvedConnection \<Rightarrow> string \<Rightarrow> bool \<Rightarrow> bool" where
  "selects_listener r name tls \<longleftrightarrow>
     (case r of Inl e \<Rightarrow> False | Inr c \<Rightarrow> rc_listener_name c = name \<and> rc_tls_enabled c = tls)"

lemma listener_json_fields [simp]:
  "listener_name (listener_json n p ty tls a) = Some n"
  "listener_tls (listener_json n p ty tls a) = tls"
  "listener_auth (listener_json n p ty tls a) = a"
  "in_i64 p \<Longrightarrow> and_then (json_get (listener_json n p ty tls a) ''port'') as_i64 = Some p"
  "is_in_cluster (listener_json n p ty tls a) \<longleftrightarrow> ty = ''internal'' \<or> ty = ''cluster-ip''"
  "in_i64 p \<Longrightarrow> to_selected (listener_json n p ty tls a) = \<lparr>sl_name = n, sl_port = p, sl_tls = tls\<rparr>"
  by (auto simp: listener_json_def listener_name_def listener_tls_def listener_auth_def is_in_cluster_def
      to_selected_def split: option.split)

lemma status_fields [simp]:
  "listener_name (status_entry n b) = Some n"
  "json_get (status_entry n b) ''bootstrapServers'' = Some (JStr b)"
  by (simp_all add: status_entry_def listener_name_def)

lemma fixture_fields:
  "ls \<noteq> [] \<Longrightarrow> spec_listeners (kafka_fixture (JArr ls) st) = Some ls"
  "spec_listeners (kafka_fixture (JArr []) st) = None"
  "name_any (dy_metadata (kafka_fixture l st)) = ''my-cluster''"
  "and_then (and_then (json_get (dy_data (kafka_fixture l st)) ''status'')
     (\<lambda>s. json_get s ''listeners'')) as_array = and_then st as_array"
  by (auto simp: kafka_fixture_def spec_listeners_def spec_kafka_def name_any_def empty_meta_def
      split: option.split)

lemma ports: "string_of_int 9092 = ''9092''" "string_of_int 9093 = ''9093''"
  by (simp_all add: string_of_int_def string_of_nat.simps digit_char_def char_of_def bit_0)

lemmas connection_simps =
  connects_to_def selects_listener_def resolve_connection_def select_listener_def auth_matches_def
  listener_rank_def less_eq_prod_def bootstrap_for_listener_def fixture_fields Let_def in_i64_def
  i64_min_def i64_max_def dual_listener_spec_def dual_listener_status_def ports

lemma scram_auth_selects_scram_listener_not_mtls:
  "connects_to (resolve_connection (kafka_fixture dual_listener_spec (Some dual_listener_status))
     ''kafka'' (Some AuthScramSha512) None) ''plain'' False ''my-cluster-kafka-bootstrap.kafka.svc:9092''"
  by (simp add: connection_simps)

lemma tls_auth_selects_mtls_listener:
  "connects_to (resolve_connection (kafka_fixture dual_listener_spec (Some dual_listener_status))
     ''kafka'' (Some AuthTls) None) ''tls'' True ''my-cluster-kafka-bootstrap.kafka.svc:9093''"
  by (simp add: connection_simps)

lemma scram_prefers_tls_encrypted_scram_listener_over_plaintext:
  "connects_to (resolve_connection (kafka_fixture
     (JArr [listener_json ''plain'' 9092 ''internal'' False (Some ''scram-sha-512''),
            listener_json ''scramtls'' 9094 ''internal'' True (Some ''scram-sha-512'')])
     (Some (JArr [status_entry ''plain'' ''my-cluster-kafka-bootstrap.kafka.svc:9092'',
                  status_entry ''scramtls'' ''my-cluster-kafka-bootstrap.kafka.svc:9094''])))
     ''kafka'' (Some AuthScramSha512) None) ''scramtls'' True ''my-cluster-kafka-bootstrap.kafka.svc:9094''"
  by (simp add: connection_simps)

lemma scram_prefers_in_cluster_listener_over_external:
  "selects_listener (resolve_connection (kafka_fixture
     (JArr [listener_json ''external'' 9095 ''nodeport'' True (Some ''scram-sha-512''),
            listener_json ''plain'' 9092 ''internal'' False (Some ''scram-sha-512'')]) None)
     ''kafka'' (Some AuthScramSha512) None) ''plain'' False"
  by (simp add: connection_simps)

lemma external_listener_used_when_only_compatible_option:
  "selects_listener (resolve_connection (kafka_fixture
     (JArr [listener_json ''external'' 9095 ''loadbalancer'' True (Some ''scram-sha-512''),
            listener_json ''tls'' 9093 ''internal'' True (Some ''tls'')]) None)
     ''kafka'' (Some AuthScramSha512) None) ''external'' True"
  by (simp add: connection_simps)

lemma no_auth_selects_unauthenticated_listener:
  "selects_listener (resolve_connection (kafka_fixture
     (JArr [listener_json ''plain'' 9092 ''internal'' False (Some ''scram-sha-512''),
            listener_json ''open'' 9096 ''internal'' False None]) None) ''kafka'' None None) ''open'' False"
  by (simp add: connection_simps)

lemma no_auth_prefers_tls_encrypted_unauthenticated_listener:
  "selects_listener (resolve_connection (kafka_fixture
     (JArr [listener_json ''open'' 9096 ''internal'' False None,
            listener_json ''encrypted'' 9097 ''internal'' True None]) None) ''kafka'' None None) ''encrypted'' True"
  by (simp add: connection_simps)

lemma no_compatible_listener_is_actionable_error:
  "resolve_connection (kafka_fixture (JArr [listener_json ''tls'' 9093 ''internal'' True (Some ''tls'')]) None)
     ''kafka'' (Some AuthScramSha512) None =
   Inl (ENoCompatibleListener ''my-cluster'' ''scram-sha-512'' ''tls (port 9093, tls: true, auth: tls)'') \<and>
   error_reason (ENoCompatibleListener c d l) = ''NoCompatibleListener''"
  by (simp add: connection_simps desired_auth_label_def summarize_listeners_def summarize_listener_def
      string_of_bool_def)

lemma oauth_and_custom_listeners_are_never_auto_selected:
  "desired \<in> {None, Some AuthTls, Some AuthScramSha512} \<Longrightarrow>
   \<not> is_ok (resolve_connection (kafka_fixture
     (JArr [listener_json ''oauth'' 9098 ''internal'' True (Some ''oauth''),
            listener_json ''custom'' 9099 ''internal'' True (Some ''custom'')]) None) ''kafka'' desired None)"
  by (auto simp: connection_simps)

lemma listener_override_wins_over_auto_selection:
  "connects_to (resolve_connection (kafka_fixture dual_listener_spec (Some dual_listener_status))
     ''kafka'' (Some AuthScramSha512) (Some ''tls'')) ''tls'' True ''my-cluster-kafka-bootstrap.kafka.svc:9093''"
  by (simp add: connection_simps)

lemma dual_listener_summary:
  "summarize_listeners [listener_json ''plain'' 9092 ''internal'' False (Some ''scram-sha-512''),
                        listener_json ''tls'' 9093 ''internal'' True (Some ''tls'')] =
   ''plain (port 9092, tls: false, auth: scram-sha-512), tls (port 9093, tls: true, auth: tls)''"
  by (simp add: summarize_listeners_def summarize_listener_def string_of_bool_def ports
      in_i64_def i64_min_def i64_max_def)

lemma unknown_listener_override_is_actionable_error:
  "resolve_connection (kafka_fixture dual_listener_spec None)
     ''kafka'' (Some AuthScramSha512) (Some ''nope'') =
   Inl (EInvalidConfig (''listener '' @ squote ''nope'' @
     '' from spec.strimziClusterRef.listener not found on Kafka cluster '' @ squote ''my-cluster'' @
     ''; available listeners: '' @
     ''plain (port 9092, tls: false, auth: scram-sha-512), tls (port 9093, tls: true, auth: tls)''))"
  by (simp add: resolve_connection_def select_listener_def fixture_fields dual_listener_spec_def
      dual_listener_summary)

lemma bootstrap_correlates_status_by_name_not_position:
  "connects_to (resolve_connection (kafka_fixture dual_listener_spec
     (Some (JArr [status_entry ''tls'' ''my-cluster-kafka-bootstrap.kafka.svc:9093'',
                  status_entry ''plain'' ''my-cluster-kafka-bootstrap.kafka.svc:9092''])))
     ''kafka'' (Some AuthScramSha512) None) ''plain'' False ''my-cluster-kafka-bootstrap.kafka.svc:9092''"
  by (simp add: connection_simps)

lemma missing_status_falls_back_to_convention_with_listener_port:
  "connects_to (resolve_connection (kafka_fixture dual_listener_spec None)
     ''kafka'' (Some AuthScramSha512) None) ''plain'' False ''my-cluster-kafka-bootstrap.kafka.svc:9092''"
  by (simp add: connection_simps)

lemma status_entry_for_other_listener_only_falls_back_to_convention:
  "connects_to (resolve_connection (kafka_fixture dual_listener_spec
     (Some (JArr [status_entry ''tls'' ''my-cluster-kafka-bootstrap.kafka.svc:9093''])))
     ''kafka'' (Some AuthScramSha512) None) ''plain'' False ''my-cluster-kafka-bootstrap.kafka.svc:9092''"
  by (simp add: connection_simps)

lemma no_listeners_is_error:
  "resolve_connection (kafka_fixture (JArr []) None) ''kafka'' None None =
   Inl (EInvalidConfig (''Kafka cluster '' @ squote ''my-cluster'' @ '' has no spec.kafka.listeners''))"
  by (simp add: connection_simps)

lemma spec_order_breaks_ties_deterministically:
  "selects_listener (resolve_connection (kafka_fixture
     (JArr [listener_json ''scram-a'' 9092 ''internal'' True (Some ''scram-sha-512''),
            listener_json ''scram-b'' 9094 ''internal'' True (Some ''scram-sha-512'')]) None)
     ''kafka'' (Some AuthScramSha512) None) ''scram-a'' True"
  by (simp add: connection_simps)

lemma missing_listener_type_treated_as_internal:
  "selects_listener (resolve_connection (kafka_fixture
     (JArr [listener_json ''external'' 9095 ''nodeport'' True (Some ''scram-sha-512''),
            JObj [(''name'', JStr ''untyped''), (''port'', JInt 9092), (''tls'', JBool False),
                  (''authentication'', JObj [(''type'', JStr ''scram-sha-512'')])]]) None)
     ''kafka'' (Some AuthScramSha512) None) ''untyped'' False"
  by (simp add: connection_simps listener_name_def listener_tls_def listener_auth_def
      is_in_cluster_def to_selected_def) (simp add: listener_json_def)

lemma single_scram_listener_still_selected:
  "selects_listener (resolve_connection (kafka_fixture
     (JArr [listener_json ''plain'' 9092 ''internal'' False (Some ''scram-sha-512'')])
     (Some (JArr [status_entry ''plain'' ''my-cluster-kafka-bootstrap.kafka.svc:9092''])))
     ''kafka'' (Some AuthScramSha512) None) ''plain'' False"
  by (simp add: connection_simps)

lemma no_auth_matches_encryption_only_tls_listener:
  "selects_listener (resolve_connection (kafka_fixture
     (JArr [listener_json ''tls'' 9093 ''internal'' True None])
     (Some (JArr [status_entry ''tls'' ''my-cluster-kafka-bootstrap.kafka.svc:9093''])))
     ''kafka'' None None) ''tls'' True"
  by (simp add: connection_simps)

section \<open>strimzi/tls.rs\<close>

lemma ca_secret_ref_defaults_to_strimzi_convention:
  "ca_secret_ref ''my-cluster'' None = (''my-cluster-cluster-ca-cert'', ''ca.crt'')"
  by (simp add: ca_secret_ref_def cluster_ca_secret_name_def DEFAULT_CA_KEY_def)

lemma ca_secret_ref_honours_override:
  "ca_secret_ref ''my-cluster'' (Some \<lparr>sk_name = ''custom-ca'', sk_key = ''tls.crt''\<rparr>) =
     (''custom-ca'', ''tls.crt'')"
  by (simp add: ca_secret_ref_def)

section \<open>status/conditions.rs\<close>

lemma test_set_condition_adds_new:
  "\<exists>c. set_condition [] (ready t ''Test'' ''test message'') = [c] \<and>
     cd_type c = CONDITION_TYPE_READY \<and> cd_status c = STATUS_TRUE"
  by (simp add: ready_def new_condition_def)

lemma test_set_condition_updates_existing_same_status:
  "\<exists>c. set_condition [ready t ''OldReason'' ''old message''] (ready t' ''NewReason'' ''new message'') = [c] \<and>
     cd_reason c = Some ''NewReason'' \<and> cd_message c = Some ''new message'' \<and>
     cd_last_transition_time c = Some t"
  by (simp add: ready_def new_condition_def)

lemma test_set_condition_updates_existing_different_status:
  "\<exists>c. set_condition [ready t ''OldReason'' ''old message''] (not_ready t' ''NewReason'' ''new message'') = [c] \<and>
     cd_status c = STATUS_FALSE"
  by (simp add: ready_def not_ready_def new_condition_def condition_consts)

lemma test_find_condition:
  "(let conditions = [ready t ''Test'' ''ready'',
        new_condition t CONDITION_TYPE_ERROR STATUS_FALSE ''NoError'' ''no error''] in
    is_some_and (find_condition conditions CONDITION_TYPE_READY) (\<lambda>c. cd_status c = STATUS_TRUE) \<and>
    find_condition conditions ''NonExistent'' = None)"
  by (simp add: find_condition_def ready_def new_condition_def condition_consts)

lemma test_is_condition_true:
  "is_condition_true [ready t ''Test'' ''test''] CONDITION_TYPE_READY \<and>
   \<not> is_condition_true [ready t ''Test'' ''test''] CONDITION_TYPE_ERROR"
  by (simp add: is_condition_true_def find_condition_def ready_def new_condition_def condition_consts)

section \<open>tests/integration/job\_state\_test.rs\<close>

definition test_job :: "string \<Rightarrow> JobStatus option \<Rightarrow> Job" where
  "test_job name status =
     \<lparr>jb_metadata = empty_meta\<lparr>om_name := Some name\<rparr>, jb_spec = None, jb_status = status\<rparr>"

definition no_status :: JobStatus where
  "no_status = \<lparr>jst_active = None, jst_succeeded = None, jst_failed = None, jst_start_time = None,
     jst_completion_time = None, jst_conditions = None\<rparr>"

definition job_condition :: "string \<Rightarrow> string \<Rightarrow> JobCondition" where
  "job_condition type status = \<lparr>jc_type = type, jc_status = status\<rparr>"

definition active_job :: "string \<Rightarrow> Job" where
  "active_job name = test_job name (Some (no_status\<lparr>jst_active := Some 1\<rparr>))"

definition succeeded_job :: "string \<Rightarrow> Job" where
  "succeeded_job name = test_job name (Some (no_status\<lparr>jst_succeeded := Some 1,
     jst_conditions := Some [job_condition ''Complete'' ''True'']\<rparr>))"

definition failed_job :: "string \<Rightarrow> Job" where
  "failed_job name = test_job name (Some (no_status\<lparr>jst_failed := Some 4,
     jst_conditions := Some [job_condition ''Failed'' ''True'']\<rparr>))"

lemmas job_test_simps =
  classify_jobs_def job_succeeded_def job_failed_def has_condition_def job_name_def test_job_def
  no_status_def job_condition_def active_job_def succeeded_job_def failed_job_def

lemma test_no_jobs_allows_creation:
  "classify_jobs [] = NoJobs \<and> should_create_restore_job (classify_jobs []) \<and>
   should_create_backup_job (classify_jobs []) False"
  by (simp add: job_test_simps)

lemma test_active_job_blocks_creation:
  "classify_jobs [active_job ''r-1''] = InProgress \<and>
   \<not> should_create_restore_job (classify_jobs [active_job ''r-1'']) \<and>
   \<not> should_create_backup_job (classify_jobs [active_job ''r-1'']) False"
  by (simp add: job_test_simps)

lemma test_pending_job_without_status_blocks_creation:
  "classify_jobs [test_job ''r-1'' None] = InProgress \<and>
   \<not> should_create_restore_job (classify_jobs [test_job ''r-1'' None])"
  by (simp add: job_test_simps)

lemma test_pending_job_with_empty_status_blocks_creation:
  "classify_jobs [test_job ''r-1'' (Some no_status)] = InProgress \<and>
   \<not> should_create_restore_job (classify_jobs [test_job ''r-1'' (Some no_status)])"
  by (simp add: job_test_simps)

lemma test_succeeded_job_blocks_creation:
  "classify_jobs [succeeded_job ''r-1''] = Succeeded ''r-1'' \<and>
   \<not> should_create_restore_job (classify_jobs [succeeded_job ''r-1'']) \<and>
   \<not> should_create_backup_job (classify_jobs [succeeded_job ''r-1'']) False"
  by (simp add: job_test_simps)

lemma test_succeeded_count_without_conditions_blocks_creation:
  "classify_jobs [test_job ''r-1'' (Some (no_status\<lparr>jst_succeeded := Some 1\<rparr>))] = Succeeded ''r-1''"
  by (simp add: job_test_simps)

lemma test_failed_job_blocks_creation:
  "classify_jobs [failed_job ''r-1''] = JFailed ''r-1'' \<and>
   \<not> should_create_restore_job (classify_jobs [failed_job ''r-1'']) \<and>
   \<not> should_create_backup_job (classify_jobs [failed_job ''r-1'']) False"
  by (simp add: job_test_simps)

lemma test_retrying_job_is_in_progress_not_failed:
  "classify_jobs [test_job ''r-1'' (Some (no_status\<lparr>jst_failed := Some 2, jst_active := Some 1\<rparr>))] =
   InProgress"
  by (simp add: job_test_simps)

lemma test_succeeded_takes_precedence_over_active:
  "classify_jobs [succeeded_job ''r-1'', active_job ''r-2''] = Succeeded ''r-1''"
  by (simp add: job_test_simps)

lemma test_active_takes_precedence_over_failed:
  "classify_jobs [failed_job ''b-1'', active_job ''b-2''] = InProgress"
  by (simp add: job_test_simps)

lemma test_backup_trigger_allows_rerun_after_terminal_states:
  "should_create_backup_job (classify_jobs [succeeded_job ''b-1'']) True"
  "should_create_backup_job (classify_jobs [failed_job ''b-1'']) True"
  "\<not> should_create_backup_job (classify_jobs [active_job ''b-1'']) True"
  by (simp_all add: job_test_simps)

section \<open>retention/policy.rs\<close>

text \<open>Instants and durations count days here; \<open>t\<close> is the instant of \<open>Utc::now()\<close>.\<close>

definition days_ext :: Ext where
  "days_ext = sample_ext\<lparr>x_duration := (\<lambda>u n. if u = UDays then Some n else None)\<rparr>"

definition make_entry :: "string \<Rightarrow> timestamp \<Rightarrow> BackupHistoryEntry" where
  "make_entry bid begun =
     \<lparr>he_id = bid, he_status = BkCompleted, he_start_time = begun, he_completion_time = None,
      he_size_bytes = None, he_topics_backed_up = None, he_partitions_backed_up = None\<rparr>"

lemma test_prune_by_max_backups:
  "evaluate_retention days_ext t
     [make_entry ''backup-1'' (t - 5), make_entry ''backup-2'' (t - 4), make_entry ''backup-3'' (t - 3),
      make_entry ''backup-4'' (t - 2), make_entry ''backup-5'' (t - 1)]
     \<lparr>rt_max_backups = Some 3, rt_max_age = None, rt_prune_on_schedule = True\<rparr> =
   Value [''backup-2'', ''backup-1'']"
  by (simp add: evaluate_retention_def prune_by_count_def make_entry_def sort_desc_def
      i32_as_usize_def)

lemma test_prune_by_max_age:
  "evaluate_retention days_ext t
     [make_entry ''backup-old'' (t - 45), make_entry ''backup-recent'' (t - 5),
      make_entry ''backup-newest'' (t - 1)]
     \<lparr>rt_max_backups = None, rt_max_age = Some ''30d'', rt_prune_on_schedule = True\<rparr> =
   Value [''backup-old'']"
proof -
  have "parse_duration days_ext ''30d'' = Value (Some 30)"
    by code_simp
  then show ?thesis
    by (simp add: evaluate_retention_def prune_by_count_def prune_by_age_def make_entry_def
        sort_desc_def days_ext_def sample_ext_def)
qed

lemma test_parse_duration:
  "parse_duration ext ''30d'' = checked_bind (expect ''TimeDelta out of bounds''
     (x_duration ext UDays 30)) (\<lambda>d. Value (Some d))"
  "parse_duration ext ''720h'' = checked_bind (expect ''TimeDelta out of bounds''
     (x_duration ext UHours 720)) (\<lambda>d. Value (Some d))"
  "parse_duration ext ''4w'' = checked_bind (expect ''TimeDelta out of bounds''
     (x_duration ext UWeeks 4)) (\<lambda>d. Value (Some d))"
  "parse_duration ext [] = Value None"
  "parse_duration ext ''invalid'' = Value None"
  by code_simp+

section \<open>retention/storage.rs\<close>

lemma backup_id_filter_matches_operator_owned_names:
  "backup_id_belongs_to_cr ''daily-backup'' ''daily-backup''"
  "backup_id_belongs_to_cr ''daily-backup-scheduled-28819192'' ''daily-backup''"
  "backup_id_belongs_to_cr ''daily-backup-20260428-010203'' ''daily-backup''"
  "\<not> backup_id_belongs_to_cr ''daily-backup2-1'' ''daily-backup''"
  by code_simp+

lemma aws_shared_credentials_are_parsed:
  "parse_aws_shared_credentials
     ([CHR 0x0A] @ ''            [default]'' @ [CHR 0x0A]
      @ ''            aws_access_key_id = '' @ [CHR 0x22] @ ''access'' @ [CHR 0x22, CHR 0x0A]
      @ ''            aws_secret_access_key = '' @ squote ''secret'' @ [CHR 0x0A]
      @ ''            aws_session_token = token'' @ [CHR 0x0A] @ ''            '') =
   \<lparr>ac_access_key_id = Some ''access'', ac_secret_access_key = Some ''secret'',
    ac_session_token = Some ''token''\<rparr>"
  by code_simp

lemma manifest_entry_uses_core_layout_metadata:
  "manifest_to_history_entry sample_ext
     \<lparr>sm_backup_id = ''daily-backup-1'', sm_created_at = 1777334400000,
      sm_topics = [\<lparr>sto_partitions = [\<lparr>sp_segments =
        [\<lparr>ss_compressed_size = 100\<rparr>, \<lparr>ss_compressed_size = 200\<rparr>]\<rparr>]\<rparr>]\<rparr> =
   Ret \<lparr>he_id = ''daily-backup-1'', he_status = BkCompleted,
        he_start_time = 1777334400000000000, he_completion_time = None, he_size_bytes = Some 300,
        he_topics_backed_up = Some 1, he_partitions_backed_up = Some 1\<rparr>"
  by (simp add: manifest_to_history_entry_def sample_ext_def stored_segments_def
      stored_partitions_def u64_sum_def i64_try_from_u64_def
      i32_try_from_usize_def i64_max_def)

section \<open>jobs/templates.rs\<close>

definition empty_storage :: StorageSpec where
  "empty_storage =
     \<lparr>st_type = Filesystem, st_s3 = None, st_azure = None, st_gcs = None, st_filesystem = None\<rparr>"

lemma cluster_ca_volume_uses_override_secret_and_key:
  "case build_volumes_and_mounts ''cm'' ''my-cluster'' True RNone empty_storage
          (Some \<lparr>sk_name = ''custom-ca'', sk_key = ''tls.crt''\<rparr>) of
     (volumes, mounts, _) \<Rightarrow>
       map_option vo_secret (List.find (\<lambda>v. vo_name v = ''cluster-ca'') volumes) =
         Some (Some \<lparr>sv_secret_name = Some ''custom-ca'',
           sv_items = Some [\<lparr>kp_key = ''tls.crt'', kp_path = ''ca.crt''\<rparr>]\<rparr>) \<and>
       map_option vm_mount_path (List.find (\<lambda>m. vm_name m = ''cluster-ca'') mounts) =
         Some ''/certs/cluster-ca''"
  by code_simp

lemma cluster_ca_volume_defaults_to_strimzi_convention:
  "case build_volumes_and_mounts ''cm'' ''my-cluster'' True RNone empty_storage None of
     (volumes, _, _) \<Rightarrow>
       map_option vo_secret (List.find (\<lambda>v. vo_name v = ''cluster-ca'') volumes) =
         Some (Some \<lparr>sv_secret_name = Some ''my-cluster-cluster-ca-cert'',
           sv_items = Some [\<lparr>kp_key = ''ca.crt'', kp_path = ''ca.crt''\<rparr>]\<rparr>)"
  by code_simp

definition default_metrics :: MetricsSpec where
  "default_metrics = \<lparr>ms_enabled = None, ms_port = None, ms_bind_address = None, ms_path = None,
     ms_keep_alive_seconds = None, ms_update_interval_ms = None, ms_max_partition_labels = None\<rparr>"

lemma metrics_discovery_uses_runtime_defaults:
  "bt_get (add_metrics_discovery_label [] None) ''kafkabackup.com/metrics'' = Some ''enabled''"
  "map_option (map cp_container_port) (job_metrics_ports None) = Some [8080]"
  by (code_simp, code_simp)

lemma metrics_discovery_honors_custom_port_and_disabled_state:
  "map_option (map cp_container_port)
     (job_metrics_ports (Some (default_metrics\<lparr>ms_enabled := Some True, ms_port := Some 9091\<rparr>))) =
   Some [9091]"
  "add_metrics_discovery_label [] (Some (default_metrics\<lparr>ms_enabled := Some False\<rparr>)) = []"
  "job_metrics_ports (Some (default_metrics\<lparr>ms_enabled := Some False\<rparr>)) = None"
  by (code_simp, code_simp, code_simp)

end
