(* ===== verification/Restless.thy ===== *)
theory Restless
  imports Settling Backup_Requests Operator_Properties Conformance
begin

text \<open>
  Non-termination of the control loop of a schedule whose last run failed: while its Jobs stay as
  they are, every reconciliation changes the stored resource, so that the watch wakes the
  controller again, and the loop never comes to rest.
\<close>

section \<open>A server that stores the backup\<close>

definition status_of :: "KafkaBackup \<Rightarrow> KafkaBackupStatus" where
  "status_of b = unwrap_or (kbr_status b) default_backup_status"

fun patches_backup :: "string \<Rightarrow> string \<Rightarrow> event \<Rightarrow> bool" where
  "patches_backup ns name (EvKube (KPatchBackup ns' n pp p) r) \<longleftrightarrow> ns' = ns \<and> n = name"
| "patches_backup ns name (EvKube (KPatchBackupStatus ns' n pp p) r) \<longleftrightarrow> ns' = ns \<and> n = name"
| "patches_backup ns name e \<longleftrightarrow> False"

text \<open>
  \<open>get\<close> reads the stored resource from the state of the world: status reads answer it, status
  patches are accepted and merged into it, listings of its Jobs answer \<open>jobs\<close>, and nothing but a
  patch of the resource changes it.
\<close>

definition serves_backup ::
  "'w World \<Rightarrow> ('w \<Rightarrow> KafkaBackup) \<Rightarrow> string \<Rightarrow> string \<Rightarrow> Job list \<Rightarrow> bool" where
  "serves_backup W get ns name jobs \<longleftrightarrow>
     (\<forall>s. get (snd (w_clock W s)) = get s) \<and>
     (\<forall>n s. get (snd (w_env W n s)) = get s) \<and>
     (\<forall>x s. get (snd (w_store W x s)) = get s) \<and>
     (\<forall>q s. \<not> patches_backup ns name (EvKube q (Inr AUnit)) \<longrightarrow> get (snd (w_kube W q s)) = get s) \<and>
     (\<forall>s. fst (w_kube W (KListJobs ns (backup_jobs_selector name)) s) = Inr (AJobs jobs)) \<and>
     (\<forall>s. fst (w_kube W (KGetBackupStatus ns name) s) = Inr (ABackup (get s))) \<and>
     (\<forall>s p. (\<exists>a. fst (w_kube W (KPatchBackupStatus ns name apply_params p) s) = Inr a) \<and>
        get (snd (w_kube W (KPatchBackupStatus ns name apply_params p) s)) =
          (get s)\<lparr>kbr_status := Some (merge_backup_status p (status_of (get s)))\<rparr>)"

lemma serves_backupD:
  assumes "serves_backup W get ns name jobs"
  shows "get (snd (w_clock W s)) = get s" "get (snd (w_env W n s)) = get s"
    "get (snd (w_store W x s)) = get s"
    and "\<not> patches_backup ns name (EvKube q r) \<Longrightarrow> get (snd (w_kube W q s)) = get s"
    and "fst (w_kube W (KListJobs ns (backup_jobs_selector name)) s) = Inr (AJobs jobs)"
    and "fst (w_kube W (KGetBackupStatus ns name) s) = Inr (ABackup (get s))"
    and "\<exists>a. fst (w_kube W (KPatchBackupStatus ns name apply_params p) s) = Inr a"
    and "get (snd (w_kube W (KPatchBackupStatus ns name apply_params p) s)) =
      (get s)\<lparr>kbr_status := Some (merge_backup_status p (status_of (get s)))\<rparr>"
proof -
  have "patches_backup ns name (EvKube q r) = patches_backup ns name (EvKube q (Inr AUnit))"
    by (cases q) simp_all
  then show "\<not> patches_backup ns name (EvKube q r) \<Longrightarrow> get (snd (w_kube W q s)) = get s"
    using assms by (auto simp: serves_backup_def)
qed (use assms in \<open>simp_all add: serves_backup_def\<close>)

lemma unpatched_state:
  assumes "serves_backup W get ns name jobs"
  shows "only (\<lambda>e. \<not> patches_backup ns name e) p \<Longrightarrow> get (state_of W p s) = get s"
proof (induction p arbitrary: s)
  case (Kube q g)
  from Kube.prems have "\<not> patches_backup ns name (EvKube q (fst (w_kube W q s)))" by simp
  with Kube show ?case by (simp add: state_cons serves_backupD(4) [OF assms])
qed (simp_all add: state_cons serves_backupD [OF assms])

lemma read_unpatched: "read_only p \<Longrightarrow> only (\<lambda>e. \<not> patches_backup ns name e) p"
  by (erule only_mono) (erule contrapos_nn, erule patches_backup.elims, simp_all)

lemma read_state:
  "serves_backup W get ns name jobs \<Longrightarrow> read_only p \<Longrightarrow> get (state_of W p s) = get s"
  by (rule unpatched_state) (auto intro: read_unpatched)

section \<open>The two reports\<close>

definition shows_schedule :: "KafkaBackup \<Rightarrow> string \<Rightarrow> int \<Rightarrow> Job \<Rightarrow> bool" where
  "shows_schedule b cron g job \<longleftrightarrow> scheduled_current (status_of b) cron g \<and> \<not> failure_recorded b job"

definition shows_failure :: "KafkaBackup \<Rightarrow> string \<Rightarrow> int \<Rightarrow> Job \<Rightarrow> bool" where
  "shows_failure b cron g job \<longleftrightarrow> failure_recorded b job \<and> \<not> scheduled_current (status_of b) cron g"

lemma status_effect:
  assumes "serves_backup W get ns name jobs"
  shows "outcome_of W (current_backup_status ns name) s = Done (Inr (status_of (get s)))"
    and "get (state_of W (current_backup_status ns name) s) = get s"
proof -
  show "outcome_of W (current_backup_status ns name) s = Done (Inr (status_of (get s)))"
    using serves_backupD(6) [OF assms]
    by (simp add: current_backup_status_def exec decoded_def status_of_def)
qed (rule read_state [OF assms read_resolution(5)])

lemma backup_patch_effect:
  assumes "serves_backup W get ns name jobs"
  shows "outcome_of W (backup_patch_status ns name st) s = Done (Inr ())"
    and "get (state_of W (backup_patch_status ns name st) s) =
      (get s)\<lparr>kbr_status := Some (merge_backup_status (backup_status_patch st) (status_of (get s)))\<rparr>"
proof -
  obtain a where "fst (w_kube W (KPatchBackupStatus ns name apply_params (backup_status_patch st)) s) = Inr a"
    using serves_backupD(7) [OF assms] by blast
  then show "outcome_of W (backup_patch_status ns name st) s = Done (Inr ())"
    by (simp add: backup_patch_status_def send_backup_status_def outcome_kube_io)
qed (simp add: backup_patch_status_def send_backup_status_def state_kube_io serves_backupD(8) [OF assms])

lemmas report_exec = exec_pbind exec_ebind exec_ret exec_calls pmap_def condition_io_defs

text \<open>The statuses the two reports send.\<close>

definition scheduled_status :: "timestamp \<Rightarrow> int \<Rightarrow> string \<Rightarrow> KafkaBackupStatus \<Rightarrow> KafkaBackupStatus" where
  "scheduled_status t g cron st =
     st\<lparr>bs_conditions := [ready t REASON_BACKUP_SCHEDULED (''Next backup scheduled: '' @ cron)],
        bs_observed_generation := Some g, bs_next_scheduled_backup := Some cron\<rparr>"

definition failed_status :: "timestamp \<Rightarrow> timestamp \<Rightarrow> int \<Rightarrow> Job \<Rightarrow> KafkaBackupStatus \<Rightarrow> KafkaBackupStatus" where
  "failed_status t t' g job st =
     st\<lparr>bs_conditions := error_conditions t t' REASON_BACKUP_FAILED (failure_message job),
        bs_observed_generation := Some g\<rparr>"

definition stores :: "KafkaBackup \<Rightarrow> KafkaBackupStatus \<Rightarrow> KafkaBackup" where
  "stores b st = b\<lparr>kbr_status := Some (merge_backup_status (backup_status_patch st) (status_of b))\<rparr>"

lemma stores_scheduled: "shows_schedule (stores b (scheduled_status t g cron st)) cron g job"
  by (simp add: shows_schedule_def stores_def scheduled_status_def scheduled_current_def
      failure_recorded_def status_of_def Status_Merge.merge_simps ready_def new_condition_def find_condition_def
      condition_consts)

lemma stores_failed: "shows_failure (stores b (failed_status t t' g' job st)) cron g job"
  by (simp add: shows_failure_def stores_def failed_status_def scheduled_current_def
      failure_recorded_def status_of_def Status_Merge.merge_simps error_conditions_def not_ready_def
      new_condition_def find_condition_def condition_consts)

lemma scheduled_effect:
  assumes "serves_backup W get ns name jobs"
  shows "outcome_of W (update_status_scheduled ns name g cron) s = Done (Inr ())"
    and "\<exists>t. get (state_of W (update_status_scheduled ns name g cron) s) =
      (if scheduled_current (status_of (get s)) cron g then get s
       else stores (get s) (scheduled_status t g cron (status_of (get s))))"
proof -
  have eq: "update_status_scheduled ns name g cron = ebind (current_backup_status ns name) (\<lambda>st.
      if scheduled_current st cron g then ok ()
      else pbind now (\<lambda>t. backup_patch_status ns name (scheduled_status t g cron st)))"
    by (simp add: update_status_scheduled_def scheduled_current_def scheduled_status_def Let_def
        ready_io_def pmap_def pbind_assoc cong: if_cong)
  note effects = status_effect [OF assms] backup_patch_effect [OF assms] serves_backupD(1) [OF assms]
  show "outcome_of W (update_status_scheduled ns name g cron) s = Done (Inr ())"
    by (simp add: eq exec effects)
  show "\<exists>t. get (state_of W (update_status_scheduled ns name g cron) s) =
      (if scheduled_current (status_of (get s)) cron g then get s
       else stores (get s) (scheduled_status t g cron (status_of (get s))))"
    by (simp add: eq exec effects) (auto simp: stores_def effects)
qed

lemma outcome_effect:
  assumes "serves_backup W get ns name jobs" "name_any (kbr_metadata b) = name"
    and "latest_terminal jobs = Some job" "\<not> job_succeeded job"
  shows "outcome_of W (check_job_completion b ns g) s = Done (Inr ())"
    and "\<exists>t t'. get (state_of W (check_job_completion b ns g) s) =
      (if failure_recorded b job then get s
       else stores (get s) (failed_status t t' g job (status_of (get s))))"
proof -
  have l: "outcome_of W (list_backup_jobs ns name) s = Done (Inr jobs)"
    "get (state_of W (list_backup_jobs ns name) s) = get s" for s
    using read_state [OF assms(1) read_list_backup_jobs] serves_backupD(5) [OF assms(1)]
    by (simp_all add: list_backup_jobs_def exec decoded_def)
  have report: "outcome_report b ns g job =
      (if failure_recorded b job then ok ()
       else ebind (current_backup_status ns name) (\<lambda>st. pbind now (\<lambda>t. pbind now (\<lambda>t'.
          backup_patch_status ns name (failed_status t t' g job st)))))"
    using assms(2,4)
    by (simp add: outcome_report_def failed_status_def error_conditions_io_def pbind_assoc cong: if_cong)
  have eq: "check_job_completion b ns g = ebind (list_backup_jobs ns name)
      (\<lambda>js. case latest_terminal js of None \<Rightarrow> ok () | Some j \<Rightarrow> outcome_report b ns g j)"
    using assms(2) by (simp add: check_job_completion_report)
  note effects = status_effect [OF assms(1)] backup_patch_effect [OF assms(1)] serves_backupD(1) [OF assms(1)]
  show "outcome_of W (check_job_completion b ns g) s = Done (Inr ())"
    by (simp add: eq report assms(3) exec l effects)
  show "\<exists>t t'. get (state_of W (check_job_completion b ns g) s) =
      (if failure_recorded b job then get s
       else stores (get s) (failed_status t t' g job (status_of (get s))))"
    by (simp add: eq report assms(3) exec l effects) (auto simp: stores_def effects l)
qed

section \<open>One reconciliation\<close>

text \<open>
  A schedule in service that is not suspended, keeps no retention policy and is not triggered,
  whose cluster and credentials resolve, whose configuration is accepted, and whose ConfigMap and
  CronJob are accepted. The status plays no part in it.
\<close>

definition on_schedule :: "KafkaBackup \<Rightarrow> string \<Rightarrow> string \<Rightarrow> string \<Rightarrow> bool" where
  "on_schedule b ns name cron \<longleftrightarrow>
     om_namespace (kbr_metadata b) = Some ns \<and> name_any (kbr_metadata b) = name \<and>
     in_service (kbr_metadata b) \<and> has_finalizer (kbr_metadata b) \<and> \<not> triggered_now b \<and>
     kb_retention (kbr_spec b) = None \<and>
     (\<exists>sd. kb_schedule (kbr_spec b) = Some sd \<and> sd_cron sd = cron \<and> \<not> sd_suspend sd)"

definition schedule_accepted :: "'w World \<Rightarrow> Ext \<Rightarrow> KafkaBackup \<Rightarrow> string \<Rightarrow> bool" where
  "schedule_accepted W ext b ns \<longleftrightarrow>
     (let spec = kbr_spec b; name = name_any (kbr_metadata b) in
      (\<forall>cm. accepts W (\<lambda>_. True) (KApplyConfigMap ns (name @ ''-config'') apply_params cm)) \<and>
      (\<forall>cj. accepts W (\<lambda>_. True) (KApplyCronJob ns (name @ ''-scheduled'') (apply_params\<lparr>pp_force := True\<rparr>) cj)) \<and>
      (\<exists>cluster auth yaml.
         (\<forall>s. outcome_of W (resolve_kafka_cluster (kb_strimzi_cluster_ref spec) ns
            (map_option au_type (kb_authentication spec))) s = Done (Inr cluster)) \<and>
         (\<forall>s. outcome_of W (resolve_auth (kb_authentication spec) ns) s = Done (Inr auth)) \<and>
         build_backup_config_yaml ext b cluster auth = Inr yaml))"

lemma config_status: "build_backup_config_yaml ext (b\<lparr>kbr_status := st\<rparr>) = build_backup_config_yaml ext b"
proof -
  have "config_backup_id (b\<lparr>kbr_status := st\<rparr>) = config_backup_id b"
    by (simp add: config_backup_id_def is_incremental_one_shot_def cong: if_cong)
  then show ?thesis
    by (intro ext) (simp add: build_backup_config_yaml_def backup_config_map_def Let_def)
qed

lemma on_schedule_status: "on_schedule (b\<lparr>kbr_status := st\<rparr>) ns name cron = on_schedule b ns name cron"
  by (simp add: on_schedule_def triggered_now_def)

lemma schedule_accepted_status:
  "schedule_accepted W ext (b\<lparr>kbr_status := st\<rparr>) ns = schedule_accepted W ext b ns"
  by (simp add: schedule_accepted_def config_status)

lemma state_done:
  "outcome_of W m s = Done (Inr x) \<Longrightarrow> state_of W (ebind m f) s = state_of W (f x) (state_of W m s)"
  "outcome_of W p s = Done y \<Longrightarrow> state_of W (pbind p g) s = state_of W (g y) (state_of W p s)"
  by (simp_all add: exec)

definition backup_round :: "'w World \<Rightarrow> Ext \<Rightarrow> ('w \<Rightarrow> KafkaBackup) \<Rightarrow> 'w \<Rightarrow> 'w" where
  "backup_round W ext get s = state_of W (reconcile_backup ext (get s)) s"

text \<open>What the two reports of a reconciliation of \<open>b\<close> make of the stored resource.\<close>

definition reported_round ::
  "KafkaBackup \<Rightarrow> string \<Rightarrow> int \<Rightarrow> Job \<Rightarrow> timestamp \<Rightarrow> timestamp \<Rightarrow> timestamp \<Rightarrow> KafkaBackup" where
  "reported_round b cron g job t t' t'' =
     (let b' = (if scheduled_current (status_of b) cron g then b
                else stores b (scheduled_status t g cron (status_of b)))
      in if failure_recorded b job then b'
         else stores b' (failed_status t' t'' g job (status_of b')))"

lemma schedule_step_effect:
  assumes "serves_backup W get ns name jobs" "on_schedule b ns name cron" "schedule_accepted W ext b ns"
  shows "outcome_of W (schedule_step ext b ns g cluster auth account) s = Done (Inr ())"
    and "\<exists>t. get (state_of W (schedule_step ext b ns g cluster auth account) s) =
      (if scheduled_current (status_of (get s)) cron g then get s
       else stores (get s) (scheduled_status t g cron (status_of (get s))))"
proof -
  from assms(2) obtain sd where sd: "kb_schedule (kbr_spec b) = Some sd" "sd_cron sd = cron" "\<not> sd_suspend sd"
    "name_any (kbr_metadata b) = name"
    by (auto simp: on_schedule_def)
  obtain cj where cj: "build_backup_cronjob ext b (name @ ''-config'') cluster auth account = Value cj"
    using sd by (auto simp: build_backup_cronjob_def Let_def split_beta)
  have acc: "accepts W (\<lambda>_. True) (KApplyCronJob ns (name @ ''-scheduled'') (apply_params\<lparr>pp_force := True\<rparr>) cj)"
    using assms(3) by (simp add: schedule_accepted_def Let_def sd)
  have app: "outcome_of W (apply_cronjob ns (name @ ''-scheduled'') cj) s = Done (Inr ())" for s
    unfolding apply_cronjob_def by (rule outcome_kube_io_unit [OF acc]) simp
  have keep: "get (state_of W (apply_cronjob ns (name @ ''-scheduled'') cj) s) = get s" for s
    by (rule unpatched_state [OF assms(1)]) (simp add: apply_cronjob_def only_kube_io)
  have eq: "schedule_step ext b ns g cluster auth account =
      ebind (apply_cronjob ns (name @ ''-scheduled'') cj) (\<lambda>_. update_status_scheduled ns name g cron)"
    by (simp add: schedule_step_def sd cj Let_def)
  show "outcome_of W (schedule_step ext b ns g cluster auth account) s = Done (Inr ())"
    by (simp add: eq exec app scheduled_effect(1) [OF assms(1)])
  show "\<exists>t. get (state_of W (schedule_step ext b ns g cluster auth account) s) =
      (if scheduled_current (status_of (get s)) cron g then get s
       else stores (get s) (scheduled_status t g cron (status_of (get s))))"
    using scheduled_effect(2) [OF assms(1), of g cron "state_of W (apply_cronjob ns (name @ ''-scheduled'') cj) s"]
    by (simp add: eq exec app keep cong: if_cong)
qed

lemma reported_effect:
  assumes "serves_backup W get ns name jobs" "on_schedule (get s) ns name cron"
    and "schedule_accepted W ext (get s) ns"
    and "latest_terminal jobs = Some job" "\<not> job_succeeded job"
  shows "\<exists>t t' t''. get (backup_round W ext get s) =
    reported_round (get s) cron (generation_of (kbr_metadata (get s))) job t t' t''"
proof -
  let ?b = "get s" and ?g = "generation_of (kbr_metadata (get s))"
  have w: "om_namespace (kbr_metadata ?b) = Some ns" "name_any (kbr_metadata ?b) = name"
    "om_deletion_timestamp (kbr_metadata ?b) = None" "\<not> is_reconciliation_paused (kbr_metadata ?b)"
    "has_finalizer (kbr_metadata ?b)" "\<not> triggered_now ?b" "kb_retention (kbr_spec ?b) = None"
    "kb_schedule (kbr_spec ?b) \<noteq> None"
    using assms(2) by (auto simp: on_schedule_def in_service_def)
  obtain cluster auth yaml where a:
    "\<And>s. outcome_of W (resolve_kafka_cluster (kb_strimzi_cluster_ref (kbr_spec ?b)) ns
       (map_option au_type (kb_authentication (kbr_spec ?b)))) s = Done (Inr cluster)"
    "\<And>s. outcome_of W (resolve_auth (kb_authentication (kbr_spec ?b)) ns) s = Done (Inr auth)"
    "build_backup_config_yaml ext ?b cluster auth = Inr yaml"
    "\<And>cm. accepts W (\<lambda>_. True) (KApplyConfigMap ns (name @ ''-config'') apply_params cm)"
    using assms(3) unfolding schedule_accepted_def Let_def w(2) by blast
  have cmap: "outcome_of W (backup_create_or_update_config_map ns (name @ ''-config'') yaml ?b) s = Done (Inr ())" for s
    by (simp add: backup_create_or_update_config_map_def outcome_kube_io_unit [where I = "\<lambda>_. True"] a(4))
  have keep: "get (state_of W (resolve_kafka_cluster ref ns d) s) = get s"
    "get (state_of W (resolve_cluster_ca c ov ns) s) = get s"
    "get (state_of W (resolve_auth au ns) s) = get s"
    "get (state_of W job_service_account_name s) = get s"
    "get (state_of W (backup_create_or_update_config_map ns n y b) s) = get s" for ref d c ov au n y b s
    by (simp_all add: read_state [OF assms(1)] read_resolution unpatched_state [OF assms(1)]
        backup_create_or_update_config_map_def only_kube_io)
  obtain y where ca: "outcome_of W (resolve_cluster_ca (kcl_name cluster)
      (sc_ca_secret (kb_strimzi_cluster_ref (kbr_spec ?b))) ns) s' = Done (y s')" for s'
    using ca_done by metis
  have acc: "outcome_of W job_service_account_name s =
      Done (account_of (fst (w_env W JOB_SERVICE_ACCOUNT_ENV s)))" for s
    by (simp add: job_service_account_name_def pmap_def exec_pbind exec_ret exec_calls)
  have job: "job_step ext ?b ns g cluster auth account = ok ()" for g account
    using w(6,8) by (auto simp: job_step_def Let_def)
  have ret: "apply_retention_policy ext ?b ns = ok ()"
    using w(7) by (simp add: apply_retention_policy_def)
  define rest where "rest account = ebind (schedule_step ext ?b ns ?g cluster auth account)
      (\<lambda>_. ebind (check_job_completion ?b ns ?g) (\<lambda>_. ok ()))" for account
  have tail: "ebind (schedule_step ext ?b ns ?g cluster auth account) (\<lambda>_.
      ebind (job_step ext ?b ns ?g cluster auth account) (\<lambda>_.
      ebind (check_job_completion ?b ns ?g) (\<lambda>_. apply_retention_policy ext ?b ns))) = rest account" for account
    by (simp add: rest_def job ret)
  have "\<exists>s0 account. get s0 = ?b \<and> backup_round W ext get s = state_of W (rest account) s0"
    using w
    by (simp add: backup_round_def reconcile_backup_cases [OF w(1)] reconcile_backup_active_def Let_def tail
        state_done a ca cmap acc exec_ret keep)
       (rule exI, rule conjI [rotated], rule exI, rule refl, simp add: keep)
  then obtain s0 account where s0: "get s0 = ?b" and eq: "backup_round W ext get s = state_of W (rest account) s0"
    by blast
  obtain t where t: "get (state_of W (schedule_step ext ?b ns ?g cluster auth account) s0) =
      (if scheduled_current (status_of ?b) cron ?g then ?b
       else stores ?b (scheduled_status t ?g cron (status_of ?b)))" (is "get ?s1 = ?b1")
    using schedule_step_effect(2) [OF assms(1-3), of ?g cluster auth account s0] unfolding s0 by blast
  obtain t' t'' where t': "get (state_of W (check_job_completion ?b ns ?g) ?s1) =
      (if failure_recorded ?b job then ?b1 else stores ?b1 (failed_status t' t'' ?g job (status_of ?b1)))"
    using outcome_effect(2) [OF assms(1) w(2) assms(4,5), of ?g ?s1] unfolding t by blast
  have "get (backup_round W ext get s) = reported_round ?b cron ?g job t t' t''"
    using t' by (simp add: eq rest_def state_done schedule_step_effect(1) [OF assms(1-3)]
        outcome_effect(1) [OF assms(1) w(2) assms(4,5)] exec_ret reported_round_def Let_def)
  then show ?thesis by blast
qed

section \<open>The loop\<close>

lemma reported_round_shows:
  assumes "\<not> (scheduled_current (status_of b) cron g \<and> failure_recorded b job)"
  shows "reported_round b cron g job t t' t'' \<noteq> b \<and>
    \<not> (scheduled_current (status_of (reported_round b cron g job t t' t'')) cron g \<and>
       failure_recorded (reported_round b cron g job t t' t'') job)"
proof -
  let ?r = "reported_round b cron g job t t' t''"
  have "(failure_recorded ?r job \<noteq> failure_recorded b job \<or>
      scheduled_current (status_of ?r) cron g \<noteq> scheduled_current (status_of b) cron g) \<and>
    \<not> (scheduled_current (status_of ?r) cron g \<and> failure_recorded ?r job)"
    using assms stores_scheduled [of b t g cron "status_of b" job]
      stores_failed [of _ t' t'' g job _ cron g]
    by (auto simp: reported_round_def Let_def shows_schedule_def shows_failure_def)
  then show ?thesis by metis
qed

lemma reported_round_only_status:
  "\<exists>st. reported_round b cron g job t t' t'' = b\<lparr>kbr_status := st\<rparr>"
  by (auto simp: reported_round_def Let_def stores_def intro: exI [of _ "kbr_status b"])

text \<open>Every round changes the stored resource, and the next one does again.\<close>

lemma schedule_never_settles:
  assumes "serves_backup W get ns name jobs" "on_schedule (get s) ns name cron"
    and "schedule_accepted W ext (get s) ns"
    and "latest_terminal jobs = Some job" "\<not> job_succeeded job"
    and "\<not> (scheduled_current (status_of (get s)) cron (generation_of (kbr_metadata (get s)))
         \<and> failure_recorded (get s) job)"
  shows "while_option (\<lambda>s. get (backup_round W ext get s) \<noteq> get s) (backup_round W ext get) s = None"
proof -
  let ?restless = "\<lambda>s. on_schedule (get s) ns name cron \<and> schedule_accepted W ext (get s) ns \<and>
    \<not> (scheduled_current (status_of (get s)) cron (generation_of (kbr_metadata (get s)))
       \<and> failure_recorded (get s) job)"
  have round: "get (backup_round W ext get s) \<noteq> get s \<and> ?restless (backup_round W ext get s)"
    if r: "?restless s" for s
  proof -
    let ?g = "generation_of (kbr_metadata (get s))"
    obtain t t' t'' where eq: "get (backup_round W ext get s) = reported_round (get s) cron ?g job t t' t''"
      using reported_effect [OF assms(1) _ _ assms(4,5)] r by blast
    obtain st where st: "reported_round (get s) cron ?g job t t' t'' = (get s)\<lparr>kbr_status := st\<rparr>"
      using reported_round_only_status by blast
    have "generation_of (kbr_metadata (reported_round (get s) cron ?g job t t' t'')) = ?g"
      by (simp add: st)
    then show ?thesis
      using reported_round_shows [of "get s" cron ?g job t t' t''] r
      by (simp add: eq) (simp add: st on_schedule_status schedule_accepted_status)
  qed
  show ?thesis
  proof (rule ccontr)
    assume "while_option (\<lambda>s. get (backup_round W ext get s) \<noteq> get s) (backup_round W ext get) s \<noteq> None"
    then obtain z where z: "while_option (\<lambda>s. get (backup_round W ext get s) \<noteq> get s) (backup_round W ext get) s = Some z"
      by blast
    have "?restless z"
      by (rule while_option_rule [OF _ z]) (use assms(2,3,6) round in auto)
    with round while_option_stop [OF z] show False by blast
  qed
qed

text \<open>C33.
  The control loop of a schedule whose last run failed does not terminate: with Jobs that stay as
  they are, every reconciliation changes the stored resource, which wakes the controller again,
  because the report of the schedule and the report of the failure undo each other.
\<close>

theorem failed_schedule_never_settles:
  assumes "serves_backup W get ns name jobs" "on_schedule (get s) ns name cron"
    and "schedule_accepted W ext (get s) ns"
    and "latest_terminal jobs = Some job" "\<not> job_succeeded job"
    and "\<not> (scheduled_current (status_of (get s)) cron (generation_of (kbr_metadata (get s)))
         \<and> failure_recorded (get s) job)"
  shows "while_option (\<lambda>s. get (backup_round W ext get s) \<noteq> get s) (backup_round W ext get) s = None"
  by (rule schedule_never_settles [OF assms])

text \<open>A world that is one stored backup with a failed Job.\<close>

fun failing_kube :: "KubeReq \<Rightarrow> KafkaBackup \<Rightarrow> (KubeError + KubeAnswer) \<times> KafkaBackup" where
  "failing_kube (KListJobs ns sel) b = (Inr (AJobs [failed_job ''bk-scheduled-1'']), b)"
| "failing_kube (KGetDynamic g v k ns n) b = (Inr (ADynamic sample_kafka), b)"
| "failing_kube (KGetBackupStatus ns n) b = (Inr (ABackup b), b)"
| "failing_kube (KPatchBackupStatus ns n pp p) b =
     (Inr AUnit, if ns = ''ns'' \<and> n = ''bk''
        then b\<lparr>kbr_status := Some (merge_backup_status p (status_of b))\<rparr> else b)"
| "failing_kube q b = (Inr AUnit, b)"

definition failing_world :: "KafkaBackup World" where
  "failing_world =
     \<lparr>w_clock = (\<lambda>b. (0, b)), w_env = (\<lambda>n b. (None, b)), w_kube = failing_kube,
      w_store = (\<lambda>q b. (Inl (SNotFound ''none''), b))\<rparr>"

definition failing_backup :: KafkaBackup where
  "failing_backup = scheduled_backup\<lparr>kbr_metadata :=
     (sample_meta ''bk'')\<lparr>om_finalizers := Some [FINALIZER]\<rparr>\<rparr>"

lemma failing_world_sel:
  "w_kube failing_world = failing_kube" "w_clock failing_world b = (0, b)"
  "w_env failing_world n b = (None, b)" "snd (w_store failing_world q b) = b"
  by (simp_all add: failing_world_def)

lemma failing_world_serves:
  "serves_backup failing_world id ''ns'' ''bk'' [failed_job ''bk-scheduled-1'']"
proof -
  have "snd (failing_kube q b) = b" if "\<not> patches_backup ''ns'' ''bk'' (EvKube q (Inr AUnit))" for q b
    using that by (cases q) auto
  then show ?thesis by (simp add: serves_backup_def failing_world_sel)
qed

lemma failing_sel:
  "kbr_metadata failing_backup = (sample_meta ''bk'')\<lparr>om_finalizers := Some [FINALIZER]\<rparr>"
  "kbr_spec failing_backup = kbr_spec scheduled_backup" "kbr_status failing_backup = None"
  "kb_strimzi_cluster_ref (kbr_spec scheduled_backup) = sample_cluster_ref"
  "kb_authentication (kbr_spec scheduled_backup) = None"
  "kb_retention (kbr_spec scheduled_backup) = None"
  "kb_schedule (kbr_spec scheduled_backup) =
     Some \<lparr>sd_cron = ''0 2 * * *'', sd_timezone = None, sd_suspend = False\<rparr>"
  by (simp_all add: failing_backup_def scheduled_backup_def sample_backup_def sample_backup_spec_def)

lemma failing_on_schedule: "on_schedule failing_backup ''ns'' ''bk'' ''0 2 * * *''"
  by (simp add: on_schedule_def failing_sel in_service_def sample_meta_def empty_meta_def name_any_def
      is_reconciliation_paused_def annotations_of_def has_finalizer_def triggered_now_def bt_get_Nil)

lemma failing_accepted: "schedule_accepted failing_world sample_ext failing_backup ''ns''"
proof -
  have "outcome_of failing_world (resolve_kafka_cluster sample_cluster_ref ''ns'' None) b =
      Done (Inr (found_cluster ''ns''))" for b
    by (simp add: resolve_kafka_cluster_def sample_cluster_ref_def get_namespaced_resource_def
        get_at_version_def exec failing_world_sel decoded_def Let_def sample_connection sample_replicas
        found_cluster_def)
  moreover have "build_backup_config_yaml sample_ext failing_backup cluster auth = Inr ''yaml''" for cluster auth
    by (simp add: build_backup_config_yaml_def backup_config_map_def Let_def failing_backup_def
        scheduled_backup_def sample_backup_def sample_backup_spec_def sample_storage_def
        build_storage_config_def build_filesystem_config_def sample_ext_def)
  ultimately show ?thesis
    by (simp add: schedule_accepted_def Let_def accepts_def failing_world_sel failing_sel exec_auth)
qed

lemma failed_latest:
  "latest_terminal [failed_job n] = Some (failed_job n)" "\<not> job_succeeded (failed_job n)"
  by (simp_all add: latest_terminal_def terminal_job_def job_test_simps)

theorem failed_schedule_never_settles_witness:
  "while_option (\<lambda>b. id (backup_round failing_world sample_ext id b) \<noteq> id b)
     (backup_round failing_world sample_ext id) failing_backup = None"
  by (rule failed_schedule_never_settles [where cron = "''0 2 * * *''",
        OF failing_world_serves _ _ failed_latest(1) failed_latest(2)])
     (simp_all add: failing_on_schedule failing_accepted failing_sel failure_recorded_def)

end
