(* ===== verification/Json_Codec.thy ===== *)
theory Json_Codec
  imports Crd
begin

text \<open>
  Reading and writing JSON the way the \<open>serde\<close> attributes of \<open>src/src/crd\<close> say: the
  rules for a field that is required, optional or defaulted, for lists, maps, enums and integers of
  a width, and the interface of a codec (locale \<open>codec\<close>), a reader and a writer such that
  whatever was read is read again from its own text. Objects are read by the names of their fields;
  unknown fields are ignored. (The derived readers also accept an array in the place of an object;
  the schema of the resources does not, and the model leaves it out.)
\<close>

named_theorems kept_dest
named_theorems codec_simps

section \<open>Fields\<close>

text \<open>
  A required field; an \<open>Option\<close>, which may be absent or null; a field with
  \<open>#[serde(default)]\<close>, which may be absent.
\<close>

definition as_required :: "(json \<Rightarrow> 'a option) \<Rightarrow> json option \<Rightarrow> 'a option" where
  "as_required dec v = and_then v dec"

definition as_optional :: "(json \<Rightarrow> 'a option) \<Rightarrow> json option \<Rightarrow> 'a option option" where
  "as_optional dec v = (case v of
     None \<Rightarrow> Some None
   | Some j \<Rightarrow> if j = JNull then Some None else map_option Some (dec j))"

definition as_default :: "(json \<Rightarrow> 'a option) \<Rightarrow> 'a \<Rightarrow> json option \<Rightarrow> 'a option" where
  "as_default dec d v = (case v of None \<Rightarrow> Some d | Some j \<Rightarrow> dec j)"

text \<open>Writing: \<open>skip_serializing_if\<close> leaves out \<open>None\<close>, empty lists and empty maps.\<close>

type_synonym fields = "(string \<times> json) list"

definition put_required :: "string \<Rightarrow> ('a \<Rightarrow> json) \<Rightarrow> 'a \<Rightarrow> fields" where
  "put_required k enc x = [(k, enc x)]"

definition put_optional :: "string \<Rightarrow> ('a \<Rightarrow> json) \<Rightarrow> 'a option \<Rightarrow> fields" where
  "put_optional k enc v = (case v of None \<Rightarrow> [] | Some x \<Rightarrow> [(k, enc x)])"

definition put_nonempty :: "string \<Rightarrow> ('a list \<Rightarrow> json) \<Rightarrow> 'a list \<Rightarrow> fields" where
  "put_nonempty k enc xs = (if xs = [] then [] else [(k, enc xs)])"

definition nonempty :: "('a list \<Rightarrow> json) \<Rightarrow> 'a list \<Rightarrow> json option" where
  "nonempty enc xs = (if xs = [] then None else Some (enc xs))"

lemma map_of_put [codec_simps]:
  "map_of (put_required k enc x @ fs) k' = (if k' = k then Some (enc x) else map_of fs k')"
  "map_of (put_optional k enc v @ fs) k' =
     (if k' = k then opt_or (map_option enc v) (map_of fs k') else map_of fs k')"
  "map_of (put_nonempty k enc' xs @ fs) k' =
     (if k' = k then opt_or (nonempty enc' xs) (map_of fs k') else map_of fs k')"
  "map_of (put_required k enc x) k' = (if k' = k then Some (enc x) else None)"
  "map_of (put_optional k enc v) k' = (if k' = k then map_option enc v else None)"
  "map_of (put_nonempty k enc' xs) k' = (if k' = k then nonempty enc' xs else None)"
  by (auto simp: put_required_def put_optional_def put_nonempty_def nonempty_def split: option.split)

lemma opt_or_None [codec_simps]: "opt_or x None = x"
  by (cases x) simp_all

section \<open>The interface\<close>

definition kept :: "(json \<Rightarrow> 'a option) \<Rightarrow> ('a \<Rightarrow> json) \<Rightarrow> 'a \<Rightarrow> bool" where
  "kept dec enc x \<longleftrightarrow> dec (enc x) = Some x"

definition kept_option :: "(json \<Rightarrow> 'a option) \<Rightarrow> ('a \<Rightarrow> json) \<Rightarrow> 'a option \<Rightarrow> bool" where
  "kept_option dec enc v \<longleftrightarrow> (\<forall>x \<in> set_option v. kept dec enc x \<and> enc x \<noteq> JNull)"

lemma kept_simps [codec_simps]:
  "kept dec enc x \<Longrightarrow> as_required dec (Some (enc x)) = Some x"
  "kept_option dec enc v \<Longrightarrow> as_optional dec (map_option enc v) = Some v"
  "kept dec' enc' xs \<Longrightarrow> as_default dec' [] (nonempty enc' xs) = Some xs"
  "kept dec enc x \<Longrightarrow> as_default dec d (Some (enc x)) = Some x"
  by (auto simp: kept_def kept_option_def as_required_def as_optional_def as_default_def nonempty_def
      split: option.split)

locale codec =
  fixes dec :: "json \<Rightarrow> 'a option" and enc :: "'a \<Rightarrow> json"
  assumes reread: "dec j = Some x \<Longrightarrow> dec (enc x) = Some x"
    and not_null: "dec j = Some x \<Longrightarrow> enc x \<noteq> JNull"
begin

lemma required [kept_dest]: "as_required dec v = Some x \<Longrightarrow> kept dec enc x"
  using reread by (auto simp: as_required_def kept_def)

lemma optional [kept_dest]: "as_optional dec v = Some ox \<Longrightarrow> kept_option dec enc ox"
  using reread not_null
  by (auto simp: as_optional_def kept_option_def kept_def split: option.splits if_splits)

lemma defaulted: "kept dec enc d \<Longrightarrow> as_default dec d v = Some x \<Longrightarrow> kept dec enc x"
  using reread by (auto simp: as_default_def kept_def split: option.splits)

end

section \<open>Structures\<close>

fun dec_struct :: "((string \<Rightarrow> json option) \<Rightarrow> 'a option) \<Rightarrow> json \<Rightarrow> 'a option" where
  "dec_struct f (JObj fs) = f (map_of fs)"
| "dec_struct f j = None"

definition enc_struct :: "('a \<Rightarrow> fields list) \<Rightarrow> 'a \<Rightarrow> json" where
  "enc_struct w x = JObj (concat (w x))"

lemma dec_enc_struct [codec_simps]: "dec_struct f (enc_struct w x) = f (map_of (concat (w x)))"
  by (simp add: enc_struct_def)

lemma enc_struct_not_null [simp]: "enc_struct w x \<noteq> JNull"
  by (simp add: enc_struct_def)

lemma struct_rereadI:
  assumes "\<And>g x. f g = Some x \<Longrightarrow> f (map_of (concat (w x))) = Some (h x)"
    and "dec_struct f j = Some x"
  shows "dec_struct f (enc_struct w x) = Some (h x)"
proof -
  obtain fs where "f (map_of fs) = Some x"
    using assms(2) by (cases j) auto
  then show ?thesis
    by (simp add: dec_enc_struct assms(1))
qed

lemma codec_structI:
  assumes "\<And>g x. f g = Some x \<Longrightarrow> f (map_of (concat (w x))) = Some x"
  shows "codec (dec_struct f) (enc_struct w)"
proof
  show "dec_struct f j = Some x \<Longrightarrow> dec_struct f (enc_struct w x) = Some x" for j x
    by (rule struct_rereadI [where h = "\<lambda>x. x"]) (rule assms)
qed simp

section \<open>Scalars\<close>

fun dec_str :: "json \<Rightarrow> string option" where
  "dec_str (JStr s) = Some s"
| "dec_str j = None"

fun dec_bool :: "json \<Rightarrow> bool option" where
  "dec_bool (JBool b) = Some b"
| "dec_bool j = None"

fun dec_range :: "int \<Rightarrow> int \<Rightarrow> json \<Rightarrow> int option" where
  "dec_range lo hi (JInt n) = (if lo \<le> n \<and> n \<le> hi then Some n else None)"
| "dec_range lo hi j = None"

definition dec_u16 :: "json \<Rightarrow> int option" where "dec_u16 = dec_range 0 (2 ^ 16 - 1)"
definition dec_u32 :: "json \<Rightarrow> int option" where "dec_u32 = dec_range 0 (2 ^ 32 - 1)"
definition dec_u64 :: "json \<Rightarrow> int option" where "dec_u64 = dec_range 0 (2 ^ 64 - 1)"
definition dec_i16 :: "json \<Rightarrow> int option" where "dec_i16 = dec_range (- (2 ^ 15)) (2 ^ 15 - 1)"
definition dec_i32 :: "json \<Rightarrow> int option" where "dec_i32 = dec_range (- (2 ^ 31)) (2 ^ 31 - 1)"
definition dec_i64 :: "json \<Rightarrow> int option" where "dec_i64 = dec_range (- (2 ^ 63)) (2 ^ 63 - 1)"

text \<open>An \<open>i32\<close> the code casts is a word.\<close>

definition dec_i32_word :: "json \<Rightarrow> i32 option" where
  "dec_i32_word j = map_option word_of_int (dec_i32 j)"

definition enc_i32_word :: "i32 \<Rightarrow> json" where
  "enc_i32_word w = JInt (sint w)"

text \<open>\<open>serde\_json::Value\<close> reads anything as it is.\<close>

definition dec_value :: "json \<Rightarrow> json option" where "dec_value = Some"
definition enc_value :: "json \<Rightarrow> json" where "enc_value = id"

interpretation str: codec dec_str JStr
  by unfold_locales auto

interpretation bool: codec dec_bool JBool
  by unfold_locales auto

lemma codec_range: "codec (dec_range lo hi) JInt"
proof
  fix j x
  assume "dec_range lo hi j = Some x"
  then show "dec_range lo hi (JInt x) = Some x"
    by (cases j) (auto split: if_splits)
qed simp

interpretation u16: codec dec_u16 JInt unfolding dec_u16_def by (rule codec_range)
interpretation u32: codec dec_u32 JInt unfolding dec_u32_def by (rule codec_range)
interpretation u64: codec dec_u64 JInt unfolding dec_u64_def by (rule codec_range)
interpretation i16: codec dec_i16 JInt unfolding dec_i16_def by (rule codec_range)
interpretation i32: codec dec_i32 JInt unfolding dec_i32_def by (rule codec_range)
interpretation i64: codec dec_i64 JInt unfolding dec_i64_def by (rule codec_range)

lemma dec_i32_sint: "dec_i32 (JInt (sint (w :: i32))) = Some (sint w)"
  using sint_ge [of w] sint_lt [of w] by (simp add: dec_i32_def)

interpretation i32_word: codec dec_i32_word enc_i32_word
  by unfold_locales (auto simp: dec_i32_word_def enc_i32_word_def dec_i32_sint)

lemma value_kept [kept_dest]:
  "as_optional dec_value v = Some ox \<Longrightarrow> kept_option dec_value enc_value ox"
  by (auto simp: as_optional_def kept_option_def kept_def dec_value_def enc_value_def
      split: option.splits if_splits)

lemma bool_defaulted [kept_dest]: "as_default dec_bool d v = Some b \<Longrightarrow> kept dec_bool JBool b"
  by (simp add: kept_def)

section \<open>Enums, lists and maps\<close>

text \<open>
  An enum without data is the name of its variant, or an object that maps the name to null. A
  writer that is inverse to the table makes it a codec.
\<close>

definition dec_enum :: "(string \<times> 'a) list \<Rightarrow> json \<Rightarrow> 'a option" where
  "dec_enum table j = (case j of
     JStr s \<Rightarrow> map_of table s
   | JObj [(s, JNull)] \<Rightarrow> map_of table s
   | _ \<Rightarrow> None)"

lemma codec_enumI:
  assumes "\<And>x. map_of table (name x) = Some x"
  shows "codec (dec_enum table) (\<lambda>x. JStr (name x))"
  using assms by unfold_locales (simp_all add: dec_enum_def)

fun dec_all :: "(json \<Rightarrow> 'a option) \<Rightarrow> json list \<Rightarrow> 'a list option" where
  "dec_all dec [] = Some []"
| "dec_all dec (j # js) = and_then (dec j) (\<lambda>x. map_option (Cons x) (dec_all dec js))"

fun dec_list :: "(json \<Rightarrow> 'a option) \<Rightarrow> json \<Rightarrow> 'a list option" where
  "dec_list dec (JArr js) = dec_all dec js"
| "dec_list dec j = None"

definition enc_list :: "('a \<Rightarrow> json) \<Rightarrow> 'a list \<Rightarrow> json" where
  "enc_list enc xs = JArr (map enc xs)"

lemma dec_all_kept:
  assumes "\<And>j x. dec j = Some x \<Longrightarrow> dec (enc x) = Some x"
  shows "dec_all dec js = Some xs \<Longrightarrow> dec_all dec (map enc xs) = Some xs"
  using assms by (induction js arbitrary: xs) auto

lemma list_kept:
  assumes "\<And>j x. dec j = Some x \<Longrightarrow> dec (enc x) = Some x"
    and "as_default (dec_list dec) [] v = Some xs"
  shows "kept (dec_list dec) (enc_list enc) xs"
proof (cases v)
  case None
  then show ?thesis using assms(2) by (simp add: as_default_def kept_def enc_list_def)
next
  case (Some j)
  then show ?thesis
    using assms(2) dec_all_kept [of dec enc, OF assms(1)]
    by (cases j) (auto simp: as_default_def kept_def enc_list_def)
qed

lemma codec_list_kept:
  assumes "codec dec enc" "as_default (dec_list dec) [] v = Some xs"
  shows "kept (dec_list dec) (enc_list enc) xs"
  using codec.reread [OF assms(1)] assms(2) by (rule list_kept)

lemma value_list_kept [kept_dest]:
  "as_default (dec_list dec_value) [] v = Some xs \<Longrightarrow> kept (dec_list dec_value) (enc_list enc_value) xs"
  by (rule list_kept) (simp_all add: dec_value_def enc_value_def)

text \<open>A \<open>BTreeMap<String, String>\<close>: an object whose values are strings, kept sorted.\<close>

fun dec_pairs :: "fields \<Rightarrow> string btree \<Rightarrow> string btree option" where
  "dec_pairs [] m = Some m"
| "dec_pairs ((k, v) # fs) m = and_then (dec_str v) (\<lambda>s. dec_pairs fs (bt_insert k s m))"

fun dec_map :: "json \<Rightarrow> string btree option" where
  "dec_map (JObj fs) = dec_pairs fs []"
| "dec_map j = None"

definition enc_map :: "string btree \<Rightarrow> json" where
  "enc_map m = JObj (map (\<lambda>(k, v). (k, JStr v)) m)"

lemma bt_insert_last:
  "\<forall>x \<in> set m. fst x < k \<Longrightarrow> bt_insert k v m = m @ [(k, v)]"
  by (induction k v m rule: bt_insert.induct) (auto dest: less_imp_not_less)

lemma dec_pairs_sorted:
  "bt_sorted (m @ kvs) \<Longrightarrow> dec_pairs (map (\<lambda>(k, v). (k, JStr v)) kvs) m = Some (m @ kvs)"
proof (induction kvs arbitrary: m)
  case (Cons kv kvs)
  obtain k v where kv: "kv = (k, v)" by (cases kv)
  have "\<forall>x \<in> set m. fst x < k"
    using Cons.prems by (force simp: kv bt_sorted_def sorted_append order.strict_iff_order)
  then have "bt_insert k v m = m @ [(k, v)]"
    by (rule bt_insert_last)
  with Cons show ?case by (simp add: kv)
qed simp

lemma dec_pairs_result: "bt_sorted m \<Longrightarrow> dec_pairs fs m = Some m' \<Longrightarrow> bt_sorted m'"
  by (induction fs m rule: dec_pairs.induct) (auto simp: bt_insert_sorted)

interpretation string_map: codec dec_map enc_map
proof
  fix j m
  assume "dec_map j = Some m"
  then have "bt_sorted m"
    using dec_pairs_result [of "[]"] by (cases j) (auto simp: bt_sorted_def)
  then show "dec_map (enc_map m) = Some m"
    using dec_pairs_sorted [of "[]" m] by (simp add: enc_map_def)
qed (simp add: enc_map_def)

lemma map_kept [kept_dest]: "as_default dec_map [] v = Some m \<Longrightarrow> kept dec_map enc_map m"
  by (rule string_map.defaulted) (simp_all add: kept_def enc_map_def)

end
