(* ===== verification/Crd_Codec.thy ===== *)
theory Crd_Codec
  imports Json_Codec
begin

text \<open>
  The JSON form of the resources (\<open>src/src/crd\<close>): for every struct and enum its reader and
  its writer, with the names, defaults and omissions its \<open>serde\<close> attributes give, and the
  proof that they form a codec. \<open>dec_backup_spec\<close>, \<open>dec_restore_spec\<close>,
  \<open>dec_backup_status\<close> and \<open>dec_restore_status\<close> are what the client library does with
  the body of an answer; the writers are what the operator sends as a status patch. The text of an
  instant and the reading of a host alias are the libraries', the record \<open>Formats\<close>.
\<close>

section \<open>Parameters\<close>

record Formats =
  fm_show_time :: "timestamp \<Rightarrow> string"
  fm_read_time :: "string \<Rightarrow> timestamp option"
  fm_host_alias :: "json \<Rightarrow> json option"

text \<open>
  What the libraries document: an instant that was read is read again from its text (RFC 3339 keeps
  nanoseconds), and so is a host alias.
\<close>

definition lawful :: "Formats \<Rightarrow> bool" where
  "lawful F \<longleftrightarrow>
     (\<forall>s t. fm_read_time F s = Some t \<longrightarrow> fm_read_time F (fm_show_time F t) = Some t) \<and>
     (\<forall>j a. fm_host_alias F j = Some a \<longrightarrow> fm_host_alias F a = Some a)"

definition dec_time :: "Formats \<Rightarrow> json \<Rightarrow> timestamp option" where
  "dec_time F j = and_then (dec_str j) (fm_read_time F)"

definition enc_time :: "Formats \<Rightarrow> timestamp \<Rightarrow> json" where
  "enc_time F t = JStr (fm_show_time F t)"

lemma codec_time: "lawful F \<Longrightarrow> codec (dec_time F) (enc_time F)"
  by unfold_locales (auto simp: lawful_def dec_time_def enc_time_def)

lemma host_alias_kept:
  "lawful F \<Longrightarrow> as_default (dec_list (fm_host_alias F)) [] v = Some xs \<Longrightarrow>
     kept (dec_list (fm_host_alias F)) (enc_list id) xs"
  by (rule list_kept) (auto simp: lawful_def)

section \<open>Enums\<close>

fun authentication_type_name :: "AuthenticationType \<Rightarrow> string" where
  "authentication_type_name AuthTls = ''tls''"
| "authentication_type_name AuthScramSha512 = ''scram-sha-512''"

definition dec_authentication_type :: "json \<Rightarrow> AuthenticationType option" where
  "dec_authentication_type = dec_enum [(''tls'', AuthTls), (''scram-sha-512'', AuthScramSha512)]"

definition enc_authentication_type :: "AuthenticationType \<Rightarrow> json" where
  "enc_authentication_type = (\<lambda>x. JStr (authentication_type_name x))"

interpretation authentication_type: codec dec_authentication_type enc_authentication_type
  unfolding dec_authentication_type_def enc_authentication_type_def
proof (rule codec_enumI)
  fix x
  show "map_of [(''tls'', AuthTls), (''scram-sha-512'', AuthScramSha512)]
      (authentication_type_name x) = Some x"
    by (cases x) simp_all
qed

fun storage_type_name :: "StorageType \<Rightarrow> string" where
  "storage_type_name S3 = ''s3''"
| "storage_type_name Azure = ''azure''"
| "storage_type_name Gcs = ''gcs''"
| "storage_type_name Filesystem = ''filesystem''"

definition dec_storage_type :: "json \<Rightarrow> StorageType option" where
  "dec_storage_type = dec_enum [(''s3'', S3), (''azure'', Azure), (''gcs'', Gcs), (''filesystem'', Filesystem)]"

definition enc_storage_type :: "StorageType \<Rightarrow> json" where
  "enc_storage_type = (\<lambda>x. JStr (storage_type_name x))"

interpretation storage_type: codec dec_storage_type enc_storage_type
  unfolding dec_storage_type_def enc_storage_type_def
proof (rule codec_enumI)
  fix x
  show "map_of [(''s3'', S3), (''azure'', Azure), (''gcs'', Gcs), (''filesystem'', Filesystem)]
      (storage_type_name x) = Some x"
    by (cases x) simp_all
qed

fun backup_status_value_name :: "BackupStatus \<Rightarrow> string" where
  "backup_status_value_name BkRunning = ''Running''"
| "backup_status_value_name BkCompleted = ''Completed''"
| "backup_status_value_name BkFailed = ''Failed''"

definition dec_backup_status_value :: "json \<Rightarrow> BackupStatus option" where
  "dec_backup_status_value = dec_enum [(''Running'', BkRunning), (''Completed'', BkCompleted), (''Failed'', BkFailed)]"

definition enc_backup_status_value :: "BackupStatus \<Rightarrow> json" where
  "enc_backup_status_value = (\<lambda>x. JStr (backup_status_value_name x))"

interpretation backup_status_value: codec dec_backup_status_value enc_backup_status_value
  unfolding dec_backup_status_value_def enc_backup_status_value_def
proof (rule codec_enumI)
  fix x
  show "map_of [(''Running'', BkRunning), (''Completed'', BkCompleted), (''Failed'', BkFailed)]
      (backup_status_value_name x) = Some x"
    by (cases x) simp_all
qed

fun restore_status_value_name :: "RestoreStatus \<Rightarrow> string" where
  "restore_status_value_name RsRunning = ''Running''"
| "restore_status_value_name RsCompleted = ''Completed''"
| "restore_status_value_name RsFailed = ''Failed''"

definition dec_restore_status_value :: "json \<Rightarrow> RestoreStatus option" where
  "dec_restore_status_value = dec_enum [(''Running'', RsRunning), (''Completed'', RsCompleted), (''Failed'', RsFailed)]"

definition enc_restore_status_value :: "RestoreStatus \<Rightarrow> json" where
  "enc_restore_status_value = (\<lambda>x. JStr (restore_status_value_name x))"

interpretation restore_status_value: codec dec_restore_status_value enc_restore_status_value
  unfolding dec_restore_status_value_def enc_restore_status_value_def
proof (rule codec_enumI)
  fix x
  show "map_of [(''Running'', RsRunning), (''Completed'', RsCompleted), (''Failed'', RsFailed)]
      (restore_status_value_name x) = Some x"
    by (cases x) simp_all
qed

fun topic_creation_name :: "TopicCreationPolicy \<Rightarrow> string" where
  "topic_creation_name TcAuto = ''auto''"
| "topic_creation_name TcManual = ''manual''"

definition dec_topic_creation :: "json \<Rightarrow> TopicCreationPolicy option" where
  "dec_topic_creation = dec_enum [(''auto'', TcAuto), (''manual'', TcManual)]"

definition enc_topic_creation :: "TopicCreationPolicy \<Rightarrow> json" where
  "enc_topic_creation = (\<lambda>x. JStr (topic_creation_name x))"

interpretation topic_creation: codec dec_topic_creation enc_topic_creation
  unfolding dec_topic_creation_def enc_topic_creation_def
proof (rule codec_enumI)
  fix x
  show "map_of [(''auto'', TcAuto), (''manual'', TcManual)]
      (topic_creation_name x) = Some x"
    by (cases x) simp_all
qed

fun existing_topic_policy_name :: "ExistingTopicPolicy \<Rightarrow> string" where
  "existing_topic_policy_name EtFail = ''fail''"
| "existing_topic_policy_name EtAppend = ''append''"
| "existing_topic_policy_name EtOverwrite = ''overwrite''"

definition dec_existing_topic_policy :: "json \<Rightarrow> ExistingTopicPolicy option" where
  "dec_existing_topic_policy = dec_enum [(''fail'', EtFail), (''append'', EtAppend), (''overwrite'', EtOverwrite)]"

definition enc_existing_topic_policy :: "ExistingTopicPolicy \<Rightarrow> json" where
  "enc_existing_topic_policy = (\<lambda>x. JStr (existing_topic_policy_name x))"

interpretation existing_topic_policy: codec dec_existing_topic_policy enc_existing_topic_policy
  unfolding dec_existing_topic_policy_def enc_existing_topic_policy_def
proof (rule codec_enumI)
  fix x
  show "map_of [(''fail'', EtFail), (''append'', EtAppend), (''overwrite'', EtOverwrite)]
      (existing_topic_policy_name x) = Some x"
    by (cases x) simp_all
qed

section \<open>crd/common.rs\<close>

lemmas list_kept_dest = codec_list_kept [OF str.codec_axioms] codec_list_kept [OF i32.codec_axioms]

declare list_kept_dest [kept_dest]

definition dec_secret_key_ref :: "json \<Rightarrow> SecretKeyRef option" where
  "dec_secret_key_ref = dec_struct (\<lambda>g.
     and_then (as_required dec_str (g ''name'')) (\<lambda>name.
     and_then (as_required dec_str (g ''key'')) (\<lambda>key.
     Some \<lparr>sk_name = name, sk_key = key\<rparr>)))"

definition enc_secret_key_ref :: "SecretKeyRef \<Rightarrow> json" where
  "enc_secret_key_ref = enc_struct (\<lambda>x. [
     put_required ''name'' JStr (sk_name x),
     put_required ''key'' JStr (sk_key x)])"

interpretation secret_key_ref: codec dec_secret_key_ref enc_secret_key_ref
  unfolding dec_secret_key_ref_def enc_secret_key_ref_def
  by (rule codec_structI) (auto simp: codec_simps simp del: map_of_append dest!: kept_dest)

definition dec_resources :: "json \<Rightarrow> ResourceRequirementsSpec option" where
  "dec_resources = dec_struct (\<lambda>g.
     and_then (as_default dec_map [] (g ''requests'')) (\<lambda>requests.
     and_then (as_default dec_map [] (g ''limits'')) (\<lambda>limits.
     Some \<lparr>rr_requests = requests, rr_limits = limits\<rparr>)))"

definition enc_resources :: "ResourceRequirementsSpec \<Rightarrow> json" where
  "enc_resources = enc_struct (\<lambda>x. [
     put_nonempty ''requests'' enc_map (rr_requests x),
     put_nonempty ''limits'' enc_map (rr_limits x)])"

interpretation resources: codec dec_resources enc_resources
  unfolding dec_resources_def enc_resources_def
  by (rule codec_structI) (auto simp: codec_simps simp del: map_of_append dest!: kept_dest)

definition dec_cluster_ref :: "json \<Rightarrow> StrimziClusterRef option" where
  "dec_cluster_ref = dec_struct (\<lambda>g.
     and_then (as_required dec_str (g ''name'')) (\<lambda>name.
     and_then (as_optional dec_str (g ''namespace'')) (\<lambda>namespace.
     and_then (as_optional dec_secret_key_ref (g ''caSecret'')) (\<lambda>ca_secret.
     and_then (as_optional dec_str (g ''listener'')) (\<lambda>listener.
     Some \<lparr>sc_name = name, sc_namespace = namespace, sc_ca_secret = ca_secret,
       sc_listener = listener\<rparr>)))))"

definition enc_cluster_ref :: "StrimziClusterRef \<Rightarrow> json" where
  "enc_cluster_ref = enc_struct (\<lambda>x. [
     put_required ''name'' JStr (sc_name x),
     put_optional ''namespace'' JStr (sc_namespace x),
     put_optional ''caSecret'' enc_secret_key_ref (sc_ca_secret x),
     put_optional ''listener'' JStr (sc_listener x)])"

interpretation cluster_ref: codec dec_cluster_ref enc_cluster_ref
  unfolding dec_cluster_ref_def enc_cluster_ref_def
  by (rule codec_structI) (auto simp: codec_simps simp del: map_of_append dest!: kept_dest)

definition dec_user_ref :: "json \<Rightarrow> KafkaUserRef option" where
  "dec_user_ref = dec_struct (\<lambda>g.
     and_then (as_required dec_str (g ''name'')) (\<lambda>name.
     Some \<lparr>ku_name = name\<rparr>))"

definition enc_user_ref :: "KafkaUserRef \<Rightarrow> json" where
  "enc_user_ref = enc_struct (\<lambda>x. [
     put_required ''name'' JStr (ku_name x)])"

interpretation user_ref: codec dec_user_ref enc_user_ref
  unfolding dec_user_ref_def enc_user_ref_def
  by (rule codec_structI) (auto simp: codec_simps simp del: map_of_append dest!: kept_dest)

definition dec_certificate_ref :: "json \<Rightarrow> CertificateAndKeySecretRef option" where
  "dec_certificate_ref = dec_struct (\<lambda>g.
     and_then (as_required dec_str (g ''secretName'')) (\<lambda>secret_name.
     and_then (as_required dec_str (g ''certificate'')) (\<lambda>certificate.
     and_then (as_required dec_str (g ''key'')) (\<lambda>key.
     Some \<lparr>ck_secret_name = secret_name, ck_certificate = certificate, ck_key = key\<rparr>))))"

definition enc_certificate_ref :: "CertificateAndKeySecretRef \<Rightarrow> json" where
  "enc_certificate_ref = enc_struct (\<lambda>x. [
     put_required ''secretName'' JStr (ck_secret_name x),
     put_required ''certificate'' JStr (ck_certificate x),
     put_required ''key'' JStr (ck_key x)])"

interpretation certificate_ref: codec dec_certificate_ref enc_certificate_ref
  unfolding dec_certificate_ref_def enc_certificate_ref_def
  by (rule codec_structI) (auto simp: codec_simps simp del: map_of_append dest!: kept_dest)

definition dec_authentication :: "json \<Rightarrow> AuthenticationSpec option" where
  "dec_authentication = dec_struct (\<lambda>g.
     and_then (as_required dec_authentication_type (g ''type'')) (\<lambda>x_type.
     and_then (as_optional dec_user_ref (g ''kafkaUserRef'')) (\<lambda>kafka_user_ref.
     and_then (as_optional dec_certificate_ref (g ''certificateAndKey'')) (\<lambda>certificate_and_key.
     and_then (as_optional dec_secret_key_ref (g ''passwordSecret'')) (\<lambda>password_secret.
     and_then (as_optional dec_str (g ''username'')) (\<lambda>username.
     Some \<lparr>au_type = x_type, au_kafka_user_ref = kafka_user_ref,
       au_certificate_and_key = certificate_and_key, au_password_secret = password_secret,
       au_username = username\<rparr>))))))"

definition enc_authentication :: "AuthenticationSpec \<Rightarrow> json" where
  "enc_authentication = enc_struct (\<lambda>x. [
     put_required ''type'' enc_authentication_type (au_type x),
     put_optional ''kafkaUserRef'' enc_user_ref (au_kafka_user_ref x),
     put_optional ''certificateAndKey'' enc_certificate_ref (au_certificate_and_key x),
     put_optional ''passwordSecret'' enc_secret_key_ref (au_password_secret x),
     put_optional ''username'' JStr (au_username x)])"

interpretation authentication: codec dec_authentication enc_authentication
  unfolding dec_authentication_def enc_authentication_def
  by (rule codec_structI) (auto simp: codec_simps simp del: map_of_append dest!: kept_dest)

definition dec_topic_selection :: "json \<Rightarrow> TopicSelection option" where
  "dec_topic_selection = dec_struct (\<lambda>g.
     and_then (as_default (dec_list dec_str) [] (g ''include'')) (\<lambda>include.
     and_then (as_default (dec_list dec_str) [] (g ''exclude'')) (\<lambda>exclude.
     Some \<lparr>ts_include = include, ts_exclude = exclude\<rparr>)))"

definition enc_topic_selection :: "TopicSelection \<Rightarrow> json" where
  "enc_topic_selection = enc_struct (\<lambda>x. [
     put_nonempty ''include'' (enc_list JStr) (ts_include x),
     put_nonempty ''exclude'' (enc_list JStr) (ts_exclude x)])"

interpretation topic_selection: codec dec_topic_selection enc_topic_selection
  unfolding dec_topic_selection_def enc_topic_selection_def
  by (rule codec_structI) (auto simp: codec_simps simp del: map_of_append dest!: kept_dest)

definition dec_group_selection :: "json \<Rightarrow> ConsumerGroupSelection option" where
  "dec_group_selection = dec_struct (\<lambda>g.
     and_then (as_default (dec_list dec_str) [] (g ''include'')) (\<lambda>include.
     and_then (as_default (dec_list dec_str) [] (g ''exclude'')) (\<lambda>exclude.
     Some \<lparr>cgs_include = include, cgs_exclude = exclude\<rparr>)))"

definition enc_group_selection :: "ConsumerGroupSelection \<Rightarrow> json" where
  "enc_group_selection = enc_struct (\<lambda>x. [
     put_nonempty ''include'' (enc_list JStr) (cgs_include x),
     put_nonempty ''exclude'' (enc_list JStr) (cgs_exclude x)])"

interpretation group_selection: codec dec_group_selection enc_group_selection
  unfolding dec_group_selection_def enc_group_selection_def
  by (rule codec_structI) (auto simp: codec_simps simp del: map_of_append dest!: kept_dest)

definition dec_connection :: "json \<Rightarrow> KafkaConnectionSpec option" where
  "dec_connection = dec_struct (\<lambda>g.
     and_then (as_optional dec_bool (g ''tcpKeepalive'')) (\<lambda>tcp_keepalive.
     and_then (as_optional dec_u64 (g ''keepaliveTimeSecs'')) (\<lambda>keepalive_time_secs.
     and_then (as_optional dec_u64 (g ''keepaliveIntervalSecs'')) (\<lambda>keepalive_interval_secs.
     and_then (as_optional dec_bool (g ''tcpNodelay'')) (\<lambda>tcp_nodelay.
     and_then (as_optional dec_u64 (g ''connectionsPerBroker'')) (\<lambda>connections_per_broker.
     Some \<lparr>kc_tcp_keepalive = tcp_keepalive, kc_keepalive_time_secs = keepalive_time_secs,
       kc_keepalive_interval_secs = keepalive_interval_secs, kc_tcp_nodelay = tcp_nodelay,
       kc_connections_per_broker = connections_per_broker\<rparr>))))))"

definition enc_connection :: "KafkaConnectionSpec \<Rightarrow> json" where
  "enc_connection = enc_struct (\<lambda>x. [
     put_optional ''tcpKeepalive'' JBool (kc_tcp_keepalive x),
     put_optional ''keepaliveTimeSecs'' JInt (kc_keepalive_time_secs x),
     put_optional ''keepaliveIntervalSecs'' JInt (kc_keepalive_interval_secs x),
     put_optional ''tcpNodelay'' JBool (kc_tcp_nodelay x),
     put_optional ''connectionsPerBroker'' JInt (kc_connections_per_broker x)])"

interpretation connection: codec dec_connection enc_connection
  unfolding dec_connection_def enc_connection_def
  by (rule codec_structI) (auto simp: codec_simps simp del: map_of_append dest!: kept_dest)

definition dec_rotation :: "json \<Rightarrow> LoggingRotationSpec option" where
  "dec_rotation = dec_struct (\<lambda>g.
     and_then (as_optional dec_u64 (g ''maxSizeMb'')) (\<lambda>max_size_mb.
     and_then (as_optional dec_u32 (g ''maxFiles'')) (\<lambda>max_files.
     Some \<lparr>lr_max_size_mb = max_size_mb, lr_max_files = max_files\<rparr>)))"

definition enc_rotation :: "LoggingRotationSpec \<Rightarrow> json" where
  "enc_rotation = enc_struct (\<lambda>x. [
     put_optional ''maxSizeMb'' JInt (lr_max_size_mb x),
     put_optional ''maxFiles'' JInt (lr_max_files x)])"

interpretation rotation: codec dec_rotation enc_rotation
  unfolding dec_rotation_def enc_rotation_def
  by (rule codec_structI) (auto simp: codec_simps simp del: map_of_append dest!: kept_dest)

definition dec_logging :: "json \<Rightarrow> LoggingSpec option" where
  "dec_logging = dec_struct (\<lambda>g.
     and_then (as_optional dec_str (g ''level'')) (\<lambda>level.
     and_then (as_optional dec_str (g ''format'')) (\<lambda>format.
     and_then (as_optional dec_str (g ''output'')) (\<lambda>output.
     and_then (as_default dec_map [] (g ''modules'')) (\<lambda>modules.
     and_then (as_optional dec_rotation (g ''rotation'')) (\<lambda>rotation.
     Some \<lparr>lg_level = level, lg_format = format, lg_output = output, lg_modules = modules,
       lg_rotation = rotation\<rparr>))))))"

definition enc_logging :: "LoggingSpec \<Rightarrow> json" where
  "enc_logging = enc_struct (\<lambda>x. [
     put_optional ''level'' JStr (lg_level x),
     put_optional ''format'' JStr (lg_format x),
     put_optional ''output'' JStr (lg_output x),
     put_nonempty ''modules'' enc_map (lg_modules x),
     put_optional ''rotation'' enc_rotation (lg_rotation x)])"

interpretation logging: codec dec_logging enc_logging
  unfolding dec_logging_def enc_logging_def
  by (rule codec_structI) (auto simp: codec_simps simp del: map_of_append dest!: kept_dest)

definition dec_metrics :: "json \<Rightarrow> MetricsSpec option" where
  "dec_metrics = dec_struct (\<lambda>g.
     and_then (as_optional dec_bool (g ''enabled'')) (\<lambda>enabled.
     and_then (as_optional dec_u16 (g ''port'')) (\<lambda>port.
     and_then (as_optional dec_str (g ''bindAddress'')) (\<lambda>bind_address.
     and_then (as_optional dec_str (g ''path'')) (\<lambda>path.
     and_then (as_optional dec_u64 (g ''keepAliveSeconds'')) (\<lambda>keep_alive_seconds.
     and_then (as_optional dec_u64 (g ''updateIntervalMs'')) (\<lambda>update_interval_ms.
     and_then (as_optional dec_u64 (g ''maxPartitionLabels'')) (\<lambda>max_partition_labels.
     Some \<lparr>ms_enabled = enabled, ms_port = port, ms_bind_address = bind_address, ms_path = path,
       ms_keep_alive_seconds = keep_alive_seconds, ms_update_interval_ms = update_interval_ms,
       ms_max_partition_labels = max_partition_labels\<rparr>))))))))"

definition enc_metrics :: "MetricsSpec \<Rightarrow> json" where
  "enc_metrics = enc_struct (\<lambda>x. [
     put_optional ''enabled'' JBool (ms_enabled x),
     put_optional ''port'' JInt (ms_port x),
     put_optional ''bindAddress'' JStr (ms_bind_address x),
     put_optional ''path'' JStr (ms_path x),
     put_optional ''keepAliveSeconds'' JInt (ms_keep_alive_seconds x),
     put_optional ''updateIntervalMs'' JInt (ms_update_interval_ms x),
     put_optional ''maxPartitionLabels'' JInt (ms_max_partition_labels x)])"

interpretation metrics: codec dec_metrics enc_metrics
  unfolding dec_metrics_def enc_metrics_def
  by (rule codec_structI) (auto simp: codec_simps simp del: map_of_append dest!: kept_dest)

definition dec_offset_storage :: "json \<Rightarrow> OffsetStorageSpec option" where
  "dec_offset_storage = dec_struct (\<lambda>g.
     and_then (as_optional dec_str (g ''backend'')) (\<lambda>backend.
     and_then (as_optional dec_str (g ''dbPath'')) (\<lambda>db_path.
     and_then (as_optional dec_str (g ''s3Key'')) (\<lambda>s3_key.
     and_then (as_optional dec_u64 (g ''syncIntervalSecs'')) (\<lambda>sync_interval_secs.
     Some \<lparr>os_backend = backend, os_db_path = db_path, os_s3_key = s3_key,
       os_sync_interval_secs = sync_interval_secs\<rparr>)))))"

definition enc_offset_storage :: "OffsetStorageSpec \<Rightarrow> json" where
  "enc_offset_storage = enc_struct (\<lambda>x. [
     put_optional ''backend'' JStr (os_backend x),
     put_optional ''dbPath'' JStr (os_db_path x),
     put_optional ''s3Key'' JStr (os_s3_key x),
     put_optional ''syncIntervalSecs'' JInt (os_sync_interval_secs x)])"

interpretation offset_storage: codec dec_offset_storage enc_offset_storage
  unfolding dec_offset_storage_def enc_offset_storage_def
  by (rule codec_structI) (auto simp: codec_simps simp del: map_of_append dest!: kept_dest)

definition dec_s3 :: "json \<Rightarrow> S3StorageSpec option" where
  "dec_s3 = dec_struct (\<lambda>g.
     and_then (as_required dec_str (g ''bucket'')) (\<lambda>bucket.
     and_then (as_optional dec_str (g ''region'')) (\<lambda>region.
     and_then (as_optional dec_str (g ''prefix'')) (\<lambda>prefix.
     and_then (as_optional dec_str (g ''endpoint'')) (\<lambda>endpoint.
     and_then (as_optional dec_bool (g ''forcePathStyle'')) (\<lambda>force_path_style.
     and_then (as_optional dec_bool (g ''allowHttp'')) (\<lambda>allow_http.
     and_then (as_optional dec_secret_key_ref (g ''credentialsSecret'')) (\<lambda>credentials_secret.
     and_then (as_optional dec_secret_key_ref (g ''accessKeySecret'')) (\<lambda>access_key_secret.
     and_then (as_optional dec_secret_key_ref (g ''secretKeySecret'')) (\<lambda>secret_key_secret.
     Some \<lparr>s3_bucket = bucket, s3_region = region, s3_prefix = prefix, s3_endpoint = endpoint,
       s3_force_path_style = force_path_style, s3_allow_http = allow_http,
       s3_credentials_secret = credentials_secret, s3_access_key_secret = access_key_secret,
       s3_secret_key_secret = secret_key_secret\<rparr>))))))))))"

definition enc_s3 :: "S3StorageSpec \<Rightarrow> json" where
  "enc_s3 = enc_struct (\<lambda>x. [
     put_required ''bucket'' JStr (s3_bucket x),
     put_optional ''region'' JStr (s3_region x),
     put_optional ''prefix'' JStr (s3_prefix x),
     put_optional ''endpoint'' JStr (s3_endpoint x),
     put_optional ''forcePathStyle'' JBool (s3_force_path_style x),
     put_optional ''allowHttp'' JBool (s3_allow_http x),
     put_optional ''credentialsSecret'' enc_secret_key_ref (s3_credentials_secret x),
     put_optional ''accessKeySecret'' enc_secret_key_ref (s3_access_key_secret x),
     put_optional ''secretKeySecret'' enc_secret_key_ref (s3_secret_key_secret x)])"

interpretation s3: codec dec_s3 enc_s3
  unfolding dec_s3_def enc_s3_def
  by (rule codec_structI) (auto simp: codec_simps simp del: map_of_append dest!: kept_dest)

definition dec_azure :: "json \<Rightarrow> AzureStorageSpec option" where
  "dec_azure = dec_struct (\<lambda>g.
     and_then (as_required dec_str (g ''container'')) (\<lambda>container.
     and_then (as_required dec_str (g ''storageAccount'')) (\<lambda>storage_account.
     and_then (as_optional dec_str (g ''prefix'')) (\<lambda>prefix.
     and_then (as_optional dec_secret_key_ref (g ''credentialsSecret'')) (\<lambda>credentials_secret.
     and_then (as_optional dec_secret_key_ref (g ''accountKeySecret'')) (\<lambda>account_key_secret.
     and_then (as_optional dec_secret_key_ref (g ''sasTokenSecret'')) (\<lambda>sas_token_secret.
     and_then (as_optional dec_secret_key_ref (g ''clientSecretSecret'')) (\<lambda>client_secret_secret.
     and_then (as_optional dec_str (g ''endpoint'')) (\<lambda>endpoint.
     and_then (as_optional dec_bool (g ''useWorkloadIdentity'')) (\<lambda>use_workload_identity.
     and_then (as_optional dec_str (g ''clientId'')) (\<lambda>client_id.
     and_then (as_optional dec_str (g ''tenantId'')) (\<lambda>tenant_id.
     Some \<lparr>az_container = container, az_storage_account = storage_account, az_prefix = prefix,
       az_credentials_secret = credentials_secret, az_account_key_secret = account_key_secret,
       az_sas_token_secret = sas_token_secret, az_client_secret_secret = client_secret_secret,
       az_endpoint = endpoint, az_use_workload_identity = use_workload_identity,
       az_client_id = client_id, az_tenant_id = tenant_id\<rparr>))))))))))))"

definition enc_azure :: "AzureStorageSpec \<Rightarrow> json" where
  "enc_azure = enc_struct (\<lambda>x. [
     put_required ''container'' JStr (az_container x),
     put_required ''storageAccount'' JStr (az_storage_account x),
     put_optional ''prefix'' JStr (az_prefix x),
     put_optional ''credentialsSecret'' enc_secret_key_ref (az_credentials_secret x),
     put_optional ''accountKeySecret'' enc_secret_key_ref (az_account_key_secret x),
     put_optional ''sasTokenSecret'' enc_secret_key_ref (az_sas_token_secret x),
     put_optional ''clientSecretSecret'' enc_secret_key_ref (az_client_secret_secret x),
     put_optional ''endpoint'' JStr (az_endpoint x),
     put_optional ''useWorkloadIdentity'' JBool (az_use_workload_identity x),
     put_optional ''clientId'' JStr (az_client_id x),
     put_optional ''tenantId'' JStr (az_tenant_id x)])"

interpretation azure: codec dec_azure enc_azure
  unfolding dec_azure_def enc_azure_def
  by (rule codec_structI) (auto simp: codec_simps simp del: map_of_append dest!: kept_dest)

definition dec_gcs :: "json \<Rightarrow> GcsStorageSpec option" where
  "dec_gcs = dec_struct (\<lambda>g.
     and_then (as_required dec_str (g ''bucket'')) (\<lambda>bucket.
     and_then (as_optional dec_str (g ''prefix'')) (\<lambda>prefix.
     and_then (as_optional dec_secret_key_ref (g ''credentialsSecret'')) (\<lambda>credentials_secret.
     and_then (as_optional dec_str (g ''serviceAccountPath'')) (\<lambda>service_account_path.
     Some \<lparr>gc_bucket = bucket, gc_prefix = prefix, gc_credentials_secret = credentials_secret,
       gc_service_account_path = service_account_path\<rparr>)))))"

definition enc_gcs :: "GcsStorageSpec \<Rightarrow> json" where
  "enc_gcs = enc_struct (\<lambda>x. [
     put_required ''bucket'' JStr (gc_bucket x),
     put_optional ''prefix'' JStr (gc_prefix x),
     put_optional ''credentialsSecret'' enc_secret_key_ref (gc_credentials_secret x),
     put_optional ''serviceAccountPath'' JStr (gc_service_account_path x)])"

interpretation gcs: codec dec_gcs enc_gcs
  unfolding dec_gcs_def enc_gcs_def
  by (rule codec_structI) (auto simp: codec_simps simp del: map_of_append dest!: kept_dest)

definition dec_filesystem :: "json \<Rightarrow> FilesystemStorageSpec option" where
  "dec_filesystem = dec_struct (\<lambda>g.
     and_then (as_required dec_str (g ''path'')) (\<lambda>path.
     Some \<lparr>fs_path = path\<rparr>))"

definition enc_filesystem :: "FilesystemStorageSpec \<Rightarrow> json" where
  "enc_filesystem = enc_struct (\<lambda>x. [
     put_required ''path'' JStr (fs_path x)])"

interpretation filesystem: codec dec_filesystem enc_filesystem
  unfolding dec_filesystem_def enc_filesystem_def
  by (rule codec_structI) (auto simp: codec_simps simp del: map_of_append dest!: kept_dest)

definition dec_storage :: "json \<Rightarrow> StorageSpec option" where
  "dec_storage = dec_struct (\<lambda>g.
     and_then (as_required dec_storage_type (g ''type'')) (\<lambda>x_type.
     and_then (as_optional dec_s3 (g ''s3'')) (\<lambda>s3.
     and_then (as_optional dec_azure (g ''azure'')) (\<lambda>azure.
     and_then (as_optional dec_gcs (g ''gcs'')) (\<lambda>gcs.
     and_then (as_optional dec_filesystem (g ''filesystem'')) (\<lambda>filesystem.
     Some \<lparr>st_type = x_type, st_s3 = s3, st_azure = azure, st_gcs = gcs,
       st_filesystem = filesystem\<rparr>))))))"

definition enc_storage :: "StorageSpec \<Rightarrow> json" where
  "enc_storage = enc_struct (\<lambda>x. [
     put_required ''type'' enc_storage_type (st_type x),
     put_optional ''s3'' enc_s3 (st_s3 x),
     put_optional ''azure'' enc_azure (st_azure x),
     put_optional ''gcs'' enc_gcs (st_gcs x),
     put_optional ''filesystem'' enc_filesystem (st_filesystem x)])"

interpretation storage: codec dec_storage enc_storage
  unfolding dec_storage_def enc_storage_def
  by (rule codec_structI) (auto simp: codec_simps simp del: map_of_append dest!: kept_dest)

definition dec_pod_metadata :: "json \<Rightarrow> PodMetadata option" where
  "dec_pod_metadata = dec_struct (\<lambda>g.
     and_then (as_default dec_map [] (g ''labels'')) (\<lambda>labels.
     and_then (as_default dec_map [] (g ''annotations'')) (\<lambda>annotations.
     Some \<lparr>pm_labels = labels, pm_annotations = annotations\<rparr>)))"

definition enc_pod_metadata :: "PodMetadata \<Rightarrow> json" where
  "enc_pod_metadata = enc_struct (\<lambda>x. [
     put_nonempty ''labels'' enc_map (pm_labels x),
     put_nonempty ''annotations'' enc_map (pm_annotations x)])"

interpretation pod_metadata: codec dec_pod_metadata enc_pod_metadata
  unfolding dec_pod_metadata_def enc_pod_metadata_def
  by (rule codec_structI) (auto simp: codec_simps simp del: map_of_append dest!: kept_dest)

definition dec_container_overrides :: "json \<Rightarrow> ContainerOverrides option" where
  "dec_container_overrides = dec_struct (\<lambda>g.
     and_then (as_default (dec_list dec_value) [] (g ''env'')) (\<lambda>env.
     and_then (as_optional dec_value (g ''securityContext'')) (\<lambda>security_context.
     Some \<lparr>co_env = env, co_security_context = security_context\<rparr>)))"

definition enc_container_overrides :: "ContainerOverrides \<Rightarrow> json" where
  "enc_container_overrides = enc_struct (\<lambda>x. [
     put_nonempty ''env'' (enc_list enc_value) (co_env x),
     put_optional ''securityContext'' enc_value (co_security_context x)])"

interpretation container_overrides: codec dec_container_overrides enc_container_overrides
  unfolding dec_container_overrides_def enc_container_overrides_def
  by (rule codec_structI) (auto simp: codec_simps simp del: map_of_append dest!: kept_dest)

definition dec_pod_overrides :: "Formats \<Rightarrow> json \<Rightarrow> PodOverrides option" where
  "dec_pod_overrides F = dec_struct (\<lambda>g.
     and_then (as_optional dec_pod_metadata (g ''metadata'')) (\<lambda>metadata.
     and_then (as_optional dec_value (g ''affinity'')) (\<lambda>affinity.
     and_then (as_default (dec_list dec_value) [] (g ''tolerations'')) (\<lambda>tolerations.
     and_then (as_optional dec_value (g ''securityContext'')) (\<lambda>security_context.
     and_then (as_default (dec_list dec_value) [] (g ''imagePullSecrets'')) (\<lambda>image_pull_secrets.
     and_then (as_default (dec_list (fm_host_alias F)) [] (g ''hostAliases'')) (\<lambda>host_aliases.
     and_then (as_optional dec_str (g ''serviceAccountName'')) (\<lambda>service_account_name.
     Some \<lparr>po_metadata = metadata, po_affinity = affinity, po_tolerations = tolerations,
       po_security_context = security_context, po_image_pull_secrets = image_pull_secrets,
       po_host_aliases = host_aliases, po_service_account_name = service_account_name\<rparr>))))))))"

definition enc_pod_overrides :: "Formats \<Rightarrow> PodOverrides \<Rightarrow> json" where
  "enc_pod_overrides F = enc_struct (\<lambda>x. [
     put_optional ''metadata'' enc_pod_metadata (po_metadata x),
     put_optional ''affinity'' enc_value (po_affinity x),
     put_nonempty ''tolerations'' (enc_list enc_value) (po_tolerations x),
     put_optional ''securityContext'' enc_value (po_security_context x),
     put_nonempty ''imagePullSecrets'' (enc_list enc_value) (po_image_pull_secrets x),
     put_nonempty ''hostAliases'' (enc_list id) (po_host_aliases x),
     put_optional ''serviceAccountName'' JStr (po_service_account_name x)])"

lemma codec_pod_overrides:
  assumes "lawful F"
  shows "codec (dec_pod_overrides F) (enc_pod_overrides F)"
  unfolding dec_pod_overrides_def enc_pod_overrides_def
  by (rule codec_structI)
     (auto simp: codec_simps simp del: map_of_append dest!: kept_dest
       host_alias_kept [OF assms])

definition dec_template :: "Formats \<Rightarrow> json \<Rightarrow> CrdPodTemplate option" where
  "dec_template F = dec_struct (\<lambda>g.
     and_then (as_optional (dec_pod_overrides F) (g ''pod'')) (\<lambda>pod.
     and_then (as_optional dec_container_overrides (g ''container'')) (\<lambda>container.
     Some \<lparr>pt_pod = pod, pt_container = container\<rparr>)))"

definition enc_template :: "Formats \<Rightarrow> CrdPodTemplate \<Rightarrow> json" where
  "enc_template F = enc_struct (\<lambda>x. [
     put_optional ''pod'' (enc_pod_overrides F) (pt_pod x),
     put_optional ''container'' enc_container_overrides (pt_container x)])"

lemma codec_template:
  assumes "lawful F"
  shows "codec (dec_template F) (enc_template F)"
  unfolding dec_template_def enc_template_def
  by (rule codec_structI)
     (auto simp: codec_simps simp del: map_of_append dest!: kept_dest
       codec.optional [OF codec_pod_overrides [OF assms]])

section \<open>crd/kafka\_backup.rs\<close>

definition dec_encryption :: "json \<Rightarrow> UnsupportedEncryptionSpec option" where
  "dec_encryption = dec_struct (\<lambda>g.
     and_then (as_default dec_bool False (g ''enabled'')) (\<lambda>enabled.
     Some \<lparr>ue_enabled = enabled\<rparr>))"

definition enc_encryption :: "UnsupportedEncryptionSpec \<Rightarrow> json" where
  "enc_encryption = enc_struct (\<lambda>x. [
     put_required ''enabled'' JBool (ue_enabled x)])"

interpretation encryption: codec dec_encryption enc_encryption
  unfolding dec_encryption_def enc_encryption_def
  by (rule codec_structI) (auto simp: codec_simps simp del: map_of_append dest!: kept_dest)

definition dec_schedule :: "json \<Rightarrow> ScheduleSpec option" where
  "dec_schedule = dec_struct (\<lambda>g.
     and_then (as_required dec_str (g ''cron'')) (\<lambda>cron.
     and_then (as_optional dec_str (g ''timezone'')) (\<lambda>timezone.
     and_then (as_default dec_bool False (g ''suspend'')) (\<lambda>suspend.
     Some \<lparr>sd_cron = cron, sd_timezone = timezone, sd_suspend = suspend\<rparr>))))"

definition enc_schedule :: "ScheduleSpec \<Rightarrow> json" where
  "enc_schedule = enc_struct (\<lambda>x. [
     put_required ''cron'' JStr (sd_cron x),
     put_optional ''timezone'' JStr (sd_timezone x),
     put_required ''suspend'' JBool (sd_suspend x)])"

interpretation schedule: codec dec_schedule enc_schedule
  unfolding dec_schedule_def enc_schedule_def
  by (rule codec_structI) (auto simp: codec_simps simp del: map_of_append dest!: kept_dest)

definition dec_retention :: "json \<Rightarrow> RetentionSpec option" where
  "dec_retention = dec_struct (\<lambda>g.
     and_then (as_optional dec_i32_word (g ''maxBackups'')) (\<lambda>max_backups.
     and_then (as_optional dec_str (g ''maxAge'')) (\<lambda>max_age.
     and_then (as_default dec_bool False (g ''pruneOnSchedule'')) (\<lambda>prune_on_schedule.
     Some \<lparr>rt_max_backups = max_backups, rt_max_age = max_age,
       rt_prune_on_schedule = prune_on_schedule\<rparr>))))"

definition enc_retention :: "RetentionSpec \<Rightarrow> json" where
  "enc_retention = enc_struct (\<lambda>x. [
     put_optional ''maxBackups'' enc_i32_word (rt_max_backups x),
     put_optional ''maxAge'' JStr (rt_max_age x),
     put_required ''pruneOnSchedule'' JBool (rt_prune_on_schedule x)])"

interpretation retention: codec dec_retention enc_retention
  unfolding dec_retention_def enc_retention_def
  by (rule codec_structI) (auto simp: codec_simps simp del: map_of_append dest!: kept_dest)

text \<open>
  \<open>encryption\<close> is read, for resources stored under an older schema, and never written.
\<close>

definition dec_backup_options :: "json \<Rightarrow> BackupOptionsSpec option" where
  "dec_backup_options = dec_struct (\<lambda>g.
     and_then (as_optional dec_str (g ''compression'')) (\<lambda>compression.
     and_then (as_optional dec_i32 (g ''compressionLevel'')) (\<lambda>compression_level.
     and_then (as_optional dec_encryption (g ''encryption'')) (\<lambda>encryption.
     and_then (as_optional dec_i64 (g ''segmentSize'')) (\<lambda>segment_size.
     and_then (as_optional dec_u64 (g ''segmentMaxIntervalMs'')) (\<lambda>segment_max_interval_ms.
     and_then (as_optional dec_i32 (g ''parallelism'')) (\<lambda>parallelism.
     and_then (as_optional dec_str (g ''startOffset'')) (\<lambda>start_offset.
     and_then (as_optional dec_bool (g ''continuous'')) (\<lambda>continuous.
     and_then (as_optional dec_bool (g ''includeInternalTopics'')) (\<lambda>include_internal_topics.
     and_then (as_default (dec_list dec_str) [] (g ''internalTopics'')) (\<lambda>internal_topics.
     and_then (as_optional dec_u64 (g ''checkpointIntervalSecs'')) (\<lambda>checkpoint_interval_secs.
     and_then (as_optional dec_u64 (g ''syncIntervalSecs'')) (\<lambda>sync_interval_secs.
     and_then (as_optional dec_bool (g ''includeOffsetHeaders'')) (\<lambda>include_offset_headers.
     and_then (as_optional dec_str (g ''sourceClusterId'')) (\<lambda>source_cluster_id.
     and_then (as_optional dec_bool (g ''stopAtCurrentOffsets'')) (\<lambda>stop_at_current_offsets.
     and_then (as_optional dec_u64 (g ''pollIntervalMs'')) (\<lambda>poll_interval_ms.
     and_then (as_optional dec_bool (g ''consumerGroupSnapshot'')) (\<lambda>consumer_group_snapshot.
     Some \<lparr>bo_compression = compression, bo_compression_level = compression_level,
       bo_encryption = encryption, bo_segment_size = segment_size,
       bo_segment_max_interval_ms = segment_max_interval_ms, bo_parallelism = parallelism,
       bo_start_offset = start_offset, bo_continuous = continuous,
       bo_include_internal_topics = include_internal_topics, bo_internal_topics = internal_topics,
       bo_checkpoint_interval_secs = checkpoint_interval_secs,
       bo_sync_interval_secs = sync_interval_secs, bo_include_offset_headers = include_offset_headers,
       bo_source_cluster_id = source_cluster_id, bo_stop_at_current_offsets = stop_at_current_offsets,
       bo_poll_interval_ms = poll_interval_ms, bo_consumer_group_snapshot = consumer_group_snapshot\<rparr>))))))))))))))))))"

definition enc_backup_options :: "BackupOptionsSpec \<Rightarrow> json" where
  "enc_backup_options = enc_struct (\<lambda>x. [
     put_optional ''compression'' JStr (bo_compression x),
     put_optional ''compressionLevel'' JInt (bo_compression_level x),
     put_optional ''segmentSize'' JInt (bo_segment_size x),
     put_optional ''segmentMaxIntervalMs'' JInt (bo_segment_max_interval_ms x),
     put_optional ''parallelism'' JInt (bo_parallelism x),
     put_optional ''startOffset'' JStr (bo_start_offset x),
     put_optional ''continuous'' JBool (bo_continuous x),
     put_optional ''includeInternalTopics'' JBool (bo_include_internal_topics x),
     put_nonempty ''internalTopics'' (enc_list JStr) (bo_internal_topics x),
     put_optional ''checkpointIntervalSecs'' JInt (bo_checkpoint_interval_secs x),
     put_optional ''syncIntervalSecs'' JInt (bo_sync_interval_secs x),
     put_optional ''includeOffsetHeaders'' JBool (bo_include_offset_headers x),
     put_optional ''sourceClusterId'' JStr (bo_source_cluster_id x),
     put_optional ''stopAtCurrentOffsets'' JBool (bo_stop_at_current_offsets x),
     put_optional ''pollIntervalMs'' JInt (bo_poll_interval_ms x),
     put_optional ''consumerGroupSnapshot'' JBool (bo_consumer_group_snapshot x)])"

definition drop_encryption :: "BackupOptionsSpec \<Rightarrow> BackupOptionsSpec" where
  "drop_encryption opts = opts\<lparr>bo_encryption := None\<rparr>"

lemma backup_options_reread:
  "dec_backup_options j = Some x \<Longrightarrow> dec_backup_options (enc_backup_options x) = Some (drop_encryption x)"
  unfolding dec_backup_options_def enc_backup_options_def
  by (rule struct_rereadI [rotated]) (auto simp: drop_encryption_def as_optional_def [of dec_encryption]
      codec_simps simp del: map_of_append dest!: kept_dest)

definition written_options :: "BackupOptionsSpec option \<Rightarrow> bool" where
  "written_options v \<longleftrightarrow>
     as_optional dec_backup_options (map_option enc_backup_options v) = Some (map_option drop_encryption v)"

lemma written_optionsI:
  assumes "as_optional dec_backup_options v = Some ox"
  shows "written_options ox"
proof (cases ox)
  case None
  then show ?thesis by (simp add: written_options_def as_optional_def)
next
  case (Some x)
  then obtain j where "dec_backup_options j = Some x"
    using assms by (auto simp: as_optional_def split: option.splits if_splits)
  moreover have "enc_backup_options x \<noteq> JNull"
    by (simp add: enc_backup_options_def)
  ultimately show ?thesis
    by (simp add: Some written_options_def as_optional_def backup_options_reread)
qed

definition dec_backup_spec :: "Formats \<Rightarrow> json \<Rightarrow> KafkaBackupSpec option" where
  "dec_backup_spec F = dec_struct (\<lambda>g.
     and_then (as_required dec_cluster_ref (g ''strimziClusterRef'')) (\<lambda>strimzi_cluster_ref.
     and_then (as_optional dec_authentication (g ''authentication'')) (\<lambda>authentication.
     and_then (as_optional dec_topic_selection (g ''topics'')) (\<lambda>topics.
     and_then (as_optional dec_connection (g ''connection'')) (\<lambda>connection.
     and_then (as_optional dec_group_selection (g ''consumerGroups'')) (\<lambda>consumer_groups.
     and_then (as_optional dec_logging (g ''logging'')) (\<lambda>logging.
     and_then (as_default (dec_list dec_value) [] (g ''env'')) (\<lambda>env.
     and_then (as_required dec_storage (g ''storage'')) (\<lambda>storage.
     and_then (as_optional dec_backup_options (g ''backup'')) (\<lambda>backup.
     and_then (as_optional dec_metrics (g ''metrics'')) (\<lambda>metrics.
     and_then (as_optional dec_offset_storage (g ''offsetStorage'')) (\<lambda>offset_storage.
     and_then (as_optional dec_schedule (g ''schedule'')) (\<lambda>schedule.
     and_then (as_optional dec_retention (g ''retention'')) (\<lambda>retention.
     and_then (as_optional dec_resources (g ''resources'')) (\<lambda>resources.
     and_then (as_optional (dec_template F) (g ''template'')) (\<lambda>template.
     and_then (as_optional dec_str (g ''image'')) (\<lambda>image.
     and_then (as_optional dec_i32 (g ''backoffLimit'')) (\<lambda>backoff_limit.
     Some \<lparr>kb_strimzi_cluster_ref = strimzi_cluster_ref, kb_authentication = authentication,
       kb_topics = topics, kb_connection = connection, kb_consumer_groups = consumer_groups,
       kb_logging = logging, kb_env = env, kb_storage = storage, kb_backup = backup,
       kb_metrics = metrics, kb_offset_storage = offset_storage, kb_schedule = schedule,
       kb_retention = retention, kb_resources = resources, kb_template = template, kb_image = image,
       kb_backoff_limit = backoff_limit\<rparr>))))))))))))))))))"

definition enc_backup_spec :: "Formats \<Rightarrow> KafkaBackupSpec \<Rightarrow> json" where
  "enc_backup_spec F = enc_struct (\<lambda>x. [
     put_required ''strimziClusterRef'' enc_cluster_ref (kb_strimzi_cluster_ref x),
     put_optional ''authentication'' enc_authentication (kb_authentication x),
     put_optional ''topics'' enc_topic_selection (kb_topics x),
     put_optional ''connection'' enc_connection (kb_connection x),
     put_optional ''consumerGroups'' enc_group_selection (kb_consumer_groups x),
     put_optional ''logging'' enc_logging (kb_logging x),
     put_nonempty ''env'' (enc_list enc_value) (kb_env x),
     put_required ''storage'' enc_storage (kb_storage x),
     put_optional ''backup'' enc_backup_options (kb_backup x),
     put_optional ''metrics'' enc_metrics (kb_metrics x),
     put_optional ''offsetStorage'' enc_offset_storage (kb_offset_storage x),
     put_optional ''schedule'' enc_schedule (kb_schedule x),
     put_optional ''retention'' enc_retention (kb_retention x),
     put_optional ''resources'' enc_resources (kb_resources x),
     put_optional ''template'' (enc_template F) (kb_template x),
     put_optional ''image'' JStr (kb_image x),
     put_optional ''backoffLimit'' JInt (kb_backoff_limit x)])"

definition forget_encryption :: "KafkaBackupSpec \<Rightarrow> KafkaBackupSpec" where
  "forget_encryption spec = spec\<lparr>kb_backup := map_option drop_encryption (kb_backup spec)\<rparr>"

lemma backup_spec_reread:
  assumes "lawful F" "dec_backup_spec F j = Some x"
  shows "dec_backup_spec F (enc_backup_spec F x) = Some (forget_encryption x)"
  using assms(2) unfolding dec_backup_spec_def enc_backup_spec_def
  by (rule struct_rereadI [rotated])
     (auto simp: forget_encryption_def written_options_def codec_simps simp del: map_of_append
       dest!: kept_dest written_optionsI codec.optional [OF codec_template [OF assms(1)]])

section \<open>crd/kafka\_restore.rs\<close>

definition dec_backup_ref :: "json \<Rightarrow> BackupRef option" where
  "dec_backup_ref = dec_struct (\<lambda>g.
     and_then (as_required dec_str (g ''name'')) (\<lambda>name.
     and_then (as_optional dec_str (g ''backupId'')) (\<lambda>backup_id.
     Some \<lparr>br_name = name, br_backup_id = backup_id\<rparr>)))"

definition enc_backup_ref :: "BackupRef \<Rightarrow> json" where
  "enc_backup_ref = enc_struct (\<lambda>x. [
     put_required ''name'' JStr (br_name x),
     put_optional ''backupId'' JStr (br_backup_id x)])"

interpretation backup_ref: codec dec_backup_ref enc_backup_ref
  unfolding dec_backup_ref_def enc_backup_ref_def
  by (rule codec_structI) (auto simp: codec_simps simp del: map_of_append dest!: kept_dest)

definition dec_point_in_time :: "json \<Rightarrow> PointInTimeSpec option" where
  "dec_point_in_time = dec_struct (\<lambda>g.
     and_then (as_optional dec_str (g ''startTimestamp'')) (\<lambda>start_timestamp.
     and_then (as_optional dec_str (g ''timestamp'')) (\<lambda>timestamp.
     and_then (as_optional dec_str (g ''offsetFromEnd'')) (\<lambda>offset_from_end.
     Some \<lparr>pit_start_timestamp = start_timestamp, pit_timestamp = timestamp,
       pit_offset_from_end = offset_from_end\<rparr>))))"

definition enc_point_in_time :: "PointInTimeSpec \<Rightarrow> json" where
  "enc_point_in_time = enc_struct (\<lambda>x. [
     put_optional ''startTimestamp'' JStr (pit_start_timestamp x),
     put_optional ''timestamp'' JStr (pit_timestamp x),
     put_optional ''offsetFromEnd'' JStr (pit_offset_from_end x)])"

interpretation point_in_time: codec dec_point_in_time enc_point_in_time
  unfolding dec_point_in_time_def enc_point_in_time_def
  by (rule codec_structI) (auto simp: codec_simps simp del: map_of_append dest!: kept_dest)

definition dec_topic_mapping :: "json \<Rightarrow> TopicMappingEntry option" where
  "dec_topic_mapping = dec_struct (\<lambda>g.
     and_then (as_required dec_str (g ''sourceTopic'')) (\<lambda>source_topic.
     and_then (as_required dec_str (g ''targetTopic'')) (\<lambda>target_topic.
     Some \<lparr>tm_source_topic = source_topic, tm_target_topic = target_topic\<rparr>)))"

definition enc_topic_mapping :: "TopicMappingEntry \<Rightarrow> json" where
  "enc_topic_mapping = enc_struct (\<lambda>x. [
     put_required ''sourceTopic'' JStr (tm_source_topic x),
     put_required ''targetTopic'' JStr (tm_target_topic x)])"

interpretation topic_mapping: codec dec_topic_mapping enc_topic_mapping
  unfolding dec_topic_mapping_def enc_topic_mapping_def
  by (rule codec_structI) (auto simp: codec_simps simp del: map_of_append dest!: kept_dest)

declare codec_list_kept [OF topic_mapping.codec_axioms, kept_dest]

definition dec_group_mapping :: "json \<Rightarrow> ConsumerGroupMapping option" where
  "dec_group_mapping = dec_struct (\<lambda>g.
     and_then (as_required dec_str (g ''sourceGroup'')) (\<lambda>source_group.
     and_then (as_required dec_str (g ''targetGroup'')) (\<lambda>target_group.
     Some \<lparr>cgm_source_group = source_group, cgm_target_group = target_group\<rparr>)))"

definition enc_group_mapping :: "ConsumerGroupMapping \<Rightarrow> json" where
  "enc_group_mapping = enc_struct (\<lambda>x. [
     put_required ''sourceGroup'' JStr (cgm_source_group x),
     put_required ''targetGroup'' JStr (cgm_target_group x)])"

interpretation group_mapping: codec dec_group_mapping enc_group_mapping
  unfolding dec_group_mapping_def enc_group_mapping_def
  by (rule codec_structI) (auto simp: codec_simps simp del: map_of_append dest!: kept_dest)

declare codec_list_kept [OF group_mapping.codec_axioms, kept_dest]

definition dec_group_restore :: "json \<Rightarrow> ConsumerGroupRestoreSpec option" where
  "dec_group_restore = dec_struct (\<lambda>g.
     and_then (as_default dec_bool False (g ''restore'')) (\<lambda>restore.
     and_then (as_optional dec_bool (g ''auto'')) (\<lambda>auto.
     and_then (as_default (dec_list dec_str) [] (g ''groups'')) (\<lambda>groups.
     and_then (as_optional dec_str (g ''strategy'')) (\<lambda>strategy.
     and_then (as_optional dec_str (g ''offsetReport'')) (\<lambda>offset_report.
     and_then (as_default (dec_list dec_group_mapping) [] (g ''mapping'')) (\<lambda>mapping.
     Some \<lparr>cg_restore = restore, cg_auto = auto, cg_groups = groups, cg_strategy = strategy,
       cg_offset_report = offset_report, cg_mapping = mapping\<rparr>)))))))"

definition enc_group_restore :: "ConsumerGroupRestoreSpec \<Rightarrow> json" where
  "enc_group_restore = enc_struct (\<lambda>x. [
     put_required ''restore'' JBool (cg_restore x),
     put_optional ''auto'' JBool (cg_auto x),
     put_nonempty ''groups'' (enc_list JStr) (cg_groups x),
     put_optional ''strategy'' JStr (cg_strategy x),
     put_optional ''offsetReport'' JStr (cg_offset_report x),
     put_nonempty ''mapping'' (enc_list enc_group_mapping) (cg_mapping x)])"

interpretation group_restore: codec dec_group_restore enc_group_restore
  unfolding dec_group_restore_def enc_group_restore_def
  by (rule codec_structI) (auto simp: codec_simps simp del: map_of_append dest!: kept_dest)

definition dec_partition_mapping :: "json \<Rightarrow> PartitionMappingEntry option" where
  "dec_partition_mapping = dec_struct (\<lambda>g.
     and_then (as_required dec_i32 (g ''sourcePartition'')) (\<lambda>source_partition.
     and_then (as_required dec_i32 (g ''targetPartition'')) (\<lambda>target_partition.
     Some \<lparr>pme_source_partition = source_partition, pme_target_partition = target_partition\<rparr>)))"

definition enc_partition_mapping :: "PartitionMappingEntry \<Rightarrow> json" where
  "enc_partition_mapping = enc_struct (\<lambda>x. [
     put_required ''sourcePartition'' JInt (pme_source_partition x),
     put_required ''targetPartition'' JInt (pme_target_partition x)])"

interpretation partition_mapping: codec dec_partition_mapping enc_partition_mapping
  unfolding dec_partition_mapping_def enc_partition_mapping_def
  by (rule codec_structI) (auto simp: codec_simps simp del: map_of_append dest!: kept_dest)

declare codec_list_kept [OF partition_mapping.codec_axioms, kept_dest]

definition dec_repartitioning :: "json \<Rightarrow> TopicRepartitioningSpec option" where
  "dec_repartitioning = dec_struct (\<lambda>g.
     and_then (as_required dec_str (g ''topic'')) (\<lambda>topic.
     and_then (as_optional dec_str (g ''strategy'')) (\<lambda>strategy.
     and_then (as_required dec_i32 (g ''targetPartitions'')) (\<lambda>target_partitions.
     Some \<lparr>tr_topic = topic, tr_strategy = strategy, tr_target_partitions = target_partitions\<rparr>))))"

definition enc_repartitioning :: "TopicRepartitioningSpec \<Rightarrow> json" where
  "enc_repartitioning = enc_struct (\<lambda>x. [
     put_required ''topic'' JStr (tr_topic x),
     put_optional ''strategy'' JStr (tr_strategy x),
     put_required ''targetPartitions'' JInt (tr_target_partitions x)])"

interpretation repartitioning: codec dec_repartitioning enc_repartitioning
  unfolding dec_repartitioning_def enc_repartitioning_def
  by (rule codec_structI) (auto simp: codec_simps simp del: map_of_append dest!: kept_dest)

declare codec_list_kept [OF repartitioning.codec_axioms, kept_dest]

definition dec_restore_options :: "json \<Rightarrow> RestoreOptionsSpec option" where
  "dec_restore_options = dec_struct (\<lambda>g.
     and_then (as_optional dec_topic_creation (g ''topicCreation'')) (\<lambda>topic_creation.
     and_then (as_optional dec_existing_topic_policy (g ''existingTopicPolicy'')) (\<lambda>existing_topic_policy.
     and_then (as_optional dec_bool (g ''dryRun'')) (\<lambda>dry_run.
     and_then (as_optional dec_bool (g ''includeOriginalOffsetHeader'')) (\<lambda>include_original_offset_header.
     and_then (as_default (dec_list dec_i32) [] (g ''sourcePartitions'')) (\<lambda>source_partitions.
     and_then (as_default (dec_list dec_partition_mapping) [] (g ''partitionMapping'')) (\<lambda>partition_mapping.
     and_then (as_optional dec_i32 (g ''parallelism'')) (\<lambda>parallelism.
     and_then (as_optional dec_u64 (g ''rateLimitRecordsPerSec'')) (\<lambda>rate_limit_records_per_sec.
     and_then (as_optional dec_u64 (g ''rateLimitBytesPerSec'')) (\<lambda>rate_limit_bytes_per_sec.
     and_then (as_optional dec_u64 (g ''produceBatchSize'')) (\<lambda>produce_batch_size.
     and_then (as_optional dec_i16 (g ''produceAcks'')) (\<lambda>produce_acks.
     and_then (as_optional dec_i32 (g ''produceTimeoutMs'')) (\<lambda>produce_timeout_ms.
     and_then (as_optional dec_str (g ''checkpointState'')) (\<lambda>checkpoint_state.
     and_then (as_optional dec_u64 (g ''checkpointIntervalSecs'')) (\<lambda>checkpoint_interval_secs.
     and_then (as_optional dec_i16 (g ''defaultReplicationFactor'')) (\<lambda>default_replication_factor.
     and_then (as_default (dec_list dec_repartitioning) [] (g ''repartitioning'')) (\<lambda>repartitioning.
     and_then (as_optional dec_bool (g ''purgeTopics'')) (\<lambda>purge_topics.
     Some \<lparr>ro_topic_creation = topic_creation, ro_existing_topic_policy = existing_topic_policy,
       ro_dry_run = dry_run, ro_include_original_offset_header = include_original_offset_header,
       ro_source_partitions = source_partitions, ro_partition_mapping = partition_mapping,
       ro_parallelism = parallelism, ro_rate_limit_records_per_sec = rate_limit_records_per_sec,
       ro_rate_limit_bytes_per_sec = rate_limit_bytes_per_sec,
       ro_produce_batch_size = produce_batch_size, ro_produce_acks = produce_acks,
       ro_produce_timeout_ms = produce_timeout_ms, ro_checkpoint_state = checkpoint_state,
       ro_checkpoint_interval_secs = checkpoint_interval_secs,
       ro_default_replication_factor = default_replication_factor, ro_repartitioning = repartitioning,
       ro_purge_topics = purge_topics\<rparr>))))))))))))))))))"

definition enc_restore_options :: "RestoreOptionsSpec \<Rightarrow> json" where
  "enc_restore_options = enc_struct (\<lambda>x. [
     put_optional ''topicCreation'' enc_topic_creation (ro_topic_creation x),
     put_optional ''existingTopicPolicy'' enc_existing_topic_policy (ro_existing_topic_policy x),
     put_optional ''dryRun'' JBool (ro_dry_run x),
     put_optional ''includeOriginalOffsetHeader'' JBool (ro_include_original_offset_header x),
     put_nonempty ''sourcePartitions'' (enc_list JInt) (ro_source_partitions x),
     put_nonempty ''partitionMapping'' (enc_list enc_partition_mapping) (ro_partition_mapping x),
     put_optional ''parallelism'' JInt (ro_parallelism x),
     put_optional ''rateLimitRecordsPerSec'' JInt (ro_rate_limit_records_per_sec x),
     put_optional ''rateLimitBytesPerSec'' JInt (ro_rate_limit_bytes_per_sec x),
     put_optional ''produceBatchSize'' JInt (ro_produce_batch_size x),
     put_optional ''produceAcks'' JInt (ro_produce_acks x),
     put_optional ''produceTimeoutMs'' JInt (ro_produce_timeout_ms x),
     put_optional ''checkpointState'' JStr (ro_checkpoint_state x),
     put_optional ''checkpointIntervalSecs'' JInt (ro_checkpoint_interval_secs x),
     put_optional ''defaultReplicationFactor'' JInt (ro_default_replication_factor x),
     put_nonempty ''repartitioning'' (enc_list enc_repartitioning) (ro_repartitioning x),
     put_optional ''purgeTopics'' JBool (ro_purge_topics x)])"

interpretation restore_options: codec dec_restore_options enc_restore_options
  unfolding dec_restore_options_def enc_restore_options_def
  by (rule codec_structI) (auto simp: codec_simps simp del: map_of_append dest!: kept_dest)

definition dec_restore_spec :: "Formats \<Rightarrow> json \<Rightarrow> KafkaRestoreSpec option" where
  "dec_restore_spec F = dec_struct (\<lambda>g.
     and_then (as_required dec_cluster_ref (g ''strimziClusterRef'')) (\<lambda>strimzi_cluster_ref.
     and_then (as_optional dec_authentication (g ''authentication'')) (\<lambda>authentication.
     and_then (as_required dec_backup_ref (g ''backupRef'')) (\<lambda>backup_ref.
     and_then (as_optional dec_topic_selection (g ''topics'')) (\<lambda>topics.
     and_then (as_optional dec_point_in_time (g ''pointInTime'')) (\<lambda>point_in_time.
     and_then (as_optional dec_connection (g ''connection'')) (\<lambda>connection.
     and_then (as_optional dec_logging (g ''logging'')) (\<lambda>logging.
     and_then (as_default (dec_list dec_value) [] (g ''env'')) (\<lambda>env.
     and_then (as_default (dec_list dec_topic_mapping) [] (g ''topicMapping'')) (\<lambda>topic_mapping.
     and_then (as_optional dec_group_restore (g ''consumerGroups'')) (\<lambda>consumer_groups.
     and_then (as_optional dec_restore_options (g ''restore'')) (\<lambda>restore.
     and_then (as_optional dec_metrics (g ''metrics'')) (\<lambda>metrics.
     and_then (as_optional dec_resources (g ''resources'')) (\<lambda>resources.
     and_then (as_optional (dec_template F) (g ''template'')) (\<lambda>template.
     and_then (as_optional dec_str (g ''image'')) (\<lambda>image.
     and_then (as_optional dec_i32 (g ''backoffLimit'')) (\<lambda>backoff_limit.
     Some \<lparr>kr_strimzi_cluster_ref = strimzi_cluster_ref, kr_authentication = authentication,
       kr_backup_ref = backup_ref, kr_topics = topics, kr_point_in_time = point_in_time,
       kr_connection = connection, kr_logging = logging, kr_env = env,
       kr_topic_mapping = topic_mapping, kr_consumer_groups = consumer_groups, kr_restore = restore,
       kr_metrics = metrics, kr_resources = resources, kr_template = template, kr_image = image,
       kr_backoff_limit = backoff_limit\<rparr>)))))))))))))))))"

definition enc_restore_spec :: "Formats \<Rightarrow> KafkaRestoreSpec \<Rightarrow> json" where
  "enc_restore_spec F = enc_struct (\<lambda>x. [
     put_required ''strimziClusterRef'' enc_cluster_ref (kr_strimzi_cluster_ref x),
     put_optional ''authentication'' enc_authentication (kr_authentication x),
     put_required ''backupRef'' enc_backup_ref (kr_backup_ref x),
     put_optional ''topics'' enc_topic_selection (kr_topics x),
     put_optional ''pointInTime'' enc_point_in_time (kr_point_in_time x),
     put_optional ''connection'' enc_connection (kr_connection x),
     put_optional ''logging'' enc_logging (kr_logging x),
     put_nonempty ''env'' (enc_list enc_value) (kr_env x),
     put_nonempty ''topicMapping'' (enc_list enc_topic_mapping) (kr_topic_mapping x),
     put_optional ''consumerGroups'' enc_group_restore (kr_consumer_groups x),
     put_optional ''restore'' enc_restore_options (kr_restore x),
     put_optional ''metrics'' enc_metrics (kr_metrics x),
     put_optional ''resources'' enc_resources (kr_resources x),
     put_optional ''template'' (enc_template F) (kr_template x),
     put_optional ''image'' JStr (kr_image x),
     put_optional ''backoffLimit'' JInt (kr_backoff_limit x)])"

lemma codec_restore_spec:
  assumes "lawful F"
  shows "codec (dec_restore_spec F) (enc_restore_spec F)"
  unfolding dec_restore_spec_def enc_restore_spec_def
  by (rule codec_structI)
     (auto simp: codec_simps simp del: map_of_append dest!: kept_dest
       codec.optional [OF codec_template [OF assms]])

section \<open>Statuses\<close>

definition dec_condition :: "Formats \<Rightarrow> json \<Rightarrow> Condition option" where
  "dec_condition F = dec_struct (\<lambda>g.
     and_then (as_required dec_str (g ''type'')) (\<lambda>x_type.
     and_then (as_required dec_str (g ''status'')) (\<lambda>status.
     and_then (as_optional dec_str (g ''reason'')) (\<lambda>reason.
     and_then (as_optional dec_str (g ''message'')) (\<lambda>message.
     and_then (as_optional (dec_time F) (g ''lastTransitionTime'')) (\<lambda>last_transition_time.
     Some \<lparr>cd_type = x_type, cd_status = status, cd_reason = reason, cd_message = message,
       cd_last_transition_time = last_transition_time\<rparr>))))))"

definition enc_condition :: "Formats \<Rightarrow> Condition \<Rightarrow> json" where
  "enc_condition F = enc_struct (\<lambda>x. [
     put_required ''type'' JStr (cd_type x),
     put_required ''status'' JStr (cd_status x),
     put_optional ''reason'' JStr (cd_reason x),
     put_optional ''message'' JStr (cd_message x),
     put_optional ''lastTransitionTime'' (enc_time F) (cd_last_transition_time x)])"

lemma codec_condition:
  assumes "lawful F"
  shows "codec (dec_condition F) (enc_condition F)"
  unfolding dec_condition_def enc_condition_def
  by (rule codec_structI)
     (auto simp: codec_simps simp del: map_of_append dest!: kept_dest
       codec.optional [OF codec_time [OF assms]])

definition dec_history_entry :: "Formats \<Rightarrow> json \<Rightarrow> BackupHistoryEntry option" where
  "dec_history_entry F = dec_struct (\<lambda>g.
     and_then (as_required dec_str (g ''id'')) (\<lambda>id.
     and_then (as_required dec_backup_status_value (g ''status'')) (\<lambda>status.
     and_then (as_required (dec_time F) (g ''startTime'')) (\<lambda>start_time.
     and_then (as_optional (dec_time F) (g ''completionTime'')) (\<lambda>completion_time.
     and_then (as_optional dec_i64 (g ''sizeBytes'')) (\<lambda>size_bytes.
     and_then (as_optional dec_i32 (g ''topicsBackedUp'')) (\<lambda>topics_backed_up.
     and_then (as_optional dec_i32 (g ''partitionsBackedUp'')) (\<lambda>partitions_backed_up.
     Some \<lparr>he_id = id, he_status = status, he_start_time = start_time,
       he_completion_time = completion_time, he_size_bytes = size_bytes,
       he_topics_backed_up = topics_backed_up, he_partitions_backed_up = partitions_backed_up\<rparr>))))))))"

definition enc_history_entry :: "Formats \<Rightarrow> BackupHistoryEntry \<Rightarrow> json" where
  "enc_history_entry F = enc_struct (\<lambda>x. [
     put_required ''id'' JStr (he_id x),
     put_required ''status'' enc_backup_status_value (he_status x),
     put_required ''startTime'' (enc_time F) (he_start_time x),
     put_optional ''completionTime'' (enc_time F) (he_completion_time x),
     put_optional ''sizeBytes'' JInt (he_size_bytes x),
     put_optional ''topicsBackedUp'' JInt (he_topics_backed_up x),
     put_optional ''partitionsBackedUp'' JInt (he_partitions_backed_up x)])"

lemma codec_history_entry:
  assumes "lawful F"
  shows "codec (dec_history_entry F) (enc_history_entry F)"
  unfolding dec_history_entry_def enc_history_entry_def
  by (rule codec_structI)
     (auto simp: codec_simps simp del: map_of_append dest!: kept_dest
       codec.required [OF codec_time [OF assms]]
       codec.optional [OF codec_time [OF assms]])

definition dec_last_backup :: "Formats \<Rightarrow> json \<Rightarrow> LastBackupInfo option" where
  "dec_last_backup F = dec_struct (\<lambda>g.
     and_then (as_required dec_str (g ''id'')) (\<lambda>id.
     and_then (as_required (dec_time F) (g ''startTime'')) (\<lambda>start_time.
     and_then (as_optional (dec_time F) (g ''completionTime'')) (\<lambda>completion_time.
     and_then (as_required dec_backup_status_value (g ''status'')) (\<lambda>status.
     and_then (as_optional dec_i64 (g ''sizeBytes'')) (\<lambda>size_bytes.
     and_then (as_optional dec_i32 (g ''topicsBackedUp'')) (\<lambda>topics_backed_up.
     and_then (as_optional dec_i32 (g ''partitionsBackedUp'')) (\<lambda>partitions_backed_up.
     and_then (as_optional (dec_time F) (g ''oldestTimestamp'')) (\<lambda>oldest_timestamp.
     and_then (as_optional (dec_time F) (g ''newestTimestamp'')) (\<lambda>newest_timestamp.
     Some \<lparr>lb_id = id, lb_start_time = start_time, lb_completion_time = completion_time,
       lb_status = status, lb_size_bytes = size_bytes, lb_topics_backed_up = topics_backed_up,
       lb_partitions_backed_up = partitions_backed_up, lb_oldest_timestamp = oldest_timestamp,
       lb_newest_timestamp = newest_timestamp\<rparr>))))))))))"

definition enc_last_backup :: "Formats \<Rightarrow> LastBackupInfo \<Rightarrow> json" where
  "enc_last_backup F = enc_struct (\<lambda>x. [
     put_required ''id'' JStr (lb_id x),
     put_required ''startTime'' (enc_time F) (lb_start_time x),
     put_optional ''completionTime'' (enc_time F) (lb_completion_time x),
     put_required ''status'' enc_backup_status_value (lb_status x),
     put_optional ''sizeBytes'' JInt (lb_size_bytes x),
     put_optional ''topicsBackedUp'' JInt (lb_topics_backed_up x),
     put_optional ''partitionsBackedUp'' JInt (lb_partitions_backed_up x),
     put_optional ''oldestTimestamp'' (enc_time F) (lb_oldest_timestamp x),
     put_optional ''newestTimestamp'' (enc_time F) (lb_newest_timestamp x)])"

lemma codec_last_backup:
  assumes "lawful F"
  shows "codec (dec_last_backup F) (enc_last_backup F)"
  unfolding dec_last_backup_def enc_last_backup_def
  by (rule codec_structI)
     (auto simp: codec_simps simp del: map_of_append dest!: kept_dest
       codec.required [OF codec_time [OF assms]]
       codec.optional [OF codec_time [OF assms]])

definition dec_restore_info :: "Formats \<Rightarrow> json \<Rightarrow> RestoreInfo option" where
  "dec_restore_info F = dec_struct (\<lambda>g.
     and_then (as_required (dec_time F) (g ''startTime'')) (\<lambda>start_time.
     and_then (as_optional (dec_time F) (g ''completionTime'')) (\<lambda>completion_time.
     and_then (as_required dec_restore_status_value (g ''status'')) (\<lambda>status.
     and_then (as_optional dec_i32 (g ''restoredTopics'')) (\<lambda>restored_topics.
     and_then (as_optional dec_i32 (g ''restoredPartitions'')) (\<lambda>restored_partitions.
     and_then (as_optional dec_i64 (g ''restoredBytes'')) (\<lambda>restored_bytes.
     and_then (as_optional (dec_time F) (g ''pointInTimeTarget'')) (\<lambda>point_in_time_target.
     and_then (as_optional (dec_time F) (g ''actualPointInTime'')) (\<lambda>actual_point_in_time.
     Some \<lparr>ri_start_time = start_time, ri_completion_time = completion_time, ri_status = status,
       ri_restored_topics = restored_topics, ri_restored_partitions = restored_partitions,
       ri_restored_bytes = restored_bytes, ri_point_in_time_target = point_in_time_target,
       ri_actual_point_in_time = actual_point_in_time\<rparr>)))))))))"

definition enc_restore_info :: "Formats \<Rightarrow> RestoreInfo \<Rightarrow> json" where
  "enc_restore_info F = enc_struct (\<lambda>x. [
     put_required ''startTime'' (enc_time F) (ri_start_time x),
     put_optional ''completionTime'' (enc_time F) (ri_completion_time x),
     put_required ''status'' enc_restore_status_value (ri_status x),
     put_optional ''restoredTopics'' JInt (ri_restored_topics x),
     put_optional ''restoredPartitions'' JInt (ri_restored_partitions x),
     put_optional ''restoredBytes'' JInt (ri_restored_bytes x),
     put_optional ''pointInTimeTarget'' (enc_time F) (ri_point_in_time_target x),
     put_optional ''actualPointInTime'' (enc_time F) (ri_actual_point_in_time x)])"

lemma codec_restore_info:
  assumes "lawful F"
  shows "codec (dec_restore_info F) (enc_restore_info F)"
  unfolding dec_restore_info_def enc_restore_info_def
  by (rule codec_structI)
     (auto simp: codec_simps simp del: map_of_append dest!: kept_dest
       codec.required [OF codec_time [OF assms]]
       codec.optional [OF codec_time [OF assms]])

definition dec_backup_status :: "Formats \<Rightarrow> json \<Rightarrow> KafkaBackupStatus option" where
  "dec_backup_status F = dec_struct (\<lambda>g.
     and_then (as_default (dec_list (dec_condition F)) [] (g ''conditions'')) (\<lambda>conditions.
     and_then (as_optional (dec_last_backup F) (g ''lastBackup'')) (\<lambda>last_backup.
     and_then (as_default (dec_list (dec_history_entry F)) [] (g ''backupHistory'')) (\<lambda>backup_history.
     and_then (as_optional dec_i64 (g ''observedGeneration'')) (\<lambda>observed_generation.
     and_then (as_optional dec_str (g ''nextScheduledBackup'')) (\<lambda>next_scheduled_backup.
     Some \<lparr>bs_conditions = conditions, bs_last_backup = last_backup,
       bs_backup_history = backup_history, bs_observed_generation = observed_generation,
       bs_next_scheduled_backup = next_scheduled_backup\<rparr>))))))"

definition enc_backup_status :: "Formats \<Rightarrow> KafkaBackupStatus \<Rightarrow> json" where
  "enc_backup_status F = enc_struct (\<lambda>x. [
     put_nonempty ''conditions'' (enc_list (enc_condition F)) (bs_conditions x),
     put_optional ''lastBackup'' (enc_last_backup F) (bs_last_backup x),
     put_nonempty ''backupHistory'' (enc_list (enc_history_entry F)) (bs_backup_history x),
     put_optional ''observedGeneration'' JInt (bs_observed_generation x),
     put_optional ''nextScheduledBackup'' JStr (bs_next_scheduled_backup x)])"

lemma codec_backup_status:
  assumes "lawful F"
  shows "codec (dec_backup_status F) (enc_backup_status F)"
  unfolding dec_backup_status_def enc_backup_status_def
  by (rule codec_structI)
     (auto simp: codec_simps simp del: map_of_append dest!: kept_dest
       codec_list_kept [OF codec_condition [OF assms]]
       codec.optional [OF codec_last_backup [OF assms]]
       codec_list_kept [OF codec_history_entry [OF assms]])

definition dec_restore_status :: "Formats \<Rightarrow> json \<Rightarrow> KafkaRestoreStatus option" where
  "dec_restore_status F = dec_struct (\<lambda>g.
     and_then (as_default (dec_list (dec_condition F)) [] (g ''conditions'')) (\<lambda>conditions.
     and_then (as_optional (dec_restore_info F) (g ''restore'')) (\<lambda>restore.
     and_then (as_optional dec_i64 (g ''observedGeneration'')) (\<lambda>observed_generation.
     Some \<lparr>rs_conditions = conditions, rs_restore = restore,
       rs_observed_generation = observed_generation\<rparr>))))"

definition enc_restore_status :: "Formats \<Rightarrow> KafkaRestoreStatus \<Rightarrow> json" where
  "enc_restore_status F = enc_struct (\<lambda>x. [
     put_nonempty ''conditions'' (enc_list (enc_condition F)) (rs_conditions x),
     put_optional ''restore'' (enc_restore_info F) (rs_restore x),
     put_optional ''observedGeneration'' JInt (rs_observed_generation x)])"

lemma codec_restore_status:
  assumes "lawful F"
  shows "codec (dec_restore_status F) (enc_restore_status F)"
  unfolding dec_restore_status_def enc_restore_status_def
  by (rule codec_structI)
     (auto simp: codec_simps simp del: map_of_append dest!: kept_dest
       codec_list_kept [OF codec_condition [OF assms]]
       codec.optional [OF codec_restore_info [OF assms]])

section \<open>Reading what was written\<close>

text \<open>C40.
  A resource or status that was read survives being written and read again: every field comes back,
  whatever defaults and omissions its type has, except the unsupported encryption settings, which
  are read to be refused and never written.
\<close>

theorem resources_reread:
  assumes "lawful F"
    and "dec_backup_spec F bj = Some bspec" "dec_backup_status F bsj = Some bstatus"
    and "dec_restore_spec F rj = Some rspec" "dec_restore_status F rsj = Some rstatus"
  shows "dec_backup_spec F (enc_backup_spec F bspec) = Some (forget_encryption bspec) \<and>
    dec_backup_status F (enc_backup_status F bstatus) = Some bstatus \<and>
    dec_restore_spec F (enc_restore_spec F rspec) = Some rspec \<and>
    dec_restore_status F (enc_restore_status F rstatus) = Some rstatus"
  using backup_spec_reread [OF assms(1,2)]
    codec.reread [OF codec_backup_status [OF assms(1)] assms(3)]
    codec.reread [OF codec_restore_spec [OF assms(1)] assms(4)]
    codec.reread [OF codec_restore_status [OF assms(1)] assms(5)]
  by simp

text \<open>Instants as decimal numbers, host aliases as they are.\<close>

definition decimal_formats :: Formats where
  "decimal_formats = \<lparr>fm_show_time = string_of_int, fm_read_time = parse_i64, fm_host_alias = Some\<rparr>"

lemma parse_i64_range: "parse_i64 s = Some t \<Longrightarrow> in_i64 t"
  by (auto simp: parse_i64_def Let_def split: if_splits option.splits)

lemma decimal_lawful: "lawful decimal_formats"
  by (auto simp: lawful_def decimal_formats_def dest: parse_i64_range intro: parse_i64_string_of_int)

text \<open>A backup with the refused settings, written with and without its defaults.\<close>

definition written_backup :: "fields \<Rightarrow> json" where
  "written_backup options = JObj
     [(''strimziClusterRef'', JObj [(''name'', JStr ''kafka'')]),
      (''authentication'', JObj [(''type'', JStr ''scram-sha-512''), (''username'', JStr ''u'')]),
      (''storage'', JObj [(''type'', JStr ''filesystem''), (''filesystem'', JObj [(''path'', JStr ''/data'')])]),
      (''backup'', JObj options),
      (''schedule'', JObj [(''cron'', JStr ''0 2 * * *''), (''suspend'', JBool False)])]"

definition written_restore :: json where
  "written_restore = JObj
     [(''strimziClusterRef'', JObj [(''name'', JStr ''kafka'')]),
      (''backupRef'', JObj [(''name'', JStr ''bk'')]),
      (''consumerGroups'', JObj [(''restore'', JBool False)])]"

definition encrypted_options :: fields where
  "encrypted_options = [(''parallelism'', JInt 4),
     (''encryption'', JObj [(''enabled'', JBool True), (''keySecret'', JObj [])])]"

lemma written_backup_read:
  "map_option (\<lambda>s. and_then (kb_backup s) bo_encryption)
     (dec_backup_spec decimal_formats (written_backup encrypted_options)) = Some (Some \<lparr>ue_enabled = True\<rparr>)"
  "map_option (enc_backup_spec decimal_formats)
     (dec_backup_spec decimal_formats (written_backup encrypted_options)) =
   Some (written_backup [(''parallelism'', JInt 4)])"
  "map_option (enc_restore_spec decimal_formats) (dec_restore_spec decimal_formats written_restore) =
   Some written_restore"
  by code_simp+

theorem resources_reread_witness:
  "map_option forget_encryption (dec_backup_spec decimal_formats (written_backup encrypted_options)) =
     dec_backup_spec decimal_formats (written_backup [(''parallelism'', JInt 4)])"
proof -
  obtain b where b: "dec_backup_spec decimal_formats (written_backup encrypted_options) = Some b"
    using written_backup_read(1) by fastforce
  obtain r where r: "dec_restore_spec decimal_formats written_restore = Some r"
    using written_backup_read(3) by fastforce
  have "dec_backup_status decimal_formats (JObj []) = Some default_backup_status"
    "dec_restore_status decimal_formats (JObj []) = Some default_restore_status"
    by code_simp+
  from conjunct1 [OF resources_reread [OF decimal_lawful b this(1) r this(2)]]
  show ?thesis
    using b written_backup_read(2) by simp
qed

end
