(* ===== verification/Merge_Patch.thy ===== *)
theory Merge_Patch
  imports Crd_Codec Status_Merge
begin

text \<open>
  The status patches on the wire. The operator sends them as JSON merge patches (RFC 7386), the
  server keeps the status as JSON, and the next read decodes it. Theory \<open>Status_Merge\<close> says
  what becomes of a status in terms of its fields; here the JSON merge itself is written out and
  the field-wise merge is shown to be exactly what it does to the written status.
\<close>

section \<open>JSON merge patch\<close>

definition set_field :: "string \<Rightarrow> json \<Rightarrow> fields \<Rightarrow> fields" where
  "set_field k v fs = (k, v) # filter (\<lambda>(k', _). k' \<noteq> k) fs"

definition remove_field :: "string \<Rightarrow> fields \<Rightarrow> fields" where
  "remove_field k fs = filter (\<lambda>(k', _). k' \<noteq> k) fs"

fun fields_of :: "json \<Rightarrow> fields" where
  "fields_of (JObj fs) = fs"
| "fields_of j = []"

fun json_merge :: "json \<Rightarrow> json \<Rightarrow> json" and merge_fields :: "fields \<Rightarrow> fields \<Rightarrow> fields" where
  "json_merge t (JObj ps) = JObj (merge_fields (fields_of t) ps)"
| "json_merge t p = p"
| "merge_fields fs [] = fs"
| "merge_fields fs ((k, v) # ps) =
     merge_fields (if v = JNull then remove_field k fs
       else set_field k (json_merge (unwrap_or (map_of fs k) JNull) v) fs) ps"

lemma map_of_set_field: "map_of (set_field k v fs) k' = (if k' = k then Some v else map_of fs k')"
  by (induction fs) (auto simp: set_field_def)

lemma map_of_remove_field: "map_of (remove_field k fs) k' = (if k' = k then None else map_of fs k')"
  by (induction fs) (auto simp: remove_field_def)

text \<open>One field after the merge.\<close>

definition merged :: "json option \<Rightarrow> json option \<Rightarrow> json option" where
  "merged old new = (case new of
     None \<Rightarrow> old
   | Some v \<Rightarrow> if v = JNull then None else Some (json_merge (unwrap_or old JNull) v))"

lemma map_of_merge_fields:
  "distinct (map fst ps) \<Longrightarrow> map_of (merge_fields fs ps) k = merged (map_of fs k) (map_of ps k)"
proof (induction ps arbitrary: fs)
  case Nil
  then show ?case by (simp add: merged_def)
next
  case (Cons p ps)
  obtain k' v where p: "p = (k', v)" by (cases p)
  from Cons.prems have new: "map_of ps k' = None"
    by (simp add: p map_of_eq_None_iff)
  define fs' where "fs' = (if v = JNull then remove_field k' fs
    else set_field k' (json_merge (unwrap_or (map_of fs k') JNull) v) fs)"
  have upd: "map_of fs' k = (if k = k' then merged (map_of fs k') (Some v) else map_of fs k)"
    by (simp add: fs'_def merged_def map_of_set_field map_of_remove_field)
  have "map_of (merge_fields fs (p # ps)) k = merged (map_of fs' k) (map_of ps k)"
    using Cons.IH [of fs'] Cons.prems by (simp add: p fs'_def)
  with new upd show ?case
    by (simp add: p merged_def [of _ None])
qed

section \<open>Structures\<close>

text \<open>A written structure has each of its keys at most once.\<close>

definition has_key :: "fields \<Rightarrow> string \<Rightarrow> bool" where
  "has_key fs k \<longleftrightarrow> fs = [] \<or> (\<exists>v. fs = [(k, v)])"

lemma has_key_put [simp]:
  "has_key (put_required k enc x) k" "has_key (put_optional k enc v) k"
  "has_key (put_nonempty k enc' xs) k"
  by (auto simp: has_key_def put_required_def put_optional_def put_nonempty_def split: option.split)

lemma keys_distinct:
  "list_all2 has_key fss ks \<Longrightarrow> distinct ks \<Longrightarrow>
     distinct (map fst (concat fss)) \<and> (\<forall>x \<in> set (concat fss). fst x \<in> set ks)"
  by (induction fss ks rule: list_all2_induct) (force simp: has_key_def)+

lemma merge_struct:
  assumes "list_all2 has_key (w x) ks" "distinct ks"
  shows "dec_struct f (json_merge t (enc_struct w x)) =
     f (\<lambda>k. merged (map_of (fields_of t) k) (map_of (concat (w x)) k))"
proof -
  have "map_of (merge_fields (fields_of t) (concat (w x))) =
      (\<lambda>k. merged (map_of (fields_of t) k) (map_of (concat (w x)) k))"
    using keys_distinct [OF assms] by (intro ext map_of_merge_fields) blast
  then show ?thesis by (simp add: enc_struct_def)
qed

lemma fields_of_struct [simp]: "fields_of (enc_struct w x) = concat (w x)"
  by (simp add: enc_struct_def)

section \<open>Fields\<close>

definition scalar :: "('a \<Rightarrow> json) \<Rightarrow> bool" where
  "scalar enc \<longleftrightarrow> (\<forall>x t. json_merge t (enc x) = enc x \<and> enc x \<noteq> JNull)"

lemma scalars [simp]:
  "scalar JStr" "scalar JInt" "scalar (enc_time F)" "scalar (enc_list enc)"
  "scalar enc_backup_status_value" "scalar enc_restore_status_value"
  by (simp_all add: scalar_def enc_time_def enc_list_def enc_backup_status_value_def
      enc_restore_status_value_def)

lemma merged_required [codec_simps]:
  "scalar enc \<Longrightarrow> kept dec enc x \<Longrightarrow> as_required dec (merged old (Some (enc x))) = Some x"
  by (simp add: merged_def scalar_def as_required_def kept_def)

lemma merged_optional [codec_simps]:
  assumes "scalar enc" "kept_option dec enc old" "kept_option dec enc new"
  shows "as_optional dec (merged (map_option enc old) (map_option enc new)) = Some (opt_or new old)"
  using assms
  by (cases new; cases old) (auto simp: merged_def scalar_def as_optional_def kept_option_def kept_def)

lemma merged_optional_new [codec_simps]:
  assumes "scalar enc" "kept_option dec enc new"
  shows "as_optional dec (merged None (map_option enc new)) = Some new"
  using assms
  by (cases new) (auto simp: merged_def scalar_def as_optional_def kept_option_def kept_def)

lemma merged_list [codec_simps]:
  assumes "kept dec' (enc_list enc) old" "\<forall>xs \<in> set_option new. kept dec' (enc_list enc) xs"
  shows "as_default dec' [] (merged (nonempty (enc_list enc) old) (map_option (enc_list enc) new)) =
     Some (unwrap_or new old)"
  using assms
  by (cases new)
     (auto simp: merged_def as_default_def nonempty_def kept_def enc_list_def)

text \<open>\<open>nextScheduledBackup\<close>: set, cleared by null, or left alone.\<close>

definition enc_next :: "string option \<Rightarrow> json" where
  "enc_next v = (case v of None \<Rightarrow> JNull | Some s \<Rightarrow> JStr s)"

lemma merged_next [codec_simps]:
  "as_optional dec_str (merged (map_option JStr old) (map_option enc_next new)) =
     Some (unwrap_or new old)"
  by (cases new; cases old) (auto simp: merged_def enc_next_def as_optional_def split: option.splits)

section \<open>The patches\<close>

text \<open>
  A patch as the operator writes it: \<open>json!({"status": status})\<close> for a whole status, or the
  hand-written objects of \<open>update\_status\_suspended\<close> and \<open>patch\_backup\_history\<close>.
\<close>

definition backup_patch_json :: "Formats \<Rightarrow> BackupStatusPatch \<Rightarrow> json" where
  "backup_patch_json F = enc_struct (\<lambda>p. [
     put_optional ''conditions'' (enc_list (enc_condition F)) (bsp_conditions p),
     put_optional ''lastBackup'' (enc_last_backup F) (bsp_last_backup p),
     put_optional ''backupHistory'' (enc_list (enc_history_entry F)) (bsp_backup_history p),
     put_optional ''observedGeneration'' JInt (bsp_observed_generation p),
     put_optional ''nextScheduledBackup'' enc_next (bsp_next_scheduled_backup p)])"

definition restore_patch_json :: "Formats \<Rightarrow> RestoreStatusPatch \<Rightarrow> json" where
  "restore_patch_json F = enc_struct (\<lambda>p. [
     put_optional ''conditions'' (enc_list (enc_condition F)) (rsp_conditions p),
     put_optional ''restore'' (enc_restore_info F) (rsp_restore p),
     put_optional ''observedGeneration'' JInt (rsp_observed_generation p)])"

lemma put_vec_field: "put_optional k (enc_list enc) (vec_field xs) = put_nonempty k (enc_list enc) xs"
  by (simp add: put_optional_def put_nonempty_def vec_field_def)

lemma put_next: "put_optional k enc_next (map_option Some v) = put_optional k JStr v"
  by (simp add: put_optional_def enc_next_def split: option.split)

text \<open>Serialising a whole status gives the patch of theory \<open>K8s\<close>: empty fields are left out.\<close>

lemma whole_status_patch:
  "enc_backup_status F st = backup_patch_json F (backup_status_patch st)"
  "enc_restore_status F st' = restore_patch_json F (restore_status_patch st')"
  by (simp_all add: enc_backup_status_def enc_restore_status_def backup_patch_json_def
      restore_patch_json_def backup_status_patch_def restore_status_patch_def enc_struct_def
      put_vec_field put_next)

text \<open>What a patch carries can be read back: integers in range, instants that have a text.\<close>

definition backup_patch_readable :: "Formats \<Rightarrow> BackupStatusPatch \<Rightarrow> bool" where
  "backup_patch_readable F p \<longleftrightarrow>
     (\<forall>cs \<in> set_option (bsp_conditions p). kept (dec_list (dec_condition F)) (enc_list (enc_condition F)) cs) \<and>
     (\<forall>b \<in> set_option (bsp_last_backup p). kept (dec_last_backup F) (enc_last_backup F) b) \<and>
     (\<forall>h \<in> set_option (bsp_backup_history p).
        kept (dec_list (dec_history_entry F)) (enc_list (enc_history_entry F)) h) \<and>
     (\<forall>n \<in> set_option (bsp_observed_generation p). kept dec_i64 JInt n)"

definition restore_patch_readable :: "Formats \<Rightarrow> RestoreStatusPatch \<Rightarrow> bool" where
  "restore_patch_readable F p \<longleftrightarrow>
     (\<forall>cs \<in> set_option (rsp_conditions p). kept (dec_list (dec_condition F)) (enc_list (enc_condition F)) cs) \<and>
     (\<forall>b \<in> set_option (rsp_restore p). kept (dec_restore_info F) (enc_restore_info F) b) \<and>
     (\<forall>n \<in> set_option (rsp_observed_generation p). kept dec_i64 JInt n)"

section \<open>The merge on the wire\<close>

lemma merged_last_backup:
  assumes "lawful F" "kept_option (dec_last_backup F) (enc_last_backup F) old"
    and "kept (dec_last_backup F) (enc_last_backup F) new"
  shows "dec_last_backup F (json_merge (unwrap_or (map_option (enc_last_backup F) old) JNull)
     (enc_last_backup F new)) = Some (merge_last_backup old new)"
proof -
  let ?ks = "[''id'', ''startTime'', ''completionTime'', ''status'', ''sizeBytes'',
    ''topicsBackedUp'', ''partitionsBackedUp'', ''oldestTimestamp'', ''newestTimestamp'']"
  note time = codec.optional [OF codec_time [OF assms(1)]] codec.required [OF codec_time [OF assms(1)]]
  have new: "dec_last_backup F (enc_last_backup F new) = Some new"
    using assms(3) by (simp add: kept_def)
  show ?thesis
  proof (cases old)
    case None
    show ?thesis
      using new unfolding dec_last_backup_def enc_last_backup_def
      by (subst merge_struct [where ks = ?ks])
         (auto simp: None merge_last_backup_def codec_simps simp del: map_of_append dest!: kept_dest time)
  next
    case (Some b)
    have "dec_last_backup F (enc_last_backup F b) = Some b"
      using assms(2) by (simp add: Some kept_option_def kept_def)
    with new show ?thesis
      unfolding dec_last_backup_def enc_last_backup_def
      by (subst merge_struct [where ks = ?ks])
         (auto simp: Some merge_last_backup_def codec_simps simp del: map_of_append dest!: kept_dest time)
  qed
qed

lemma merged_restore_info:
  assumes "lawful F" "kept_option (dec_restore_info F) (enc_restore_info F) old"
    and "kept (dec_restore_info F) (enc_restore_info F) new"
  shows "dec_restore_info F (json_merge (unwrap_or (map_option (enc_restore_info F) old) JNull)
     (enc_restore_info F new)) = Some (merge_restore_info old new)"
proof -
  let ?ks = "[''startTime'', ''completionTime'', ''status'', ''restoredTopics'',
    ''restoredPartitions'', ''restoredBytes'', ''pointInTimeTarget'', ''actualPointInTime'']"
  note time = codec.optional [OF codec_time [OF assms(1)]] codec.required [OF codec_time [OF assms(1)]]
  have new: "dec_restore_info F (enc_restore_info F new) = Some new"
    using assms(3) by (simp add: kept_def)
  show ?thesis
  proof (cases old)
    case None
    show ?thesis
      using new unfolding dec_restore_info_def enc_restore_info_def
      by (subst merge_struct [where ks = ?ks])
         (auto simp: None merge_restore_info_def codec_simps simp del: map_of_append dest!: kept_dest time)
  next
    case (Some b)
    have "dec_restore_info F (enc_restore_info F b) = Some b"
      using assms(2) by (simp add: Some kept_option_def kept_def)
    with new show ?thesis
      unfolding dec_restore_info_def enc_restore_info_def
      by (subst merge_struct [where ks = ?ks])
         (auto simp: Some merge_restore_info_def codec_simps simp del: map_of_append dest!: kept_dest time)
  qed
qed

lemma merged_structures:
  assumes "lawful F"
  shows "kept_option (dec_last_backup F) (enc_last_backup F) old \<Longrightarrow>
      \<forall>b \<in> set_option new. kept (dec_last_backup F) (enc_last_backup F) b \<Longrightarrow>
      as_optional (dec_last_backup F) (merged (map_option (enc_last_backup F) old)
        (map_option (enc_last_backup F) new)) =
      Some (case new of None \<Rightarrow> old | Some b \<Rightarrow> Some (merge_last_backup old b))"
    and "kept_option (dec_restore_info F) (enc_restore_info F) old' \<Longrightarrow>
      \<forall>b \<in> set_option new'. kept (dec_restore_info F) (enc_restore_info F) b \<Longrightarrow>
      as_optional (dec_restore_info F) (merged (map_option (enc_restore_info F) old')
        (map_option (enc_restore_info F) new')) =
      Some (case new' of None \<Rightarrow> old' | Some b \<Rightarrow> Some (merge_restore_info old' b))"
proof -
  have obj: "json_merge t (enc_last_backup F b) \<noteq> JNull" "enc_last_backup F b \<noteq> JNull"
    "json_merge t (enc_restore_info F c) \<noteq> JNull" "enc_restore_info F c \<noteq> JNull" for t b c
    by (simp_all add: enc_last_backup_def enc_restore_info_def enc_struct_def)
  {
    assume old: "kept_option (dec_last_backup F) (enc_last_backup F) old"
      and new: "\<forall>b \<in> set_option new. kept (dec_last_backup F) (enc_last_backup F) b"
    show "as_optional (dec_last_backup F) (merged (map_option (enc_last_backup F) old)
        (map_option (enc_last_backup F) new)) =
      Some (case new of None \<Rightarrow> old | Some b \<Rightarrow> Some (merge_last_backup old b))"
      using old new merged_last_backup [OF assms old] kept_simps(2) [OF old]
      by (cases new) (auto simp: merged_def obj as_optional_def)
  }
  {
    assume old: "kept_option (dec_restore_info F) (enc_restore_info F) old'"
      and new: "\<forall>b \<in> set_option new'. kept (dec_restore_info F) (enc_restore_info F) b"
    show "as_optional (dec_restore_info F) (merged (map_option (enc_restore_info F) old')
        (map_option (enc_restore_info F) new')) =
      Some (case new' of None \<Rightarrow> old' | Some b \<Rightarrow> Some (merge_restore_info old' b))"
      using old new merged_restore_info [OF assms old] kept_simps(2) [OF old]
      by (cases new') (auto simp: merged_def obj as_optional_def)
  }
qed

lemma kept_i64_option: "\<forall>n \<in> set_option v. kept dec_i64 JInt n \<Longrightarrow> kept_option dec_i64 JInt v"
  by (simp add: kept_option_def)

lemma backup_status_merged:
  assumes "lawful F" "dec_backup_status F (enc_backup_status F st) = Some st"
    and "backup_patch_readable F p"
  shows "dec_backup_status F (json_merge (enc_backup_status F st) (backup_patch_json F p)) =
     Some (merge_backup_status p st)"
proof -
  let ?ks = "[''conditions'', ''lastBackup'', ''backupHistory'', ''observedGeneration'',
    ''nextScheduledBackup'']"
  note dests = codec.optional [OF codec_last_backup [OF assms(1)]]
    codec_list_kept [OF codec_condition [OF assms(1)]]
    codec_list_kept [OF codec_history_entry [OF assms(1)]]
  show ?thesis
    using assms(2,3)
    unfolding dec_backup_status_def enc_backup_status_def backup_patch_json_def backup_patch_readable_def
    by (subst merge_struct [where ks = ?ks])
       (auto simp: merge_backup_status_def codec_simps merged_structures [OF assms(1)] kept_i64_option
         simp del: map_of_append dest!: kept_dest dests cong: option.case_cong)
qed

lemma restore_status_merged:
  assumes "lawful F" "dec_restore_status F (enc_restore_status F st) = Some st"
    and "restore_patch_readable F p"
  shows "dec_restore_status F (json_merge (enc_restore_status F st) (restore_patch_json F p)) =
     Some (merge_restore_status p st)"
proof -
  let ?ks = "[''conditions'', ''restore'', ''observedGeneration'']"
  note dests = codec.optional [OF codec_restore_info [OF assms(1)]]
    codec_list_kept [OF codec_condition [OF assms(1)]]
  show ?thesis
    using assms(2,3)
    unfolding dec_restore_status_def enc_restore_status_def restore_patch_json_def
      restore_patch_readable_def
    by (subst merge_struct [where ks = ?ks])
       (auto simp: merge_restore_status_def codec_simps merged_structures [OF assms(1)] kept_i64_option
         simp del: map_of_append dest!: kept_dest dests cong: option.case_cong)
qed

section \<open>Properties\<close>

text \<open>C17.
  The field-wise merge of a status is what the JSON merge patch does on the wire: writing a status
  that was read, merging the JSON the operator sends for a patch into it, and reading the result
  gives the merged status, for both kinds and for every patch whose values can be read back. Lists
  are replaced, \<open>lastBackup\<close> and \<open>restore\<close> are merged field by field, and the
  null of a suspended schedule clears \<open>nextScheduledBackup\<close>. A whole status is sent
  without its empty fields.
\<close>

theorem status_merge_on_the_wire:
  assumes "lawful F"
    and "dec_backup_status F bj = Some bst" "backup_patch_readable F bp"
    and "dec_restore_status F rj = Some rst" "restore_patch_readable F rp"
  shows "dec_backup_status F (json_merge (enc_backup_status F bst) (backup_patch_json F bp)) =
      Some (merge_backup_status bp bst) \<and>
    dec_restore_status F (json_merge (enc_restore_status F rst) (restore_patch_json F rp)) =
      Some (merge_restore_status rp rst) \<and>
    enc_backup_status F bst = backup_patch_json F (backup_status_patch bst) \<and>
    enc_restore_status F rst = restore_patch_json F (restore_status_patch rst)"
  using backup_status_merged [OF assms(1) codec.reread [OF codec_backup_status [OF assms(1)] assms(2)] assms(3)]
    restore_status_merged [OF assms(1) codec.reread [OF codec_restore_status [OF assms(1)] assms(4)] assms(5)]
  by (simp add: whole_status_patch)

definition suspend_patch :: BackupStatusPatch where
  "suspend_patch = \<lparr>bsp_conditions = Some [], bsp_last_backup = None, bsp_backup_history = None,
     bsp_observed_generation = Some 3, bsp_next_scheduled_backup = Some None\<rparr>"

definition stored_backup_status :: json where
  "stored_backup_status = JObj [(''nextScheduledBackup'', JStr ''0 2 * * *''),
     (''observedGeneration'', JInt 2), (''unknown'', JBool True)]"

definition generation_patch :: RestoreStatusPatch where
  "generation_patch =
     \<lparr>rsp_conditions = None, rsp_restore = None, rsp_observed_generation = Some 3\<rparr>"

theorem status_merge_on_the_wire_witness:
  "dec_backup_status decimal_formats (json_merge (JObj [(''observedGeneration'', JInt 2),
       (''nextScheduledBackup'', JStr ''0 2 * * *'')])
     (JObj [(''conditions'', JArr []), (''observedGeneration'', JInt 3), (''nextScheduledBackup'', JNull)])) =
   Some (default_backup_status\<lparr>bs_observed_generation := Some 3\<rparr>)"
proof -
  let ?b = "default_backup_status\<lparr>bs_observed_generation := Some 2,
    bs_next_scheduled_backup := Some ''0 2 * * *''\<rparr>"
  have "dec_backup_status decimal_formats stored_backup_status = Some ?b"
    "dec_restore_status decimal_formats (JObj []) = Some default_restore_status"
    "backup_patch_readable decimal_formats suspend_patch"
    "restore_patch_readable decimal_formats generation_patch"
    by code_simp+
  note result = status_merge_on_the_wire [OF decimal_lawful this(1,3,2,4)]
  have "enc_backup_status decimal_formats ?b = JObj [(''observedGeneration'', JInt 2),
      (''nextScheduledBackup'', JStr ''0 2 * * *'')]"
    "backup_patch_json decimal_formats suspend_patch = JObj [(''conditions'', JArr []),
      (''observedGeneration'', JInt 3), (''nextScheduledBackup'', JNull)]"
    "merge_backup_status suspend_patch ?b = default_backup_status\<lparr>bs_observed_generation := Some 3\<rparr>"
    by code_simp+
  then show ?thesis
    using conjunct1 [OF result] by (simp only:)
qed

end
