(* ===== verification/Conformance_Config.thy ===== *)
theory Conformance_Config
  imports Conformance Merge_Patch
begin

text \<open>
  The repository's tests of the two configuration adapters and the three builders, evaluated on
  the model: the unit tests of \<open>src/src/adapters/backup\_config.rs\<close> and
  \<open>src/src/jobs/backup\_job.rs\<close>, and \<open>src/tests/integration/backup\_test.rs\<close> and
  \<open>restore\_test.rs\<close>. Each lemma is one test, under its name. Where a test searches the
  text of a file for a line \<open>key: value\<close>, the lemma looks the key up in the mapping the
  text is made of (\<open>config_at\<close>, by the path of keys).
\<close>

section \<open>Reading a configuration\<close>

fun y_at :: "yaml \<Rightarrow> string list \<Rightarrow> yaml option" where
  "y_at y [] = Some y"
| "y_at (YMap m) (k # ks) = (case y_get m (YStr k) of None \<Rightarrow> None | Some y \<Rightarrow> y_at y ks)"
| "y_at _ (k # ks) = None"

definition config_at :: "Error + ymap \<Rightarrow> string list \<Rightarrow> yaml option" where
  "config_at r path = (case r of Inl e \<Rightarrow> None | Inr m \<Rightarrow> y_at (YMap m) path)"

text \<open>Environment variables of the tests are objects with a name and a value.\<close>

definition env_ext :: Ext where
  "env_ext = sample_ext\<lparr>x_env_var := (\<lambda>j.
     case (and_then (json_get j ''name'') as_str, and_then (json_get j ''value'') as_str) of
       (Some n, Some v) \<Rightarrow> Some (static_env_var n v)
     | _ \<Rightarrow> None)\<rparr>"

definition rust_log :: "string \<Rightarrow> json" where
  "rust_log level = JObj [(''name'', JStr ''RUST_LOG''), (''value'', JStr level)]"

section \<open>Fixtures\<close>

definition cluster_ref :: "string \<Rightarrow> StrimziClusterRef" where
  "cluster_ref name =
     \<lparr>sc_name = name, sc_namespace = None, sc_ca_secret = None, sc_listener = None\<rparr>"

definition s3_storage ::
  "string \<Rightarrow> string \<Rightarrow> string option \<Rightarrow> SecretKeyRef option \<Rightarrow> StorageSpec" where
  "s3_storage bucket region prefix credentials =
     \<lparr>st_type = S3,
      st_s3 = Some \<lparr>s3_bucket = bucket, s3_region = Some region, s3_prefix = prefix,
        s3_endpoint = None, s3_force_path_style = None, s3_allow_http = None,
        s3_credentials_secret = credentials, s3_access_key_secret = None,
        s3_secret_key_secret = None\<rparr>,
      st_azure = None, st_gcs = None, st_filesystem = None\<rparr>"

definition zstd_options :: BackupOptionsSpec where
  "zstd_options =
     \<lparr>bo_compression = Some ''zstd'', bo_compression_level = None, bo_encryption = None,
      bo_segment_size = Some 268435456, bo_segment_max_interval_ms = None,
      bo_parallelism = Some 4, bo_start_offset = None, bo_continuous = None,
      bo_include_internal_topics = None, bo_internal_topics = [],
      bo_checkpoint_interval_secs = None, bo_sync_interval_secs = None,
      bo_include_offset_headers = None, bo_source_cluster_id = None,
      bo_stop_at_current_offsets = None, bo_poll_interval_ms = None,
      bo_consumer_group_snapshot = None\<rparr>"

definition plain_spec :: "string \<Rightarrow> StorageSpec \<Rightarrow> KafkaBackupSpec" where
  "plain_spec cluster storage =
     sample_backup_spec\<lparr>kb_strimzi_cluster_ref := cluster_ref cluster, kb_storage := storage\<rparr>"

definition kafka_meta :: "string \<Rightarrow> string option \<Rightarrow> ObjectMeta" where
  "kafka_meta name uid =
     empty_meta\<lparr>om_name := Some name, om_namespace := Some ''kafka'', om_uid := uid\<rparr>"

definition config_backup :: KafkaBackup where
  "config_backup =
     \<lparr>kbr_metadata = kafka_meta ''test-backup'' None,
      kbr_spec = (plain_spec ''my-cluster'' (s3_storage ''test-bucket'' ''us-east-1'' None None))
        \<lparr>kb_topics := Some \<lparr>ts_include = [''orders.*''], ts_exclude = [''__.*'']\<rparr>,
         kb_backup := Some zstd_options\<rparr>,
      kbr_status = None\<rparr>"

definition tls_cluster :: "string \<Rightarrow> string \<Rightarrow> ResolvedKafkaCluster" where
  "tls_cluster name servers =
     \<lparr>kcl_name = name, kcl_namespace = ''kafka'', kcl_bootstrap_servers = servers,
      kcl_replicas = 3, kcl_tls_enabled = True, kcl_listener_name = ''tls''\<rparr>"

definition config_cluster :: ResolvedKafkaCluster where
  "config_cluster = tls_cluster ''my-cluster'' ''my-cluster-kafka-bootstrap.kafka.svc:9093''"

definition with_spec :: "(KafkaBackupSpec \<Rightarrow> KafkaBackupSpec) \<Rightarrow> KafkaBackup \<Rightarrow> KafkaBackup" where
  "with_spec f backup = backup\<lparr>kbr_spec := f (kbr_spec backup)\<rparr>"

section \<open>adapters/backup\_config.rs\<close>

lemma test_build_backup_config:
  "let config = backup_config_map config_backup config_cluster RNone in
     config_at config [''mode''] = Some (YStr ''backup'') \<and>
     config_at config [''source'', ''bootstrap_servers''] =
      Some (YSeq [YStr ''my-cluster-kafka-bootstrap.kafka.svc:9093'']) \<and>
     config_at config [''source'', ''topics'', ''include''] = Some (YSeq [YStr ''orders.*''])"
  by code_simp

text \<open>The test writes the resource as JSON, sets the field an older schema let in, and reads it.\<close>

definition stale_options :: json where
  "stale_options = JObj [(''backup'', JObj [(''encryption'', JObj [(''enabled'', JBool True),
     (''keySecret'', JObj [(''name'', JStr ''backup-encryption-key''), (''key'', JStr ''aes-256-key'')])])])]"

lemma test_build_backup_config_rejects_encryption_from_stale_crd:
  "map_option (\<lambda>spec. backup_config_map (with_spec (\<lambda>_. spec) config_backup) config_cluster RNone)
     (dec_backup_spec decimal_formats
       (json_merge (enc_backup_spec decimal_formats (kbr_spec config_backup)) stale_options)) =
   Some (Inl (EInvalidConfig ''spec.backup.encryption is an Enterprise Edition capability and is not supported by the OSS Strimzi operator''))"
  by code_simp

definition logging_spec :: "string \<Rightarrow> string \<Rightarrow> string option \<Rightarrow> string btree \<Rightarrow> LoggingSpec" where
  "logging_spec level format output modules =
     \<lparr>lg_level = Some level, lg_format = Some format, lg_output = output, lg_modules = modules,
      lg_rotation = None\<rparr>"

lemma test_build_backup_config_includes_logging:
  "let config = backup_config_map (with_spec (\<lambda>s. s\<lparr>kb_logging := Some (logging_spec ''warn''
       ''json'' (Some ''stderr'') [(''kafka_backup'', ''debug''), (''rdkafka'', ''info'')])\<rparr>)
     config_backup) config_cluster RNone in
     config_at config [''logging'', ''level''] = Some (YStr ''warn'') \<and>
     config_at config [''logging'', ''format''] = Some (YStr ''json'') \<and>
     config_at config [''logging'', ''output''] = Some (YStr ''stderr'') \<and>
     config_at config [''logging'', ''modules'', ''kafka_backup''] = Some (YStr ''debug'') \<and>
     config_at config [''logging'', ''modules'', ''rdkafka''] = Some (YStr ''info'')"
  by code_simp

definition keep_alive_metrics :: MetricsSpec where
  "keep_alive_metrics = default_metrics\<lparr>ms_enabled := Some True, ms_keep_alive_seconds := Some 60\<rparr>"

lemma test_build_backup_config_includes_metrics_keep_alive:
  "config_at (backup_config_map (with_spec (\<lambda>s. s\<lparr>kb_metrics := Some keep_alive_metrics\<rparr>)
       config_backup) config_cluster RNone) [''metrics'', ''keep_alive_seconds''] = Some (YNum 60)"
  by code_simp

definition scram_user :: ResolvedAuth where
  "scram_user = RScramSha512 ''kafka-backup'' ''kafka-backup'' ''password''"

lemma test_scram_auth_emits_binary_compatible_sasl_mechanism:
  "config_at (backup_config_map config_backup config_cluster scram_user)
     [''source'', ''security'', ''sasl_mechanism''] = Some (YStr ''SCRAM-SHA512'')"
  by code_simp

lemma test_default_backup_id_uses_env_var:
  "config_at (backup_config_map config_backup config_cluster RNone) [''backup_id''] =
     Some (YStr ''${BACKUP_ID}'')"
  by code_simp

definition offsets_at :: "int option \<Rightarrow> KafkaBackupSpec \<Rightarrow> KafkaBackupSpec" where
  "offsets_at interval spec = spec\<lparr>kb_offset_storage := Some
     \<lparr>os_backend = None, os_db_path = Some ''/tmp/offsets.db'', os_s3_key = None,
      os_sync_interval_secs = interval\<rparr>\<rparr>"

lemma test_incremental_one_shot_uses_stable_backup_id:
  "let config = backup_config_map (with_spec (offsets_at (Some 30)) config_backup)
     config_cluster RNone in
     config_at config [''backup_id''] = Some (YStr ''test-backup'') \<and>
     config_at config [''offset_storage'', ''db_path''] = Some (YStr ''/tmp/offsets.db'')"
  by code_simp

lemma test_continuous_mode_keeps_env_var_backup_id:
  "config_at (backup_config_map (with_spec (\<lambda>s. offsets_at None s
       \<lparr>kb_backup := Some (zstd_options\<lparr>bo_continuous := Some True\<rparr>)\<rparr>) config_backup)
     config_cluster RNone) [''backup_id''] = Some (YStr ''${BACKUP_ID}'')"
  by code_simp

lemma test_offset_storage_absent_keeps_env_var_backup_id:
  "let config = backup_config_map config_backup config_cluster RNone in
     config_at config [''backup_id''] = Some (YStr ''${BACKUP_ID}'') \<and>
     config_at config [''offset_storage''] = None"
  by code_simp

section \<open>adapters/storage\_config.rs\<close>

definition prefixed_storage :: StorageSpec where
  "prefixed_storage = s3_storage ''my-bucket'' ''us-east-1'' (Some ''backups/'')
     (Some \<lparr>sk_name = ''aws-creds'', sk_key = ''credentials''\<rparr>)"

lemma test_build_s3_config:
  "config_at (build_storage_config prefixed_storage) [''backend''] = Some (YStr ''s3'')"
  "config_at (build_storage_config prefixed_storage) [''bucket''] = Some (YStr ''my-bucket'')"
  "config_at (build_storage_config prefixed_storage) [''region''] = Some (YStr ''us-east-1'')"
  by code_simp+

section \<open>jobs/backup\_job.rs\<close>

definition pod_volume_names :: "PodSpec option \<Rightarrow> string list" where
  "pod_volume_names p = map vo_name (unwrap_or (and_then p ps_volumes) [])"

definition first_container :: "PodSpec option \<Rightarrow> Container option" where
  "first_container p =
     (case p of Some s \<Rightarrow> (case ps_containers s of c # _ \<Rightarrow> Some c | [] \<Rightarrow> None) | None \<Rightarrow> None)"

definition pod_env :: "PodSpec option \<Rightarrow> EnvVar list" where
  "pod_env p = unwrap_or (and_then (first_container p) ct_env) []"

definition pod_account :: "PodSpec option \<Rightarrow> string option" where
  "pod_account p = and_then p ps_service_account_name"

definition metrics_port :: "PodSpec option \<Rightarrow> int option" where
  "metrics_port p =
     map_option cp_container_port
       (and_then (and_then (first_container p) ct_ports)
         (List.find (\<lambda>port. cp_name port = Some ''metrics'')))"

definition job_pod_labels :: "Job \<Rightarrow> string btree" where
  "job_pod_labels job =
     unwrap_or (and_then (and_then (jb_spec job) (\<lambda>s. pts_metadata (js_template s))) om_labels) []"

definition job_backoff :: "Job \<Rightarrow> int option" where
  "job_backoff job = and_then (jb_spec job) js_backoff_limit"

definition basic_backup :: KafkaBackup where
  "basic_backup =
     \<lparr>kbr_metadata = kafka_meta ''test-backup'' (Some ''test-uid''),
      kbr_spec = plain_spec ''my-cluster'' (s3_storage ''test-bucket'' ''us-east-1'' None
        (Some \<lparr>sk_name = ''aws-creds'', sk_key = ''credentials''\<rparr>)),
      kbr_status = None\<rparr>"

definition operator_account :: "string option" where
  "operator_account = Some ''strimzi-backup-operator''"

lemma test_build_backup_job_basic:
  "let job = build_backup_job env_ext basic_backup ''test-backup-20240101''
     ''test-backup-config'' (tls_cluster ''my-cluster'' ''my-cluster-kafka-bootstrap:9093'') RNone
     operator_account in
     om_name (jb_metadata job) = Some ''test-backup-20240101'' \<and>
     om_namespace (jb_metadata job) = Some ''kafka'' \<and>
     bt_get (job_labels job) ''strimzi.io/cluster'' = Some ''my-cluster'' \<and>
     bt_get (job_labels job) ''kafkabackup.com/type'' = Some ''backup'' \<and>
     map_option ct_name (first_container (job_pod job)) = Some ''backup'' \<and>
     and_then (first_container (job_pod job)) ct_image = Some DEFAULT_BACKUP_IMAGE \<and>
     and_then (job_pod job) ps_restart_policy = Some ''Never'' \<and>
     pod_volume_names (job_pod job) = [''config'', ''cluster-ca'', ''storage-credentials'']"
  by code_simp

section \<open>tests/integration/backup\_test.rs\<close>

definition production_storage :: StorageSpec where
  "production_storage = s3_storage ''my-kafka-backups'' ''eu-west-1''
     (Some ''strimzi/production-cluster/'')
     (Some \<lparr>sk_name = ''backup-s3-credentials'', sk_key = ''aws-credentials''\<rparr>)"

definition daily_backup :: KafkaBackup where
  "daily_backup =
     \<lparr>kbr_metadata = kafka_meta ''daily-backup'' (Some ''test-uid-12345''),
      kbr_spec = (plain_spec ''production-cluster'' production_storage)
        \<lparr>kb_topics := Some \<lparr>ts_include = [''orders.*'', ''payments.*''], ts_exclude = [''__.*'']\<rparr>,
         kb_backup := Some zstd_options,
         kb_schedule := Some \<lparr>sd_cron = ''0 2 * * *'', sd_timezone = Some ''UTC'',
           sd_suspend = False\<rparr>,
         kb_retention := Some \<lparr>rt_max_backups = Some 30, rt_max_age = Some ''30d'',
           rt_prune_on_schedule = True\<rparr>\<rparr>,
      kbr_status = None\<rparr>"

definition production_cluster :: ResolvedKafkaCluster where
  "production_cluster =
     tls_cluster ''production-cluster'' ''production-cluster-kafka-bootstrap.kafka.svc:9093''"

definition daily_job :: "KafkaBackup \<Rightarrow> ResolvedAuth \<Rightarrow> Job" where
  "daily_job backup auth =
     build_backup_job env_ext backup ''daily-backup-20260213-020000'' ''daily-backup-config''
       production_cluster auth operator_account"

definition daily_cronjob :: "KafkaBackup \<Rightarrow> CronJob checked" where
  "daily_cronjob backup =
     build_backup_cronjob env_ext backup ''daily-backup-config'' production_cluster RNone
       operator_account"

text \<open>What a test reads of the CronJob it unwraps.\<close>

definition of_cronjob :: "CronJob checked \<Rightarrow> (CronJob \<Rightarrow> 'a option) \<Rightarrow> 'a option" where
  "of_cronjob r f = (case r of Value cj \<Rightarrow> f cj | Panics m \<Rightarrow> None)"

definition template_of :: "json list \<Rightarrow> string option \<Rightarrow> CrdPodTemplate" where
  "template_of aliases account =
     \<lparr>pt_pod = Some \<lparr>po_metadata = None, po_affinity = None, po_tolerations = [],
        po_security_context = None, po_image_pull_secrets = [], po_host_aliases = aliases,
        po_service_account_name = account\<rparr>,
      pt_container = None\<rparr>"

definition host_alias :: "string \<Rightarrow> string list \<Rightarrow> json" where
  "host_alias ip names = JObj [(''ip'', JStr ip), (''hostnames'', JArr (map JStr names))]"

lemma test_backup_config_generation:
  "let config = backup_config_map daily_backup production_cluster RNone in
     config_at config [''mode''] = Some (YStr ''backup'') \<and>
     config_at config [''backup_id''] = Some (YStr ''${BACKUP_ID}'') \<and>
     config_at config [''source'', ''bootstrap_servers''] =
      Some (YSeq [YStr ''production-cluster-kafka-bootstrap.kafka.svc:9093'']) \<and>
     config_at config [''source'', ''security'', ''security_protocol''] = Some (YStr ''SSL'') \<and>
     config_at config [''storage'', ''backend''] = Some (YStr ''s3'') \<and>
     config_at config [''storage'', ''bucket''] = Some (YStr ''my-kafka-backups'') \<and>
     config_at config [''backup'', ''compression''] = Some (YStr ''zstd'') \<and>
     config_at config [''source'', ''topics'', ''include''] =
      Some (YSeq [YStr ''orders.*'', YStr ''payments.*''])"
  by code_simp

lemma test_backup_logging_config_generation:
  "let config = backup_config_map (with_spec (\<lambda>s. s\<lparr>kb_logging := Some (logging_spec ''warn''
       ''json'' None [(''rdkafka'', ''info'')])\<rparr>) daily_backup) production_cluster RNone in
     config_at config [''logging'', ''level''] = Some (YStr ''warn'') \<and>
     config_at config [''logging'', ''format''] = Some (YStr ''json'') \<and>
     config_at config [''logging'', ''modules'', ''rdkafka''] = Some (YStr ''info'')"
  by code_simp

lemma test_backup_job_creation:
  "let job = daily_job (with_spec (\<lambda>s. s\<lparr>kb_env := [rust_log ''kafka_backup=warn'']\<rparr>)
     daily_backup) RNone in
     om_name (jb_metadata job) = Some ''daily-backup-20260213-020000'' \<and>
     om_namespace (jb_metadata job) = Some ''kafka'' \<and>
     bt_get (job_labels job) ''strimzi.io/cluster'' = Some ''production-cluster'' \<and>
     bt_get (job_labels job) ''app.kubernetes.io/part-of'' = Some ''kafka-backup'' \<and>
     map_option (map (\<lambda>r. (ow_kind r, ow_name r))) (om_owner_references (jb_metadata job)) =
      Some [(''KafkaBackup'', ''daily-backup'')] \<and>
     pod_account (job_pod job) = operator_account \<and>
     map_option (map ct_name \<circ> ps_containers) (job_pod job) = Some [''backup''] \<and>
     metrics_port (job_pod job) = Some 8080 \<and>
     bt_get (job_pod_labels job) ''kafkabackup.com/metrics'' = Some ''enabled'' \<and>
     ''/config/backup.yaml'' \<in>
      set (unwrap_or (and_then (first_container (job_pod job)) ct_args) []) \<and>
     ''BACKUP_ID'' \<in> set (map ev_name (pod_env (job_pod job))) \<and>
     static_env_var ''RUST_LOG'' ''kafka_backup=warn'' \<in> set (pod_env (job_pod job))"
  by code_simp

lemma test_backup_cronjob_uses_configured_service_account:
  "let cronjob = daily_cronjob (with_spec (\<lambda>s. s
     \<lparr>kb_env := [rust_log ''kafka_backup=debug,rdkafka=info'']\<rparr>) daily_backup) in
     of_cronjob cronjob (pod_account \<circ> cronjob_pod) = operator_account \<and>
     of_cronjob cronjob (metrics_port \<circ> cronjob_pod) = Some 8080 \<and>
     static_env_var ''RUST_LOG'' ''kafka_backup=debug,rdkafka=info'' \<in>
      set (unwrap_or (of_cronjob cronjob (Some \<circ> pod_env \<circ> cronjob_pod)) [])"
  by code_simp

definition suspending :: "bool \<Rightarrow> KafkaBackupSpec \<Rightarrow> KafkaBackupSpec" where
  "suspending b s = s\<lparr>kb_schedule := map_option (\<lambda>d. d\<lparr>sd_suspend := b\<rparr>) (kb_schedule s)\<rparr>"

lemma test_backup_cronjob_propagates_suspend:
  "of_cronjob (daily_cronjob daily_backup) (\<lambda>cj. and_then (cr_spec cj) cj_suspend) = Some False"
  "of_cronjob (daily_cronjob (with_spec (suspending True) daily_backup))
     (\<lambda>cj. and_then (cr_spec cj) cj_suspend) = Some True"
  by code_simp+

lemma test_backup_jobs_apply_template_host_aliases:
  "let backup = with_spec (\<lambda>s. s\<lparr>kb_template := Some (template_of
     [host_alias ''10.10.0.5'' [''s3.internal'', ''minio.internal'']] None)\<rparr>) daily_backup in
     and_then (job_pod (daily_job backup RNone)) ps_host_aliases =
      Some [host_alias ''10.10.0.5'' [''s3.internal'', ''minio.internal'']] \<and>
     of_cronjob (daily_cronjob backup) (\<lambda>cj. and_then (cronjob_pod cj) ps_host_aliases) =
      Some [host_alias ''10.10.0.5'' [''s3.internal'', ''minio.internal'']]"
  by code_simp

lemma test_backup_with_tls_auth:
  "let backup = with_spec (\<lambda>s. s\<lparr>kb_authentication := Some
     \<lparr>au_type = AuthTls, au_kafka_user_ref = Some \<lparr>ku_name = ''backup-user''\<rparr>,
      au_certificate_and_key = None, au_password_secret = None, au_username = None\<rparr>\<rparr>) daily_backup;
     config = backup_config_map backup production_cluster (RTls ''backup-user'') in
     config_at config [''source'', ''security'', ''security_protocol''] = Some (YStr ''SSL'') \<and>
     config_at config [''source'', ''security'', ''ssl_certificate_location''] =
      Some (YStr ''/certs/user/user.crt'') \<and>
     config_at config [''source'', ''security'', ''ssl_key_location''] =
      Some (YStr ''/certs/user/user.key'') \<and>
     ''user-certs'' \<in> set (pod_volume_names (job_pod (daily_job backup (RTls ''backup-user''))))"
  by code_simp

lemma test_backup_jobs_apply_template_service_account:
  "let backup = with_spec (\<lambda>s. s\<lparr>kb_template := Some (template_of [] (Some ''backup-jobs''))\<rparr>)
     daily_backup in
     pod_account (job_pod (daily_job backup RNone)) = Some ''backup-jobs'' \<and>
     of_cronjob (daily_cronjob backup) (pod_account \<circ> cronjob_pod) = Some ''backup-jobs''"
  by code_simp

lemma test_backup_job_falls_back_to_operator_service_account:
  "pod_account (job_pod (daily_job daily_backup RNone)) = operator_account"
  by code_simp

lemma test_backup_job_default_backoff_limit_is_three:
  "job_backoff (daily_job daily_backup RNone) = Some 3"
  by code_simp

lemma test_backup_job_custom_backoff_limit:
  "job_backoff (daily_job (with_spec (\<lambda>s. s\<lparr>kb_backoff_limit := Some 1\<rparr>) daily_backup) RNone) =
     Some 1"
  by code_simp

lemma test_backup_cronjob_custom_backoff_limit:
  "of_cronjob (daily_cronjob (with_spec (\<lambda>s. s\<lparr>kb_backoff_limit := Some 0\<rparr>) daily_backup))
     (\<lambda>cj. and_then (and_then (cr_spec cj) (\<lambda>s. jt_spec (cj_job_template s))) js_backoff_limit) =
   Some 0"
  by code_simp

section \<open>tests/integration/restore\_test.rs\<close>

definition source_backup :: KafkaBackup where
  "source_backup =
     \<lparr>kbr_metadata = kafka_meta ''daily-backup'' None,
      kbr_spec = plain_spec ''production-cluster'' production_storage, kbr_status = None\<rparr>"

definition append_options :: RestoreOptionsSpec where
  "append_options =
     \<lparr>ro_topic_creation = Some TcAuto, ro_existing_topic_policy = Some EtAppend,
      ro_dry_run = None, ro_include_original_offset_header = None, ro_source_partitions = [],
      ro_partition_mapping = [], ro_parallelism = Some 4, ro_rate_limit_records_per_sec = None,
      ro_rate_limit_bytes_per_sec = None, ro_produce_batch_size = None, ro_produce_acks = None,
      ro_produce_timeout_ms = None, ro_checkpoint_state = None,
      ro_checkpoint_interval_secs = None, ro_default_replication_factor = None,
      ro_repartitioning = [], ro_purge_topics = None\<rparr>"

definition pitr_spec :: KafkaRestoreSpec where
  "pitr_spec = sample_restore_spec
     \<lparr>kr_strimzi_cluster_ref := cluster_ref ''dr-cluster'',
      kr_backup_ref := \<lparr>br_name = ''daily-backup'', br_backup_id = Some ''backup-20260213-020000''\<rparr>,
      kr_point_in_time := Some \<lparr>pit_start_timestamp = None,
        pit_timestamp = Some ''2026-02-13T01:30:00.000Z'', pit_offset_from_end = None\<rparr>,
      kr_topic_mapping :=
        [\<lparr>tm_source_topic = ''orders'', tm_target_topic = ''orders-restored''\<rparr>,
         \<lparr>tm_source_topic = ''payments'', tm_target_topic = ''payments-restored''\<rparr>],
      kr_consumer_groups := Some \<lparr>cg_restore = True, cg_auto = None, cg_groups = [],
        cg_strategy = None, cg_offset_report = None,
        cg_mapping = [\<lparr>cgm_source_group = ''order-processor'',
          cgm_target_group = ''order-processor''\<rparr>]\<rparr>,
      kr_restore := Some append_options\<rparr>"

definition pitr_restore :: "(KafkaRestoreSpec \<Rightarrow> KafkaRestoreSpec) \<Rightarrow> KafkaRestore" where
  "pitr_restore f =
     \<lparr>krr_metadata = kafka_meta ''pitr-restore'' (Some ''restore-uid-12345''), krr_spec = f pitr_spec,
      krr_status = None\<rparr>"

definition dr_cluster :: ResolvedKafkaCluster where
  "dr_cluster = tls_cluster ''dr-cluster'' ''dr-cluster-kafka-bootstrap.kafka.svc:9093''"

definition pitr_config :: "(KafkaRestoreSpec \<Rightarrow> KafkaRestoreSpec) \<Rightarrow> ResolvedAuth \<Rightarrow> Error + ymap" where
  "pitr_config f auth = restore_config_map env_ext (pitr_restore f) source_backup dr_cluster auth"

definition pitr_job :: "(KafkaRestoreSpec \<Rightarrow> KafkaRestoreSpec) \<Rightarrow> Job" where
  "pitr_job f =
     build_restore_job env_ext (pitr_restore f) ''pitr-restore-20260213-093000''
       ''pitr-restore-config'' dr_cluster RNone source_backup operator_account"

lemma test_restore_config_generation:
  "let config = pitr_config id RNone in
     config_at config [''mode''] = Some (YStr ''restore'') \<and>
     config_at config [''backup_id''] = Some (YStr ''backup-20260213-020000'') \<and>
     config_at config [''target'', ''bootstrap_servers''] =
      Some (YSeq [YStr ''dr-cluster-kafka-bootstrap.kafka.svc:9093'']) \<and>
     config_at config [''target'', ''security'', ''security_protocol''] = Some (YStr ''SSL'') \<and>
     config_at config [''storage'', ''backend''] = Some (YStr ''s3'') \<and>
     config_at config [''restore'', ''topic_mapping'', ''orders''] =
      Some (YStr ''orders-restored'') \<and>
     config_at config [''restore'', ''topic_mapping'', ''payments''] =
      Some (YStr ''payments-restored'') \<and>
     is_some (config_at config [''restore'', ''time_window_end''])"
  by code_simp

lemma test_restore_logging_config_generation:
  "let config = pitr_config (\<lambda>s. s\<lparr>kr_logging := Some (logging_spec ''debug'' ''text'' None
     [(''kafka_backup'', ''debug'')])\<rparr>) RNone in
     config_at config [''logging'', ''level''] = Some (YStr ''debug'') \<and>
     config_at config [''logging'', ''format''] = Some (YStr ''text'') \<and>
     config_at config [''logging'', ''modules'', ''kafka_backup''] = Some (YStr ''debug'')"
  by code_simp

lemma test_restore_metrics_keep_alive_generation:
  "config_at (pitr_config (\<lambda>s. s\<lparr>kr_metrics := Some keep_alive_metrics\<rparr>) RNone)
     [''metrics'', ''keep_alive_seconds''] = Some (YNum 60)"
  by code_simp

lemma test_restore_job_creation:
  "let job = pitr_job (\<lambda>s. s\<lparr>kr_env := [rust_log ''kafka_backup=debug'']\<rparr>) in
     om_name (jb_metadata job) = Some ''pitr-restore-20260213-093000'' \<and>
     om_namespace (jb_metadata job) = Some ''kafka'' \<and>
     bt_get (job_labels job) ''strimzi.io/cluster'' = Some ''dr-cluster'' \<and>
     bt_get (job_labels job) ''kafkabackup.com/type'' = Some ''restore'' \<and>
     map_option (map (\<lambda>r. (ow_kind r, ow_name r))) (om_owner_references (jb_metadata job)) =
      Some [(''KafkaRestore'', ''pitr-restore'')] \<and>
     pod_account (job_pod job) = operator_account \<and>
     map_option ct_name (first_container (job_pod job)) = Some ''restore'' \<and>
     metrics_port (job_pod job) = Some 8080 \<and>
     bt_get (job_pod_labels job) ''kafkabackup.com/metrics'' = Some ''enabled'' \<and>
     ''/config/restore.yaml'' \<in>
      set (unwrap_or (and_then (first_container (job_pod job)) ct_args) []) \<and>
     static_env_var ''RUST_LOG'' ''kafka_backup=debug'' \<in> set (pod_env (job_pod job))"
  by code_simp

lemma test_restore_job_applies_template_host_aliases:
  "and_then (job_pod (pitr_job (\<lambda>s. s\<lparr>kr_template := Some (template_of
       [host_alias ''10.10.0.6'' [''s3.internal'', ''backup-storage.internal'']] None)\<rparr>)))
     ps_host_aliases =
   Some [host_alias ''10.10.0.6'' [''s3.internal'', ''backup-storage.internal'']]"
  by code_simp

lemma test_restore_with_offset_from_end:
  "pitr_config (\<lambda>s. s\<lparr>kr_point_in_time := Some \<lparr>pit_start_timestamp = None, pit_timestamp = None,
       pit_offset_from_end = Some ''2h''\<rparr>\<rparr>) RNone =
     Inl (EInvalidConfig ''pointInTime.offsetFromEnd is not supported by the current kafka-backup core config'')"
  by code_simp

lemma test_restore_with_unsupported_existing_topic_fail_policy:
  "pitr_config (\<lambda>s. s\<lparr>kr_restore := Some (append_options
       \<lparr>ro_existing_topic_policy := Some EtFail\<rparr>)\<rparr>) RNone =
     Inl (EInvalidConfig ''restore.existingTopicPolicy: fail is not supported by the current kafka-backup core config'')"
  by code_simp

lemma test_restore_config_topic_selection:
  "let config = pitr_config (\<lambda>s. s\<lparr>kr_topics := Some
     \<lparr>ts_include = [''orders-*'', ''~payments-'' @ CHR 0x5C # ''d+''], ts_exclude = [''*-internal'']\<rparr>\<rparr>) RNone in
     config_at config [''target'', ''topics'', ''include''] =
      Some (YSeq [YStr ''orders-*'', YStr (''~payments-'' @ CHR 0x5C # ''d+'')]) \<and>
     config_at config [''target'', ''topics'', ''exclude''] = Some (YSeq [YStr ''*-internal''])"
  by code_simp

lemma test_restore_scram_auth_emits_binary_compatible_sasl_mechanism:
  "let config = pitr_config id scram_user in
     config_at config [''target'', ''security'', ''sasl_mechanism''] =
      Some (YStr ''SCRAM-SHA512'') \<and>
     config_at config [''target'', ''security'', ''security_protocol''] = Some (YStr ''SASL_SSL'')"
  by code_simp

lemma test_restore_config_omits_topic_selection_by_default:
  "is_some (config_at (pitr_config id RNone) [''target''])"
  "config_at (pitr_config id RNone) [''target'', ''topics''] = None"
  by code_simp+

lemma test_restore_job_applies_template_service_account:
  "pod_account (job_pod (pitr_job (\<lambda>s. s\<lparr>kr_template := Some (template_of []
     (Some ''restore-jobs''))\<rparr>))) = Some ''restore-jobs''"
  by code_simp

lemma test_restore_job_default_backoff_limit_is_zero: "job_backoff (pitr_job id) = Some 0"
  by code_simp

lemma test_restore_job_custom_backoff_limit:
  "job_backoff (pitr_job (\<lambda>s. s\<lparr>kr_backoff_limit := Some 2\<rparr>)) = Some 2"
  by code_simp

section \<open>tests/integration/cleanup\_test.rs\<close>

lemma test_cleanup_deletes_propagate_to_dependents:
  "dp_propagation_policy cleanup_delete_params = Some PropBackground"
  by code_simp

end
