(* ===== verification/Conformance_Runs.thy ===== *)
theory Conformance_Runs
  imports Conformance_Config Runs Operator_Properties
begin

text \<open>
  The repository's tests that run code against a mock API server, evaluated on the model:
  \<open>src/tests/integration/strimzi\_api\_test.rs\<close>, \<open>reconcile\_pause\_test.rs\<close> and
  \<open>reconcile\_backup\_test.rs\<close>. The mock answers by a function of the request and records
  what it was asked, so the final state of a run is the list of its requests. Each lemma is one
  test, under its name.
\<close>

section \<open>The mock server\<close>

definition mock_api :: "(KubeReq \<Rightarrow> KubeError + KubeAnswer) \<Rightarrow> KubeReq list World" where
  "mock_api answer =
     \<lparr>w_clock = (\<lambda>s. (0, s)), w_env = (\<lambda>n s. (None, s)),
      w_kube = (\<lambda>q s. (answer q, s @ [q])),
      w_store = (\<lambda>q s. (Inl (SOther ''no object store''), s))\<rparr>"

definition recorded :: "(KubeReq \<Rightarrow> KubeError + KubeAnswer) \<Rightarrow> 'a prog \<Rightarrow> KubeReq list" where
  "recorded answer p = state_of (mock_api answer) p []"

definition replied :: "(KubeReq \<Rightarrow> KubeError + KubeAnswer) \<Rightarrow> 'a prog \<Rightarrow> 'a outcome" where
  "replied answer p = outcome_of (mock_api answer) p []"

section \<open>tests/integration/strimzi\_api\_test.rs\<close>

text \<open>The resources are served by version and kind; any other path is not found.\<close>

definition not_found :: KubeError where
  "not_found = KApi 404 ''not found''"

definition forbidden :: KubeError where
  "forbidden = KApi 403 ''forbidden''"

fun serving ::
  "((string \<times> string) \<times> (KubeError + KubeAnswer)) list \<Rightarrow> KubeReq \<Rightarrow> KubeError + KubeAnswer" where
  "serving responses (KGetDynamic g v kind ns name) =
     (case map_of responses (v, kind) of None \<Rightarrow> Inl not_found | Some r \<Rightarrow> r)"
| "serving responses q = Inl not_found"

definition served_kafka :: DynamicObject where
  "served_kafka =
     kafka_fixture (JArr [listener_json ''plain'' 9092 ''internal'' False None])
       (Some (JArr [status_entry ''plain'' ''my-cluster-kafka-bootstrap.kafka.svc:9092'']))"

definition served_user :: DynamicObject where
  "served_user =
     \<lparr>dy_metadata = kafka_meta ''backup-user'' None,
      dy_data = JObj [(''status'', JObj [(''secret'', JStr ''backup-user-credentials'')])]\<rparr>"

definition scram_spec :: AuthenticationSpec where
  "scram_spec =
     \<lparr>au_type = AuthScramSha512, au_kafka_user_ref = Some \<lparr>ku_name = ''backup-user''\<rparr>,
      au_certificate_and_key = None, au_password_secret = None, au_username = None\<rparr>"

definition get_kafka :: "string \<Rightarrow> KubeReq" where
  "get_kafka version = KGetDynamic ''kafka.strimzi.io'' version ''Kafka'' ''kafka'' ''my-cluster''"

definition get_user :: "string \<Rightarrow> KubeReq" where
  "get_user version = KGetDynamic ''kafka.strimzi.io'' version ''KafkaUser'' ''kafka'' ''backup-user''"

definition kafka_lookup :: "ResolvedKafkaCluster io" where
  "kafka_lookup = resolve_kafka_cluster (cluster_ref ''my-cluster'') ''kafka'' None"

definition user_lookup :: "ResolvedAuth io" where
  "user_lookup = resolve_auth (Some scram_spec) ''kafka''"

definition fails_for :: "string \<Rightarrow> (Error + 'a) outcome \<Rightarrow> bool" where
  "fails_for reason r \<longleftrightarrow> (case r of Done (Inl e) \<Rightarrow> error_reason e = reason | _ \<Rightarrow> False)"

definition resolved :: "(Error + 'a) outcome \<Rightarrow> 'a option" where
  "resolved r = (case r of Done (Inr x) \<Rightarrow> Some x | _ \<Rightarrow> None)"

lemma mock_sel:
  "w_kube (mock_api answer) q s = (answer q, s @ [q])" "w_clock (mock_api answer) s = (0, s)"
  "w_env (mock_api answer) n s = (None, s)"
  by (simp_all add: mock_api_def)

lemma served_connection:
  "resolve_connection served_kafka ''kafka'' None None =
     Inr \<lparr>rc_bootstrap_servers = ''my-cluster-kafka-bootstrap.kafka.svc:9092'',
          rc_tls_enabled = False, rc_listener_name = ''plain''\<rparr>"
  by (simp add: served_kafka_def connection_simps)

lemmas lookup_simps =
  kafka_lookup_def resolve_kafka_cluster_def get_namespaced_resource_def get_at_version_def
  cluster_ref_def get_kafka_def STRIMZI_GROUP_def PREFERRED_API_VERSION_def LEGACY_API_VERSION_def
  not_found_def recorded_def replied_def resolved_def exec mock_sel decoded_def served_connection Let_def

lemma resolves_kafka_from_strimzi_v1:
  defines "api \<equiv> serving [((''v1'', ''Kafka''), Inr (ADynamic served_kafka))]"
  shows "map_option kcl_name (resolved (replied api kafka_lookup)) = Some ''my-cluster''"
    and "map_option kcl_bootstrap_servers (resolved (replied api kafka_lookup)) =
      Some ''my-cluster-kafka-bootstrap.kafka.svc:9092''"
    and "recorded api kafka_lookup = [get_kafka ''v1'']"
  by (simp_all add: api_def lookup_simps)

lemma falls_back_to_v1beta2_for_older_strimzi_kafka:
  defines "api \<equiv> serving [((''v1'', ''Kafka''), Inl not_found),
     ((''v1beta2'', ''Kafka''), Inr (ADynamic served_kafka))]"
  shows "is_some (resolved (replied api kafka_lookup))"
    and "recorded api kafka_lookup = [get_kafka ''v1'', get_kafka ''v1beta2'']"
  by (simp_all add: api_def lookup_simps)

lemma kafka_missing_from_both_versions_keeps_domain_error:
  "let api = serving [((''v1'', ''Kafka''), Inl not_found), ((''v1beta2'', ''Kafka''), Inl not_found)] in
     fails_for ''StrimziClusterNotFound'' (replied api kafka_lookup) \<and>
     recorded api kafka_lookup = [get_kafka ''v1'', get_kafka ''v1beta2'']"
  by code_simp

lemma kafka_authorization_error_is_not_masked_by_fallback:
  "let api = serving [((''v1'', ''Kafka''), Inl forbidden),
     ((''v1beta2'', ''Kafka''), Inr (ADynamic served_kafka))] in
     fails_for ''KubernetesError'' (replied api kafka_lookup) \<and>
     recorded api kafka_lookup = [get_kafka ''v1'']"
  by code_simp

lemma resolves_kafka_user_from_strimzi_v1:
  "let api = serving [((''v1'', ''KafkaUser''), Inr (ADynamic served_user))] in
     resolved (replied api user_lookup) =
      Some (RScramSha512 ''backup-user'' ''backup-user-credentials'' ''password'') \<and>
     recorded api user_lookup = [get_user ''v1'']"
  by code_simp

lemma falls_back_to_v1beta2_for_older_strimzi_kafka_user:
  "let api = serving [((''v1'', ''KafkaUser''), Inl not_found),
     ((''v1beta2'', ''KafkaUser''), Inr (ADynamic served_user))] in
     is_some (resolved (replied api user_lookup)) \<and>
     recorded api user_lookup = [get_user ''v1'', get_user ''v1beta2'']"
  by code_simp

lemma kafka_user_missing_from_both_versions_keeps_domain_error:
  "let api = serving [((''v1'', ''KafkaUser''), Inl not_found),
     ((''v1beta2'', ''KafkaUser''), Inl not_found)] in
     fails_for ''KafkaUserNotFound'' (replied api user_lookup) \<and>
     recorded api user_lookup = [get_user ''v1'', get_user ''v1beta2'']"
  by code_simp

section \<open>tests/integration/reconcile\_pause\_test.rs\<close>

definition local_storage :: StorageSpec where
  "local_storage =
     \<lparr>st_type = Filesystem, st_s3 = None, st_azure = None, st_gcs = None,
      st_filesystem = Some \<lparr>fs_path = ''/backups''\<rparr>\<rparr>"

definition paused_by :: "string \<Rightarrow> string \<Rightarrow> string \<Rightarrow> ObjectMeta" where
  "paused_by annotation name uid = (kafka_meta name (Some uid))
     \<lparr>om_generation := Some 1,
      om_annotations := Some [(''strimzi.io/pause-reconciliation'', annotation)]\<rparr>"

definition paused_backup :: KafkaBackup where
  "paused_backup =
     \<lparr>kbr_metadata = paused_by ''true'' ''restore-source'' ''backup-uid'',
      kbr_spec = plain_spec ''missing-after-disaster'' local_storage, kbr_status = None\<rparr>"

definition paused_restore :: KafkaRestore where
  "paused_restore =
     \<lparr>krr_metadata = paused_by ''TRUE'' ''disaster-restore'' ''restore-uid'',
      krr_spec = sample_restore_spec
        \<lparr>kr_strimzi_cluster_ref := cluster_ref ''missing-after-disaster'',
         kr_backup_ref := \<lparr>br_name = ''restore-source'',
           br_backup_id = Some ''snapshot-before-disaster''\<rparr>\<rparr>,
      krr_status = None\<rparr>"

text \<open>The server echoes the resource; a patch needs no more of its answer.\<close>

fun accepting :: "KubeReq \<Rightarrow> KubeError + KubeAnswer" where
  "accepting q = Inr AUnit"

text \<open>One request, the status patch: its condition and its generation.\<close>

fun status_report :: "KubeReq \<Rightarrow> (string \<times> string \<times> string \<times> string \<times> int option) option" where
  "status_report (KPatchBackupStatus ns name pp patch) =
     (case bsp_conditions patch of
        Some (c # _) \<Rightarrow> Some (''kafkabackups'', name, cd_type c, cd_status c, bsp_observed_generation patch)
      | _ \<Rightarrow> None)"
| "status_report (KPatchRestoreStatus ns name pp patch) =
     (case rsp_conditions patch of
        Some (c # _) \<Rightarrow> Some (''kafkarestores'', name, cd_type c, cd_status c, rsp_observed_generation patch)
      | _ \<Rightarrow> None)"
| "status_report q = None"

lemma paused_backup_does_not_create_operator_resources:
  "map status_report (recorded accepting (reconcile_backup sample_ext paused_backup)) =
     [Some (''kafkabackups'', ''restore-source'', ''ReconciliationPaused'', ''True'', Some 1)]"
proof -
  have meta: "om_namespace (kbr_metadata paused_backup) = Some ''kafka''"
    "om_deletion_timestamp (kbr_metadata paused_backup) = None"
    "is_reconciliation_paused (kbr_metadata paused_backup)"
    by code_simp+
  show ?thesis
    unfolding reconcile_backup_cases [OF meta(1)] meta if_True by code_simp
qed

lemma paused_restore_does_not_resolve_dependencies_or_create_a_job:
  "map status_report (recorded accepting (reconcile_restore sample_ext paused_restore)) =
     [Some (''kafkarestores'', ''disaster-restore'', ''ReconciliationPaused'', ''True'', Some 1)]"
proof -
  have meta: "om_namespace (krr_metadata paused_restore) = Some ''kafka''"
    "om_deletion_timestamp (krr_metadata paused_restore) = None"
    "is_reconciliation_paused (krr_metadata paused_restore)"
    by code_simp+
  show ?thesis
    unfolding reconcile_restore_cases [OF meta(1)] meta if_True by code_simp
qed

section \<open>tests/integration/reconcile\_backup\_test.rs\<close>

definition nightly_backup :: "bool \<Rightarrow> ResourceRequirementsSpec option \<Rightarrow> KafkaBackup" where
  "nightly_backup suspended resources =
     \<lparr>kbr_metadata = (kafka_meta ''daily-backup'' (Some ''test-uid-12345''))
        \<lparr>om_generation := Some 2, om_finalizers := Some [''kafkabackup.com/cleanup'']\<rparr>,
      kbr_spec = (plain_spec ''production-cluster'' local_storage)
        \<lparr>kb_schedule := Some \<lparr>sd_cron = ''0 2 * * *'', sd_timezone = None, sd_suspend = suspended\<rparr>,
         kb_resources := resources\<rparr>,
      kbr_status = None\<rparr>"

definition replicated_kafka :: DynamicObject where
  "replicated_kafka =
     \<lparr>dy_metadata = kafka_meta ''production-cluster'' None,
      dy_data = JObj [(''spec'', JObj [(''kafka'', JObj [(''replicas'', JInt 3),
        (''listeners'', JArr [listener_json ''plain'' 9092 ''internal'' False None])])])]\<rparr>"

fun backup_api :: "KafkaBackup \<Rightarrow> KubeReq \<Rightarrow> KubeError + KubeAnswer" where
  "backup_api backup (KGetDynamic g v kind ns name) = Inr (ADynamic replicated_kafka)"
| "backup_api backup (KGetSecret ns name) = Inl not_found"
| "backup_api backup (KListJobs ns sel) = Inr (AJobs [])"
| "backup_api backup (KGetBackup ns name) = Inr (ABackup backup)"
| "backup_api backup (KGetBackupStatus ns name) = Inr (ABackup backup)"
| "backup_api backup q = Inr AUnit"

definition nightly_requests :: "bool \<Rightarrow> ResourceRequirementsSpec option \<Rightarrow> KubeReq list" where
  "nightly_requests suspended resources =
     recorded (backup_api (nightly_backup suspended resources))
       (reconcile_backup sample_ext (nightly_backup suspended resources))"

fun is_cronjob_patch :: "KubeReq \<Rightarrow> bool" where
  "is_cronjob_patch (KApplyCronJob ns name pp cj) = (name = ''daily-backup-scheduled'')"
| "is_cronjob_patch q = False"

fun is_status_patch :: "KubeReq \<Rightarrow> bool" where
  "is_status_patch (KPatchBackupStatus ns name pp patch) = (name = ''daily-backup'')"
| "is_status_patch q = False"

fun cronjob_suspended :: "KubeReq \<Rightarrow> bool option" where
  "cronjob_suspended (KApplyCronJob ns name pp cj) = and_then (cr_spec cj) cj_suspend"
| "cronjob_suspended q = None"

fun cronjob_resources :: "KubeReq \<Rightarrow> ResourceRequirements option" where
  "cronjob_resources (KApplyCronJob ns name pp cj) =
     and_then (first_container (cronjob_pod cj)) ct_resources"
| "cronjob_resources q = None"

fun forced :: "KubeReq \<Rightarrow> bool" where
  "forced (KApplyCronJob ns name pp cj) = pp_force pp"
| "forced q = False"

fun reported_reason :: "KubeReq \<Rightarrow> string option" where
  "reported_reason (KPatchBackupStatus ns name pp patch) =
     (case bsp_conditions patch of Some (c # _) \<Rightarrow> cd_reason c | _ \<Rightarrow> None)"
| "reported_reason q = None"

fun clears_next_run :: "KubeReq \<Rightarrow> bool" where
  "clears_next_run (KPatchBackupStatus ns name pp patch) =
     (bsp_next_scheduled_backup patch = Some None)"
| "clears_next_run q = False"

definition plain_cluster :: ResolvedKafkaCluster where
  "plain_cluster =
     \<lparr>kcl_name = ''production-cluster'', kcl_namespace = ''kafka'',
      kcl_bootstrap_servers = ''production-cluster-kafka-bootstrap.kafka.svc:9092'',
      kcl_replicas = 3, kcl_tls_enabled = False, kcl_listener_name = ''plain''\<rparr>"

lemma replicated_cluster:
  "outcome_of (mock_api (backup_api b)) (resolve_kafka_cluster (cluster_ref ''production-cluster'')
     ''kafka'' None) s = Done (Inr plain_cluster)"
  "state_of (mock_api (backup_api b)) (resolve_kafka_cluster (cluster_ref ''production-cluster'')
     ''kafka'' None) s = s @ [KGetDynamic STRIMZI_GROUP PREFERRED_API_VERSION ''Kafka'' ''kafka''
       ''production-cluster'']"
proof -
  have listeners: "spec_listeners replicated_kafka =
      Some [listener_json ''plain'' 9092 ''internal'' False None]"
    and replicas: "extract_replicas replicated_kafka = 3"
    and status: "json_get (dy_data replicated_kafka) ''status'' = None"
    and name: "name_any (dy_metadata replicated_kafka) = ''production-cluster''"
    by (simp_all add: replicated_kafka_def spec_listeners_def spec_kafka_def extract_replicas_def
        i64_as_i32_def in_i64_def i64_min_def i64_max_def kafka_meta_def name_any_def)
  have "resolve_connection replicated_kafka ''kafka'' None None =
      Inr \<lparr>rc_bootstrap_servers = ''production-cluster-kafka-bootstrap.kafka.svc:9092'',
           rc_tls_enabled = False, rc_listener_name = ''plain''\<rparr>"
    by (simp add: connection_simps listeners status name)
  then show
    "outcome_of (mock_api (backup_api b)) (resolve_kafka_cluster (cluster_ref ''production-cluster'')
       ''kafka'' None) s = Done (Inr plain_cluster)"
    "state_of (mock_api (backup_api b)) (resolve_kafka_cluster (cluster_ref ''production-cluster'')
       ''kafka'' None) s = s @ [KGetDynamic STRIMZI_GROUP PREFERRED_API_VERSION ''Kafka'' ''kafka''
         ''production-cluster'']"
    by (simp_all add: lookup_simps replicas plain_cluster_def)
qed

lemma nightly_sel:
  "name_any (kbr_metadata (nightly_backup b r)) = ''daily-backup''"
  "om_namespace (kbr_metadata (nightly_backup b r)) = Some ''kafka''"
  "om_deletion_timestamp (kbr_metadata (nightly_backup b r)) = None"
  "om_annotations (kbr_metadata (nightly_backup b r)) = None"
  "is_reconciliation_paused (kbr_metadata (nightly_backup b r)) = False"
  "has_finalizer (kbr_metadata (nightly_backup b r)) = True"
  "generation_of (kbr_metadata (nightly_backup b r)) = 2"
  "kb_strimzi_cluster_ref (kbr_spec (nightly_backup b r)) = cluster_ref ''production-cluster''"
  "sc_ca_secret (cluster_ref ''production-cluster'') = None"
  "kb_authentication (kbr_spec (nightly_backup b r)) = None"
  "kb_retention (kbr_spec (nightly_backup b r)) = None"
  "kb_schedule (kbr_spec (nightly_backup b r)) =
     Some \<lparr>sd_cron = ''0 2 * * *'', sd_timezone = None, sd_suspend = b\<rparr>"
  "kbr_status (nightly_backup b r) = None"
  by (simp_all add: nightly_backup_def kafka_meta_def plain_spec_def empty_meta_def name_any_def
      cluster_ref_def is_reconciliation_paused_def annotations_of_def has_finalizer_def
      generation_of_def bt_get_Nil FINALIZER_def sample_backup_spec_def)

lemma nightly_config:
  "build_backup_config_yaml sample_ext (nightly_backup b r) cluster auth = Inr ''yaml''"
  by (simp add: build_backup_config_yaml_def backup_config_map_def Let_def nightly_backup_def
      plain_spec_def sample_backup_spec_def local_storage_def build_storage_config_def
      build_filesystem_config_def sample_ext_def)

text \<open>The requests of a whole reconciliation, in order.\<close>

lemma nightly_run:
  assumes "build_backup_cronjob sample_ext (nightly_backup b r) ''daily-backup-config'' plain_cluster
     RNone (account_of None) = Value cj"
  shows "\<exists>pre patch.
     nightly_requests b r = pre @ [
       KApplyCronJob ''kafka'' ''daily-backup-scheduled'' (apply_params\<lparr>pp_force := True\<rparr>) cj,
       KGetBackupStatus ''kafka'' ''daily-backup'',
       KPatchBackupStatus ''kafka'' ''daily-backup'' apply_params patch,
       KListJobs ''kafka'' (backup_jobs_selector ''daily-backup'')] \<and>
     List.find is_cronjob_patch pre = None \<and> List.find is_status_patch pre = None \<and>
     (\<exists>c. bsp_conditions patch = Some [c] \<and>
        cd_reason c = Some (if b then REASON_BACKUP_SUSPENDED else REASON_BACKUP_SCHEDULED)) \<and>
     (b \<longrightarrow> bsp_next_scheduled_backup patch = Some None)"
  using assms
  by (simp add: nightly_requests_def recorded_def reconcile_backup_def reconcile_backup_active_def
      backup_create_or_update_config_map_def schedule_step_def apply_cronjob_def job_step_def
      triggered_now_def check_job_completion_def apply_retention_policy_def list_backup_jobs_def
      resolve_cluster_ca_def ca_secret_ref_def job_service_account_name_def
      update_status_suspended_def update_status_scheduled_def current_backup_status_def
      send_backup_status_def backup_patch_status_def backup_status_patch_def vec_field_def
      condition_io_defs default_backup_status_def Let_def exec exec_auth
      replicated_cluster nightly_sel nightly_config mock_sel decoded_def
      latest_terminal_def ready_def new_condition_def)

definition nightly_cronjob ::
  "bool \<Rightarrow> ResourceRequirementsSpec option \<Rightarrow> (CronJob \<Rightarrow> 'a option) \<Rightarrow> 'a option" where
  "nightly_cronjob suspended resources =
     of_cronjob (build_backup_cronjob sample_ext (nightly_backup suspended resources)
       ''daily-backup-config'' plain_cluster RNone (account_of None))"

lemma nightly_tests:
  "\<exists>cj. List.find is_cronjob_patch (nightly_requests b r) =
     Some (KApplyCronJob ''kafka'' ''daily-backup-scheduled'' (apply_params\<lparr>pp_force := True\<rparr>) cj) \<and>
     (\<forall>f. nightly_cronjob b r f = f cj)"
  "and_then (List.find is_status_patch (nightly_requests b r)) reported_reason =
     Some (if b then ''BackupSuspended'' else ''BackupScheduled'')"
  "b \<Longrightarrow> map_option clears_next_run (List.find is_status_patch (nightly_requests b r)) = Some True"
proof -
  obtain cj where cj: "build_backup_cronjob sample_ext (nightly_backup b r) ''daily-backup-config''
      plain_cluster RNone (account_of None) = Value cj"
    by (simp add: build_backup_cronjob_def nightly_sel Let_def split_beta)
  show "\<exists>cj. List.find is_cronjob_patch (nightly_requests b r) =
     Some (KApplyCronJob ''kafka'' ''daily-backup-scheduled'' (apply_params\<lparr>pp_force := True\<rparr>) cj) \<and>
     (\<forall>f :: CronJob \<Rightarrow> 'a option. nightly_cronjob b r f = f cj)"
    using nightly_run [OF cj] cj by (auto simp: find_append_or nightly_cronjob_def of_cronjob_def)
  show "and_then (List.find is_status_patch (nightly_requests b r)) reported_reason =
     Some (if b then ''BackupSuspended'' else ''BackupScheduled'')"
    "b \<Longrightarrow> map_option clears_next_run (List.find is_status_patch (nightly_requests b r)) = Some True"
    using nightly_run [OF cj]
    by (auto simp: find_append_or REASON_BACKUP_SUSPENDED_def REASON_BACKUP_SCHEDULED_def)
qed

lemma nightly_suspension:
  "and_then (List.find is_cronjob_patch (nightly_requests b r)) cronjob_suspended =
     nightly_cronjob b r (\<lambda>cj. and_then (cr_spec cj) cj_suspend)"
  using nightly_tests(1) [of b r, where 'a = bool] by auto

lemma nightly_resources:
  "and_then (List.find is_cronjob_patch (nightly_requests b r)) cronjob_resources =
     nightly_cronjob b r (\<lambda>cj. and_then (first_container (cronjob_pod cj)) ct_resources)"
  "map_option forced (List.find is_cronjob_patch (nightly_requests b r)) = Some True"
  using nightly_tests(1) [of b r, where 'a = ResourceRequirements] by auto

lemma test_reconcile_propagates_suspend_to_cronjob:
  "and_then (List.find is_cronjob_patch (nightly_requests True None)) cronjob_suspended = Some True"
  "and_then (List.find is_status_patch (nightly_requests True None)) reported_reason =
     Some ''BackupSuspended''"
  "map_option clears_next_run (List.find is_status_patch (nightly_requests True None)) = Some True"
  by (simp_all only: nightly_suspension nightly_tests(2,3) if_True) code_simp

lemma test_reconcile_applies_active_cronjob_when_not_suspended:
  "and_then (List.find is_cronjob_patch (nightly_requests False None)) cronjob_suspended = Some False"
  "and_then (List.find is_status_patch (nightly_requests False None)) reported_reason =
     Some ''BackupScheduled''"
  by (simp_all only: nightly_suspension nightly_tests(2) if_False) code_simp

definition sized_resources :: ResourceRequirementsSpec where
  "sized_resources =
     \<lparr>rr_requests = [(''cpu'', ''250m''), (''memory'', ''256Mi'')],
      rr_limits = [(''cpu'', ''1''), (''memory'', ''1Gi'')]\<rparr>"

lemma test_reconcile_force_applies_resource_updates_to_owned_cronjob:
  "and_then (List.find is_cronjob_patch (nightly_requests False (Some sized_resources)))
     cronjob_resources =
   Some \<lparr>re_requests = Some [(''cpu'', ''250m''), (''memory'', ''256Mi'')],
         re_limits = Some [(''cpu'', ''1''), (''memory'', ''1Gi'')]\<rparr>"
  "map_option forced (List.find is_cronjob_patch (nightly_requests False (Some sized_resources))) =
   Some True"
  by (simp_all only: nightly_resources) code_simp

section \<open>retention/storage.rs\<close>

text \<open>A directory of files: a listing is of the keys below a path, a deletion removes a key.\<close>

definition directory :: "string list World" where
  "directory =
     \<lparr>w_clock = (\<lambda>s. (0, s)), w_env = (\<lambda>n s. (None, s)), w_kube = (\<lambda>q s. (Inl not_found, s)),
      w_store = (\<lambda>q s. case q of
          SList h path \<Rightarrow> (Inr (BItems (map Inr (filter (\<lambda>k. starts_with k (path @ ''/'')) s))), s)
        | SDelete h path \<Rightarrow> (Inr BUnit, removeAll path s)
        | _ \<Rightarrow> (Inl (SOther ''unused''), s))\<rparr>"

definition path_ext :: Ext where
  "path_ext = sample_ext\<lparr>x_path := trim_matches (CHR ''/'')\<rparr>"

definition stored_files :: "string list" where
  "stored_files = [''daily-backup-1/manifest.json'',
     ''daily-backup-1/topics/orders/partition=0/segment-000.bin.zst'']"

definition list_and_delete :: "nat io" where
  "list_and_delete =
     ebind (bos_list path_ext (bos_new 0 None) ''daily-backup-1/'') (\<lambda>keys.
     ebind (for_each keys (bos_delete path_ext (bos_new 0 None))) (\<lambda>_.
     ok (length keys)))"

lemma local_store_lists_and_deletes_backup_prefix:
  "outcome_of directory list_and_delete stored_files = Done (Inr 2)"
  "outcome_of directory (bos_list path_ext (bos_new 0 None) ''daily-backup-1/'')
     (state_of directory list_and_delete stored_files) = Done (Inr [])"
  by code_simp+

section \<open>metrics/prometheus.rs\<close>

text \<open>The series of a metric that are gathered, by its name.\<close>

definition gathered :: "MetricsState checked \<Rightarrow> string \<Rightarrow> (string list \<times> Sample) list" where
  "gathered r name = (case r of
     Panics e \<Rightarrow> []
   | Value m \<Rightarrow> concat (map fam_series
       (filter (\<lambda>f. op_name (fam_opts f) = name) (pm_gather sample_prometheus (families m)))))"

lemma test_metrics_creation:
  "gathered (MetricsState_new sample_prometheus ''0.2.18'') ''strimzi_backup_operator_build_info'' =
     [([''0.2.18''], SGauge 1)]"
  by code_simp

lemma test_record_reconciliation:
  "let state = checked_bind (MetricsState_new sample_prometheus ''0.2.18'')
     (record_reconciliation ''backup'' True 125000000) in
     gathered state ''strimzi_backup_operator_reconciliations_total'' =
      [([''backup'', ''success''], SCounter 1)] \<and>
     gathered state ''strimzi_backup_operator_reconciliation_duration_seconds'' =
      [([''backup'', ''success''], SHistogram [125000000])]"
  by code_simp

lemma test_record_backup_success:
  "let state = checked_bind (MetricsState_new sample_prometheus ''0.2.18'')
     (record_backup_success ''test-backup'' ''my-cluster'' 1000 1048576 120500000000 0) in
     gathered state ''strimzi_backup_records_total'' = [([''test-backup'', ''my-cluster''], SCounter 1000)] \<and>
     gathered state ''strimzi_backup_bytes_total'' = [([''test-backup'', ''my-cluster''], SCounter 1048576)]"
  by code_simp

end
