(* ===== verification/Spec2Isabelle.thy ===== *)
theory Spec2Isabelle
  imports Retention_Safety Settling Write_Order Replicas Operator_Properties Retention_Properties Config_Properties
    Resource_Properties Interference Interleaving Panic_Paths Restless Merge_Patch Conformance_Runs
begin

text \<open>
  A verification library for the Strimzi backup operator (\<open>src/src\<close>): a Kubernetes operator
  that watches \<open>KafkaBackup\<close> and \<open>KafkaRestore\<close> resources, resolves the Strimzi Kafka
  cluster and the credentials they name, writes the configuration file of the \<open>kafka-backup\<close>
  runner into a ConfigMap, starts the runner as a Job or a CronJob, reports what becomes of it in
  the resource's status, and prunes old backups from the object store.

  \<^bold>\<open>How code is modelled.\<close> Pure functions are HOL functions. A fallible function returns
  \<open>Error + 'a\<close>, the error on the left (\<open>Error\<close> of \<open>error.rs\<close>). A function
  that may panic without any effect returns \<open>'a checked\<close>. An \<open>async fn\<close> is a program of
  type \<open>'a prog\<close> (theory \<open>Effects\<close>): it returns, panics, or makes one request to the
  Kubernetes API, the object store, the clock or the environment and continues with the answer.
  Each \<open>await\<close> of the source is one request, in the source's order; \<open>?\<close> is
  \<open>ebind\<close>, and a discarded result is \<open>pbind\<close> with the value ignored. The servers are
  not modelled: a \<open>World\<close> is any function from a state and a request to an answer and a next
  state, \<open>trace_of\<close>, \<open>outcome_of\<close> and \<open>state_of\<close> run a program against it, and
  the program logics \<open>only\<close> (every event), \<open>guarded\<close> (order), \<open>once\<close> (number),
  \<open>ends\<close> and \<open>yields\<close> (results) quantify over all answers. Programs are well-founded
  trees, so every run ends; there is no fuel. Machine integers keep their width where the code
  casts or sums them (\<open>i32\<close> and \<open>u64\<close> words), and 64-bit numbers that are only passed on
  are \<open>int\<close>. Strings are byte lists in UTF-8. Instants and durations are integers.

  \<^bold>\<open>Theories.\<close>
  \<open>Prelude\<close>: collections of rules, options, sums, and the locale of insertion-ordered or sorted
  association lists. \<open>Rust_Std\<close>: the string, number and map operations of the standard library the
  source uses. \<open>Crd\<close>: the resources (\<open>crd/*.rs\<close>). \<open>Json_Codec\<close>, \<open>Crd_Codec\<close>:
  their JSON readers and writers, with the names, defaults and omissions of the \<open>serde\<close>
  attributes. \<open>Yaml\<close>: YAML mappings.
  \<open>K8s\<close>: errors, the fields of Kubernetes objects the code fills, and the record \<open>Ext\<close> of
  library functions. \<open>Effects\<close>: programs and their logics.
  \<open>Conditions\<close>: \<open>status/conditions.rs\<close>. \<open>Job_State\<close>:
  \<open>jobs/job_state.rs\<close>, the classification of Jobs and the two creation gates.
  \<open>Retention_Policy\<close>: \<open>retention/policy.rs\<close>. \<open>History\<close>: the history functions of
  \<open>reconcilers/backup.rs\<close> against an abstract keyed store. \<open>Secrets\<close>:
  \<open>adapters/secrets.rs\<close> and \<open>strimzi/tls.rs\<close>. \<open>Strimzi\<close>:
  \<open>strimzi/resource.rs\<close>, \<open>kafka_cr.rs\<close> and \<open>kafka_user.rs\<close>.
  \<open>Config_Parts\<close>, \<open>Config_Backup\<close>, \<open>Config_Restore\<close>: the adapters that build the
  runner's configuration. \<open>Templates\<close>, \<open>Job_Builders\<close>: \<open>jobs/*.rs\<close>.
  \<open>Retention_Storage\<close>: \<open>retention/storage.rs\<close>. \<open>Reconcile_Common\<close>,
  \<open>Reconcile_Backup\<close>, \<open>Reconcile_Restore\<close>: \<open>reconcilers/*.rs\<close>, whole.
  \<open>Metrics\<close>: \<open>metrics/prometheus.rs\<close>, the thirteen vectors, their registration, the
  recording operations and the gathering. \<open>Selectors\<close>: which labels a selector text of the
  code selects. \<open>Controllers\<close>: \<open>controllers/*.rs\<close>, the wrappers, the error policies and
  what the two \<open>run\<close> functions ask the runtime to watch, with the resources an event of a Job
  leads to. \<open>Operator\<close>: \<open>main.rs\<close> as a state machine of the start-up, the metrics server,
  the two controllers, the shutdown signal and its handlers (\<open>op_next\<close> is the step function, \<open>op_reach\<close>
  reachability). Long bodies of the source are the composition of named blocks in
  the source's order (for example \<open>reconcile_backup_active\<close>, \<open>schedule_step\<close> and
  \<open>job_step\<close> are consecutive parts of \<open>reconcile_backup\<close>).

  \<^bold>\<open>Lemmas.\<close>
  \<open>Status_Writers\<close>: the interface of a status function, which patches at most one status and
  creates nothing, with an interpretation for each of the code's. \<open>Backup_Protocol\<close>,
  \<open>Restore_Protocol\<close>, \<open>Backup_Requests\<close>: what a reconciliation may request and in which
  order, whatever the answers. \<open>Status_Merge\<close>, \<open>Backup_Outcomes\<close>: the effect of the merge
  patches on a status and the guards that keep reports from repeating. \<open>Merge_Patch\<close>: the
  patches as JSON, and the refinement of \<open>Status_Merge\<close> by JSON merge patch between a writer
  and a reader. \<open>One_Shot\<close>: the step
  relation of repeated reconciliations in a changing cluster, the interface of a one-shot
  controller and its invariant. \<open>Progress\<close>: a fresh resource gets its Job.
  \<open>Pod_Config\<close>: the files and variables of a pod against what the configuration names.
  \<open>Write_Order\<close>: the abstract protocol of a reconciliation, a regular expression over its
  writes that the resource alone determines, and the refinement of both reconcilers to it; the
  bounds on the number of writes follow from the expression. \<open>Settling\<close>: the control loop of a
  restore in service, which reconciles until nothing more is written, as a \<open>while\<close> loop that
  ends. \<open>Restless\<close>: the loop of a schedule whose last run failed, which does not.
  \<open>Interleaving\<close>: reconciliations that proceed request by request among the steps of the
  rest of the cluster and may be cut off anywhere; the invariant of \<open>One_Shot\<close> holds of them.
  \<open>Replicas\<close>: several operators reconciling one resource side by side, with the bound on
  its Jobs and a run that reaches it. \<open>Interference\<close>: the writes a reconciliation is confined to, with the frame this
  grants other resources, the Jobs a cleanup deletes, and the ConfigMap that a backup and a restore
  of one name share. \<open>Retention_Safety\<close>: the directories of the object store, and that
  retention deletes nothing a running Job writes. \<open>Panic_Paths\<close>: the ages of a retention
  policy that are not ages, ignored or fatal to the reconciliation. \<open>Execution\<close>:
  symbolic execution of programs against a world.
  \<open>Samples\<close>, \<open>Runs\<close>: an in-memory cluster and whole reconciliations executed in it; they
  serve as inputs of the witnesses. \<open>Conformance\<close>, \<open>Conformance_Config\<close>,
  \<open>Conformance_Runs\<close>: the repository's own tests, evaluated on the model: the unit tests
  beside the code and the integration tests (\<open>src/tests/integration\<close>), whole reconciliations
  against a mock API server included; only the test of the derived schema is missing. The properties of single components are in
  \<open>Retention_Properties\<close>, \<open>Config_Properties\<close>, \<open>Resource_Properties\<close> and
  \<open>Operator_Properties\<close>, the ones that span components below, with the termination of the
  restore loop in \<open>Settling\<close>.

  \<^bold>\<open>Parameters.\<close> \<open>Ext\<close> holds what libraries compute from data: the YAML text of a value,
  the parsing of RFC 3339 instants, the construction of durations and their subtraction from an
  instant (which may fail), the stamp of a Job name, the parsing of manifests and of pass-through
  Kubernetes objects, and the path type of the object store. No law of them is assumed, except by
  hypotheses the properties state. In \<open>restore_at_most_one_job\<close> and its backup twin the
  hypothesis \<open>truthful\<close> says that the API server keeps accepted Jobs and lists them; in the
  progress properties \<open>restore_ready\<close> and \<open>backup_ready\<close> say which requests succeed. In
  \<open>Status_Merge\<close> and \<open>Merge_Patch\<close> a merge patch is applied as RFC 7386 defines it.
  In \<open>Interference\<close> the hypothesis \<open>server_selects\<close> says that a listing answers only with
  objects its label selector selects, and \<open>server_side_apply\<close> what Kubernetes documents of
  apply and of field managers, for any server whose ConfigMaps \<open>map_server\<close> observes. In
  \<open>Retention_Safety\<close>, \<open>paths_apart\<close> says that the path type of the object store keeps
  the directories of different names apart, and \<open>segment_ids\<close> that the ids of the history
  and of the stored manifests are names of directories.
  \<open>Formats\<close> holds the text of instants and the reading of host aliases in JSON; the hypothesis
  \<open>lawful\<close> says that what was read is read again from its own text. \<open>Prometheus\<close> holds what
  the prometheus crate decides (which options it accepts, the text of a family); the hypothesis
  \<open>documented\<close> states its documentation: options of the documented form are accepted, a name not yet taken is
  registered, and the families that have values are gathered and written.

  \<^bold>\<open>Left out.\<close> \<open>bin/crdgen.rs\<close>, which prints generated code, the module lists, the
  logging set-up and log lines, the derived schema and print columns of the resources (the
  hand-written schema functions are there) and the array form in which derived readers also accept
  a struct, the environment variables \<open>AmazonS3Builder::from_env\<close> reads by itself, panics
  inside the libraries, and the controller runtime itself: its caches, queue and requeue timers. A
  read of a stored object and of its bytes is one request. The charts and
  manifests are not code of the operator. A failed API call is a value; a timeout is not distinguished from it.
  Apart from the interleaved and the replicated runs, which cover the number of Jobs, a
  reconciliation is run against a world that answers it alone.
\<close>

section \<open>At most one Job\<close>

text \<open>C1.
  However often a \<open>KafkaRestore\<close> is reconciled, with whatever status, finalizers and
  annotations its versions have, whatever happens in the cluster between any two requests, and
  wherever a reconciliation is cut off, it never gets a second Job, as long as accepted Jobs stay
  and keep the labels they are listed by.
\<close>

theorem restore_at_most_one_job:
  assumes "truthful W ns (restore_jobs_selector name) created"
    and "il_run W (reconcile_restore ext) (current_restore ns name) created (None, s) (c, s')"
    and "created s = 0"
  shows "created s' \<le> 1"
  using restores.interleaved_at_most_one [OF assms] .

text \<open>A reconciliation that stops after any number of requests, and another one.\<close>

definition restore_retried :: "nat \<Rightarrow> Job list" where
  "restore_retried n =
     state_of job_world (reconcile_restore sample_ext sample_restore)
       (cut_off job_world n (reconcile_restore sample_ext sample_restore) [])"

theorem restore_at_most_one_job_witness:
  "\<forall>n. length (restore_retried n) \<le> 1"
proof
  fix n
  have "current_restore ''ns'' ''rs'' sample_restore"
    by (simp add: current_restore_def ns_of_def sample_restore_sel sample_meta_sel)
  then have "il_run job_world (reconcile_restore sample_ext) (current_restore ''ns'' ''rs'') length
      (None, []) (None, restore_retried n)"
    unfolding restore_retried_def by (rule il_run_cut_and_again)
  from restore_at_most_one_job [OF job_world_truthful this] show "length (restore_retried n) \<le> 1"
    by simp
qed

text \<open>C2.
  The same for a \<open>KafkaBackup\<close> without a schedule, as long as no version of it asks for a
  manual run.
\<close>

theorem one_shot_backup_at_most_one_job:
  assumes "truthful W ns (backup_jobs_selector name) created"
    and "il_run W (reconcile_backup ext) (current_one_shot ns name) created (None, s) (c, s')"
    and "created s = 0"
  shows "created s' \<le> 1"
  using one_shot_backups.interleaved_at_most_one [OF assms] .

definition backup_retried :: "nat \<Rightarrow> Job list" where
  "backup_retried n =
     state_of job_world (reconcile_backup sample_ext sample_backup)
       (cut_off job_world n (reconcile_backup sample_ext sample_backup) [])"

theorem one_shot_backup_at_most_one_job_witness:
  "\<forall>n. length (backup_retried n) \<le> 1"
proof
  fix n
  have "current_one_shot ''ns'' ''bk'' sample_backup"
    by (simp add: current_one_shot_def ns_of_def sample_backup_sel sample_meta_sel triggered_now_def)
  then have "il_run job_world (reconcile_backup sample_ext) (current_one_shot ''ns'' ''bk'') length
      (None, []) (None, backup_retried n)"
    unfolding backup_retried_def by (rule il_run_cut_and_again)
  from one_shot_backup_at_most_one_job [OF job_world_truthful this]
  show "length (backup_retried n) \<le> 1" by simp
qed

section \<open>Replicas\<close>

text \<open>C3.
  When several replicas of the operator reconcile the same restore, or the same one-shot backup, at
  the same time, their requests interleaved in any order among the steps of the rest of the
  cluster and any of them cut off and started again, the resource gets at most one Job for each
  replica.
\<close>

theorem replicas_bounded:
  assumes "created s = 0"
  shows "(truthful W ns (restore_jobs_selector name) created \<longrightarrow>
      rep_run W (reconcile_restore ext) (current_restore ns name) created
        (replicate k None, s) (cs, s') \<longrightarrow> created s' \<le> k) \<and>
    (truthful W ns (backup_jobs_selector name) created \<longrightarrow>
      rep_run W (reconcile_backup ext) (current_one_shot ns name) created
        (replicate k None, s) (cs, s') \<longrightarrow> created s' \<le> k)"
  by (intro conjI impI)
     (erule (1) restores.replicas_bound, rule assms, erule (1) one_shot_backups.replicas_bound, rule assms)

theorem replicas_bounded_witness:
  "\<exists>cs m js. rep_run clocked_world (reconcile_restore clocked_ext) (current_restore ''ns'' ''rs'')
      job_count (replicate 2 None, (0, [])) (cs, (m, js)) \<and> job_count (m, js) \<le> 2"
proof -
  obtain cs m js where run: "rep_run clocked_world (reconcile_restore clocked_ext)
      (current_restore ''ns'' ''rs'') job_count (replicate 2 None, (0, [])) (cs, (m, js))"
    using replicas_all_create [of 2] by blast
  have "job_count (0, []) = 0" by (simp add: job_count_def)
  from conjunct1 [OF replicas_bounded [where created = job_count, OF this], rule_format, OF clocked_truthful run]
  show ?thesis using run by (intro exI conjI)
qed

text \<open>C4.
  The bound is reached: the operator elects no leader, and any number of replicas that start on a
  fresh restore can each create a Job for it, with names of their own, on a server that keeps
  accepted Jobs and refuses a name that is taken.
\<close>

theorem unelected_replicas_duplicate:
  "\<exists>cs m js. rep_run clocked_world (reconcile_restore clocked_ext) (current_restore ''ns'' ''rs'')
      job_count (replicate k None, (0, [])) (cs, (m, js)) \<and> job_count (m, js) = k"
  using replicas_all_create [of k] by (simp add: job_count_def)

section \<open>Progress\<close>

text \<open>C5.
  A restore that is in service and not complete gets a Job in one reconciliation, and exactly one,
  when the cluster answers: it has no Job yet, its source backup, Kafka cluster and credentials
  resolve, its configuration is accepted, and the writes before the Job are. An unreadable cluster
  CA does not stop it.
\<close>

theorem restore_gets_its_job:
  assumes "om_namespace (krr_metadata restore) = Some ns" "in_service (krr_metadata restore)"
    and "\<not> restore_done restore" "stable W I" "restore_ready W I ext restore ns" "I s"
  shows "jobs_created W (reconcile_restore ext restore) s = 1"
  by (rule restore_progress [OF assms])

theorem restore_gets_its_job_witness:
  "jobs_created job_world (reconcile_restore sample_ext sample_restore) [] = 1"
  by (rule restore_gets_its_job [OF _ _ _ job_world_stable job_world_ready(1) refl])
     (simp_all add: sample_restore_sel sample_meta_sel in_service_def restore_done_def)

text \<open>C6.
  A one-shot backup in service gets exactly one Job in one reconciliation under the same
  conditions on its own cluster, credentials and configuration.
\<close>

theorem backup_gets_its_job:
  assumes "om_namespace (kbr_metadata backup) = Some ns" "in_service (kbr_metadata backup)"
    and "kb_schedule (kbr_spec backup) = None" "stable W I" "backup_ready W I ext backup ns" "I s"
  shows "jobs_created W (reconcile_backup ext backup) s = 1"
  by (rule backup_progress [OF assms])

theorem backup_gets_its_job_witness:
  "jobs_created job_world (reconcile_backup sample_ext sample_backup) [] = 1"
  by (rule backup_gets_its_job [OF _ _ _ job_world_stable job_world_ready(2) refl])
     (simp_all add: sample_backup_sel sample_meta_sel in_service_def)

section \<open>What has to happen before a Job is created\<close>

text \<open>C7.
  In one reconciliation of a restore a Job is created only after a listing of the restore's Jobs
  has been answered with none, and at most one is, whatever the cluster answers.
\<close>

theorem restore_creation_gated:
  "preceded (restore_admitting restore (ns_of (krr_metadata restore))) creates_job
     (trace_of W (reconcile_restore ext restore) s) \<and>
   jobs_created W (reconcile_restore ext restore) s \<le> 1"
  using guarded_run [OF guarded_reconcile_restore] once_run [OF once_reconcile_restore]
  by (auto simp: jobs_created_def)

text \<open>C8.
  In one reconciliation of a backup a Job is created only if the backup has no schedule or is
  triggered by its annotation, only after a listing of its Jobs has been answered with Jobs the
  gate admits, and at most one is.
\<close>

theorem backup_creation_gated:
  "preceded (backup_admitting backup (ns_of (kbr_metadata backup))) creates_job
     (trace_of W (reconcile_backup ext backup) s) \<and>
   jobs_created W (reconcile_backup ext backup) s \<le> 1"
  using guarded_run [OF guarded_reconcile_backup] once_run [OF once_reconcile_backup]
  by (auto simp: jobs_created_def)

text \<open>C20.
  A Job is created only after the resource's ConfigMap has been accepted, and every Job that is
  created is the builder's, for this resource, named after the instant and mounting that ConfigMap.
\<close>

theorem config_map_before_job:
  "preceded (config_map_accepted (ns_of (kbr_metadata backup))
       (name_any (kbr_metadata backup) @ ''-config'')) creates_job
     (trace_of W (reconcile_backup ext backup) s) \<and>
   list_all (built_event (built_backup_job ext backup)) (trace_of W (reconcile_backup ext backup) s) \<and>
   preceded (config_map_accepted (ns_of (krr_metadata restore))
       (name_any (krr_metadata restore) @ ''-config'')) creates_job
     (trace_of W (reconcile_restore ext restore) s) \<and>
   list_all (built_event (built_restore_job ext restore)) (trace_of W (reconcile_restore ext restore) s)"
  using guarded_run [OF guarded_config_map] guarded_run [OF guarded_restore_config_map]
    only_run [OF only_built_reconcile] only_run [OF only_built_restore]
  by (auto simp: list_all_iff)

text \<open>C9.
  Both reconcilers refine their abstract specification: whatever the cluster and the store answer,
  the writes of a reconciliation, in order, form a word of the protocol that the resource alone
  determines.
\<close>

theorem reconcilers_refine_protocols:
  "write_kinds (trace_of W (reconcile_backup ext backup) s) \<in> lang (backup_protocol backup) \<and>
   write_kinds (trace_of W (reconcile_restore ext restore) s) \<in> lang (restore_protocol restore)"
  by (intro conjI emits_run emits_reconcile_backup emits_reconcile_restore)

text \<open>C39.
  A reconciliation of a backup makes at most nine writes, and one of a restore at most four,
  besides the deletions of Jobs and of stored objects, whose number the cluster and the store
  determine.
\<close>

theorem writes_bounded:
  "length (filter (\<lambda>w. w \<notin> {DeleteJob, DeleteObject})
     (write_kinds (trace_of W (reconcile_backup ext backup) s))) \<le> 9 \<and>
   length (filter (\<lambda>w. w \<notin> {DeleteJob, DeleteObject})
     (write_kinds (trace_of W (reconcile_restore ext restore) s))) \<le> 4"
proof
  let ?P = "\<lambda>w. w \<notin> {DeleteJob, DeleteObject}"
  have "\<not> repeats ?P (backup_protocol backup)" "most ?P (backup_protocol backup) \<le> 9"
    "\<not> repeats ?P (restore_protocol restore)" "most ?P (restore_protocol restore) \<le> 4"
    by (simp_all add: backup_protocol_def restore_protocol_def active_protocol_def
        schedule_protocol_def job_protocol_def retention_protocol_def Let_def)
  then show "length (filter ?P (write_kinds (trace_of W (reconcile_backup ext backup) s))) \<le> 9"
    "length (filter ?P (write_kinds (trace_of W (reconcile_restore ext restore) s))) \<le> 4"
    using lang_most [OF emits_run [OF emits_reconcile_backup]] lang_most [OF emits_run [OF emits_reconcile_restore]]
    by (meson order_trans)+
qed

text \<open>C21.
  A resource in service without the finalizer gets it before anything else is written for it.
\<close>

theorem finalizer_first:
  "(in_service (kbr_metadata backup) \<and> \<not> has_finalizer (kbr_metadata backup) \<longrightarrow>
      preceded finalizer_accepted (\<lambda>e. is_write e \<and> \<not> sets_finalizer e)
        (trace_of W (reconcile_backup ext backup) s)) \<and>
   (in_service (krr_metadata restore) \<and> \<not> has_finalizer (krr_metadata restore) \<longrightarrow>
      preceded restore_finalizer_accepted (\<lambda>e. is_write e \<and> \<not> restore_sets_finalizer e)
        (trace_of W (reconcile_restore ext restore) s))"
  by (intro conjI impI) (auto intro!: guarded_run guarded_finalizer guarded_restore_finalizer)

theorem finalizer_first_witness:
  "preceded finalizer_accepted (\<lambda>e. is_write e \<and> \<not> sets_finalizer e)
     (trace_of job_world (reconcile_backup sample_ext sample_backup) [])"
  using finalizer_first [of sample_backup job_world sample_ext "[]" sample_restore]
  by (simp add: in_service_def sample_backup_sel sample_meta_sel)

section \<open>Paused and deleted resources\<close>

text \<open>C23.
  While its annotation pauses it, a backup or a restore that is not being deleted causes no
  request but a patch of its own status, which changes only the conditions and the observed
  generation and says so; once the status says so, it causes none.
\<close>

theorem paused_only_reports:
  assumes "om_namespace (kbr_metadata backup) = Some ns"
    and "om_deletion_timestamp (kbr_metadata backup) = None"
    and "is_reconciliation_paused (kbr_metadata backup)"
    and "om_namespace (krr_metadata restore) = Some ns'"
    and "om_deletion_timestamp (krr_metadata restore) = None"
    and "is_reconciliation_paused (krr_metadata restore)"
  shows "list_all (pause_report backup) (trace_of W (reconcile_backup ext backup) s) \<and>
    (paused_current (unwrap_or (kbr_status backup) default_backup_status)
        (generation_of (kbr_metadata backup)) \<longrightarrow>
     trace_of W (reconcile_backup ext backup) s = []) \<and>
    list_all (restore_pause_report restore) (trace_of W (reconcile_restore ext restore) s) \<and>
    (restore_paused_current (unwrap_or (krr_status restore) default_restore_status)
        (generation_of (krr_metadata restore)) \<longrightarrow>
     trace_of W (reconcile_restore ext restore) s = [])"
proof -
  have "reconcile_backup ext backup = backup_update_status_reconciliation_paused ns backup"
    "reconcile_restore ext restore = restore_update_status_reconciliation_paused ns' restore"
    using assms by (simp_all add: reconcile_backup_cases reconcile_restore_cases)
  with only_run [OF only_pause_report [OF assms(1)]] paused_quiet
    only_run [OF only_restore_pause_report [OF assms(4)]] restore_paused_quiet
  show ?thesis by (auto simp: list_all_iff trace_of_def)
qed

definition paused_meta :: "string \<Rightarrow> ObjectMeta" where
  "paused_meta name = (sample_meta name)
     \<lparr>om_annotations := Some [(PAUSE_RECONCILIATION_ANNOTATION, ''true'')]\<rparr>"

lemma paused_meta_sel:
  "om_namespace (paused_meta n) = Some ''ns''" "om_deletion_timestamp (paused_meta n) = None"
  "is_reconciliation_paused (paused_meta n)"
  by (simp_all add: paused_meta_def sample_meta_def empty_meta_def is_reconciliation_paused_def
      annotations_of_def bt_get_def eq_ignore_ascii_case_def ascii_lower_def)

theorem paused_only_reports_witness:
  "list_all (pause_report (sample_backup\<lparr>kbr_metadata := paused_meta ''bk''\<rparr>))
     (trace_of job_world (reconcile_backup sample_ext (sample_backup\<lparr>kbr_metadata := paused_meta ''bk''\<rparr>)) []) \<and>
   list_all (restore_pause_report (sample_restore\<lparr>krr_metadata := paused_meta ''rs''\<rparr>))
     (trace_of job_world (reconcile_restore sample_ext (sample_restore\<lparr>krr_metadata := paused_meta ''rs''\<rparr>)) [])"
  using paused_only_reports [of "sample_backup\<lparr>kbr_metadata := paused_meta ''bk''\<rparr>" "''ns''"
      "sample_restore\<lparr>krr_metadata := paused_meta ''rs''\<rparr>" "''ns''" job_world sample_ext "[]"]
  by (simp add: paused_meta_sel)

text \<open>C22.
  The reconciliation of a resource that is being deleted, even a paused one, is a fixed sequence of
  requests, whatever their answers: it lists the Jobs, deletes each one listed in the background,
  then the CronJob (of a backup) and the ConfigMap, and removes the finalizer last; a refused
  request, the listing included, stops none of the later ones.
\<close>

theorem cleanup_sequence:
  assumes "om_namespace (kbr_metadata backup) = Some ns"
    and "om_deletion_timestamp (kbr_metadata backup) \<noteq> None"
    and "om_namespace (krr_metadata restore) = Some ns'"
    and "om_deletion_timestamp (krr_metadata restore) \<noteq> None"
  shows "(let tr = trace_of W (reconcile_backup ext backup) s in
      kube_requests tr = backup_cleanup_requests ns (name_any (kbr_metadata backup)) (listed_jobs (hd tr))) \<and>
    (let tr = trace_of W (reconcile_restore ext restore) s in
      kube_requests tr = restore_cleanup_requests ns' (name_any (krr_metadata restore)) (listed_jobs (hd tr)))"
proof -
  have "reconcile_backup ext backup = backup_handle_cleanup backup ns"
    "reconcile_restore ext restore = restore_handle_cleanup restore ns'"
    using assms by (simp_all add: reconcile_backup_cases reconcile_restore_cases)
  then show ?thesis
    unfolding Let_def by (intro conjI) (simp_all only: trace_backup_cleanup trace_restore_cleanup)
qed

definition deleted_meta :: "string \<Rightarrow> ObjectMeta" where
  "deleted_meta name = (sample_meta name)\<lparr>om_deletion_timestamp := Some 7\<rparr>"

definition deleted_restore :: KafkaRestore where
  "deleted_restore = sample_restore\<lparr>krr_metadata := deleted_meta ''rs''\<rparr>"

theorem cleanup_sequence_witness:
  "let tr = trace_of job_world (reconcile_restore sample_ext deleted_restore) [] in
     kube_requests tr = restore_cleanup_requests ''ns'' (name_any (deleted_meta ''rs'')) (listed_jobs (hd tr))"
  using cleanup_sequence [of "sample_backup\<lparr>kbr_metadata := deleted_meta ''bk''\<rparr>" "''ns''"
      deleted_restore "''ns''" job_world sample_ext "[]"]
  by (simp add: deleted_restore_def deleted_meta_def sample_meta_sel)

section \<open>Reports\<close>

text \<open>C16.
  The check for finished Jobs lists the Jobs of the resource first, and reports at most the outcome
  of the latest finished one: no finished Job of the listing started after it, and of those that
  started when it did it is the last. It writes nothing when no Job has finished, or when the
  resource it was given already records that outcome; otherwise it patches the status exactly once
  if it succeeds, at most once in any case, and whatever status that patch is merged into then
  records the outcome, so a later reconciliation that sees it reports nothing.
\<close>

theorem outcome_reported_once:
  "let run = check_job_completion backup ns g; tr = trace_of W run s; jobs = listed_jobs (hd tr);
       writes = length (filter status_write tr)
   in (\<exists>r. hd tr = EvKube (KListJobs ns (backup_jobs_selector (name_any (kbr_metadata backup)))) r) \<and>
      (if list_all (\<lambda>job. \<not> terminal_job job) jobs then writes = 0
       else \<exists>job. latest_finished jobs job \<and>
         (if outcome_recorded backup job then writes = 0
          else (if outcome_of W run s = Done (Inr ()) then writes = 1 else writes \<le> 1) \<and>
            list_all (patches_establish (\<lambda>st. outcome_recorded (with_status backup st) job) st) tr))"
proof (cases rule: check_cases [where W = W and backup = backup and ns = ns and s = s and g = g])
  case none
  then show ?thesis by (simp add: Let_def latest_terminal_none)
next
  case (some job)
  have "latest_finished (answered_jobs (fst (w_kube W
      (KListJobs ns (backup_jobs_selector (name_any (kbr_metadata backup)))) s))) job"
    by (rule latest_terminal_finished [OF some(1)])
  moreover have "list_all (patches_establish (\<lambda>st. outcome_recorded (with_status backup st) job) st)
      (trace_of W (outcome_report backup ns g job) s')" for s'
    using only_run [OF outcome_report_establishes] by (auto simp: list_all_iff)
  ultimately show ?thesis
    using some once_run [OF once_outcome_report] latest_terminal_none [THEN iffD2]
    by (auto simp: Let_def outcome_report_recorded trace_of_def [of _ "Ret _"] report_writes
        intro!: exI [of _ job] split: if_splits)
qed

text \<open>
  The report of a schedule, or of its suspension, is written only after a read of the status that
  does not show it, and any status its patch is merged into shows it: a second report of the same
  fact writes nothing.
\<close>

theorem schedule_report_settles:
  "preceded (status_read (\<lambda>st. \<not> scheduled_current st cron g)) status_write
     (trace_of W (update_status_scheduled ns name g cron) s) \<and>
   list_all (patches_establish (\<lambda>st. scheduled_current st cron g) st)
     (trace_of W (update_status_scheduled ns name g cron) s) \<and>
   preceded (status_read (\<lambda>st. \<not> suspended_current st g)) status_write
     (trace_of W (update_status_suspended ns name g) s) \<and>
   list_all (patches_establish (\<lambda>st. suspended_current st g) st)
     (trace_of W (update_status_suspended ns name g) s)"
  using guarded_run [OF guarded_scheduled] guarded_run [OF guarded_suspended]
    only_run [OF establish_scheduled] only_run [OF establish_suspended]
  by (auto simp: list_all_iff)

text \<open>
  For a scheduled backup whose latest finished Job failed the two reports undo each other: every
  status the schedule's report is merged into no longer records the failure, and every status the
  failure's report is merged into no longer shows the schedule. Each reconciliation finds one of
  them missing and writes it.
\<close>

theorem failed_schedule_flaps:
  "list_all (patches_establish (\<lambda>st. \<not> failure_recorded (with_status backup st) job) st)
     (trace_of W (update_status_scheduled ns name g cron) s) \<and>
   (let tr = trace_of W (check_job_completion backup ns g') s in
    case latest_terminal (listed_jobs (hd tr)) of
      None \<Rightarrow> filter status_write tr = []
    | Some job \<Rightarrow> job_succeeded job \<or> list_all (patches_establish (\<lambda>st. \<not> scheduled_current st cron g) st) tr)"
proof -
  have flap: "job_succeeded job \<or> list_all (patches_establish (\<lambda>st. \<not> scheduled_current st cron g) st)
      (trace_of W (outcome_report backup ns g' job) s)" for job s
    using only_run [OF failed_report_forgets_scheduled] by (auto simp: list_all_iff)
  show ?thesis
    unfolding Let_def
  proof
    show "list_all (patches_establish (\<lambda>st. \<not> failure_recorded (with_status backup st) job) st)
        (trace_of W (update_status_scheduled ns name g cron) s)"
      using only_run [OF scheduled_forgets_failure] by (auto simp: list_all_iff)
  qed (rule check_trace_latest [where P = "\<lambda>job tr. job_succeeded job \<or>
      list_all (patches_establish (\<lambda>st. \<not> scheduled_current st cron g) st) tr"], use flap in auto)
qed

section \<open>Deleting backups\<close>

text \<open>C15.
  Pruning deletes only objects under the directories of the backups it is given, below the
  configured prefix of the storage, and changes nothing in the cluster; if it succeeds it reports
  all of them as pruned, in order.
\<close>

theorem prune_confined:
  "list_all (prune_event ext (normalize_optional_prefix (storage_prefix storage)) ids)
     (trace_of W (prune_backup_ids ext ns storage ids) s) \<and>
   (case outcome_of W (prune_backup_ids ext ns storage ids) s of
      Done (Inr pruned) \<Rightarrow> pruned = ids
    | _ \<Rightarrow> True)"
  using only_run [OF only_prune_backup_ids] yields_run [OF yields_prune_backup_ids]
  by (auto simp: list_all_iff split: outcome.split sum.split)

text \<open>C35.
  The discovery of a resource's backups writes nothing and reads only objects below the configured
  prefix that are manifests of a backup whose id the resource owns.
\<close>

theorem discovery_reads_own_manifests:
  "list_all (discover_event ext (normalize_optional_prefix (storage_prefix storage)) owner)
     (trace_of W (discover_backup_history ext ns storage owner) s)"
  using only_run [OF only_discover] by (auto simp: list_all_iff)

section \<open>The controllers\<close>

text \<open>
  The controllers' wrappers are transparent: they panic exactly when the reconciler does, else
  return its error, or on success the request to run again after the regular interval, and have
  counted the reconciliation once, under its controller and result; after an error both policies
  ask to run again sooner than that.
\<close>

theorem controllers_count_and_retry:
  assumes "metrics_ok m"
  shows "wraps ''backup'' m (outcome_of W (reconcile_backup ext backup) (snd (w_clock W s)))
      (outcome_of W (backup_reconcile ext backup m) s) \<and>
    wraps ''restore'' m (outcome_of W (reconcile_restore ext restore) (snd (w_clock W s)))
      (outcome_of W (restore_reconcile ext restore m) s) \<and>
    next_action (backup_error_policy backup) (Inl e) < next_action (backup_error_policy backup) (Inr (Requeue 300)) \<and>
    next_action (restore_error_policy restore) (Inl e) < next_action (restore_error_policy restore) (Inr (Requeue 300))"
  using wraps_wrapper [OF assms, of "''backup''" W "reconcile_backup ext backup" s]
    wraps_wrapper [OF assms, of "''restore''" W "reconcile_restore ext restore" s]
  by (simp add: backup_reconcile_def restore_reconcile_def next_action_def backup_error_policy_def
      restore_error_policy_def)

theorem controllers_count_and_retry_witness:
  "\<exists>m rm. MetricsState_new sample_prometheus ''0.1'' = Value m \<and>
     outcome_of job_world (restore_reconcile sample_ext sample_restore m) [] = Done rm \<and>
     counted ''restore'' m (Inr ()) rm"
proof -
  obtain m where m: "MetricsState_new sample_prometheus ''0.1'' = Value m" "metrics_ok m"
    using MetricsState_new_ok [OF sample_prometheus_documented] by blast
  have "outcome_of job_world (reconcile_restore sample_ext sample_restore) (snd (w_clock job_world [])) = Done (Inr ())"
    by (simp add: restore_first_run job_world_sel)
  then show ?thesis
    using controllers_count_and_retry [OF m(2), of job_world sample_ext sample_backup "[]" sample_restore undefined] m(1)
    by (auto simp: wraps_def)
qed

end
